(* ===== verification/Prelude.thy ===== *)
theory Prelude
  imports Main
begin

text \<open>
  Shared list and option vocabulary of the development: JavaScript's nullish and falsy
  defaults, the first-occurrence de-duplication that \<open>[...new Set(xs)]\<close> performs,
  \<open>Array.prototype.find\<close>, and the collections of rewrite rules that the component
  theories fill.
\<close>

named_theorems state_simps \<open>definitions of page operations, for evaluating a handler\<close>
named_theorems api_simps \<open>definitions of request builders and error normalisers\<close>

section \<open>Defaults\<close>

text \<open>\<open>a ?? b\<close> with \<open>None\<close> for null and undefined.\<close>

definition nullish :: "'a option \<Rightarrow> 'a \<Rightarrow> 'a" where
  "nullish x d = (case x of None \<Rightarrow> d | Some v \<Rightarrow> v)"

lemma nullish_simps [simp]: "nullish None d = d" "nullish (Some v) d = v"
  by (simp_all add: nullish_def)

text \<open>\<open>a ?? b\<close> where \<open>b\<close> may be undefined as well.\<close>

definition nullish_opt :: "'a option \<Rightarrow> 'a option \<Rightarrow> 'a option" where
  "nullish_opt x y = (case x of None \<Rightarrow> y | Some v \<Rightarrow> Some v)"

lemma nullish_opt_simps [simp]: "nullish_opt None y = y" "nullish_opt (Some v) y = Some v"
  by (simp_all add: nullish_opt_def)

text \<open>\<open>s || d\<close> on strings (and on arrays of characters): the empty string is falsy.\<close>

definition or_else :: "'a list \<Rightarrow> 'a list \<Rightarrow> 'a list" where
  "or_else s d = (if s = [] then d else s)"

lemma or_else_simps [simp]: "or_else [] d = d" "or_else (c # s) d = c # s"
  by (simp_all add: or_else_def)

lemma or_else_Nil_iff [simp]: "or_else s d = [] \<longleftrightarrow> s = [] \<and> d = []"
  by (simp add: or_else_def)

text \<open>\<open>params.x || undefined\<close>: a query parameter that is left out when empty.\<close>

definition truthy :: "'a list \<Rightarrow> 'a list option" where
  "truthy s = (if s = [] then None else Some s)"

lemma truthy_simps [simp]: "truthy [] = None" "truthy (c # s) = Some (c # s)"
  by (simp_all add: truthy_def)

section \<open>Array helpers\<close>

text \<open>\<open>xs.find(p)\<close>: the first element with the property, or undefined.\<close>

fun array_find :: "('a \<Rightarrow> bool) \<Rightarrow> 'a list \<Rightarrow> 'a option" where
  "array_find p [] = None"
| "array_find p (x # xs) = (if p x then Some x else array_find p xs)"

lemma array_find_SomeD: "array_find p xs = Some x \<Longrightarrow> x \<in> set xs \<and> p x"
  by (induction xs) (auto split: if_splits)

lemma array_find_None_iff: "array_find p xs = None \<longleftrightarrow> (\<forall>x \<in> set xs. \<not> p x)"
  by (induction xs) auto

lemma array_find_unique:
  assumes "x \<in> set xs" and "p x" and "\<And>y. y \<in> set xs \<Longrightarrow> p y \<Longrightarrow> y = x"
  shows "array_find p xs = Some x"
proof (cases "array_find p xs")
  case None
  with assms(1,2) show ?thesis by (auto simp: array_find_None_iff)
next
  case (Some y)
  with assms(3) show ?thesis by (auto dest: array_find_SomeD)
qed

text \<open>\<open>[...new Set(xs)]\<close>: a Set keeps the first occurrence of each element.\<close>

fun uniq_from :: "'a set \<Rightarrow> 'a list \<Rightarrow> 'a list" where
  "uniq_from seen [] = []"
| "uniq_from seen (x # xs) =
     (if x \<in> seen then uniq_from seen xs else x # uniq_from (insert x seen) xs)"

definition uniq :: "'a list \<Rightarrow> 'a list" where
  "uniq xs = uniq_from {} xs"

lemma set_uniq_from: "set (uniq_from A xs) = set xs - A"
  by (induction xs arbitrary: A) auto

lemma distinct_uniq_from: "distinct (uniq_from A xs)"
  by (induction xs arbitrary: A) (auto simp: set_uniq_from)

lemma set_uniq [simp]: "set (uniq xs) = set xs"
  by (simp add: uniq_def set_uniq_from)

lemma distinct_uniq [simp]: "distinct (uniq xs)"
  by (simp add: uniq_def distinct_uniq_from)

lemma uniq_from_distinct: "distinct xs \<Longrightarrow> set xs \<inter> A = {} \<Longrightarrow> uniq_from A xs = xs"
  by (induction xs arbitrary: A) auto

lemma uniq_distinct [simp]: "distinct xs \<Longrightarrow> uniq xs = xs"
  by (simp add: uniq_def uniq_from_distinct)

text \<open>Array destructuring and \<open>arr[arr.length - 1]\<close> with undefined out of range.\<close>

definition array_last :: "'a list \<Rightarrow> 'a option" where
  "array_last xs = (if xs = [] then None else Some (last xs))"

definition array_first :: "'a list \<Rightarrow> 'a option" where
  "array_first xs = (case xs of [] \<Rightarrow> None | x # _ \<Rightarrow> Some x)"

lemma array_last_snoc [simp]: "array_last (xs @ [x]) = Some x"
  by (simp add: array_last_def)

lemma array_last_Nil [simp]: "array_last [] = None"
  by (simp add: array_last_def)

lemma array_first_simps [simp]: "array_first [] = None" "array_first (x # xs) = Some x"
  by (simp_all add: array_first_def)

end
