(* ===== verification/JsString.thy ===== *)
theory JsString
  imports Prelude
begin

text \<open>
  The part of JavaScript's string library the sources use. A \<open>string\<close> of the model is a
  JavaScript string all of whose UTF-16 code units are below 256 (Latin-1), one \<open>char\<close> per
  code unit, so \<open>length\<close>, indexing and slicing agree with the language's. Within this range
  the white space of \<open>trim\<close> and of \<open>\s\<close> is U+0009..U+000D, U+0020 and U+00A0.
\<close>

definition slash :: char where
  "slash = CHR ''/''"

definition backslash :: char where
  "backslash = CHR 0x5C"

definition is_space :: "char \<Rightarrow> bool" where
  "is_space c \<longleftrightarrow> c \<in> {CHR 0x09, CHR 0x0A, CHR 0x0B, CHR 0x0C, CHR 0x0D, CHR 0x20, CHR 0xA0}"

lemma slash_not_space [simp]: "\<not> is_space slash"
  by (simp add: is_space_def slash_def)

section \<open>Trimming and stripping\<close>

definition drop_end :: "('a \<Rightarrow> bool) \<Rightarrow> 'a list \<Rightarrow> 'a list" where
  "drop_end p s = rev (dropWhile p (rev s))"

definition trim_start :: "string \<Rightarrow> string" where
  "trim_start s = dropWhile is_space s"

definition trim_end :: "string \<Rightarrow> string" where
  "trim_end s = drop_end is_space s"

definition trim :: "string \<Rightarrow> string" where
  "trim s = trim_end (trim_start s)"

text \<open>\<open>s.replace(/^\/+/, "")\<close> and \<open>s.replace(/\/+$/, "")\<close>.\<close>

definition strip_leading_slashes :: "string \<Rightarrow> string" where
  "strip_leading_slashes s = dropWhile (\<lambda>c. c = slash) s"

definition strip_trailing_slashes :: "string \<Rightarrow> string" where
  "strip_trailing_slashes s = drop_end (\<lambda>c. c = slash) s"

lemma drop_end_Nil [simp]: "drop_end p [] = []"
  by (simp add: drop_end_def)

lemma drop_end_snoc [simp]: "drop_end p (s @ [c]) = (if p c then drop_end p s else s @ [c])"
  by (simp add: drop_end_def)

lemma drop_end_id: "s = [] \<or> \<not> p (last s) \<Longrightarrow> drop_end p s = s"
  by (cases s rule: rev_cases) auto

lemma drop_end_last: "drop_end p s = [] \<or> \<not> p (last (drop_end p s))"
  by (induction s rule: rev_induct) auto

lemma drop_end_idem [simp]: "drop_end p (drop_end p s) = drop_end p s"
  using drop_end_id drop_end_last by blast

lemma drop_end_prefix: "\<exists>t. s = drop_end p s @ t \<and> (\<forall>c \<in> set t. p c)"
proof (induction s rule: rev_induct)
  case (snoc c s)
  then obtain t where t: "s = drop_end p s @ t" "\<forall>c \<in> set t. p c" by blast
  show ?case
  proof (cases "p c")
    case True
    have "s @ [c] = drop_end p s @ (t @ [c])" using t(1) by simp
    with True t(2) show ?thesis by (auto intro!: exI [of _ "t @ [c]"])
  qed simp
qed simp

lemma set_drop_end: "set (drop_end p s) \<subseteq> set s"
  by (metis drop_end_prefix set_append Un_upper1)

lemma hd_drop_end: "drop_end p s \<noteq> [] \<Longrightarrow> hd (drop_end p s) = hd s"
  by (metis drop_end_prefix hd_append2)

lemma drop_end_all: "(\<forall>c \<in> set s. p c) \<longleftrightarrow> drop_end p s = []"
proof
  assume "\<forall>c \<in> set s. p c"
  then show "drop_end p s = []" by (simp add: drop_end_def)
next
  assume "drop_end p s = []"
  then show "\<forall>c \<in> set s. p c" using drop_end_prefix [of s p] by auto
qed

lemma dropWhile_hd: "dropWhile p s = [] \<or> \<not> p (hd (dropWhile p s))"
  by (induction s) auto

lemma dropWhile_id: "s = [] \<or> \<not> p (hd s) \<Longrightarrow> dropWhile p s = s"
  by (cases s) auto

lemma last_dropWhile: "dropWhile p s \<noteq> [] \<Longrightarrow> last (dropWhile p s) = last s"
  by (induction s) auto

text \<open>A string with no white space at either end, which \<open>trim\<close> leaves alone.\<close>

definition trimmed :: "string \<Rightarrow> bool" where
  "trimmed s \<longleftrightarrow> s = [] \<or> (\<not> is_space (hd s) \<and> \<not> is_space (last s))"

lemma trim_id: "trimmed s \<Longrightarrow> trim s = s"
  by (auto simp: trimmed_def trim_def trim_start_def trim_end_def dropWhile_id drop_end_id)

lemma trimmed_trim [simp]: "trimmed (trim s)"
proof -
  let ?t = "dropWhile is_space s"
  have "drop_end is_space ?t = [] \<or> \<not> is_space (hd (drop_end is_space ?t))"
    using dropWhile_hd [of is_space s] hd_drop_end [of is_space ?t] by fastforce
  then show ?thesis
    using drop_end_last [of is_space ?t]
    by (auto simp: trimmed_def trim_def trim_start_def trim_end_def)
qed

lemma trim_idem [simp]: "trim (trim s) = trim s"
  by (simp add: trim_id)

lemma trim_Nil [simp]: "trim [] = []"
  by (simp add: trim_def trim_start_def trim_end_def)

lemma trimmed_Nil [simp]: "trimmed []"
  by (simp add: trimmed_def)

lemma trim_Nil_iff: "trim s = [] \<longleftrightarrow> (\<forall>c \<in> set s. is_space c)"
proof
  assume "trim s = []"
  then have "\<forall>c \<in> set (dropWhile is_space s). is_space c"
    by (simp add: trim_def trim_start_def trim_end_def drop_end_all)
  then have "dropWhile is_space s = []"
    using dropWhile_hd [of is_space s] by (cases "dropWhile is_space s") auto
  then show "\<forall>c \<in> set s. is_space c" by (simp add: dropWhile_eq_Nil_conv)
next
  assume "\<forall>c \<in> set s. is_space c"
  then have "dropWhile is_space s = []" by (simp add: dropWhile_eq_Nil_conv)
  then show "trim s = []" unfolding trim_def trim_start_def trim_end_def by (metis drop_end_Nil)
qed

section \<open>Tests, splitting and joining\<close>

definition starts_with :: "string \<Rightarrow> string \<Rightarrow> bool" where
  "starts_with s p \<longleftrightarrow> take (length p) s = p"

definition ends_with :: "string \<Rightarrow> string \<Rightarrow> bool" where
  "ends_with s p \<longleftrightarrow> starts_with (rev s) (rev p)"

fun str_includes :: "string \<Rightarrow> string \<Rightarrow> bool" where
  "str_includes [] p = (p = [])"
| "str_includes (c # s) p = (starts_with (c # s) p \<or> str_includes s p)"

lemma starts_with_iff: "starts_with s p \<longleftrightarrow> (\<exists>t. s = p @ t)"
  unfolding starts_with_def by (metis append_eq_conv_conj append_take_drop_id)

lemma ends_with_iff: "ends_with s p \<longleftrightarrow> (\<exists>t. s = t @ p)"
  unfolding ends_with_def starts_with_iff by (metis rev_append rev_rev_ident)

lemma starts_with_append [simp]: "starts_with (p @ t) p"
  by (simp add: starts_with_def)

lemma starts_with_Nil [simp]: "starts_with s []"
  by (simp add: starts_with_def)

lemma ends_with_snoc [simp]: "ends_with (s @ [c]) [c]"
  by (auto simp: ends_with_iff)

lemma str_includes_iff: "str_includes s p \<longleftrightarrow> (\<exists>a b. s = a @ p @ b)"
proof (induction s)
  case (Cons c s)
  note IH = Cons.IH
  show ?case
  proof
    assume "str_includes (c # s) p"
    then consider t where "c # s = p @ t" | a b where "s = a @ p @ b"
      using Cons.IH by (auto simp: starts_with_iff)
    then show "\<exists>a b. c # s = a @ p @ b"
    proof cases
      case 1
      then have "c # s = [] @ p @ t" by simp
      then show ?thesis by blast
    next
      case (2 a b)
      then have "c # s = (c # a) @ p @ b" by simp
      then show ?thesis by blast
    qed
  next
    assume "\<exists>a b. c # s = a @ p @ b"
    then obtain a b where eq: "c # s = a @ p @ b" by blast
    show "str_includes (c # s) p"
    proof (cases a)
      case Nil
      with eq have "starts_with (c # s) p" by simp
      then show ?thesis by simp
    next
      case (Cons d a')
      with eq have "s = a' @ p @ b" by simp
      then have "str_includes s p" using IH by blast
      then show ?thesis by simp
    qed
  qed
qed auto

text \<open>\<open>s.split(c)\<close> for a one-character separator and \<open>xs.join(sep)\<close>.\<close>

fun split_on :: "char \<Rightarrow> string \<Rightarrow> string list" where
  "split_on c [] = [[]]"
| "split_on c (d # s) =
     (if d = c then [] # split_on c s
      else (d # hd (split_on c s)) # tl (split_on c s))"

fun join :: "string \<Rightarrow> string list \<Rightarrow> string" where
  "join sep [] = []"
| "join sep [x] = x"
| "join sep (x # y # xs) = x @ sep @ join sep (y # xs)"

lemma split_on_not_Nil [simp]: "split_on c s \<noteq> []"
  by (cases s) auto

lemma join_Cons: "xs \<noteq> [] \<Longrightarrow> join sep (x # xs) = x @ sep @ join sep xs"
  by (cases xs) auto

lemma join_snoc: "xs \<noteq> [] \<Longrightarrow> join sep (xs @ [x]) = join sep xs @ sep @ x"
proof (induction xs)
  case (Cons a xs)
  then show ?case by (cases "xs = []") (simp_all add: join_Cons)
qed simp

lemma join_split [simp]: "join [c] (split_on c s) = s"
proof (induction s)
  case (Cons d s)
  obtain x xs where "split_on c s = x # xs" by (metis list.exhaust split_on_not_Nil)
  with Cons show ?case by (cases xs) auto
qed simp

lemma split_on_segments: "x \<in> set (split_on c s) \<Longrightarrow> c \<notin> set x"
proof (induction s arbitrary: x)
  case (Cons d s)
  then show ?case
    by (auto split: if_splits) (metis list.set_sel(1,2) split_on_not_Nil)+
qed simp

lemma split_on_no_sep: "c \<notin> set s \<Longrightarrow> split_on c s = [s]"
  by (induction s) auto

lemma split_on_append_sep:
  "c \<notin> set x \<Longrightarrow> split_on c (x @ c # s) = x # split_on c s"
  by (induction x) auto

lemma append_sep_eq:
  "c \<notin> set x \<Longrightarrow> c \<notin> set y \<Longrightarrow> x @ c # a = y @ c # b \<longleftrightarrow> x = y \<and> a = b"
proof (induction x arbitrary: y)
  case Nil
  then show ?case by (cases y) auto
next
  case (Cons d x)
  then show ?case by (cases y) auto
qed

lemma split_join:
  "xs \<noteq> [] \<Longrightarrow> \<forall>x \<in> set xs. c \<notin> set x \<Longrightarrow> split_on c (join [c] xs) = xs"
proof (induction xs)
  case (Cons x xs)
  then show ?case
    by (cases xs) (auto simp: split_on_no_sep split_on_append_sep)
qed simp

lemma split_on_snoc_sep: "split_on c (s @ [c]) = split_on c s @ [[]]"
proof (induction s)
  case (Cons d s)
  obtain x xs where "split_on c s = x # xs" by (metis list.exhaust split_on_not_Nil)
  with Cons show ?case by auto
qed simp

text \<open>\<open>xs.filter(Boolean)\<close> on an array of strings.\<close>

definition filter_truthy :: "string list \<Rightarrow> string list" where
  "filter_truthy xs = filter (\<lambda>x. x \<noteq> []) xs"

lemma filter_truthy_append [simp]:
  "filter_truthy (xs @ ys) = filter_truthy xs @ filter_truthy ys"
  by (simp add: filter_truthy_def)

lemma filter_truthy_id: "[] \<notin> set xs \<Longrightarrow> filter_truthy xs = xs"
  unfolding filter_truthy_def by (rule filter_True) auto

section \<open>Case, replacement, positions\<close>

text \<open>\<open>toLowerCase\<close> on Latin-1: A..Z and U+00C0..U+00DE except the multiplication sign.\<close>

definition lower_char :: "char \<Rightarrow> char" where
  "lower_char c =
     (let n = (of_char c :: nat)
      in if (65 \<le> n \<and> n \<le> 90) \<or> (192 \<le> n \<and> n \<le> 222 \<and> n \<noteq> 215) then char_of (n + 32) else c)"

definition to_lower :: "string \<Rightarrow> string" where
  "to_lower s = map lower_char s"

lemma lower_char_idem [simp]: "lower_char (lower_char c) = lower_char c"
  by (auto simp: lower_char_def Let_def)

lemma to_lower_idem [simp]: "to_lower (to_lower s) = to_lower s"
  by (simp add: to_lower_def)

lemma length_to_lower [simp]: "length (to_lower s) = length s"
  by (simp add: to_lower_def)

text \<open>\<open>s.replace(/\\/g, "/")\<close>.\<close>

definition backslash_to_slash :: "string \<Rightarrow> string" where
  "backslash_to_slash s = map (\<lambda>c. if c = backslash then slash else c) s"

text \<open>\<open>s.lastIndexOf("/")\<close> with \<open>None\<close> for -1.\<close>

fun last_index_of :: "char \<Rightarrow> string \<Rightarrow> nat option" where
  "last_index_of c [] = None"
| "last_index_of c (d # s) =
     (case last_index_of c s of Some i \<Rightarrow> Some (Suc i) | None \<Rightarrow> if d = c then Some 0 else None)"

lemma last_index_of_None_iff: "last_index_of c s = None \<longleftrightarrow> c \<notin> set s"
  by (induction s) (auto split: option.splits)

lemma last_index_of_Some:
  "last_index_of c s = Some i \<Longrightarrow> i < length s \<and> s ! i = c \<and> c \<notin> set (drop (Suc i) s)"
  by (induction s arbitrary: i)
     (auto split: option.splits if_splits simp: last_index_of_None_iff)

end
