(* ===== verification/JsNumber.thy ===== *)
theory JsNumber
  imports JsString Complex_Main "HOL-Library.Log_Nat"
begin

text \<open>
  JavaScript numbers: IEEE 754 doubles as the rationals they denote, with NaN and the two
  infinities apart (the sign of zero is not modelled). \<open>to_double\<close> is round to nearest,
  ties to even, with overflow to an infinity; \<open>Number(s)\<close>, \<open>parseFloat\<close>, \<open>Math.round\<close>
  and \<open>toFixed(1)\<close> are the language's, on this representation.
\<close>

datatype number = NaN | Inf bool | Fin rat

section \<open>Rounding to a double\<close>

definition pow2 :: "int \<Rightarrow> rat" where
  "pow2 e = (if 0 \<le> e then 2 ^ nat e else 1 / 2 ^ nat (- e))"

lemma pow2_pos [simp]: "0 < pow2 e"
  by (simp add: pow2_def)

lemma pow2_nonzero [simp]: "pow2 e \<noteq> 0"
  using pow2_pos [of e] by linarith

definition round_even :: "rat \<Rightarrow> int" where
  "round_even y =
     (let f = \<lfloor>y\<rfloor>; d = y - of_int f
      in if d < 1 / 2 then f else if 1 / 2 < d then f + 1 else if even f then f else f + 1)"

text \<open>The exponent of the leading binary digit of a positive rational.\<close>

definition exponent :: "rat \<Rightarrow> int" where
  "exponent x =
     (let (p, q) = quotient_of x; e = bitlen p - bitlen q
      in if pow2 e \<le> x then e else e - 1)"

definition round_to :: "int \<Rightarrow> rat \<Rightarrow> rat" where
  "round_to u x = of_int (round_even (x / pow2 u)) * pow2 u"

definition round_double :: "rat \<Rightarrow> rat" where
  "round_double x =
     (if x = 0 then 0
      else if 0 < x then round_to (max (exponent x - 52) (- 1074)) x
      else - round_to (max (exponent (- x) - 52) (- 1074)) (- x))"

definition to_double :: "rat \<Rightarrow> number" where
  "to_double x =
     (let r = round_double x
      in if r \<noteq> 0 \<and> 1024 \<le> exponent \<bar>r\<bar> then Inf (r < 0) else Fin r)"

lemma round_even_of_int [simp]: "round_even (of_int n) = n"
  by (simp add: round_even_def)

lemma round_even_bounds: "of_int (round_even y) \<le> y + 1 / 2" "y - 1 / 2 \<le> of_int (round_even y)"
proof -
  define f :: rat where "f = of_int \<lfloor>y\<rfloor>"
  have f: "f \<le> y" "y < f + 1" using floor_correct [of y] by (simp_all add: f_def)
  have up: "of_int (round_even y) = f \<or> (of_int (round_even y) = f + 1 \<and> 1 / 2 \<le> y - f)"
    unfolding round_even_def Let_def f_def by auto
  have down: "of_int (round_even y) = f + 1 \<or> (of_int (round_even y) = f \<and> y - f \<le> 1 / 2)"
    unfolding round_even_def Let_def f_def by auto
  show "of_int (round_even y) \<le> y + 1 / 2" using up f by (elim disjE conjE) linarith+
  show "y - 1 / 2 \<le> of_int (round_even y)" using down f by (elim disjE conjE) linarith+
qed

lemma round_even_le_int: "y \<le> of_int n \<Longrightarrow> round_even y \<le> n"
proof -
  assume le: "y \<le> of_int n"
  have "of_int (round_even y) \<le> y + 1 / 2" by (rule round_even_bounds)
  with le have "of_int (round_even y) \<le> (of_int n + 1 / 2 :: rat)" by linarith
  moreover have "(of_int n + 1 / 2 :: rat) < of_int (n + 1)" by simp
  ultimately have "(of_int (round_even y) :: rat) < of_int (n + 1)" by linarith
  then show ?thesis by simp
qed

lemma round_even_ge_int: "of_int n \<le> y \<Longrightarrow> n \<le> round_even y"
proof -
  assume le: "of_int n \<le> y"
  have "y - 1 / 2 \<le> of_int (round_even y)" by (rule round_even_bounds)
  with le have "(of_int n - 1 / 2 :: rat) \<le> of_int (round_even y)" by linarith
  moreover have "(of_int (n - 1) :: rat) < of_int n - 1 / 2" by simp
  ultimately have "(of_int (n - 1) :: rat) < of_int (round_even y)" by linarith
  then show ?thesis by simp
qed

section \<open>Decimal literals\<close>

definition digit_value :: "char \<Rightarrow> nat option" where
  "digit_value c =
     (let n = (of_char c :: nat) in if 48 \<le> n \<and> n \<le> 57 then Some (n - 48) else None)"

definition is_digit :: "char \<Rightarrow> bool" where
  "is_digit c \<longleftrightarrow> digit_value c \<noteq> None"

definition hex_value :: "char \<Rightarrow> nat option" where
  "hex_value c =
     (let n = (of_char c :: nat)
      in if 48 \<le> n \<and> n \<le> 57 then Some (n - 48)
         else if 65 \<le> n \<and> n \<le> 70 then Some (n - 55)
         else if 97 \<le> n \<and> n \<le> 102 then Some (n - 87) else None)"

fun radix_digits :: "nat \<Rightarrow> nat \<Rightarrow> string \<Rightarrow> nat option" where
  "radix_digits b acc [] = Some acc"
| "radix_digits b acc (c # s) =
     (case hex_value c of None \<Rightarrow> None
      | Some d \<Rightarrow> if d < b then radix_digits b (acc * b + d) s else None)"

definition decimal_value :: "string \<Rightarrow> nat" where
  "decimal_value s = nullish (radix_digits 10 0 s) 0"

text \<open>
  An exponent part, if one is there: \<open>e\<close>, an optional sign and at least one digit. What
  follows is returned with the exponent.
\<close>

definition scan_exponent :: "string \<Rightarrow> int \<times> string" where
  "scan_exponent s =
     (case s of
        c # t \<Rightarrow>
          if c = CHR ''e'' \<or> c = CHR ''E'' then
            (let (sg, u) = (case t of [] \<Rightarrow> (1, [])
                            | d # v \<Rightarrow> if d = CHR ''-'' then (- 1, v)
                                       else if d = CHR ''+'' then (1, v) else (1, d # v));
                 ds = takeWhile is_digit u
             in if ds = [] then (0, s)
                else (sg * int (decimal_value ds), dropWhile is_digit u))
          else (0, s)
      | [] \<Rightarrow> (0, s))"

definition pow10 :: "int \<Rightarrow> rat" where
  "pow10 e = (if 0 \<le> e then 10 ^ nat e else 1 / 10 ^ nat (- e))"

text \<open>The longest unsigned decimal literal at the start of a string, and the rest.\<close>

definition scan_unsigned :: "string \<Rightarrow> (number \<times> string) option" where
  "scan_unsigned s =
     (if starts_with s ''Infinity'' then Some (Inf False, drop 8 s)
      else
        (let ip = takeWhile is_digit s; r = dropWhile is_digit s;
             (fp, r2) = (case r of [] \<Rightarrow> ([], [])
                         | c # t \<Rightarrow> if c = CHR ''.'' then (takeWhile is_digit t, dropWhile is_digit t)
                                    else ([], r))
         in if ip = [] \<and> fp = [] then None
            else (let (e, r3) = scan_exponent r2
                  in Some (to_double (of_nat (decimal_value (ip @ fp)) * pow10 (e - int (length fp))),
                           r3))))"

definition negate :: "number \<Rightarrow> number" where
  "negate x = (case x of NaN \<Rightarrow> NaN | Inf b \<Rightarrow> Inf (\<not> b) | Fin r \<Rightarrow> Fin (- r))"

definition scan_signed :: "string \<Rightarrow> (number \<times> string) option" where
  "scan_signed s =
     (case s of [] \<Rightarrow> None
      | c # t \<Rightarrow>
          if c = CHR ''-'' then map_option (\<lambda>(x, r). (negate x, r)) (scan_unsigned t)
          else if c = CHR ''+'' then scan_unsigned t
          else scan_unsigned s)"

definition radix_literal :: "nat \<Rightarrow> string \<Rightarrow> number" where
  "radix_literal b s =
     (if s = [] then NaN
      else case radix_digits b 0 s of None \<Rightarrow> NaN | Some n \<Rightarrow> to_double (of_nat n))"

text \<open>\<open>Number(s)\<close> on a string.\<close>

definition js_Number :: "string \<Rightarrow> number" where
  "js_Number s0 =
     (let s = trim s0
      in if s = [] then Fin 0
         else if starts_with s ''0x'' \<or> starts_with s ''0X'' then radix_literal 16 (drop 2 s)
         else if starts_with s ''0o'' \<or> starts_with s ''0O'' then radix_literal 8 (drop 2 s)
         else if starts_with s ''0b'' \<or> starts_with s ''0B'' then radix_literal 2 (drop 2 s)
         else case scan_signed s of Some (x, []) \<Rightarrow> x | _ \<Rightarrow> NaN)"

text \<open>\<open>Number.parseFloat(s)\<close>: the longest literal at the start, NaN if there is none.\<close>

definition js_parseFloat :: "string \<Rightarrow> number" where
  "js_parseFloat s = (case scan_signed (trim_start s) of Some (x, _) \<Rightarrow> x | None \<Rightarrow> NaN)"

section \<open>Printing\<close>

fun nat_digits :: "nat \<Rightarrow> string" where
  "nat_digits n =
     (if n < 10 then [char_of (48 + n)] else nat_digits (n div 10) @ [char_of (48 + n mod 10)])"

declare nat_digits.simps [simp del]

text \<open>\<open>String(n)\<close> for an integer.\<close>

definition int_string :: "int \<Rightarrow> string" where
  "int_string n = (if n < 0 then ''-'' @ nat_digits (nat (- n)) else nat_digits (nat n))"

lemma nat_digits_not_Nil [simp]: "nat_digits n \<noteq> []"
  by (subst nat_digits.simps) simp

lemma hex_value_digit [simp]: "d < 10 \<Longrightarrow> hex_value (char_of (48 + d)) = Some d"
  by (simp add: hex_value_def Let_def)

lemma radix_digits_append:
  "radix_digits b a (s @ t) = (case radix_digits b a s of None \<Rightarrow> None | Some v \<Rightarrow> radix_digits b v t)"
  by (induction s arbitrary: a) (auto split: option.splits)

text \<open>Printing and reading a natural number are inverse.\<close>

lemma radix_digits_nat_digits: "radix_digits 10 0 (nat_digits n) = Some n"
proof (induction n rule: nat_digits.induct)
  case (1 n)
  show ?case
  proof (cases "n < 10")
    case True
    then show ?thesis by (subst nat_digits.simps) simp
  next
    case False
    then have "radix_digits 10 0 (nat_digits (n div 10)) = Some (n div 10)" by (rule "1.IH")
    with False show ?thesis
      by (subst nat_digits.simps) (simp add: radix_digits_append)
  qed
qed

lemma nat_digits_inject [simp]: "nat_digits m = nat_digits n \<longleftrightarrow> m = n"
  by (metis option.inject radix_digits_nat_digits)

lemma nat_digits_all_digits: "c \<in> set (nat_digits n) \<Longrightarrow> is_digit c"
proof (induction n rule: nat_digits.induct)
  case (1 n)
  have dig: "d < 10 \<Longrightarrow> is_digit (char_of (48 + d))" for d :: nat
    by (simp add: is_digit_def digit_value_def Let_def)
  show ?case
  proof (cases "n < 10")
    case True
    with "1.prems" show ?thesis using dig by (simp add: nat_digits.simps [of n])
  next
    case False
    with "1.prems" have "c \<in> set (nat_digits (n div 10)) \<or> c = char_of (48 + n mod 10)"
      by (subst (asm) nat_digits.simps) auto
    with "1.IH" False dig [of "n mod 10"] show ?thesis by auto
  qed
qed

text \<open>
  \<open>x.toFixed(1)\<close> for a finite \<open>x\<close> below \<open>10 ^ 21\<close>: the integer nearest to \<open>10 x\<close>,
  the larger one on a tie, printed with one digit after the point.
\<close>

definition tenths_string :: "nat \<Rightarrow> string" where
  "tenths_string n = nat_digits (n div 10) @ ''.'' @ nat_digits (n mod 10)"

definition toFixed1 :: "rat \<Rightarrow> string" where
  "toFixed1 x =
     (if x < 0 then ''-'' @ tenths_string (nat \<lfloor>10 * (- x) + 1 / 2\<rfloor>)
      else tenths_string (nat \<lfloor>10 * x + 1 / 2\<rfloor>))"

text \<open>\<open>Math.round\<close>: the nearest integer, ties upwards.\<close>

definition js_round :: "rat \<Rightarrow> int" where
  "js_round x = \<lfloor>x + 1 / 2\<rfloor>"

text \<open>\<open>Number.isSafeInteger\<close>.\<close>

definition is_safe_integer :: "rat \<Rightarrow> bool" where
  "is_safe_integer x \<longleftrightarrow> of_int \<lfloor>x\<rfloor> = x \<and> \<bar>x\<bar> \<le> 2 ^ 53 - 1"

section \<open>Small integers are doubles\<close>

lemma pow2_of_nat [simp]: "pow2 (int n) = 2 ^ n"
  by (simp add: pow2_def)

lemma pow2_minus: "pow2 (- int n) = 1 / 2 ^ n"
proof (cases n)
  case (Suc k)
  have "nat (int k + 1) = Suc k" by simp
  with Suc show ?thesis by (simp add: pow2_def)
qed (simp add: pow2_def)

lemma pow2_add: "pow2 (a + b) = pow2 a * pow2 b"
proof -
  have nn: "pow2 (int m + int n) = pow2 (int m) * pow2 (int n)" for m n
    by (metis of_nat_add pow2_of_nat power_add)
  have pm: "pow2 (int m - int n) = pow2 (int m) * pow2 (- int n)" for m n
  proof (cases "n \<le> m")
    case True
    then have "(2 :: rat) ^ m = 2 ^ (m - n) * 2 ^ n" by (simp flip: power_add)
    moreover have "int m - int n = int (m - n)" using True by simp
    ultimately show ?thesis by (simp only: pow2_minus pow2_of_nat) simp
  next
    case False
    then have "(2 :: rat) ^ n = 2 ^ (n - m) * 2 ^ m" by (simp flip: power_add)
    moreover have "int m - int n = - int (n - m)" using False by simp
    ultimately show ?thesis by (simp only: pow2_minus pow2_of_nat) simp
  qed
  have mm: "pow2 (- int m - int n) = pow2 (- int m) * pow2 (- int n)" for m n
    using pow2_minus [of "m + n"] by (simp add: pow2_minus power_add algebra_simps)
  have mp: "pow2 (- int m + int n) = pow2 (- int m) * pow2 (int n)" for m n
    using pm [of n m] by (metis add.commute diff_conv_add_uminus mult.commute)
  show ?thesis
  proof (cases a rule: int_cases2)
    case a: (nonneg m)
    show ?thesis
      by (cases b rule: int_cases2) (metis a nn, metis a pm diff_conv_add_uminus)
  next
    case a: (nonpos m)
    show ?thesis
      by (cases b rule: int_cases2) (metis a mp, metis a mm diff_conv_add_uminus)
  qed
qed

lemma pow2_le_1_iff: "pow2 e \<le> 1 \<Longrightarrow> e \<le> 0"
proof (rule ccontr)
  assume le: "pow2 e \<le> 1" and "\<not> e \<le> 0"
  then obtain n where "e = int (Suc n)" by (metis gr0_implies_Suc linorder_not_le pos_int_cases)
  with le have "(2 :: rat) ^ Suc n \<le> 1" by (simp only: pow2_of_nat)
  moreover have "(1 :: rat) < 2 ^ Suc n" by (rule one_less_power) simp_all
  ultimately show False by simp
qed

lemma pow2_mono: "pow2 a \<le> pow2 b \<Longrightarrow> a \<le> b"
proof -
  assume le: "pow2 a \<le> pow2 b"
  have "pow2 (a - b) * pow2 b = pow2 a" using pow2_add [of "a - b" b] by simp
  with le have "pow2 (a - b) * pow2 b \<le> 1 * pow2 b" by simp
  then have "pow2 (a - b) \<le> 1" by simp
  then show ?thesis using pow2_le_1_iff by force
qed

lemma exponent_le: "0 < x \<Longrightarrow> pow2 (exponent x) \<le> x"
proof -
  assume x: "0 < x"
  obtain p q where pq: "quotient_of x = (p, q)" by force
  have q: "0 < q" using quotient_of_denom_pos [OF pq] .
  have xpq: "x = of_int p / of_int q" using quotient_of_div [OF pq] .
  with x q have p: "0 < p" by (simp add: zero_less_divide_iff)
  define m n where "m = nat (bitlen p)" and "n = nat (bitlen q)"
  have bl: "bitlen p = int m" "bitlen q = int n" by (simp_all add: m_def n_def bitlen_nonneg)
  have "nat (bitlen p - 1) = m - 1" by (simp add: m_def nat_diff_distrib')
  then have "2 ^ (m - 1) \<le> p" "q < 2 ^ n"
    using bitlen_bounds [OF p] bitlen_bounds [OF q] by (simp_all add: m_def n_def)
  then have b: "(2 :: rat) ^ (m - 1) \<le> of_int p" "of_int q \<le> (2 :: rat) ^ n"
    by (metis of_int_le_iff of_int_numeral of_int_power,
        metis less_imp_le of_int_le_iff of_int_numeral of_int_power)
  have "0 < m" using p bitlen_bounds [OF p] by (cases m) (auto simp: m_def)
  then have "pow2 (int m - int n - 1) = 2 ^ (m - 1) / 2 ^ n"
    using pow2_add [of "int (m - 1)" "- int n"]
    by (cases m) (simp_all add: pow2_minus algebra_simps)
  also have "\<dots> \<le> of_int p / of_int q"
    using b q p by (intro frac_le) auto
  finally have "pow2 (int m - int n - 1) \<le> x" by (simp only: xpq)
  then show ?thesis by (simp add: exponent_def pq bl Let_def)
qed

lemma exponent_bound:
  assumes "0 < x" "x \<le> of_nat n" "n < 2 ^ 53"
  shows "exponent x \<le> 52"
proof -
  have "pow2 (exponent x) \<le> of_nat n" using exponent_le [OF assms(1)] assms(2) by linarith
  also have "(of_nat n :: rat) < 2 ^ 53" using assms(3) by (metis of_nat_less_iff of_nat_numeral of_nat_power)
  finally have "pow2 (exponent x) < pow2 (int 53)" by (simp only: pow2_of_nat)
  then have "\<not> pow2 (int 53) \<le> pow2 (exponent x)" by simp
  moreover have "pow2 (int 53) \<le> pow2 (exponent x)" if "53 \<le> exponent x"
  proof -
    from that obtain k where "exponent x = int 53 + int k" by (metis zle_iff_zadd of_nat_numeral)
    then have "pow2 (exponent x) = pow2 (int 53) * 2 ^ k" by (simp only: pow2_add pow2_of_nat)
    then show ?thesis by (simp del: pow2_of_nat)
  qed
  ultimately show ?thesis by linarith
qed

lemma of_nat_div_pow2: "u \<le> 0 \<Longrightarrow> of_nat n / pow2 u = of_int (int n * 2 ^ nat (- u))"
proof -
  assume "u \<le> 0"
  then have "pow2 u = 1 / 2 ^ nat (- u)" using pow2_minus [of "nat (- u)"] by simp
  then show ?thesis by simp
qed

lemma round_to_nat_bound:
  assumes "u \<le> 0" "x \<le> of_nat n"
  shows "round_to u x \<le> of_nat n"
proof -
  have "x / pow2 u \<le> of_nat n / pow2 u"
    using divide_right_mono [OF assms(2) less_imp_le [OF pow2_pos]] .
  then have "round_even (x / pow2 u) \<le> int n * 2 ^ nat (- u)"
    using of_nat_div_pow2 [OF assms(1), of n] by (intro round_even_le_int) simp
  then have "of_int (round_even (x / pow2 u)) \<le> (of_nat n / pow2 u)"
    using of_nat_div_pow2 [OF assms(1), of n] by (metis of_int_le_iff)
  then have "round_to u x \<le> of_nat n / pow2 u * pow2 u"
    unfolding round_to_def by (intro mult_right_mono) (simp_all add: less_imp_le)
  then show ?thesis by simp
qed

lemma round_double_le_nat:
  assumes "0 \<le> x" "x \<le> of_nat n" "n < 2 ^ 53"
  shows "round_double x \<le> of_nat n"
proof (cases "x = 0")
  case False
  with assms(1) have "0 < x" by simp
  then have "exponent x \<le> 52" using assms by (intro exponent_bound)
  then show ?thesis
    using \<open>0 < x\<close> assms(2) by (simp add: round_double_def round_to_nat_bound)
qed (simp add: round_double_def)

lemma round_double_of_nat: "n < 2 ^ 53 \<Longrightarrow> round_double (of_nat n) = of_nat n"
proof (cases "n = 0")
  case False
  assume n: "n < 2 ^ 53"
  have u: "max (exponent (of_nat n) - 52) (- 1074) \<le> 0"
    using exponent_bound [of "of_nat n" n] False n by simp
  have "round_to u (of_nat n) = of_nat n" if "u \<le> 0" for u
    using of_nat_div_pow2 [OF that, of n] unfolding round_to_def
    by (metis nonzero_eq_divide_eq pow2_nonzero round_even_of_int)
  then show ?thesis using False u by (simp add: round_double_def)
qed (simp add: round_double_def)

lemma round_double_nonneg: "0 \<le> x \<Longrightarrow> 0 \<le> round_double x"
proof -
  assume "0 \<le> x"
  have "0 \<le> round_to u x" for u
  proof -
    have "0 \<le> x / pow2 u" using \<open>0 \<le> x\<close> by (simp add: divide_nonneg_pos)
    then have "0 \<le> round_even (x / pow2 u)" using round_even_ge_int [of 0] by simp
    then show ?thesis unfolding round_to_def by (intro mult_nonneg_nonneg) (simp_all add: less_imp_le)
  qed
  with \<open>0 \<le> x\<close> show ?thesis by (auto simp: round_double_def)
qed

lemma to_double_small:
  assumes "0 \<le> x" "x \<le> of_nat n" "n < 2 ^ 53"
  shows "to_double x = Fin (round_double x)"
proof -
  let ?r = "round_double x"
  have r: "0 \<le> ?r" "?r \<le> of_nat n" using assms by (simp_all add: round_double_nonneg round_double_le_nat)
  show ?thesis
  proof (cases "?r = 0")
    case False
    with r have "exponent ?r \<le> 52" using assms(3) by (intro exponent_bound) auto
    with r show ?thesis by (simp add: to_double_def Let_def)
  qed (simp add: to_double_def)
qed

lemma to_double_of_nat: "n < 2 ^ 53 \<Longrightarrow> to_double (of_nat n) = Fin (of_nat n)"
  using to_double_small [of "of_nat n" n] by (simp add: round_double_of_nat)

section \<open>Arithmetic on numbers\<close>

definition js_mul :: "number \<Rightarrow> number \<Rightarrow> number" where
  "js_mul x y =
     (case (x, y) of
        (Fin a, Fin b) \<Rightarrow> to_double (a * b)
      | (Fin a, Inf n) \<Rightarrow> if a = 0 then NaN else Inf (n \<noteq> (a < 0))
      | (Inf n, Fin a) \<Rightarrow> if a = 0 then NaN else Inf (n \<noteq> (a < 0))
      | (Inf m, Inf n) \<Rightarrow> Inf (m \<noteq> n)
      | _ \<Rightarrow> NaN)"

text \<open>Division of finite numbers; the sources never divide by zero or an infinity.\<close>

definition js_div :: "rat \<Rightarrow> rat \<Rightarrow> number" where
  "js_div a b = (if b = 0 then (if a = 0 then NaN else Inf (a < 0)) else to_double (a / b))"

text \<open>\<open>Math.round\<close> on a number.\<close>

definition math_round :: "number \<Rightarrow> number" where
  "math_round x = (case x of Fin a \<Rightarrow> Fin (of_int (js_round a)) | _ \<Rightarrow> x)"

end
