(* ===== verification/ApiTypes.thy ===== *)
theory ApiTypes
  imports JsNumber
begin

text \<open>
  Model of \<open>frontend/src/api/types.ts\<close> (the shapes the API promises), of the settings record
  of \<open>lib/settings.tsx\<close> and of the values an API call can throw. TypeScript's \<open>T | null\<close> and
  optional members are options; ids, sizes and counts are the integers the API sends. The
  fields of a record carry a short prefix, because record selectors are global names.
\<close>

datatype visibility = Public | Private

primrec visibility_value :: "visibility \<Rightarrow> string" where
  "visibility_value Public = ''public''"
| "visibility_value Private = ''private''"

record api_error_body =
  aeb_code :: string
  aeb_message :: string

record bucket =
  bucket_id :: int
  bucket_name :: string
  bucket_created_at :: string
  bucket_updated_at :: string

record object_item =
  oi_id :: int
  oi_bucket_name :: string
  oi_object_key :: string
  oi_original_filename :: string
  oi_size :: nat
  oi_content_type :: string
  oi_etag :: string
  oi_visibility :: visibility
  oi_created_at :: string
  oi_updated_at :: string

record object_list_result =
  ol_items :: "object_item list"
  ol_next_cursor :: string

text \<open>The discriminated union \<open>ExplorerEntry\<close>; members that are always null are left out.\<close>

datatype explorer_entry =
    DirectoryEntry (entry_path: string) (entry_name: string) (dir_is_empty: "bool option")
  | FileEntry (entry_path: string) (entry_name: string) (file_object_key: string)
      (file_original_filename: string) (file_size: nat) (file_content_type: string)
      (file_etag: string) (file_visibility: visibility) (file_created_at: string)
      (file_updated_at: string)

definition is_file :: "explorer_entry \<Rightarrow> bool" where
  "is_file e = (case e of DirectoryEntry _ _ _ \<Rightarrow> False | _ \<Rightarrow> True)"

definition is_directory :: "explorer_entry \<Rightarrow> bool" where
  "is_directory e = (case e of DirectoryEntry _ _ _ \<Rightarrow> True | _ \<Rightarrow> False)"

record explorer_entries_result =
  ee_items :: "explorer_entry list"
  ee_next_cursor :: string

datatype entry_type = TFile | TDirectory

definition type_of_entry :: "explorer_entry \<Rightarrow> entry_type" where
  "type_of_entry e = (case e of DirectoryEntry _ _ _ \<Rightarrow> TDirectory | _ \<Rightarrow> TFile)"

record delete_batch_item =
  dbi_type :: entry_type
  dbi_path :: string

record delete_batch_failed_item = delete_batch_item +
  dbf_code :: string
  dbf_message :: string

record delete_batch_result =
  db_deleted_count :: int
  db_failed_count :: int
  db_failed_items :: "delete_batch_failed_item list"

record recycle_bin_object_item =
  rb_id :: int
  rb_type :: entry_type
  rb_bucket_name :: string
  rb_path :: string
  rb_name :: string
  rb_object_key :: string
  rb_original_filename :: string
  rb_size :: nat
  rb_content_type :: string
  rb_etag :: string
  rb_visibility :: visibility
  rb_created_at :: string
  rb_deleted_at :: string

record recycle_bin_list_result =
  rbl_items :: "recycle_bin_object_item list"
  rbl_next_cursor :: string

record recycle_bin_failed_item =
  rbf_id :: int
  rbf_bucket_name :: string
  rbf_path :: string
  rbf_code :: string
  rbf_message :: string

record restore_result =
  rr_restored_count :: int
  rr_failed_count :: int
  rr_failed_items :: "recycle_bin_failed_item list"

record delete_recycle_result =
  dr_deleted_count :: int
  dr_failed_count :: int
  dr_failed_items :: "recycle_bin_failed_item list"

record batch_upload_result =
  bu_uploaded_count :: int
  bu_items :: "object_item list"

record site =
  site_id :: int
  site_bucket :: string
  site_root_prefix :: string
  site_enabled :: bool
  site_index_document :: string
  site_error_document :: string
  site_spa_fallback :: bool
  site_domains :: "string list"
  site_created_at :: string
  site_updated_at :: string

record create_site_request =
  cs_bucket :: string
  cs_root_prefix :: string
  cs_enabled :: bool
  cs_index_document :: string
  cs_error_document :: string
  cs_spa_fallback :: bool
  cs_domains :: "string list"

record publish_site_result =
  ps_uploaded_count :: int
  ps_site :: site

record signed_download_path_result =
  sd_path :: string
  sd_expires_at :: int

datatype health_state = HealthOk | HealthError

record health_status_result =
  hs_service :: health_state
  hs_db :: health_state
  hs_version :: string

datatype api_host_os = Windows | Linux | Macos | OtherOs

record system_memory_stats =
  mem_total_bytes :: nat
  mem_used_bytes :: nat
  mem_available_bytes :: nat
  mem_used_percent :: rat

record system_disk_stats =
  disk_label :: string
  disk_mount_point :: string
  disk_filesystem :: string
  disk_total_bytes :: nat
  disk_used_bytes :: nat
  disk_free_bytes :: nat
  disk_used_percent :: rat
  disk_contains_storage_root :: bool

datatype storage_limit_status = LimitOk | LimitWarning | LimitExceeded

record system_storage_stats =
  st_root_path :: string
  st_used_bytes :: nat
  st_max_bytes :: nat
  st_remaining_bytes :: nat
  st_used_percent :: rat
  st_limit_status :: storage_limit_status

record system_stats_result =
  ss_os :: api_host_os
  ss_cpu_used_percent :: rat
  ss_memory :: system_memory_stats
  ss_disks :: "system_disk_stats list"
  ss_storage :: system_storage_stats

text \<open>A browser \<open>File\<close>: its name, MIME type, relative path (absent or not) and identity.\<close>

record upload_file =
  fl_name :: string
  fl_type :: string
  fl_relative_path :: "string option"
  fl_content :: nat

record app_settings =
  apiBaseUrl :: string
  bearerToken :: string

section \<open>Thrown values\<close>

text \<open>
  \<open>class ApiError extends Error\<close> with its message, status and optional code. An axios error
  carries the response when there was one: its status and its body, which may be absent, a
  string, a parsed object (with the \<open>error\<close> member of an envelope, if any) or a Blob.
\<close>

record api_error =
  err_message :: string
  err_status :: int
  err_code :: "string option"

record error_member =
  em_code :: "string option"
  em_message :: "string option"

text \<open>What \<open>JSON.parse(await payload.text())\<close> makes of a Blob body.\<close>

datatype blob_json = BlobNotJson | BlobNull | BlobJson "error_member option"

datatype error_payload =
    NoPayload
  | TextPayload string
  | ObjectPayload "error_member option"
  | BlobPayload blob_json

datatype thrown =
    ThrownApi api_error
  | ThrownAxios string "string option" "(int \<times> error_payload) option"
  | ThrownError string
  | ThrownOther "string option"

text \<open>\<open>error instanceof Error ? error.message : fallback\<close>.\<close>

definition shown_message :: "thrown \<Rightarrow> string \<Rightarrow> string" where
  "shown_message e fallback =
     (case e of ThrownApi a \<Rightarrow> err_message a
      | ThrownAxios m _ _ \<Rightarrow> m
      | ThrownError m \<Rightarrow> m
      | ThrownOther _ \<Rightarrow> fallback)"

text \<open>The members \<open>code\<close> and \<open>status\<close> of a thrown object, when present.\<close>

definition thrown_code :: "thrown \<Rightarrow> string option" where
  "thrown_code e =
     (case e of ThrownApi a \<Rightarrow> err_code a | ThrownAxios _ c _ \<Rightarrow> c
      | ThrownError _ \<Rightarrow> None | ThrownOther c \<Rightarrow> c)"

definition thrown_status :: "thrown \<Rightarrow> int option" where
  "thrown_status e =
     (case e of ThrownApi a \<Rightarrow> Some (err_status a)
      | ThrownAxios _ _ r \<Rightarrow> map_option fst r
      | _ \<Rightarrow> None)"

end
