(* ===== verification/Task.thy ===== *)
theory Task
  imports Prelude
begin

text \<open>
  Asynchronous event handlers. A handler is a \<open>task\<close>: it updates the component's state,
  reads it, awaits the answer to a request, returns or throws. An \<open>async\<close> function of the
  source is a task with one \<open>Await\<close> per \<open>await\<close>; a synchronous handler has none. The answer
  to a request is not fixed by the task, so a statement about all answers covers every
  behaviour of the server, the browser and the libraries that answer.

  \<open>exec\<close> runs one task to its end, given the answers and what other handlers did to the state
  while it was suspended. The machine at the end of the theory interleaves any number of
  tasks: a synchronous stretch of a task runs to its next \<open>await\<close> without interruption
  (run-to-completion), then the state is committed, which is where a component's effects run.
\<close>

datatype (dead 's, dead 'q, dead 'r, 'e, 'a) task =
    Return 'a
  | Raise 'e
  | Update "'s \<Rightarrow> 's" "('s, 'q, 'r, 'e, 'a) task"
  | Read "'s \<Rightarrow> ('s, 'q, 'r, 'e, 'a) task"
  | Await 'q "'r \<Rightarrow> ('s, 'q, 'r, 'e, 'a) task"

section \<open>Sequencing, try/catch, try/finally\<close>

primrec bind_task ::
  "('s, 'q, 'r, 'e, 'a) task \<Rightarrow> ('a \<Rightarrow> ('s, 'q, 'r, 'e, 'b) task) \<Rightarrow> ('s, 'q, 'r, 'e, 'b) task" where
  "bind_task (Return a) k = k a"
| "bind_task (Raise e) k = Raise e"
| "bind_task (Update f t) k = Update f (bind_task t k)"
| "bind_task (Read g) k = Read (\<lambda>s. bind_task (g s) k)"
| "bind_task (Await q g) k = Await q (\<lambda>r. bind_task (g r) k)"

primrec catch_task ::
  "('s, 'q, 'r, 'e, 'a) task \<Rightarrow> ('e \<Rightarrow> ('s, 'q, 'r, 'f, 'a) task) \<Rightarrow> ('s, 'q, 'r, 'f, 'a) task" where
  "catch_task (Return a) h = Return a"
| "catch_task (Raise e) h = h e"
| "catch_task (Update f t) h = Update f (catch_task t h)"
| "catch_task (Read g) h = Read (\<lambda>s. catch_task (g s) h)"
| "catch_task (Await q g) h = Await q (\<lambda>r. catch_task (g r) h)"

text \<open>\<open>try { t } finally { f }\<close> where the finaliser is a state update.\<close>

primrec finally_task ::
  "('s, 'q, 'r, 'e, 'a) task \<Rightarrow> ('s \<Rightarrow> 's) \<Rightarrow> ('s, 'q, 'r, 'e, 'a) task" where
  "finally_task (Return a) fin = Update fin (Return a)"
| "finally_task (Raise e) fin = Update fin (Raise e)"
| "finally_task (Update f t) fin = Update f (finally_task t fin)"
| "finally_task (Read g) fin = Read (\<lambda>s. finally_task (g s) fin)"
| "finally_task (Await q g) fin = Await q (\<lambda>r. finally_task (g r) fin)"

text \<open>An awaited request whose answer is an error to throw or a value.\<close>

definition request :: "'q \<Rightarrow> ('s, 'q, 'e + 'r, 'e, 'r) task" where
  "request q = Await q (\<lambda>r. case r of Inl e \<Rightarrow> Raise e | Inr v \<Rightarrow> Return v)"

lemma bind_task_Return [simp]: "bind_task t Return = t"
  by (induction t) auto

lemma bind_task_assoc:
  "bind_task (bind_task t k) l = bind_task t (\<lambda>a. bind_task (k a) l)"
  by (induction t) auto

section \<open>Running one task\<close>

primrec exec ::
  "('s, 'q, 'r, 'e, 'a) task \<Rightarrow> (nat \<Rightarrow> 'r) \<Rightarrow> (nat \<Rightarrow> 's \<Rightarrow> 's) \<Rightarrow> nat \<Rightarrow> 's
    \<Rightarrow> 's \<times> 'q list \<times> ('e + 'a)" where
  "exec (Return a) reply env n s = (s, [], Inr a)"
| "exec (Raise e) reply env n s = (s, [], Inl e)"
| "exec (Update f t) reply env n s = exec t reply env n (f s)"
| "exec (Read g) reply env n s = exec (g s) reply env n s"
| "exec (Await q g) reply env n s =
     (let (s', tr, out) = exec (g (reply n)) reply env (Suc n) (env n s) in (s', q # tr, out))"

lemma exec_bind:
  "exec (bind_task t k) reply env n s =
     (case exec t reply env n s of
        (s', tr, Inl e) \<Rightarrow> (s', tr, Inl e)
      | (s', tr, Inr a) \<Rightarrow>
          (case exec (k a) reply env (n + length tr) s' of (s'', tr', out) \<Rightarrow> (s'', tr @ tr', out)))"
  by (induction t arbitrary: n s) (auto simp: Let_def split: prod.splits sum.splits)

lemma exec_catch:
  "exec (catch_task t h) reply env n s =
     (case exec t reply env n s of
        (s', tr, Inr a) \<Rightarrow> (s', tr, Inr a)
      | (s', tr, Inl e) \<Rightarrow>
          (case exec (h e) reply env (n + length tr) s' of (s'', tr', out) \<Rightarrow> (s'', tr @ tr', out)))"
  by (induction t arbitrary: n s) (auto simp: Let_def split: prod.splits sum.splits)

lemma exec_finally:
  "exec (finally_task t fin) reply env n s =
     (case exec t reply env n s of (s', tr, out) \<Rightarrow> (fin s', tr, out))"
  by (induction t arbitrary: n s) (auto simp: Let_def split: prod.splits)

lemma exec_request:
  "exec (request q) reply env n s =
     (env n s, [q], case reply n of Inl e \<Rightarrow> Inl e | Inr v \<Rightarrow> Inr v)"
  by (auto simp: request_def split: sum.splits)

text \<open>No other handler touches the state while the task is suspended.\<close>

definition undisturbed :: "nat \<Rightarrow> 's \<Rightarrow> 's" where
  "undisturbed n s = s"

lemma undisturbed_apply [simp]: "undisturbed n s = s"
  by (simp add: undisturbed_def)

text \<open>Every request the task can make, whatever the answers and the states it reads.\<close>

primrec requests_ok :: "('q \<Rightarrow> bool) \<Rightarrow> ('s, 'q, 'r, 'e, 'a) task \<Rightarrow> bool" where
  "requests_ok P (Return a) = True"
| "requests_ok P (Raise e) = True"
| "requests_ok P (Update f t) = requests_ok P t"
| "requests_ok P (Read g) = (\<forall>s. requests_ok P (g s))"
| "requests_ok P (Await q g) = (P q \<and> (\<forall>r. requests_ok P (g r)))"

lemma requests_ok_bind:
  "requests_ok P t \<Longrightarrow> (\<And>a. requests_ok P (k a)) \<Longrightarrow> requests_ok P (bind_task t k)"
  by (induction t) auto

lemma requests_ok_catch:
  "requests_ok P t \<Longrightarrow> (\<And>e. requests_ok P (h e)) \<Longrightarrow> requests_ok P (catch_task t h)"
  by (induction t) auto

lemma requests_ok_finally [simp]: "requests_ok P (finally_task t fin) = requests_ok P t"
  by (induction t) auto

lemma requests_ok_request [simp]: "requests_ok P (request q) = P q"
  by (auto simp: request_def split: sum.splits)

lemma requests_ok_exec:
  "requests_ok P t \<Longrightarrow> exec t reply env n s = (s', tr, out) \<Longrightarrow> list_all P tr"
  by (induction t arbitrary: n s s' tr) (fastforce simp: Let_def split: prod.splits)+

section \<open>Interleaving tasks\<close>

text \<open>A suspended job: the request it waits for and what it does with the answer.\<close>

type_synonym ('s, 'q, 'r, 'e, 'a) job = "'q \<times> ('r \<Rightarrow> ('s, 'q, 'r, 'e, 'a) task)"

primrec advance ::
  "('s, 'q, 'r, 'e, 'a) task \<Rightarrow> 's \<Rightarrow> 's \<times> ('s, 'q, 'r, 'e, 'a) job list" where
  "advance (Return a) s = (s, [])"
| "advance (Raise e) s = (s, [])"
| "advance (Update f t) s = advance t (f s)"
| "advance (Read g) s = advance (g s) s"
| "advance (Await q g) s = (s, [(q, g)])"

inductive machine_step ::
  "('s \<Rightarrow> 's \<Rightarrow> 's) \<Rightarrow> ('s \<Rightarrow> ('s, 'q, 'r, 'e, 'a) task \<Rightarrow> bool)
    \<Rightarrow> 's \<times> ('s, 'q, 'r, 'e, 'a) job list \<Rightarrow> 's \<times> ('s, 'q, 'r, 'e, 'a) job list \<Rightarrow> bool"
  for commit starts where
  start: "starts s t \<Longrightarrow> advance t s = (s', js') \<Longrightarrow>
     machine_step commit starts (s, js) (commit s s', js' @ js)"
| resume: "advance (g r) s = (s', js') \<Longrightarrow>
     machine_step commit starts (s, xs @ (q, g) # ys) (commit s s', xs @ js' @ ys)"

inductive_cases machine_stepE: "machine_step commit starts (s, js) (s', js')"

inductive reachable_from ::
  "('s \<Rightarrow> 's \<Rightarrow> 's) \<Rightarrow> ('s \<Rightarrow> ('s, 'q, 'r, 'e, 'a) task \<Rightarrow> bool) \<Rightarrow> 's
    \<Rightarrow> 's \<times> ('s, 'q, 'r, 'e, 'a) job list \<Rightarrow> bool"
  for commit starts s0 where
  initial: "reachable_from commit starts s0 (s0, [])"
| step: "reachable_from commit starts s0 c \<Longrightarrow> machine_step commit starts c c' \<Longrightarrow>
     reachable_from commit starts s0 c'"

text \<open>
  \<open>safe I t s\<close>: from \<open>s\<close>, every synchronous stretch of the task ends in a state with \<open>I\<close>,
  provided it is resumed in states with \<open>I\<close>.
\<close>

primrec safe :: "('s \<Rightarrow> bool) \<Rightarrow> ('s, 'q, 'r, 'e, 'a) task \<Rightarrow> 's \<Rightarrow> bool" where
  "safe I (Return a) s = I s"
| "safe I (Raise e) s = I s"
| "safe I (Update f t) s = safe I t (f s)"
| "safe I (Read g) s = safe I (g s) s"
| "safe I (Await q g) s = (I s \<and> (\<forall>r s'. I s' \<longrightarrow> safe I (g r) s'))"

definition job_safe :: "('s \<Rightarrow> bool) \<Rightarrow> ('s, 'q, 'r, 'e, 'a) job \<Rightarrow> bool" where
  "job_safe I j \<longleftrightarrow> (\<forall>r s. I s \<longrightarrow> safe I (snd j r) s)"

lemma safe_advance:
  "safe I t s \<Longrightarrow> advance t s = (s', js) \<Longrightarrow> I s' \<and> list_all (job_safe I) js"
  by (induction t arbitrary: s) (auto simp: job_safe_def)

lemma safe_bind:
  "safe I t s \<Longrightarrow> (\<And>a s'. I s' \<Longrightarrow> safe I (k a) s') \<Longrightarrow> safe I (bind_task t k) s"
  by (induction t arbitrary: s) auto

lemma safe_catch:
  "safe I t s \<Longrightarrow> (\<And>e s'. I s' \<Longrightarrow> safe I (h e) s') \<Longrightarrow> safe I (catch_task t h) s"
  by (induction t arbitrary: s) auto

lemma safe_finally:
  "safe I t s \<Longrightarrow> (\<And>s'. I s' \<Longrightarrow> I (fin s')) \<Longrightarrow> safe I (finally_task t fin) s"
  by (induction t arbitrary: s) auto

lemma safe_request [simp]: "safe I (request q) s = I s"
  by (auto simp: request_def split: sum.splits)

text \<open>
  A page whose handlers are safe for an invariant, and whose commit keeps it, has the
  invariant in every state reachable by any interleaving of handlers and answers.
\<close>

locale page_machine =
  fixes commit :: "'s \<Rightarrow> 's \<Rightarrow> 's"
    and starts :: "'s \<Rightarrow> ('s, 'q, 'r, 'e, 'a) task \<Rightarrow> bool"
    and s0 :: 's
    and inv :: "'s \<Rightarrow> bool"
  assumes inv_initial: "inv s0"
    and inv_commit: "inv s \<Longrightarrow> inv s' \<Longrightarrow> inv (commit s s')"
    and inv_starts: "starts s t \<Longrightarrow> inv s \<Longrightarrow> safe inv t s"
begin

lemma step_inv:
  assumes "machine_step commit starts c c'" and "inv (fst c)" and "list_all (job_safe inv) (snd c)"
  shows "inv (fst c') \<and> list_all (job_safe inv) (snd c')"
  using assms
proof (induction rule: machine_step.induct)
  case (start s t s' js' js)
  then have "inv s' \<and> list_all (job_safe inv) js'"
    using safe_advance inv_starts by fastforce
  with start show ?case using inv_commit by simp
next
  case (resume g r s s' js' xs q ys)
  then have "safe inv (g r) s" by (simp add: job_safe_def)
  with resume have "inv s' \<and> list_all (job_safe inv) js'" using safe_advance by fastforce
  with resume show ?case using inv_commit by simp
qed

lemma reachable_inv_jobs:
  "reachable_from commit starts s0 c \<Longrightarrow> inv (fst c) \<and> list_all (job_safe inv) (snd c)"
proof (induction rule: reachable_from.induct)
  case initial
  then show ?case by (simp add: inv_initial)
next
  case (step c c')
  then show ?case using step_inv by blast
qed

lemma reachable_inv: "reachable_from commit starts s0 (s, js) \<Longrightarrow> inv s"
  using reachable_inv_jobs by fastforce

end

end
