(* ===== verification/ApiClient.thy ===== *)
theory ApiClient
  imports ApiTypes Task "HOL-Library.AList"
begin

text \<open>
  Model of \<open>frontend/src/api/client.ts\<close>: the axios client made for the current settings, its
  request interceptor, the envelope the API answers with and the normalisation of every
  failure to an \<open>ApiError\<close>. What axios does with a request is not modelled: a request is
  awaited, and every answer (a response, or a thrown value) is considered.
\<close>

section \<open>Requests and responses\<close>

datatype json =
    JNull | JBool bool | JNum number | JStr string | JArr "json list" | JObj "(string \<times> json) list"

abbreviation JInt :: "int \<Rightarrow> json" where
  "JInt i \<equiv> JNum (Fin (of_int i))"

datatype param_value = PStr string | PNat nat | PTrue

datatype form_value = FormText string | FormJson json | FormFile upload_file string

datatype http_method = GET | POST | PUT | DELETE | HEAD | PATCH

datatype http_data = NoData | JsonData json | FormData "(string \<times> form_value) list" | FileData upload_file

text \<open>
  \<open>AxiosRequestConfig\<close>. A parameter that is undefined is \<open>None\<close> (axios leaves it out of the
  query string); \<open>hc_timeout\<close> overrides the client's; \<open>hc_valid_status\<close> replaces axios's
  test of the response status.
\<close>

record http_config =
  hc_method :: http_method
  hc_url :: string
  hc_params :: "(string \<times> param_value option) list"
  hc_data :: http_data
  hc_headers :: "(string \<times> string) list"
  hc_timeout :: "nat option"
  hc_blob :: bool
  hc_valid_status :: "(int \<Rightarrow> bool) option"

definition http_request :: "http_method \<Rightarrow> string \<Rightarrow> http_config" where
  "http_request m u =
     \<lparr>hc_method = m, hc_url = u, hc_params = [], hc_data = NoData, hc_headers = [],
      hc_timeout = None, hc_blob = False, hc_valid_status = None\<rparr>"

record api_client =
  cl_base_url :: string
  cl_timeout :: nat
  cl_settings :: app_settings

datatype http_io = HttpSend api_client http_config

text \<open>
  A response body is read at the type the caller declares, without a check. \<open>body_reading\<close>
  holds what each of the declared types of the API modules would see of one body.
\<close>

record body_reading =
  as_buckets :: "bucket list"
  as_bucket :: bucket
  as_object :: object_item
  as_objects :: object_list_result
  as_entries :: explorer_entries_result
  as_batch_delete :: delete_batch_result
  as_batch_upload :: batch_upload_result
  as_recycle_list :: recycle_bin_list_result
  as_restore :: restore_result
  as_recycle_delete :: delete_recycle_result
  as_signed :: signed_download_path_result
  as_sites :: "site list"
  as_site :: site
  as_publish :: publish_site_result
  as_health :: health_status_result
  as_stats :: system_stats_result
  as_storage :: system_storage_stats

text \<open>
  \<open>response.data\<close>: the empty string, null, or a value with the members \<open>request_id\<close> and
  \<open>data\<close> (undefined, hence \<open>None\<close>, when the value has no such member).
\<close>

datatype resp_body = EmptyBody | NullBody | Envelope string "body_reading option"

record http_response =
  resp_status :: int
  resp_body :: resp_body
  resp_disposition :: "string option"
  resp_blob :: nat

record 'a envelope =
  env_request_id :: string
  env_data :: "'a option"

type_synonym ('s, 'a) api_task = "('s, http_io, thrown + http_response, thrown, 'a) task"

section \<open>Model\<close>

definition normalizeBaseUrl :: "string \<Rightarrow> string" where
  "normalizeBaseUrl url = strip_trailing_slashes (trim url)"

definition createApiClient :: "app_settings \<Rightarrow> api_client" where
  "createApiClient settings =
     \<lparr>cl_base_url = normalizeBaseUrl (apiBaseUrl settings), cl_timeout = 15000,
      cl_settings = settings\<rparr>"

text \<open>
  The interceptor of the client, on the headers of a request. The second argument is what
  \<open>crypto.randomUUID()\<close> returns, where the browser has it.
\<close>

definition intercept :: "app_settings \<Rightarrow> string option \<Rightarrow> (string \<times> string) list \<Rightarrow> (string \<times> string) list" where
  "intercept settings uuid headers =
     (let authorized =
            (if trim (bearerToken settings) \<noteq> []
             then AList.update ''Authorization'' (''Bearer '' @ trim (bearerToken settings)) headers
             else headers)
      in case uuid of
           Some u \<Rightarrow>
             (if nullish (map_of authorized ''X-Request-ID'') [] = []
              then AList.update ''X-Request-ID'' u authorized else authorized)
         | None \<Rightarrow> authorized)"

definition normalizeApiError :: "thrown \<Rightarrow> api_error" where
  "normalizeApiError error =
     (case error of
        ThrownAxios message _ response \<Rightarrow>
          (let status = nullish (map_option fst response) 500;
               member = (case response of Some (_, ObjectPayload m) \<Rightarrow> m | _ \<Rightarrow> None)
           in \<lparr>err_message = nullish (Option.bind member em_message) message,
               err_status = status, err_code = Option.bind member em_code\<rparr>)
      | ThrownApi a \<Rightarrow> \<lparr>err_message = err_message a, err_status = 500, err_code = None\<rparr>
      | ThrownError message \<Rightarrow> \<lparr>err_message = message, err_status = 500, err_code = None\<rparr>
      | ThrownOther _ \<Rightarrow> \<lparr>err_message = ''Unknown error'', err_status = 500, err_code = None\<rparr>)"

definition http_send :: "api_client \<Rightarrow> http_config \<Rightarrow> ('s, http_response) api_task" where
  "http_send client config = request (HttpSend client config)"

definition apiEnvelopeRequest ::
  "(body_reading \<Rightarrow> 'a) \<Rightarrow> app_settings \<Rightarrow> http_config \<Rightarrow> ('s, 'a envelope option) api_task" where
  "apiEnvelopeRequest as settings config =
     catch_task
       (bind_task (http_send (createApiClient settings) config) (\<lambda>response.
          if resp_status response = 204 \<or> resp_body response = EmptyBody
          then Return (Some \<lparr>env_request_id = [], env_data = None\<rparr>)
          else Return (case resp_body response of
                         Envelope rid d \<Rightarrow> Some \<lparr>env_request_id = rid, env_data = map_option as d\<rparr>
                       | _ \<Rightarrow> None)))
       (\<lambda>error. Raise (ThrownApi (normalizeApiError error)))"

text \<open>\<open>envelope.data\<close>; on a null envelope the member access throws (the engine's own text).\<close>

definition null_data_error :: thrown where
  "null_data_error = ThrownError ''Cannot read properties of null (reading 'data')''"

definition unwrapEnvelope :: "'a envelope option \<Rightarrow> ('s, 'a option) api_task" where
  "unwrapEnvelope e = (case e of None \<Rightarrow> Raise null_data_error | Some v \<Rightarrow> Return (env_data v))"

definition apiRequest ::
  "(body_reading \<Rightarrow> 'a) \<Rightarrow> app_settings \<Rightarrow> http_config \<Rightarrow> ('s, 'a option) api_task" where
  "apiRequest as settings config =
     bind_task (apiEnvelopeRequest as settings config) unwrapEnvelope"

section \<open>Lemmas\<close>

lemma exec_http_send:
  "exec (http_send c q) reply env n s =
     (env n s, [HttpSend c q], case reply n of Inl e \<Rightarrow> Inl e | Inr v \<Rightarrow> Inr v)"
  by (simp add: http_send_def exec_request)

lemma requests_ok_http_send [simp]: "requests_ok P (http_send c q) = P (HttpSend c q)"
  by (simp add: http_send_def)

text \<open>What a caller of \<open>apiRequest\<close> sees of an answer.\<close>

definition api_outcome :: "(body_reading \<Rightarrow> 'a) \<Rightarrow> thrown + http_response \<Rightarrow> thrown + 'a option" where
  "api_outcome as answer =
     (case answer of
        Inl e \<Rightarrow> Inl (ThrownApi (normalizeApiError e))
      | Inr r \<Rightarrow>
          (if resp_status r = 204 then Inr None
           else case resp_body r of
                  EmptyBody \<Rightarrow> Inr None
                | NullBody \<Rightarrow> Inl null_data_error
                | Envelope _ d \<Rightarrow> Inr (map_option as d)))"

lemma exec_apiRequest:
  "exec (apiRequest as settings config) reply env n s =
     (env n s, [HttpSend (createApiClient settings) config], api_outcome as (reply n))"
  by (auto simp: apiRequest_def apiEnvelopeRequest_def unwrapEnvelope_def exec_bind exec_catch
      exec_http_send api_outcome_def split: sum.splits resp_body.splits)

lemma requests_ok_apiRequest [simp]:
  "requests_ok P (apiRequest as settings config) = P (HttpSend (createApiClient settings) config)"
  by (auto simp: apiRequest_def apiEnvelopeRequest_def unwrapEnvelope_def http_send_def request_def
      split: sum.splits option.splits)

lemma map_of_update [simp]: "map_of (AList.update k v al) k' = (if k' = k then Some v else map_of al k')"
  by (simp add: update_conv')

section \<open>Properties\<close>

text \<open>
  The headers a request leaves with. A bearer token is sent exactly when the setting is
  more than white space, without its surrounding blanks, and replaces an Authorization header of the
  request; a request id is added only where there is none; nothing else changes. The base URL
  of the client has no trailing slash, so joining it with a path gives exactly one.
\<close>

theorem intercept_headers:
  "map_of (intercept settings uuid headers) =
     (map_of headers)
       (''Authorization'' :=
          (if trim (bearerToken settings) = [] then map_of headers ''Authorization''
           else Some (''Bearer '' @ trim (bearerToken settings))),
        ''X-Request-ID'' :=
          (case map_of headers ''X-Request-ID'' of
             Some (c # cs) \<Rightarrow> Some (c # cs)
           | old \<Rightarrow> (case uuid of Some u \<Rightarrow> Some u | None \<Rightarrow> old))) \<and>
   \<not> ends_with (cl_base_url (createApiClient settings)) [slash] \<and>
   map_of (intercept settings uuid (intercept settings uuid headers)) ''Authorization'' =
     map_of (intercept settings uuid headers) ''Authorization''"
proof -
  have "\<not> ends_with (strip_trailing_slashes t) [slash]" for t
    using drop_end_last [of "\<lambda>c. c = slash" t]
    by (auto simp: strip_trailing_slashes_def ends_with_iff)
  then show ?thesis
    by (auto simp: intercept_def Let_def createApiClient_def normalizeBaseUrl_def fun_eq_iff nullish_def
        split: option.splits list.splits)
qed

text \<open>
  C10. One API call. It makes exactly one request, with the client of the settings it was
  given, and ends in one of four ways: the data member of the envelope read at the declared
  type; undefined for a 204 or an empty body; the engine's TypeError for a null body; and for
  every thrown value an \<open>ApiError\<close>, which has the status of the response or 500, and the code and message of
  the envelope where it has them, else the message of the error.
\<close>

theorem apiRequest_outcome:
  "exec (apiRequest as settings config) reply env n s =
     (env n s, [HttpSend (createApiClient settings) config], api_outcome as (reply n)) \<and>
   api_outcome as (Inl (ThrownAxios m c (Some (st, ObjectPayload (Some em))))) =
     Inl (ThrownApi \<lparr>err_message = nullish (em_message em) m, err_status = st, err_code = em_code em\<rparr>) \<and>
   api_outcome as (Inl (ThrownAxios m c None)) =
     Inl (ThrownApi \<lparr>err_message = m, err_status = 500, err_code = None\<rparr>) \<and>
   api_outcome as (Inl (ThrownError m)) =
     Inl (ThrownApi \<lparr>err_message = m, err_status = 500, err_code = None\<rparr>) \<and>
   (case api_outcome as (Inr r) of
      Inl e \<Rightarrow> e = null_data_error
    | Inr None \<Rightarrow> resp_status r = 204 \<or> resp_body r = EmptyBody \<or> (\<exists>rid. resp_body r = Envelope rid None)
    | Inr (Some v) \<Rightarrow> \<exists>rid d. resp_body r = Envelope rid (Some d) \<and> v = as d)"
  by (auto simp: exec_apiRequest api_outcome_def normalizeApiError_def
      split: resp_body.splits option.splits sum.splits)

end
