(* ===== verification/UrlCodec.thy ===== *)
theory UrlCodec
  imports JsNumber
begin

text \<open>
  \<open>encodeURIComponent\<close> and \<open>decodeURIComponent\<close>, and the encoders of
  \<open>frontend/src/api/objects.ts\<close> built on them. A code unit below 128 is one UTF-8 byte, one
  from 128 to 255 is two, so on the strings of the model the encoder never throws.

  The locale \<open>segment_codec\<close> states what a path encoder relies on: an encoder of single
  segments that can be undone and never produces the separator. Its lemma is that encoding
  segment by segment keeps whole keys apart. It is interpreted on the encoder of the source.
\<close>

section \<open>Percent encoding\<close>

definition unreserved :: "char \<Rightarrow> bool" where
  "unreserved c \<longleftrightarrow>
     (let n = (of_char c :: nat)
      in (65 \<le> n \<and> n \<le> 90) \<or> (97 \<le> n \<and> n \<le> 122) \<or> (48 \<le> n \<and> n \<le> 57)
         \<or> c \<in> set ''-_.!~*()'' \<or> c = CHR 0x27)"

definition hex_digit :: "nat \<Rightarrow> char" where
  "hex_digit d = (if d < 10 then char_of (48 + d) else char_of (55 + d))"

definition percent :: "nat \<Rightarrow> string" where
  "percent b = [CHR 0x25, hex_digit (b div 16), hex_digit (b mod 16)]"

definition encode_char :: "char \<Rightarrow> string" where
  "encode_char c =
     (if unreserved c then [c]
      else (let n = (of_char c :: nat)
            in if n < 128 then percent n
               else percent (192 + n div 64) @ percent (128 + n mod 64)))"

definition encodeURIComponent :: "string \<Rightarrow> string" where
  "encodeURIComponent s = concat (map encode_char s)"

text \<open>
  \<open>decodeURIComponent\<close>: \<open>None\<close> where it throws a URIError. Two-byte sequences that do not
  encode a code unit below 256 are outside the strings of the model, and are \<open>None\<close> as well.
\<close>

definition hex_byte :: "char \<Rightarrow> char \<Rightarrow> nat option" where
  "hex_byte a b =
     (case (hex_value a, hex_value b) of (Some x, Some y) \<Rightarrow> Some (16 * x + y) | _ \<Rightarrow> None)"

fun decodeURIComponent :: "string \<Rightarrow> string option" where
  "decodeURIComponent [] = Some []"
| "decodeURIComponent (c # s) =
     (if c \<noteq> CHR 0x25 then map_option ((#) c) (decodeURIComponent s)
      else (case s of
              a # b # t \<Rightarrow>
                (case hex_byte a b of
                   None \<Rightarrow> None
                 | Some n \<Rightarrow>
                     if n < 128 then map_option ((#) (char_of n)) (decodeURIComponent t)
                     else if 194 \<le> n \<and> n \<le> 195 then
                       (case t of
                          p # a' # b' # u \<Rightarrow>
                            (case hex_byte a' b' of
                               None \<Rightarrow> None
                             | Some m \<Rightarrow>
                                 if p = CHR 0x25 \<and> 128 \<le> m \<and> m \<le> 191
                                 then map_option ((#) (char_of ((n - 192) * 64 + (m - 128))))
                                        (decodeURIComponent u)
                                 else None)
                        | _ \<Rightarrow> None)
                     else None)
            | _ \<Rightarrow> None))"

lemma hex_value_hex_digit [simp]: "d < 16 \<Longrightarrow> hex_value (hex_digit d) = Some d"
  by (auto simp: hex_value_def hex_digit_def Let_def)

lemma hex_byte_digits [simp]: "n < 256 \<Longrightarrow> hex_byte (hex_digit (n div 16)) (hex_digit (n mod 16)) = Some n"
  by (simp add: hex_byte_def)

lemma percent_not_unreserved: "\<not> unreserved (CHR 0x25)"
  by (simp add: unreserved_def)

lemma of_char_bytes:
  "192 + (of_char c :: nat) div 64 < 256" "128 + (of_char c :: nat) mod 64 < 256"
  "(of_char c :: nat) < 256"
proof -
  show lt: "(of_char c :: nat) < 256" using nat_of_char_less_256 by simp
  have "(of_char c :: nat) div 64 < 4" by (rule less_mult_imp_div_less) (use lt in simp)
  then show "192 + (of_char c :: nat) div 64 < 256" by linarith
  have "(of_char c :: nat) mod 64 < 64" by simp
  then show "128 + (of_char c :: nat) mod 64 < 256" by linarith
qed

lemma decode_percent_ascii:
  "n < 128 \<Longrightarrow> decodeURIComponent (percent n @ s) = map_option ((#) (char_of n)) (decodeURIComponent s)"
  by (simp add: percent_def)

lemma decode_percent_pair:
  assumes "128 \<le> n" "n < (256 :: nat)"
  shows "decodeURIComponent (percent (192 + n div 64) @ percent (128 + n mod 64) @ s) =
    map_option ((#) (char_of n)) (decodeURIComponent s)"
proof -
  from assms have b: "192 + n div 64 < 256" "128 + n mod 64 < 256"
    "194 \<le> 192 + n div 64" "192 + n div 64 \<le> 195" by auto
  have "(192 + n div 64 - 192) * 64 + (128 + n mod 64 - 128) = n" by simp
  moreover have "n mod 64 \<le> 63" by simp
  ultimately show ?thesis using b by (simp add: percent_def)
qed

lemma decode_encode_char:
  "decodeURIComponent (encode_char c @ s) = map_option ((#) c) (decodeURIComponent s)"
proof (cases "unreserved c")
  case True
  then show ?thesis using percent_not_unreserved by (auto simp: encode_char_def)
next
  case False
  then show ?thesis
    using decode_percent_ascii [of "of_char c" s] decode_percent_pair [of "of_char c" s]
    by (auto simp: encode_char_def Let_def)
qed

lemma decode_encode [simp]: "decodeURIComponent (encodeURIComponent s) = Some s"
  by (induction s) (simp_all add: encodeURIComponent_def decode_encode_char)

text \<open>The characters an encoded string can contain.\<close>

definition encoded_char :: "char \<Rightarrow> bool" where
  "encoded_char c \<longleftrightarrow> unreserved c \<or> c = CHR 0x25"

lemma hex_digit_unreserved: "d < 16 \<Longrightarrow> unreserved (hex_digit d)"
  by (auto simp: hex_digit_def unreserved_def Let_def)

lemma percent_encoded: "n < 256 \<Longrightarrow> c \<in> set (percent n) \<Longrightarrow> encoded_char c"
  by (auto simp: percent_def encoded_char_def intro: hex_digit_unreserved)

lemma encode_char_encoded: "c \<in> set (encode_char d) \<Longrightarrow> encoded_char c"
proof (cases "unreserved d")
  case False
  assume c: "c \<in> set (encode_char d)"
  from False c show ?thesis
    using of_char_bytes [of d]
    by (auto simp only: encode_char_def Let_def set_append Un_iff if_False split: if_splits
        intro: percent_encoded)
qed (auto simp: encode_char_def encoded_char_def)

lemma encodeURIComponent_encoded: "c \<in> set (encodeURIComponent s) \<Longrightarrow> encoded_char c"
  by (auto simp: encodeURIComponent_def dest: encode_char_encoded)

lemma slash_not_encoded [simp]: "\<not> encoded_char slash"
  by (simp add: encoded_char_def unreserved_def slash_def)

section \<open>Encoders of objects.ts\<close>

definition dot :: char where
  "dot = CHR ''.''"

definition encodeObjectKeySegment :: "string \<Rightarrow> string" where
  "encodeObjectKeySegment segment =
     concat (map (\<lambda>c. if c = dot then ''%2E'' else [c]) (encodeURIComponent segment))"

definition encodeObjectKey :: "string \<Rightarrow> string" where
  "encodeObjectKey objectKey = join [slash] (map encodeObjectKeySegment (split_on slash objectKey))"

definition encodeHeaderFilename :: "string \<Rightarrow> string" where
  "encodeHeaderFilename filename = encodeURIComponent filename"

text \<open>Replacing dots by their escapes does not change what the text decodes to.\<close>

definition escape_dots :: "string \<Rightarrow> string" where
  "escape_dots s = concat (map (\<lambda>c. if c = dot then ''%2E'' else [c]) s)"

lemma escape_dots_append [simp]: "escape_dots (s @ t) = escape_dots s @ escape_dots t"
  by (simp add: escape_dots_def)

lemma escape_dots_id: "dot \<notin> set s \<Longrightarrow> escape_dots s = s"
  by (induction s) (auto simp: escape_dots_def)

lemma hex_digit_not_dot: "d < 16 \<Longrightarrow> hex_digit d \<noteq> dot"
  using hex_value_hex_digit [of d] by (auto simp: dot_def hex_value_def)

lemma dot_not_in_percent:
  assumes "n < 256"
  shows "dot \<notin> set (percent n)"
proof -
  have "hex_digit (n div 16) \<noteq> dot" "hex_digit (n mod 16) \<noteq> dot"
    by (rule hex_digit_not_dot, use assms in simp)+
  then show ?thesis by (simp add: percent_def eq_commute [of dot]) (simp add: dot_def)
qed

lemma percent_46: "percent 46 = ''%2E''"
  by code_simp

lemma char_of_46: "char_of (46 :: nat) = dot"
  by code_simp

lemma decode_escape_dots_char:
  "decodeURIComponent (escape_dots (encode_char c) @ s) = map_option ((#) c) (decodeURIComponent s)"
proof (cases "c = dot")
  case True
  then have "escape_dots (encode_char c) = percent 46"
    by (simp add: encode_char_def unreserved_def dot_def escape_dots_def percent_46)
  with True show ?thesis using decode_percent_ascii [of 46 s] by (simp add: char_of_46)
next
  case False
  have "dot \<notin> set (percent (192 + of_char c div 64))" "dot \<notin> set (percent (128 + of_char c mod 64))"
    "dot \<notin> set (percent (of_char c))"
    by (intro dot_not_in_percent of_char_bytes)+
  with False have "dot \<notin> set (encode_char c)" by (auto simp: encode_char_def Let_def)
  then show ?thesis by (simp add: escape_dots_id decode_encode_char)
qed

lemma decode_encodeObjectKeySegment [simp]:
  "decodeURIComponent (encodeObjectKeySegment s) = Some s"
proof -
  have "decodeURIComponent (escape_dots (concat (map encode_char s))) = Some s"
    by (induction s) (simp_all add: escape_dots_def [of "[]"] decode_escape_dots_char)
  then show ?thesis
    by (simp add: encodeObjectKeySegment_def encodeURIComponent_def escape_dots_def)
qed

lemma encodeObjectKeySegment_chars:
  "c \<in> set (encodeObjectKeySegment s) \<Longrightarrow> encoded_char c \<and> c \<noteq> dot"
  by (auto simp: encodeObjectKeySegment_def dest: encodeURIComponent_encoded split: if_splits)
     (auto simp: encoded_char_def unreserved_def dot_def)

section \<open>Codecs of path segments\<close>

locale segment_codec =
  fixes enc :: "string \<Rightarrow> string"
    and dec :: "string \<Rightarrow> string option"
    and sep :: char
  assumes dec_enc: "dec (enc s) = Some s"
    and sep_free: "sep \<notin> set (enc s)"
begin

lemma enc_inject: "enc s = enc t \<longleftrightarrow> s = t"
  by (metis dec_enc option.inject)

lemma segments_recovered:
  "map (\<lambda>x. the (dec x)) (split_on sep (join [sep] (map enc (split_on sep s)))) = split_on sep s"
proof -
  have "split_on sep (join [sep] (map enc (split_on sep s))) = map enc (split_on sep s)"
    by (rule split_join) (auto simp: sep_free)
  then show ?thesis by (simp add: dec_enc o_def)
qed

lemma path_recovered:
  "join [sep] (map (\<lambda>x. the (dec x)) (split_on sep (join [sep] (map enc (split_on sep s))))) = s"
  by (simp add: segments_recovered)

lemma path_inject:
  "join [sep] (map enc (split_on sep s)) = join [sep] (map enc (split_on sep t)) \<longleftrightarrow> s = t"
  by (metis path_recovered)

end

interpretation object_key: segment_codec encodeObjectKeySegment decodeURIComponent slash
  by unfold_locales (auto dest: encodeObjectKeySegment_chars)

section \<open>Properties\<close>

text \<open>
  C6. Two different object keys are never encoded to the same URL path, decoding the path
  segment by segment gives the key back, and no character of the encoded key is a dot: a
  segment \<open>.\<close> or \<open>..\<close> of a key never appears as a dot segment of the URL.
\<close>

theorem encodeObjectKey_safe:
  "(encodeObjectKey s = encodeObjectKey t \<longleftrightarrow> s = t)
   \<and> join [slash] (map (\<lambda>x. the (decodeURIComponent x)) (split_on slash (encodeObjectKey s))) = s
   \<and> (\<forall>c. c \<in> set (encodeObjectKey s) \<longrightarrow> c \<noteq> dot \<and> (encoded_char c \<or> c = slash))"
proof -
  have "c \<in> set (join [slash] xs) \<Longrightarrow> c = slash \<or> (\<exists>x \<in> set xs. c \<in> set x)" for c xs
    by (induction xs) (auto simp: join_Cons, metis append_Nil2 join.simps(2) join_Cons Un_iff
        set_append set_ConsD empty_iff list.set(1))
  then have "c \<in> set (encodeObjectKey s) \<Longrightarrow> c = slash \<or> (encoded_char c \<and> c \<noteq> dot)" for c
    unfolding encodeObjectKey_def by (fastforce dest: encodeObjectKeySegment_chars)
  moreover have "slash \<noteq> dot" by (simp add: slash_def dot_def)
  ultimately show ?thesis
    using object_key.path_inject object_key.path_recovered
    unfolding encodeObjectKey_def by metis
qed

theorem encodeObjectKey_safe_witness:
  "encodeObjectKey ''a/../b'' \<noteq> encodeObjectKey ''b'' \<and> dot \<notin> set (encodeObjectKey ''a/../b'')"
  using encodeObjectKey_safe [of "''a/../b''" "''b''"] by auto

end
