(* ===== verification/ExplorerPath.thy ===== *)
theory ExplorerPath
  imports JsNumber "HOL-Library.Sublist"
begin

text \<open>
  Model of \<open>frontend/src/lib/explorer.ts\<close>: normalisation of the explorer's URL parameters,
  the sort cycle of a column header and the folder-path algebra (breadcrumbs, parent, join,
  ancestor). The abstract view of a folder prefix is its list of segments
  (\<open>folder_prefix\<close>); the lemmas show that each string operation is the operation on
  segment lists it stands for.
\<close>

section \<open>Page sizes and sort parameters\<close>

definition explorerPageSizes :: "nat list" where
  "explorerPageSizes = [10, 20, 50, 100, 200]"

datatype sort_by = ByName | BySize | ByCreatedAt
datatype sort_order = Asc | Desc

primrec sort_by_value :: "sort_by \<Rightarrow> string" where
  "sort_by_value ByName = ''name''"
| "sort_by_value BySize = ''size''"
| "sort_by_value ByCreatedAt = ''created_at''"

primrec sort_order_value :: "sort_order \<Rightarrow> string" where
  "sort_order_value Asc = ''asc''"
| "sort_order_value Desc = ''desc''"

definition explorerSortByValues :: "sort_by list" where
  "explorerSortByValues = [ByName, BySize, ByCreatedAt]"

definition explorerSortOrderValues :: "sort_order list" where
  "explorerSortOrderValues = [Asc, Desc]"

definition normalizeExplorerSearch :: "string option \<Rightarrow> string" where
  "normalizeExplorerSearch value = trim (nullish value [])"

definition parseExplorerLimit :: "string option \<Rightarrow> nat" where
  "parseExplorerLimit value =
     (let limit = js_Number (nullish value [])
      in case array_find (\<lambda>n. Fin (of_nat n) = limit) explorerPageSizes of
           Some n \<Rightarrow> n | None \<Rightarrow> 20)"

definition normalizeExplorerSortBy :: "string option \<Rightarrow> sort_by option" where
  "normalizeExplorerSortBy value =
     array_find (\<lambda>k. Some (sort_by_value k) = value) explorerSortByValues"

definition normalizeExplorerSortOrder :: "string option \<Rightarrow> sort_order option" where
  "normalizeExplorerSortOrder value =
     array_find (\<lambda>k. Some (sort_order_value k) = value) explorerSortOrderValues"

definition getNextExplorerSort ::
  "sort_by option \<Rightarrow> sort_order option \<Rightarrow> sort_by \<Rightarrow> sort_by option \<times> sort_order option" where
  "getNextExplorerSort currentSortBy currentSortOrder targetSortBy =
     (if currentSortBy \<noteq> Some targetSortBy then (Some targetSortBy, Some Asc)
      else if currentSortOrder = Some Asc then (Some targetSortBy, Some Desc)
      else (None, None))"

lemma normalizeExplorerSortBy_value [simp]:
  "normalizeExplorerSortBy (Some (sort_by_value k)) = Some k"
  by (cases k) (simp_all add: normalizeExplorerSortBy_def explorerSortByValues_def)

lemma normalizeExplorerSortOrder_value [simp]:
  "normalizeExplorerSortOrder (Some (sort_order_value k)) = Some k"
  by (cases k) (simp_all add: normalizeExplorerSortOrder_def explorerSortOrderValues_def)

lemma sort_by_value_not_Nil [simp]: "sort_by_value k \<noteq> []"
  by (cases k) simp_all

lemma sort_order_value_not_Nil [simp]: "sort_order_value k \<noteq> []"
  by (cases k) simp_all

lemma parseExplorerLimit_in: "parseExplorerLimit value \<in> set explorerPageSizes"
  by (auto simp: parseExplorerLimit_def Let_def explorerPageSizes_def split: option.splits
      dest!: array_find_SomeD)

lemma parseExplorerLimit_printed:
  "n \<in> set explorerPageSizes \<Longrightarrow> parseExplorerLimit (Some (nat_digits n)) = n"
proof -
  assume "n \<in> set explorerPageSizes"
  then consider "n = 10" | "n = 20" | "n = 50" | "n = 100" | "n = 200"
    by (auto simp: explorerPageSizes_def)
  then show ?thesis
    by cases (simp; code_simp)+
qed

section \<open>Folder prefixes\<close>

definition normalizeExplorerPrefix :: "string option \<Rightarrow> string" where
  "normalizeExplorerPrefix value =
     (let trimmed = strip_trailing_slashes (strip_leading_slashes (trim (nullish value [])))
      in if trimmed \<noteq> [] then trimmed @ [slash] else [])"

record breadcrumb =
  bc_label :: string
  bc_prefix :: string

definition getExplorerBreadcrumbs :: "string \<Rightarrow> breadcrumb list" where
  "getExplorerBreadcrumbs pre =
     (let normalized = normalizeExplorerPrefix (Some pre)
      in if normalized = [] then []
         else (let segments = filter_truthy (split_on slash normalized)
               in map (\<lambda>(segment, index).
                        \<lparr>bc_label = segment,
                         bc_prefix = join [slash] (take (index + 1) segments) @ [slash]\<rparr>)
                      (zip segments [0..<length segments])))"

definition getParentExplorerPrefix :: "string \<Rightarrow> string" where
  "getParentExplorerPrefix pre =
     (let normalized = normalizeExplorerPrefix (Some pre)
      in if normalized = [] then []
         else (let segments = filter_truthy (split_on slash normalized)
               in if length segments \<le> 1 then []
                  else join [slash] (butlast segments) @ [slash]))"

definition joinExplorerPath :: "string \<Rightarrow> string \<Rightarrow> string" where
  "joinExplorerPath pre name =
     (let normalizedPrefix = normalizeExplorerPrefix (Some pre);
          normalizedName = strip_trailing_slashes (strip_leading_slashes (trim name))
      in if normalizedName \<noteq> [] then normalizedPrefix @ normalizedName else normalizedPrefix)"

definition isExplorerPrefixAncestor :: "string \<Rightarrow> string \<Rightarrow> bool" where
  "isExplorerPrefixAncestor ancestor current =
     (let normalizedAncestor = normalizeExplorerPrefix (Some ancestor);
          normalizedCurrent = normalizeExplorerPrefix (Some current)
      in if normalizedAncestor = [] then True
         else starts_with normalizedCurrent normalizedAncestor)"

section \<open>The abstract view: segment lists\<close>

definition folder_prefix :: "string list \<Rightarrow> string" where
  "folder_prefix segs = (if segs = [] then [] else join [slash] segs @ [slash])"

definition plain_segment :: "string \<Rightarrow> bool" where
  "plain_segment s \<longleftrightarrow> s \<noteq> [] \<and> slash \<notin> set s"

definition plain_path :: "string list \<Rightarrow> bool" where
  "plain_path segs \<longleftrightarrow>
     (\<forall>s \<in> set segs. plain_segment s) \<and> (segs \<noteq> [] \<longrightarrow> \<not> is_space (hd (hd segs)))"

lemma folder_prefix_Nil [simp]: "folder_prefix [] = []"
  by (simp add: folder_prefix_def)

lemma folder_prefix_Nil_iff [simp]: "folder_prefix segs = [] \<longleftrightarrow> segs = []"
  by (simp add: folder_prefix_def)

lemma folder_prefix_snoc: "folder_prefix (segs @ [s]) = folder_prefix segs @ s @ [slash]"
  by (cases "segs = []") (simp_all add: folder_prefix_def join_snoc)

lemma folder_prefix_append: "folder_prefix (xs @ ys) = folder_prefix xs @ folder_prefix ys"
proof (induction ys rule: rev_induct)
  case (snoc y ys)
  then show ?case by (simp add: folder_prefix_snoc flip: append_assoc)
qed simp

lemma folder_prefix_Cons: "folder_prefix (x # xs) = x @ slash # folder_prefix xs"
  using folder_prefix_append [of "[x]" xs] by (simp add: folder_prefix_def)

lemma plain_path_butlast: "plain_path segs \<Longrightarrow> plain_path (butlast segs)"
  by (cases segs) (auto simp: plain_path_def dest: in_set_butlastD)

lemma plain_path_take: "plain_path segs \<Longrightarrow> plain_path (take n segs)"
  by (cases segs; cases n) (auto simp: plain_path_def dest: in_set_takeD)

text \<open>Every nonempty result is a nonempty core without slashes at its ends, and a slash.\<close>

lemma normalizeExplorerPrefix_shape:
  obtains (root) "normalizeExplorerPrefix v = []"
  | (folder) core where "normalizeExplorerPrefix v = core @ [slash]" and "core \<noteq> []"
      and "hd core \<noteq> slash" and "last core \<noteq> slash"
proof -
  let ?lead = "strip_leading_slashes (trim (nullish v []))"
  let ?core = "strip_trailing_slashes ?lead"
  have "?core = [] \<or> last ?core \<noteq> slash"
    unfolding strip_trailing_slashes_def by (rule drop_end_last)
  moreover have "hd ?core \<noteq> slash" if ne: "?core \<noteq> []"
  proof -
    from ne have "?lead \<noteq> []" by (auto simp: strip_trailing_slashes_def)
    then have "hd ?lead \<noteq> slash"
      using dropWhile_hd [of "\<lambda>c. c = slash"] by (auto simp: strip_leading_slashes_def)
    moreover have "hd ?core = hd ?lead"
      using ne unfolding strip_trailing_slashes_def by (rule hd_drop_end)
    ultimately show ?thesis by simp
  qed
  ultimately show ?thesis
    using that by (cases "?core = []") (auto simp: normalizeExplorerPrefix_def Let_def)
qed

lemma trim_snoc_nonspace: "\<not> is_space c \<Longrightarrow> trim (s @ [c]) = dropWhile is_space s @ [c]"
proof -
  assume c: "\<not> is_space c"
  have "dropWhile is_space (s @ [c]) = dropWhile is_space s @ [c]"
    using c by (induction s) auto
  with c show ?thesis by (simp add: trim_def trim_start_def trim_end_def)
qed

lemma strip_trailing_snoc [simp]:
  "strip_trailing_slashes (s @ [slash]) = strip_trailing_slashes s"
  by (simp add: strip_trailing_slashes_def)

lemma normalizeExplorerPrefix_core:
  assumes "core \<noteq> []" "hd core \<noteq> slash" "last core \<noteq> slash" "\<not> is_space (hd core)"
  shows "normalizeExplorerPrefix (Some (core @ [slash])) = core @ [slash]"
proof -
  have "trim (core @ [slash]) = core @ [slash]"
    using assms by (simp add: trim_snoc_nonspace dropWhile_id)
  moreover have "strip_leading_slashes (core @ [slash]) = core @ [slash]"
    using assms(1,2) by (cases core) (auto simp: strip_leading_slashes_def)
  moreover have "strip_trailing_slashes core = core"
    using assms(3) by (simp add: strip_trailing_slashes_def drop_end_id)
  ultimately show ?thesis using assms(1) by (simp add: normalizeExplorerPrefix_def)
qed

lemma length_strip_le: "length (strip_trailing_slashes (strip_leading_slashes s)) \<le> length s"
proof -
  have "length (drop_end p t) \<le> length t" for p :: "char \<Rightarrow> bool" and t
    by (simp add: drop_end_def) (metis length_dropWhile_le length_rev)
  then show ?thesis
    unfolding strip_trailing_slashes_def strip_leading_slashes_def
    by (meson length_dropWhile_le order_trans)
qed

lemma normalizeExplorerPrefix_loses_space:
  assumes "core \<noteq> []" "is_space (hd core)"
  shows "normalizeExplorerPrefix (Some (core @ [slash])) \<noteq> core @ [slash]"
proof
  let ?t = "dropWhile is_space core"
  let ?r = "strip_trailing_slashes (strip_leading_slashes (?t @ [slash]))"
  assume eq: "normalizeExplorerPrefix (Some (core @ [slash])) = core @ [slash]"
  have "trim (core @ [slash]) = ?t @ [slash]" by (simp add: trim_snoc_nonspace)
  with eq have r: "?r = core"
    by (simp add: normalizeExplorerPrefix_def Let_def split: if_splits)
  have "length ?t < length core"
    using assms by (cases core) (auto simp: less_Suc_eq_le length_dropWhile_le)
  moreover have "?r = strip_trailing_slashes (strip_leading_slashes ?t)"
  proof (cases "\<forall>c \<in> set ?t. c = slash")
    case True
    then have "dropWhile (\<lambda>c. c = slash) (?t @ [slash]) = []" by (simp add: dropWhile_eq_Nil_conv)
    moreover have "dropWhile (\<lambda>c. c = slash) ?t = []"
      using True by (simp only: dropWhile_eq_Nil_conv)
    ultimately show ?thesis
      unfolding strip_leading_slashes_def by metis
  next
    case False
    then have "dropWhile (\<lambda>c. c = slash) (?t @ [slash]) = dropWhile (\<lambda>c. c = slash) ?t @ [slash]"
      by (auto intro: dropWhile_append1)
    then show ?thesis by (simp add: strip_leading_slashes_def)
  qed
  ultimately show False using r length_strip_le [of ?t] by simp
qed

lemma join_segments_edges:
  assumes "segs \<noteq> []" "\<forall>s \<in> set segs. plain_segment s"
  shows "join [slash] segs \<noteq> [] \<and> hd (join [slash] segs) = hd (hd segs)
    \<and> last (join [slash] segs) = last (last segs)"
  using assms
proof (induction segs)
  case (Cons x xs)
  show ?case
  proof (cases "xs = []")
    case True
    with Cons.prems show ?thesis by (simp add: plain_segment_def)
  next
    case False
    with Cons have "join [slash] xs \<noteq> []" "last (join [slash] xs) = last (last xs)" by auto
    with False Cons.prems show ?thesis
      by (auto simp: join_Cons plain_segment_def last_append)
  qed
qed simp

lemma normalizeExplorerPrefix_Nil [simp]: "normalizeExplorerPrefix (Some []) = []"
  by (simp add: normalizeExplorerPrefix_def strip_leading_slashes_def strip_trailing_slashes_def)

lemma normalize_folder_prefix [simp]:
  assumes "plain_path segs"
  shows "normalizeExplorerPrefix (Some (folder_prefix segs)) = folder_prefix segs"
proof (cases "segs = []")
  case True
  then show ?thesis
    by (simp add: normalizeExplorerPrefix_def strip_leading_slashes_def strip_trailing_slashes_def)
next
  case False
  with assms have segs: "\<forall>s \<in> set segs. plain_segment s" "\<not> is_space (hd (hd segs))"
    by (auto simp: plain_path_def)
  have "plain_segment (hd segs)" "plain_segment (last segs)"
    using False segs(1) by simp_all
  then have "hd (hd segs) \<noteq> slash" "last (last segs) \<noteq> slash"
    unfolding plain_segment_def by (metis hd_in_set last_in_set)+
  with False segs show ?thesis
    by (simp add: folder_prefix_def normalizeExplorerPrefix_core join_segments_edges)
qed

lemma segments_folder_prefix:
  assumes "segs \<noteq> []" "\<forall>s \<in> set segs. plain_segment s"
  shows "filter_truthy (split_on slash (folder_prefix segs)) = segs"
proof -
  have "split_on slash (join [slash] segs) = segs"
    using assms by (intro split_join) (auto simp: plain_segment_def)
  moreover have "filter_truthy segs = segs"
    using assms(2) by (intro filter_truthy_id) (auto simp: plain_segment_def)
  ultimately show ?thesis
    using assms(1) by (simp add: folder_prefix_def split_on_snoc_sep) (simp add: filter_truthy_def)
qed

lemma plain_path_segments: "plain_path segs \<Longrightarrow> \<forall>s \<in> set segs. plain_segment s"
  by (simp add: plain_path_def)

lemma starts_with_folder_prefix:
  assumes "\<forall>s \<in> set xs. plain_segment s" "\<forall>s \<in> set ys. plain_segment s"
  shows "starts_with (folder_prefix ys) (folder_prefix xs) \<longleftrightarrow> prefix xs ys"
  using assms
proof (induction xs arbitrary: ys)
  case (Cons x xs)
  show ?case
  proof (cases ys)
    case Nil
    then show ?thesis by (simp add: starts_with_iff folder_prefix_Cons)
  next
    case (Cons y ys')
    have x: "slash \<notin> set x" and y: "slash \<notin> set y"
      using Cons.prems Cons by (auto simp: plain_segment_def)
    have "starts_with (folder_prefix (y # ys')) (folder_prefix (x # xs)) \<longleftrightarrow>
        x = y \<and> starts_with (folder_prefix ys') (folder_prefix xs)" (is "?l \<longleftrightarrow> ?r")
    proof
      assume ?l
      then obtain t where "y @ slash # folder_prefix ys' = x @ slash # (folder_prefix xs @ t)"
        by (auto simp: starts_with_iff folder_prefix_Cons)
      then have "y = x \<and> folder_prefix ys' = folder_prefix xs @ t"
        by (rule append_sep_eq [OF y x, THEN iffD1])
      then show ?r by (auto simp: starts_with_iff)
    next
      assume ?r
      then show ?l by (auto simp: starts_with_iff folder_prefix_Cons)
    qed
    then show ?thesis using Cons Cons.IH [of ys'] Cons.prems by auto
  qed
qed simp

lemma getParent_path:
  assumes "plain_path segs"
  shows "getParentExplorerPrefix (folder_prefix segs) = folder_prefix (butlast segs)"
proof (cases "segs = []")
  case False
  have "filter_truthy (split_on slash (folder_prefix segs)) = segs"
    using False assms by (intro segments_folder_prefix) (auto dest: plain_path_segments)
  moreover have "butlast segs = [] \<longleftrightarrow> length segs \<le> 1"
    using False by (cases segs rule: rev_cases) auto
  ultimately show ?thesis using False assms
    by (simp add: getParentExplorerPrefix_def Let_def) (simp add: folder_prefix_def)
qed (simp add: getParentExplorerPrefix_def)

lemma join_path:
  assumes "plain_path segs" and "plain_segment name" and "trimmed name"
  shows "joinExplorerPath (folder_prefix segs) name = folder_prefix segs @ name"
proof -
  have "name \<noteq> []" "hd name \<noteq> slash" "last name \<noteq> slash"
    using assms(2) unfolding plain_segment_def by (metis hd_in_set last_in_set)+
  then have "strip_trailing_slashes (strip_leading_slashes (trim name)) = name"
    using assms(3)
    by (simp add: trim_id strip_leading_slashes_def strip_trailing_slashes_def dropWhile_id
        drop_end_id)
  with \<open>name \<noteq> []\<close> assms(1) show ?thesis by (simp add: joinExplorerPath_def)
qed

lemma ancestor_path:
  assumes "plain_path segs" and "plain_path segs'"
  shows "isExplorerPrefixAncestor (folder_prefix segs) (folder_prefix segs') \<longleftrightarrow> prefix segs segs'"
  using assms starts_with_folder_prefix [of segs segs']
  by (auto simp: isExplorerPrefixAncestor_def dest: plain_path_segments)

section \<open>Properties\<close>

text \<open>
  C21. Normalising a prefix twice gives the same prefix exactly when the first result does not
  begin with white space: the trimming happens before the slashes are stripped, so a folder
  whose first segment starts with a space is not a fixed point and is renamed by the next
  normalisation.
\<close>

theorem normalizeExplorerPrefix_idempotent_iff:
  "normalizeExplorerPrefix (Some (normalizeExplorerPrefix v)) = normalizeExplorerPrefix v \<longleftrightarrow>
     \<not> (normalizeExplorerPrefix v \<noteq> [] \<and> is_space (hd (normalizeExplorerPrefix v)))"
proof (cases rule: normalizeExplorerPrefix_shape [of v])
  case root
  then show ?thesis
    by (simp add: normalizeExplorerPrefix_def strip_leading_slashes_def strip_trailing_slashes_def)
next
  case (folder core)
  then show ?thesis
    using normalizeExplorerPrefix_core [of core] normalizeExplorerPrefix_loses_space [of core] by auto
qed

text \<open>
  On the prefix of a path of plain segments, the breadcrumbs are the path's segments in
  order, each linking to the prefix of the path up to and including it.
\<close>

theorem getExplorerBreadcrumbs_path:
  assumes "plain_path segs"
  shows "getExplorerBreadcrumbs (folder_prefix segs) =
    map (\<lambda>i. \<lparr>bc_label = segs ! i, bc_prefix = folder_prefix (take (Suc i) segs)\<rparr>) [0..<length segs]"
proof (cases "segs = []")
  case True
  then show ?thesis by (simp add: getExplorerBreadcrumbs_def)
next
  case False
  have "filter_truthy (split_on slash (folder_prefix segs)) = segs"
    using False assms by (intro segments_folder_prefix) (auto dest: plain_path_segments)
  then have "getExplorerBreadcrumbs (folder_prefix segs) =
      map (\<lambda>(segment, index).
            \<lparr>bc_label = segment, bc_prefix = join [slash] (take (index + 1) segs) @ [slash]\<rparr>)
          (zip segs [0..<length segs])"
    using False assms by (simp add: getExplorerBreadcrumbs_def Let_def)
  also have "\<dots> = map (\<lambda>i. \<lparr>bc_label = segs ! i, bc_prefix = folder_prefix (take (Suc i) segs)\<rparr>)
      [0..<length segs]"
    by (rule nth_equalityI) (use False in \<open>auto simp: folder_prefix_def\<close>)
  finally show ?thesis .
qed

theorem getExplorerBreadcrumbs_path_witness:
  "plain_path [''a'', ''b''] \<and>
   getExplorerBreadcrumbs (folder_prefix [''a'', ''b'']) =
     [\<lparr>bc_label = ''a'', bc_prefix = ''a/''\<rparr>, \<lparr>bc_label = ''b'', bc_prefix = ''a/b/''\<rparr>]"
proof -
  have p: "plain_path [''a'', ''b'']"
    by (simp add: plain_path_def plain_segment_def slash_def is_space_def)
  show ?thesis
    using p getExplorerBreadcrumbs_path [OF p]
    by (simp add: folder_prefix_def slash_def upt_rec numeral_2_eq_2)
qed

text \<open>
  The parent of the prefix of a path is the prefix of the path without its last segment;
  joining a name to it gives the path with the name appended; and one prefix is an ancestor of
  another exactly when its segment list is a prefix of the other's.
\<close>

theorem explorer_path_algebra:
  assumes "plain_path segs" and "plain_path segs'" and "plain_segment name" and "trimmed name"
  shows "getParentExplorerPrefix (folder_prefix segs) = folder_prefix (butlast segs)
    \<and> joinExplorerPath (folder_prefix segs) name = folder_prefix segs @ name
    \<and> (isExplorerPrefixAncestor (folder_prefix segs) (folder_prefix segs') \<longleftrightarrow> prefix segs segs')"
  using assms by (simp add: getParent_path join_path ancestor_path)

theorem explorer_path_algebra_witness:
  "getParentExplorerPrefix (folder_prefix [''a'', ''b'']) = ''a/''
   \<and> joinExplorerPath (folder_prefix [''a'', ''b'']) ''c.txt'' = ''a/b/c.txt''
   \<and> isExplorerPrefixAncestor (folder_prefix [''a'', ''b'']) (folder_prefix [''a'', ''b'', ''d''])"
proof -
  have p: "plain_path [''a'', ''b'']" "plain_path [''a'', ''b'', ''d'']"
    by (simp_all add: plain_path_def plain_segment_def slash_def is_space_def)
  have n: "plain_segment ''c.txt''" "trimmed ''c.txt''"
    by (simp_all add: plain_segment_def slash_def trimmed_def is_space_def)
  show ?thesis
    using explorer_path_algebra [OF p n] by (simp add: folder_prefix_def slash_def)
qed

end
