(* ===== verification/FolderUpload.thy ===== *)
theory FolderUpload
  imports ApiTypes ExplorerPath
begin

text \<open>
  Model of \<open>frontend/src/lib/folder-upload.ts\<close>: the relative path of a picked file, the
  manifest that names one form field per file, the folder a selection comes from, and the
  parent prefix a folder is uploaded under.
\<close>

section \<open>Model\<close>

record manifest_item =
  file_field :: string
  relative_path :: string

definition getFolderRelativePath :: "upload_file \<Rightarrow> thrown + string" where
  "getFolderRelativePath file =
     (let relativePath = nullish (fl_relative_path file) [];
          normalizedPath = trim (strip_leading_slashes (backslash_to_slash relativePath))
      in if normalizedPath = [] then Inl (ThrownError ''Folder upload requires relative paths'')
         else Inr normalizedPath)"

definition file_field_name :: "nat \<Rightarrow> string" where
  "file_field_name index = ''file_'' @ nat_digits index"

text \<open>\<open>files.map\<close> with a callback that may throw: the first throw wins.\<close>

fun map_throw :: "('a \<Rightarrow> nat \<Rightarrow> 'e + 'b) \<Rightarrow> nat \<Rightarrow> 'a list \<Rightarrow> 'e + 'b list" where
  "map_throw f i [] = Inr []"
| "map_throw f i (x # xs) =
     (case f x i of
        Inl e \<Rightarrow> Inl e
      | Inr y \<Rightarrow> (case map_throw f (Suc i) xs of Inl e \<Rightarrow> Inl e | Inr ys \<Rightarrow> Inr (y # ys)))"

definition buildFolderUploadManifest :: "upload_file list \<Rightarrow> thrown + manifest_item list" where
  "buildFolderUploadManifest files =
     map_throw (\<lambda>file index.
       case getFolderRelativePath file of
         Inl e \<Rightarrow> Inl e
       | Inr p \<Rightarrow> Inr \<lparr>file_field = file_field_name index, relative_path = p\<rparr>) 0 files"

definition getFolderUploadTopLevelName :: "upload_file list \<Rightarrow> thrown + string" where
  "getFolderUploadTopLevelName files =
     (case array_first files of
        None \<Rightarrow> Inr []
      | Some firstFile \<Rightarrow>
          (case getFolderRelativePath firstFile of
             Inl e \<Rightarrow> Inl e
           | Inr p \<Rightarrow> Inr (trim (nullish (array_first (split_on slash p)) []))))"

definition normalizeFolderUploadParentPrefix :: "string \<Rightarrow> string" where
  "normalizeFolderUploadParentPrefix value =
     (let normalized = trim (strip_leading_slashes (backslash_to_slash value))
      in if normalized = [] then []
         else if ends_with normalized [slash] then normalized else normalized @ [slash])"

section \<open>Lemmas\<close>

lemma file_field_name_inject [simp]: "file_field_name i = file_field_name j \<longleftrightarrow> i = j"
  by (simp add: file_field_name_def nat_digits_inject)

lemma map_throw_Inr:
  "map_throw f i xs = Inr ys \<Longrightarrow>
     length ys = length xs \<and> (\<forall>k < length xs. f (xs ! k) (i + k) = Inr (ys ! k))"
proof (induction xs arbitrary: i ys)
  case (Cons x xs)
  then obtain y zs where *: "f x i = Inr y" "map_throw f (Suc i) xs = Inr zs" "ys = y # zs"
    by (auto split: sum.splits)
  with Cons.IH [OF *(2)] show ?case by (auto simp: nth_Cons split: nat.splits)
qed simp

lemma map_throw_Inl:
  "map_throw f i xs = Inl e \<Longrightarrow> \<exists>k < length xs. f (xs ! k) (i + k) = Inl e"
proof (induction xs arbitrary: i)
  case (Cons x xs)
  show ?case
  proof (cases "f x i")
    case (Inl e')
    with Cons.prems show ?thesis by (intro exI [of _ 0]) simp
  next
    case (Inr y)
    with Cons.prems have "map_throw f (Suc i) xs = Inl e" by (auto split: sum.splits)
    from Cons.IH [OF this] obtain k where "k < length xs" "f (xs ! k) (Suc i + k) = Inl e" by blast
    then show ?thesis by (intro exI [of _ "Suc k"]) simp
  qed
qed simp

lemma map_throw_all:
  "(\<forall>k < length xs. \<exists>y. f (xs ! k) (i + k) = Inr y) \<Longrightarrow> \<exists>ys. map_throw f i xs = Inr ys"
  by (metis map_throw_Inl sum.disc(1) old.sum.exhaust Inl_Inr_False)

lemma manifest_item_at:
  assumes "buildFolderUploadManifest files = Inr m" "i < length files"
  shows "file_field (m ! i) = file_field_name i"
    and "getFolderRelativePath (files ! i) = Inr (relative_path (m ! i))"
proof -
  have "(case getFolderRelativePath (files ! i) of Inl e \<Rightarrow> Inl e
      | Inr p \<Rightarrow> Inr \<lparr>file_field = file_field_name i, relative_path = p\<rparr>) = Inr (m ! i)"
    using map_throw_Inr [OF assms(1) [unfolded buildFolderUploadManifest_def],
        THEN conjunct2, rule_format, OF assms(2)] by (simp only: add_0)
  then obtain p where "getFolderRelativePath (files ! i) = Inr p"
    "m ! i = \<lparr>file_field = file_field_name i, relative_path = p\<rparr>"
    by (auto split: sum.splits)
  then show "file_field (m ! i) = file_field_name i"
    and "getFolderRelativePath (files ! i) = Inr (relative_path (m ! i))" by simp_all
qed

lemma manifest_length: "buildFolderUploadManifest files = Inr m \<Longrightarrow> length m = length files"
  using map_throw_Inr unfolding buildFolderUploadManifest_def by blast

lemma manifest_fields_distinct:
  assumes "buildFolderUploadManifest files = Inr m"
  shows "distinct (map file_field m)"
  using manifest_item_at(1) [OF assms] manifest_length [OF assms]
  by (auto simp: distinct_conv_nth)

text \<open>The relative paths a directory picker hands out.\<close>

definition disk_path :: "string list \<Rightarrow> bool" where
  "disk_path segs \<longleftrightarrow>
     (\<forall>s \<in> set segs. plain_segment s \<and> backslash \<notin> set s) \<and> \<not> is_space (last (last segs))"

lemma backslash_to_slash_id: "backslash \<notin> set s \<Longrightarrow> backslash_to_slash s = s"
  by (auto simp: backslash_to_slash_def intro: map_idI)

lemma no_backslash_join: "\<forall>s \<in> set segs. backslash \<notin> set s \<Longrightarrow> backslash \<notin> set (join [slash] segs)"
  by (induction "[slash]" segs rule: join.induct) (auto simp: slash_def backslash_def)

lemma getFolderRelativePath_disk:
  assumes "fl_relative_path f = Some (join [slash] (folder # segs))" "disk_path (folder # segs)"
    and "trimmed folder"
  shows "getFolderRelativePath f = Inr (join [slash] (folder # segs))"
proof -
  let ?p = "join [slash] (folder # segs)"
  have seg: "\<forall>s \<in> set (folder # segs). plain_segment s" using assms(2) by (simp add: disk_path_def)
  then have e: "?p \<noteq> []" "hd ?p = hd folder" "last ?p = last (last (folder # segs))"
    using join_segments_edges [of "folder # segs"] by auto
  have "backslash_to_slash ?p = ?p"
    using assms(2) by (intro backslash_to_slash_id no_backslash_join) (simp add: disk_path_def)
  moreover have "folder \<noteq> []" "hd folder \<noteq> slash"
    using seg hd_in_set [of folder] by (auto simp: plain_segment_def simp del: hd_in_set)
  then have "strip_leading_slashes ?p = ?p"
    using e unfolding strip_leading_slashes_def by (intro dropWhile_id) simp
  moreover have "trim ?p = ?p"
    using e assms(2,3) \<open>folder \<noteq> []\<close> by (intro trim_id) (simp add: trimmed_def disk_path_def)
  ultimately show ?thesis using assms(1) e(1) by (simp add: getFolderRelativePath_def)
qed

section \<open>Properties\<close>

text \<open>
  The manifest of a folder selection is all or nothing. It exists exactly when every
  file has a relative path that is more than slashes and blanks; then it has one item per file, in order, whose
  field names are pairwise distinct and whose path is the file's own. Otherwise building it
  throws the one error of this module.
\<close>

theorem buildFolderUploadManifest_total:
  "(case buildFolderUploadManifest files of
      Inr m \<Rightarrow> length m = length files \<and> distinct (map file_field m) \<and>
        map (\<lambda>f. getFolderRelativePath f) files = map (\<lambda>it. Inr (relative_path it)) m
    | Inl e \<Rightarrow> e = ThrownError ''Folder upload requires relative paths'' \<and>
        Inl e \<in> set (map getFolderRelativePath files))"
proof (cases "buildFolderUploadManifest files")
  case (Inl e)
  then obtain k where k: "k < length files" "getFolderRelativePath (files ! k) = Inl e"
    unfolding buildFolderUploadManifest_def by (auto dest!: map_throw_Inl split: sum.splits)
  moreover from k have "e = ThrownError ''Folder upload requires relative paths''"
    by (auto simp: getFolderRelativePath_def Let_def split: if_splits)
  moreover have "Inl e \<in> set (map getFolderRelativePath files)"
    using nth_mem [of k "map getFolderRelativePath files"] k by simp
  ultimately show ?thesis using Inl by simp
next
  case (Inr m)
  then show ?thesis
    using manifest_length [OF Inr] manifest_fields_distinct [OF Inr] manifest_item_at(2) [OF Inr]
    by (auto intro!: nth_equalityI)
qed

text \<open>
  A folder picked from disk: every relative path is \<open>folder/...\<close> in plain segments. The
  paths then reach the manifest unchanged, the folder-level name is \<open>folder\<close>, and a parent prefix
  of plain folders is kept as it is.
\<close>

theorem folder_selection_paths:
  assumes "\<forall>f \<in> set files. \<exists>segs. fl_relative_path f = Some (join [slash] (folder # segs)) \<and>
      disk_path (folder # segs)"
    and "files \<noteq> []" and "trimmed folder" and "plain_path parents" and "\<forall>s \<in> set parents. backslash \<notin> set s"
  shows "getFolderUploadTopLevelName files = Inr folder \<and>
    (\<exists>m. buildFolderUploadManifest files = Inr m \<and>
       map (\<lambda>it. Some (relative_path it)) m = map fl_relative_path files) \<and>
    normalizeFolderUploadParentPrefix (folder_prefix parents) = folder_prefix parents"
proof (intro conjI)
  show "getFolderUploadTopLevelName files = Inr folder"
  proof (cases files)
    case (Cons f fs)
    with assms(1) obtain segs where f: "fl_relative_path f = Some (join [slash] (folder # segs))"
      "disk_path (folder # segs)" by auto
    then have "getFolderRelativePath f = Inr (join [slash] (folder # segs))"
      using assms(3) by (intro getFolderRelativePath_disk) auto
    moreover have "split_on slash (join [slash] (folder # segs)) = folder # segs"
      using f(2) by (intro split_join) (auto simp: disk_path_def plain_segment_def)
    ultimately show ?thesis using Cons assms(3)
      by (simp add: getFolderUploadTopLevelName_def trim_id)
  qed (use assms(2) in simp)
  have "\<exists>p. getFolderRelativePath f = Inr p \<and> Some p = fl_relative_path f" if "f \<in> set files" for f
    using assms(1,3) that getFolderRelativePath_disk by fastforce
  note rel = this
  then obtain m where m: "buildFolderUploadManifest files = Inr m"
    using map_throw_all [of files] unfolding buildFolderUploadManifest_def
    by (metis (no_types, lifting) nth_mem old.sum.simps(6))
  have "fl_relative_path (files ! i) = Some (relative_path (m ! i))" if "i < length files" for i
    using manifest_item_at(2) [OF m that] rel [of "files ! i"] that by auto
  with m show "\<exists>m. buildFolderUploadManifest files = Inr m \<and>
       map (\<lambda>it. Some (relative_path it)) m = map fl_relative_path files"
    using manifest_length [OF m] by (intro exI [of _ m]) (auto intro: nth_equalityI)
  show "normalizeFolderUploadParentPrefix (folder_prefix parents) = folder_prefix parents"
  proof (cases "parents = []")
    case False
    let ?q = "folder_prefix parents"
    have "backslash_to_slash ?q = ?q"
      using False no_backslash_join [OF assms(5)]
      by (intro backslash_to_slash_id) (simp add: folder_prefix_def slash_def backslash_def)
    moreover have hd: "hd ?q = hd (hd parents)"
      using False assms(4) join_segments_edges [of parents]
      by (simp add: folder_prefix_def plain_path_def hd_append)
    then have "strip_leading_slashes ?q = ?q"
      using False assms(4) unfolding strip_leading_slashes_def
      by (intro dropWhile_id) (metis hd_in_set list.set_sel(1) plain_path_def plain_segment_def)
    moreover have "trim ?q = ?q"
      using hd False assms(4) by (intro trim_id) (simp add: trimmed_def plain_path_def folder_prefix_def)
    moreover have "ends_with ?q [slash]" using False by (simp add: folder_prefix_def)
    ultimately show ?thesis using False by (simp add: normalizeFolderUploadParentPrefix_def)
  qed (simp add: normalizeFolderUploadParentPrefix_def backslash_to_slash_def strip_leading_slashes_def)
qed

theorem folder_selection_paths_witness:
  "getFolderUploadTopLevelName
      [\<lparr>fl_name = ''b.txt'', fl_type = [], fl_relative_path = Some ''a/b.txt'', fl_content = 0\<rparr>] = Inr ''a''"
proof -
  have "disk_path [''a'', ''b.txt'']" "''a/b.txt'' = join [slash] [''a'', ''b.txt'']"
    "trimmed ''a''" "plain_path []"
    by (simp_all add: disk_path_def plain_segment_def plain_path_def trimmed_def slash_def
        backslash_def is_space_def)
  then show ?thesis
    using folder_selection_paths [of "[\<lparr>fl_name = ''b.txt'', fl_type = [],
        fl_relative_path = Some ''a/b.txt'', fl_content = 0\<rparr>]" "''a''" "[]"]
    by force
qed

end
