(* ===== verification/ApiObjects.thy ===== *)
theory ApiObjects
  imports ApiClient UrlCodec FolderUpload
begin

text \<open>
  Model of \<open>frontend/src/api/objects.ts\<close>: the object, folder, explorer and recycle-bin calls,
  the uploads with their progress, the ZIP download with the file name it takes from the
  response, and the normalisation of upload and download failures.
\<close>

section \<open>Parameters\<close>

record list_objects_params =
  lo_bucket :: string
  lo_prefix :: string
  lo_limit :: nat
  lo_cursor :: string

record upload_object_params =
  uo_bucket :: string
  uo_object_key :: string
  uo_file :: upload_file
  uo_visibility :: visibility
  uo_allow_overwrite :: bool

record upload_folder_params =
  uf_bucket :: string
  uf_prefix :: string
  uf_files :: "upload_file list"
  uf_visibility :: visibility
  uf_allow_overwrite :: bool

record list_entries_params =
  le_bucket :: string
  le_prefix :: string
  le_search :: string
  le_limit :: nat
  le_cursor :: string
  le_sort_by :: "sort_by option"
  le_sort_order :: "sort_order option"

record create_folder_params =
  cf_bucket :: string
  cf_prefix :: string
  cf_name :: string

record update_visibility_params =
  uv_bucket :: string
  uv_object_key :: string
  uv_visibility :: visibility

record list_recycle_params =
  lr_bucket :: "string option"
  lr_limit :: nat
  lr_cursor :: string

section \<open>Helpers\<close>

definition resolveUploadContentType :: "upload_file \<Rightarrow> string" where
  "resolveUploadContentType file =
     (if trim (fl_type file) \<noteq> [] then trim (fl_type file)
      else if ends_with (to_lower (fl_name file)) ''.md'' then ''text/markdown''
      else ''application/octet-stream'')"

definition buildFolderArchiveFallbackName :: "string \<Rightarrow> string" where
  "buildFolderArchiveFallbackName folderPath =
     (let segments = filter_truthy (split_on slash (strip_trailing_slashes folderPath));
          leaf = nullish (array_last segments) ''folder''
      in leaf @ ''.zip'')"

text \<open>
  Regular expressions are scanners: \<open>search_match m s\<close> tries the matcher \<open>m\<close> at every position
  from the left, as \<open>String.match\<close> does; a matcher returns its capture group. \<open>expect_ci\<close>
  reads a literal under the \<open>i\<close> flag.
\<close>

fun search_match :: "(string \<Rightarrow> string option) \<Rightarrow> string \<Rightarrow> string option" where
  "search_match m [] = m []"
| "search_match m (c # s) = (case m (c # s) of Some g \<Rightarrow> Some g | None \<Rightarrow> search_match m s)"

fun expect_ci :: "string \<Rightarrow> string \<Rightarrow> string option" where
  "expect_ci [] s = Some s"
| "expect_ci (p # ps) [] = None"
| "expect_ci (p # ps) (c # s) = (if lower_char c = lower_char p then expect_ci ps s else None)"

definition not_semicolon :: "char \<Rightarrow> bool" where
  "not_semicolon c \<longleftrightarrow> c \<noteq> CHR '';''"

definition some_group :: "string \<Rightarrow> string option" where
  "some_group g = (if g = [] then None else Some g)"

definition utf8_marker :: string where
  "utf8_marker = ''UTF-8'' @ [CHR 0x27, CHR 0x27]"

text \<open>\<open>/filename\*\s*=\s*UTF-8''([^;]+)/i\<close>\<close>

definition match_utf8 :: "string \<Rightarrow> string option" where
  "match_utf8 s =
     Option.bind (expect_ci ''filename*'' s) (\<lambda>s1.
     Option.bind (expect_ci ''='' (dropWhile is_space s1)) (\<lambda>s2.
     Option.bind (expect_ci utf8_marker (dropWhile is_space s2)) (\<lambda>s3.
       some_group (takeWhile not_semicolon s3))))"

text \<open>\<open>/filename\s*=\s*"([^"]+)"/i\<close>\<close>

definition match_quoted :: "string \<Rightarrow> string option" where
  "match_quoted s =
     Option.bind (expect_ci ''filename'' s) (\<lambda>s1.
     Option.bind (expect_ci ''='' (dropWhile is_space s1)) (\<lambda>s2.
     Option.bind (expect_ci [CHR 0x22] (dropWhile is_space s2)) (\<lambda>s3.
       (let g = takeWhile (\<lambda>c. c \<noteq> CHR 0x22) s3
        in if length g < length s3 then some_group g else None))))"

text \<open>
  \<open>/filename\s*=\s*([^;]+)/i\<close>: when only blanks follow the sign, the engine backtracks and the group is the last blank.
\<close>

definition match_unquoted :: "string \<Rightarrow> string option" where
  "match_unquoted s =
     Option.bind (expect_ci ''filename'' s) (\<lambda>s1.
     Option.bind (expect_ci ''='' (dropWhile is_space s1)) (\<lambda>s2.
       (let g = takeWhile not_semicolon (dropWhile is_space s2); blanks = takeWhile is_space s2
        in if g \<noteq> [] then Some g
           else if blanks \<noteq> [] then Some [last blanks] else None)))"

definition getDownloadFilename :: "string option \<Rightarrow> string \<Rightarrow> string" where
  "getDownloadFilename contentDisposition fallbackFilename =
     (case contentDisposition of
        None \<Rightarrow> fallbackFilename
      | Some cd \<Rightarrow>
          (if cd = [] then fallbackFilename
           else case search_match match_utf8 cd of
                  Some g \<Rightarrow> nullish (decodeURIComponent g) fallbackFilename
                | None \<Rightarrow>
                    (case search_match match_quoted cd of
                       Some g \<Rightarrow> g
                     | None \<Rightarrow>
                         (case search_match match_unquoted cd of
                            Some g \<Rightarrow> trim g
                          | None \<Rightarrow> fallbackFilename))))"

definition normalizeRequestError :: "thrown \<Rightarrow> string \<Rightarrow> api_error" where
  "normalizeRequestError error fallbackMessage =
     (case error of
        ThrownApi a \<Rightarrow> a
      | ThrownAxios message _ response \<Rightarrow>
          (let member = (case response of Some (_, ObjectPayload m) \<Rightarrow> m | _ \<Rightarrow> None)
           in \<lparr>err_message = nullish (Option.bind member em_message) message,
               err_status = nullish (map_option fst response) 500,
               err_code = Option.bind member em_code\<rparr>)
      | ThrownError message \<Rightarrow> \<lparr>err_message = message, err_status = 500, err_code = None\<rparr>
      | ThrownOther _ \<Rightarrow> \<lparr>err_message = fallbackMessage, err_status = 500, err_code = None\<rparr>)"

definition normalizeBlobDownloadError :: "thrown \<Rightarrow> string \<Rightarrow> api_error" where
  "normalizeBlobDownloadError error fallbackMessage =
     (case error of
        ThrownAxios message _ response \<Rightarrow>
          (let status = nullish (map_option fst response) 500
           in case response of
                Some (_, BlobPayload (BlobJson member)) \<Rightarrow>
                  \<lparr>err_message = nullish (Option.bind member em_message) message,
                   err_status = status, err_code = Option.bind member em_code\<rparr>
              | Some (_, BlobPayload _) \<Rightarrow>
                  \<lparr>err_message = or_else message fallbackMessage, err_status = status, err_code = None\<rparr>
              | _ \<Rightarrow>
                  (let member = (case response of Some (_, ObjectPayload m) \<Rightarrow> m | _ \<Rightarrow> None)
                   in \<lparr>err_message = nullish (Option.bind member em_message) message,
                       err_status = status, err_code = Option.bind member em_code\<rparr>))
      | ThrownApi a \<Rightarrow> \<lparr>err_message = err_message a, err_status = 500, err_code = None\<rparr>
      | ThrownError message \<Rightarrow> \<lparr>err_message = message, err_status = 500, err_code = None\<rparr>
      | ThrownOther _ \<Rightarrow> \<lparr>err_message = fallbackMessage, err_status = 500, err_code = None\<rparr>)"

definition buildApiURL :: "string \<Rightarrow> string \<Rightarrow> string" where
  "buildApiURL baseUrl path = strip_trailing_slashes (trim baseUrl) @ path"

text \<open>The handler \<open>onUploadProgress\<close>: what it passes to \<open>onProgress\<close>, if it does.\<close>

definition upload_progress :: "bool \<Rightarrow> nat \<Rightarrow> nat option \<Rightarrow> number option" where
  "upload_progress has_handler loaded bytes =
     (if \<not> has_handler \<or> nullish bytes 0 = 0 then None
      else Some (math_round (js_mul (js_div (of_nat loaded) (of_nat (nullish bytes 0))) (Fin 100))))"

section \<open>Calls\<close>

definition bucket_url :: "string \<Rightarrow> string \<Rightarrow> string" where
  "bucket_url bucket rest = ''/api/v1/buckets/'' @ encodeURIComponent bucket @ rest"

definition object_url :: "string \<Rightarrow> string \<Rightarrow> string" where
  "object_url bucket objectKey = bucket_url bucket (''/objects/'' @ encodeObjectKey objectKey)"

definition listObjects :: "app_settings \<Rightarrow> list_objects_params \<Rightarrow> ('s, object_list_result option) api_task" where
  "listObjects settings params =
     apiRequest as_objects settings
       ((http_request GET (bucket_url (lo_bucket params) ''/objects''))
         \<lparr>hc_params := [(''prefix'', map_option PStr (truthy (lo_prefix params))),
                       (''limit'', Some (PNat (lo_limit params))),
                       (''cursor'', map_option PStr (truthy (lo_cursor params)))]\<rparr>)"

definition listExplorerEntries ::
  "app_settings \<Rightarrow> list_entries_params \<Rightarrow> ('s, explorer_entries_result option) api_task" where
  "listExplorerEntries settings params =
     apiRequest as_entries settings
       ((http_request GET (bucket_url (le_bucket params) ''/entries''))
         \<lparr>hc_params := [(''prefix'', map_option PStr (truthy (le_prefix params))),
                       (''search'', map_option PStr (truthy (le_search params))),
                       (''limit'', Some (PNat (le_limit params))),
                       (''cursor'', map_option PStr (truthy (le_cursor params))),
                       (''sort_by'', map_option (\<lambda>v. PStr (sort_by_value v)) (le_sort_by params)),
                       (''sort_order'', map_option (\<lambda>v. PStr (sort_order_value v)) (le_sort_order params))]\<rparr>)"

definition createFolder :: "app_settings \<Rightarrow> create_folder_params \<Rightarrow> ('s, unit option) api_task" where
  "createFolder settings params =
     apiRequest (\<lambda>_. ()) settings
       ((http_request POST (bucket_url (cf_bucket params) ''/folders''))
         \<lparr>hc_data := JsonData (JObj [(''prefix'', JStr (cf_prefix params)),
                                    (''name'', JStr (cf_name params))])\<rparr>)"

definition deleteFolder ::
  "app_settings \<Rightarrow> string \<Rightarrow> string \<Rightarrow> bool \<Rightarrow> ('s, unit option) api_task" where
  "deleteFolder settings bucket folderPath recursive =
     apiRequest (\<lambda>_. ()) settings
       ((http_request DELETE (bucket_url bucket ''/folders''))
         \<lparr>hc_params := [(''path'', Some (PStr folderPath)),
                       (''recursive'', if recursive then Some PTrue else None)]\<rparr>)"

definition checkObjectExists ::
  "app_settings \<Rightarrow> string \<Rightarrow> string \<Rightarrow> ('s, bool) api_task" where
  "checkObjectExists settings bucket objectKey =
     catch_task
       (bind_task (http_send (createApiClient settings) (http_request HEAD (object_url bucket objectKey)))
          (\<lambda>_. Return True))
       (\<lambda>error.
          case error of
            ThrownAxios _ _ (Some (st, _)) \<Rightarrow>
              (if st = 404 then Return False
               else Raise (ThrownApi (normalizeRequestError error ''Failed to check object existence'')))
          | _ \<Rightarrow> Raise (ThrownApi (normalizeRequestError error ''Failed to check object existence'')))"

text \<open>\<open>response.data.data\<close>, with the member access on null as a throw.\<close>

definition response_data :: "(body_reading \<Rightarrow> 'a) \<Rightarrow> http_response \<Rightarrow> ('s, 'a option) api_task" where
  "response_data as r =
     (case resp_body r of
        EmptyBody \<Rightarrow> Return None
      | NullBody \<Rightarrow> Raise null_data_error
      | Envelope _ d \<Rightarrow> Return (map_option as d))"

definition overwrite_header :: "bool \<Rightarrow> string \<times> string" where
  "overwrite_header allow = (''X-Allow-Overwrite'', if allow then ''true'' else ''false'')"

definition uploadObject ::
  "app_settings \<Rightarrow> upload_object_params \<Rightarrow> ('s, object_item option) api_task" where
  "uploadObject settings params =
     catch_task
       (bind_task
          (http_send (createApiClient settings)
             ((http_request PUT (object_url (uo_bucket params) (uo_object_key params)))
                \<lparr>hc_timeout := Some 0, hc_data := FileData (uo_file params),
                 hc_headers :=
                   [(''Content-Type'', resolveUploadContentType (uo_file params)),
                    (''X-Object-Visibility'', visibility_value (uo_visibility params)),
                    (''X-Original-Filename'', encodeHeaderFilename (fl_name (uo_file params))),
                    overwrite_header (uo_allow_overwrite params)]\<rparr>))
          (response_data as_object))
       (\<lambda>error. Raise (ThrownApi (normalizeRequestError error ''Upload failed'')))"

definition manifest_json :: "manifest_item list \<Rightarrow> json" where
  "manifest_json m =
     JArr (map (\<lambda>it. JObj [(''file_field'', JStr (file_field it)),
                            (''relative_path'', JStr (relative_path it))]) m)"

definition file_parts :: "manifest_item list \<Rightarrow> upload_file list \<Rightarrow> (string \<times> form_value) list" where
  "file_parts m files = map (\<lambda>(it, f). (file_field it, FormFile f (fl_name f))) (zip m files)"

definition folder_form :: "upload_folder_params \<Rightarrow> manifest_item list \<Rightarrow> (string \<times> form_value) list" where
  "folder_form params m =
     (if trim (uf_prefix params) \<noteq> [] then [(''prefix'', FormText (uf_prefix params))] else []) @
     [(''visibility'', FormText (visibility_value (uf_visibility params)))] @
     file_parts m (uf_files params) @
     [(''manifest'', FormJson (manifest_json m))]"

definition uploadFolder ::
  "app_settings \<Rightarrow> upload_folder_params \<Rightarrow> ('s, batch_upload_result option) api_task" where
  "uploadFolder settings params =
     (if length (uf_files params) = 0 then Raise (ThrownError ''No files selected'')
      else case buildFolderUploadManifest (uf_files params) of
             Inl e \<Rightarrow> Raise e
           | Inr m \<Rightarrow>
               catch_task
                 (bind_task
                    (http_send (createApiClient settings)
                       ((http_request POST (bucket_url (uf_bucket params) ''/objects/batch''))
                          \<lparr>hc_timeout := Some 0, hc_data := FormData (folder_form params m),
                           hc_headers := [overwrite_header (uf_allow_overwrite params)]\<rparr>))
                    (response_data as_batch_upload))
                 (\<lambda>error. Raise (ThrownApi (normalizeRequestError error ''Upload failed''))))"

definition deleteObject :: "app_settings \<Rightarrow> string \<Rightarrow> string \<Rightarrow> ('s, unit option) api_task" where
  "deleteObject settings bucket objectKey =
     apiRequest (\<lambda>_. ()) settings (http_request DELETE (object_url bucket objectKey))"

definition entry_type_value :: "entry_type \<Rightarrow> string" where
  "entry_type_value t = (case t of TFile \<Rightarrow> ''file'' | TDirectory \<Rightarrow> ''directory'')"

definition deleteExplorerEntriesBatch ::
  "app_settings \<Rightarrow> string \<Rightarrow> delete_batch_item list \<Rightarrow> ('s, delete_batch_result option) api_task" where
  "deleteExplorerEntriesBatch settings bucket items =
     apiRequest as_batch_delete settings
       ((http_request POST (bucket_url bucket ''/entries/batch-delete''))
         \<lparr>hc_data := JsonData (JObj [(''items'', JArr (map (\<lambda>it.
             JObj [(''type'', JStr (entry_type_value (dbi_type it))), (''path'', JStr (dbi_path it))])
             items))])\<rparr>)"

definition listRecycleBinObjects ::
  "app_settings \<Rightarrow> list_recycle_params \<Rightarrow> ('s, recycle_bin_list_result option) api_task" where
  "listRecycleBinObjects settings params =
     apiRequest as_recycle_list settings
       ((http_request GET ''/api/v1/recycle-bin/objects'')
         \<lparr>hc_params := [(''bucket'', map_option PStr (truthy (nullish (lr_bucket params) []))),
                       (''limit'', Some (PNat (lr_limit params))),
                       (''cursor'', map_option PStr (truthy (lr_cursor params)))]\<rparr>)"

definition item_ids_data :: "int list \<Rightarrow> http_data" where
  "item_ids_data ids = JsonData (JObj [(''item_ids'', JArr (map JInt ids))])"

definition restoreRecycleBinObjects ::
  "app_settings \<Rightarrow> int list \<Rightarrow> ('s, restore_result option) api_task" where
  "restoreRecycleBinObjects settings itemIds =
     apiRequest as_restore settings
       ((http_request POST ''/api/v1/recycle-bin/objects/restore'')
         \<lparr>hc_data := item_ids_data itemIds\<rparr>)"

definition deleteRecycleBinObjects ::
  "app_settings \<Rightarrow> int list \<Rightarrow> ('s, delete_recycle_result option) api_task" where
  "deleteRecycleBinObjects settings itemIds =
     apiRequest as_recycle_delete settings
       ((http_request POST ''/api/v1/recycle-bin/objects/batch-delete'')
         \<lparr>hc_data := item_ids_data itemIds\<rparr>)"

definition updateObjectVisibility ::
  "app_settings \<Rightarrow> update_visibility_params \<Rightarrow> ('s, object_item option) api_task" where
  "updateObjectVisibility settings params =
     apiRequest as_object settings
       ((http_request PATCH (bucket_url (uv_bucket params)
            (''/objects/visibility/'' @ encodeObjectKey (uv_object_key params))))
         \<lparr>hc_data := JsonData (JObj [(''visibility'', JStr (visibility_value (uv_visibility params)))])\<rparr>)"

definition createSignedDownloadPath ::
  "app_settings \<Rightarrow> string \<Rightarrow> string \<Rightarrow> int option \<Rightarrow> ('s, signed_download_path_result option) api_task" where
  "createSignedDownloadPath settings bucket objectKey expiresInSeconds =
     apiRequest as_signed settings
       ((http_request POST ''/api/v1/sign/download'')
         \<lparr>hc_data := JsonData (JObj
            ([(''bucket'', JStr bucket), (''object_key'', JStr objectKey)] @
             (case expiresInSeconds of None \<Rightarrow> [] | Some v \<Rightarrow> [(''expires_in_seconds'', JInt v)])))\<rparr>)"

text \<open>
  What a download does to the document, newest last: an object URL made for the blob of
  a response, the click on a link to it with the chosen name, the URL given back; or the click
  on a link to an address, and its removal. The log is a part of the state of the caller;
  \<open>put\<close> updates that part.
\<close>

datatype dom_effect =
    CreateUrl nat | ClickDownload nat string | RevokeUrl nat
  | ClickLink string "string option" | RemoveLink

type_synonym 's dom_lens = "(dom_effect list \<Rightarrow> dom_effect list) \<Rightarrow> 's \<Rightarrow> 's"

definition log_effect :: "'s dom_lens \<Rightarrow> dom_effect \<Rightarrow> 's \<Rightarrow> 's" where
  "log_effect put d = put (\<lambda>effects. effects @ [d])"

definition downloadFolderZip ::
  "'s dom_lens \<Rightarrow> app_settings \<Rightarrow> string \<Rightarrow> string \<Rightarrow> ('s, unit) api_task" where
  "downloadFolderZip put settings bucket folderPath =
     (let fallbackFilename = buildFolderArchiveFallbackName folderPath
      in catch_task
           (bind_task
              (http_send (createApiClient settings)
                 ((http_request GET (bucket_url bucket ''/folders/archive''))
                    \<lparr>hc_timeout := Some 0, hc_params := [(''path'', Some (PStr folderPath))],
                     hc_blob := True\<rparr>))
              (\<lambda>response.
                 Update (log_effect put (CreateUrl (resp_blob response)))
                   (finally_task
                      (Update (log_effect put (ClickDownload (resp_blob response)
                                 (getDownloadFilename (resp_disposition response) fallbackFilename)))
                         (Return ()))
                      (log_effect put (RevokeUrl (resp_blob response))))))
           (\<lambda>error. Raise (ThrownApi (normalizeBlobDownloadError error ''Folder ZIP download failed''))))"

definition buildPublicObjectURL :: "string \<Rightarrow> string \<Rightarrow> string \<Rightarrow> bool \<Rightarrow> string" where
  "buildPublicObjectURL baseUrl bucket objectKey download =
     (let url = buildApiURL baseUrl (object_url bucket objectKey)
      in if download then url @ ''?download=true'' else url)"

section \<open>Lemmas\<close>

lemma exec_response_data:
  "exec (response_data as r) reply env n s =
     (s, [], case resp_body r of EmptyBody \<Rightarrow> Inr None | NullBody \<Rightarrow> Inl null_data_error
             | Envelope _ d \<Rightarrow> Inr (map_option as d))"
  by (simp add: response_data_def split: resp_body.split)

lemma requests_ok_response_data [simp]: "requests_ok P (response_data as r)"
  by (simp add: response_data_def split: resp_body.split)

lemma split_slash_lead: "split_on slash (slash # s) = [] # split_on slash s"
  using split_on_append_sep [of slash "[]" s] by simp

lemma encodeURIComponent_no_slash [simp]: "slash \<notin> set (encodeURIComponent s)"
  using encodeURIComponent_encoded slash_not_encoded by blast

lemma encodeURIComponent_inject [simp]: "encodeURIComponent s = encodeURIComponent t \<longleftrightarrow> s = t"
  by (metis decode_encode option.inject)

lemma split_encodeObjectKey:
  "split_on slash (encodeObjectKey k) = map encodeObjectKeySegment (split_on slash k)"
  unfolding encodeObjectKey_def
  by (rule split_join) (auto dest: encodeObjectKeySegment_chars)

lemma split_object_url:
  "split_on slash (object_url bucket objectKey) =
     [[], ''api'', ''v1'', ''buckets'', encodeURIComponent bucket, ''objects''] @
     map encodeObjectKeySegment (split_on slash objectKey)"
proof -
  let ?segs = "[[], ''api'', ''v1'', ''buckets'', encodeURIComponent bucket, ''objects''] @
     map encodeObjectKeySegment (split_on slash objectKey)"
  have "object_url bucket objectKey = join [slash] ?segs"
    by (simp add: object_url_def bucket_url_def encodeObjectKey_def join_Cons slash_def)
  moreover have "split_on slash (join [slash] ?segs) = ?segs"
    by (rule split_join) (auto simp: slash_def dest: encodeObjectKeySegment_chars
        encodeURIComponent_encoded [of slash, unfolded slash_def] slash_not_encoded [unfolded slash_def, THEN notE])
  ultimately show ?thesis by simp
qed

lemma exec_checkObjectExists:
  "exec (checkObjectExists settings bucket objectKey) reply env n s =
     (env n s, [HttpSend (createApiClient settings) (http_request HEAD (object_url bucket objectKey))],
      case reply n of
        Inr r \<Rightarrow> Inr True
      | Inl e \<Rightarrow>
          (if \<exists>m c p. e = ThrownAxios m c (Some (404, p)) then Inr False
           else Inl (ThrownApi (normalizeRequestError e ''Failed to check object existence''))))"
  by (auto simp: checkObjectExists_def exec_bind exec_catch exec_http_send
      split: sum.splits thrown.splits option.splits)

text \<open>What a caller of an upload sees of an answer.\<close>

definition upload_outcome :: "(body_reading \<Rightarrow> 'a) \<Rightarrow> thrown + http_response \<Rightarrow> thrown + 'a option" where
  "upload_outcome as answer =
     (case answer of
        Inl e \<Rightarrow> Inl (ThrownApi (normalizeRequestError e ''Upload failed''))
      | Inr r \<Rightarrow>
          (case resp_body r of
             EmptyBody \<Rightarrow> Inr None
           | NullBody \<Rightarrow> Inl (ThrownApi (normalizeRequestError null_data_error ''Upload failed''))
           | Envelope _ d \<Rightarrow> Inr (map_option as d)))"

text \<open>The form fields of one upload, looked up by name.\<close>

lemma map_of_file_parts:
  assumes "buildFolderUploadManifest files = Inr m" "i < length files"
  shows "map_of (file_parts m files) (file_field_name i) =
      Some (FormFile (files ! i) (fl_name (files ! i)))"
proof -
  have fst: "map fst (file_parts m files) = map file_field m"
    using manifest_length [OF assms(1)] by (simp add: file_parts_def map_fst_zip_take o_def split_def
        flip: map_map [of file_field fst, unfolded o_def])
  have "(file_field_name i, FormFile (files ! i) (fl_name (files ! i))) \<in> set (file_parts m files)"
    using manifest_length [OF assms(1)] manifest_item_at(1) [OF assms] assms(2)
    by (force simp: file_parts_def in_set_conv_nth)
  with fst manifest_fields_distinct [OF assms(1)] show ?thesis
    by (metis map_of_eq_Some_iff)
qed

lemma file_parts_keys:
  assumes "buildFolderUploadManifest files = Inr m" "k \<in> set (map fst (file_parts m files))"
  shows "\<exists>i < length files. k = file_field_name i"
  using assms manifest_length [OF assms(1)] manifest_item_at(1) [OF assms(1)]
  by (auto simp: file_parts_def in_set_conv_nth)

lemma file_field_name_hd: "file_field_name i = c # cs \<Longrightarrow> c = CHR ''f''"
  by (simp add: file_field_name_def)

lemma map_of_file_parts_other:
  assumes "buildFolderUploadManifest files = Inr m" "k = c # cs" "c \<noteq> CHR ''f''"
  shows "map_of (file_parts m files) k = None"
  using file_parts_keys [OF assms(1), of k] file_field_name_hd assms(2,3)
  by (metis map_of_eq_None_iff list.set_map)

lemma expect_ci_append [simp]: "expect_ci p (p @ s) = Some s"
  by (induction p) auto

lemma match_utf8_header:
  assumes "name \<noteq> []"
  shows "match_utf8 (''filename*='' @ utf8_marker @ encodeURIComponent name) = Some (encodeURIComponent name)"
proof -
  have "\<forall>c \<in> set (encodeURIComponent name). not_semicolon c"
    using encodeURIComponent_encoded by (fastforce simp: not_semicolon_def encoded_char_def unreserved_def)
  then have t: "takeWhile not_semicolon (encodeURIComponent name) = encodeURIComponent name"
    by (simp add: takeWhile_eq_all_conv)
  have ne: "encodeURIComponent name \<noteq> []"
    using assms decode_encode [of name] by (metis decodeURIComponent.simps(1) option.inject)
  have 1: "expect_ci ''filename*'' (''filename*='' @ u) = Some (CHR ''='' # u)" for u
    using expect_ci_append [of "''filename*''" "CHR ''='' # u"] by simp
  have 2: "dropWhile is_space (utf8_marker @ u) = utf8_marker @ u" for u
    by (simp add: utf8_marker_def is_space_def)
  have 3: "dropWhile is_space (CHR ''='' # u) = CHR ''='' # u" for u
    by (simp add: is_space_def)
  show ?thesis
    by (simp only: match_utf8_def 1 bind.simps 3 expect_ci.simps if_True refl)
       (simp add: 2 t ne some_group_def)
qed

lemma search_match_hit: "m s = Some g \<Longrightarrow> search_match m s = Some g"
  by (cases s) simp_all

section \<open>Properties\<close>

text \<open>
  Object addresses. Two objects share a URL only if bucket and key agree, whatever slashes,
  dots or question marks they hold, and the public URL for viewing differs from the one for downloading;
  the path of the URL has the five fixed segments, then one segment per segment of the key.
\<close>

theorem object_url_injective:
  "(buildPublicObjectURL base b k d = buildPublicObjectURL base b' k' d \<longleftrightarrow> b = b' \<and> k = k') \<and>
   buildPublicObjectURL base b k True \<noteq> buildPublicObjectURL base b' k' False \<and>
   split_on slash (object_url b k) =
     [[], ''api'', ''v1'', ''buckets'', encodeURIComponent b, ''objects''] @
     map encodeObjectKeySegment (split_on slash k)"
proof -
  have inj: "object_url b k = object_url b' k' \<longleftrightarrow> b = b' \<and> k = k'"
  proof
    assume "object_url b k = object_url b' k'"
    then have e: "encodeURIComponent b = encodeURIComponent b'"
      "map encodeObjectKeySegment (split_on slash k) = map encodeObjectKeySegment (split_on slash k')"
      using split_object_url [of b k] split_object_url [of b' k'] by simp_all
    then show "b = b' \<and> k = k'" using object_key.path_inject [of k k'] by simp
  qed simp
  have q: "CHR ''?'' \<notin> set (object_url b k)" for b k
  proof
    assume "CHR ''?'' \<in> set (object_url b k)"
    then have "CHR ''?'' \<in> set (join [slash] (split_on slash (object_url b k)))" by simp
    moreover have "CHR ''?'' \<in> set (join [slash] xs) \<Longrightarrow> \<exists>x \<in> set xs. CHR ''?'' \<in> set x" for xs
      by (induction "[slash]" xs rule: join.induct) (auto simp: slash_def)
    ultimately obtain x where x: "x \<in> set (split_on slash (object_url b k))" "CHR ''?'' \<in> set x"
      by blast
    have "\<not> encoded_char (CHR ''?'')" by (simp add: encoded_char_def unreserved_def)
    then have "CHR ''?'' \<notin> set (encodeURIComponent t)" "CHR ''?'' \<notin> set (encodeObjectKeySegment t)" for t
      using encodeURIComponent_encoded encodeObjectKeySegment_chars by blast+
    with x show False by (auto simp: split_object_url)
  qed
  have "object_url b k @ ''?download=true'' \<noteq> object_url b' k'"
    using q [of b' k'] by (metis in_set_conv_decomp append_Cons)
  with inj show ?thesis
    by (simp add: buildPublicObjectURL_def buildApiURL_def Let_def split_object_url)
qed

text \<open>
  Upload progress. Whenever the browser reports a part of a known total (below \<open>2 ^ 53\<close>
  bytes), the handler is given a whole number from 0 to 100; it is 0 at the start and 100 when everything was sent,
  through the two roundings of the floating-point computation.
\<close>

theorem upload_progress_range:
  assumes "0 < bytes" "bytes < 2 ^ 53" "loaded \<le> bytes"
  shows "(\<exists>k \<le> 100. upload_progress True loaded (Some bytes) = Some (Fin (of_nat k))) \<and>
    upload_progress True 0 (Some bytes) = Some (Fin 0) \<and>
    upload_progress True bytes (Some bytes) = Some (Fin 100)"
proof -
  have scaled: "\<exists>k \<le> 100. math_round (js_mul (js_div (of_nat l) (of_nat bytes)) (Fin 100)) = Fin (of_nat k)"
    if "l \<le> bytes" for l
  proof -
    let ?q = "of_nat l / of_nat bytes :: rat"
    have q: "0 \<le> ?q" "?q \<le> of_nat 1" using assms(1) that by (simp_all add: divide_le_eq)
    let ?d = "round_double ?q"
    have d: "0 \<le> ?d" "?d \<le> of_nat 1"
      using q round_double_nonneg round_double_le_nat [of ?q 1] by simp_all
    let ?p = "round_double (?d * 100)"
    have p: "0 \<le> ?p" "?p \<le> of_nat 100"
      using d round_double_nonneg [of "?d * 100"] round_double_le_nat [of "?d * 100" 100] by simp_all
    have "js_mul (js_div (of_nat l) (of_nat bytes)) (Fin 100) = Fin ?p"
      using assms(1) to_double_small [of ?q 1] to_double_small [of "?d * 100" 100] q d
      by (simp add: js_div_def js_mul_def)
    moreover have "0 \<le> js_round ?p" "js_round ?p \<le> 100"
      using p unfolding js_round_def by linarith+
    ultimately show ?thesis
      by (intro exI [of _ "nat (js_round ?p)"]) (simp add: math_round_def of_nat_nat)
  qed
  have "js_div 0 (of_nat bytes) = Fin 0" "js_div (of_nat bytes) (of_nat bytes) = Fin 1"
    using assms(1) to_double_of_nat [of 0] to_double_of_nat [of 1] by (simp_all add: js_div_def)
  moreover have "js_mul (Fin 0) (Fin 100) = Fin 0" "js_mul (Fin 1) (Fin 100) = Fin 100"
    using to_double_of_nat [of 0] to_double_of_nat [of 100] by (simp_all add: js_mul_def)
  moreover have "js_round 0 = 0" "js_round 100 = 100"
    by (simp_all add: js_round_def floor_eq_iff)
  ultimately have "upload_progress True 0 (Some bytes) = Some (Fin 0)"
    "upload_progress True bytes (Some bytes) = Some (Fin 100)"
    using assms(1) by (simp_all add: upload_progress_def math_round_def)
  then show ?thesis using scaled [OF assms(3)] assms(1) by (simp add: upload_progress_def)
qed

theorem upload_progress_range_witness:
  "\<exists>k \<le> 100. upload_progress True 1 (Some 3) = Some (Fin (of_nat k))"
  using upload_progress_range [of 3 1] by simp

text \<open>
  C9. A folder upload. Without files, or with a file that has no relative path, it throws before
  any request. Otherwise exactly one request is made; its form carries the manifest, the
  visibility, the prefix where it is more than blanks, and under the field that the \<open>i\<close>-th
  manifest item names, the \<open>i\<close>-th file under its own name.
\<close>

theorem uploadFolder_form:
  "exec (uploadFolder settings params) reply env n s =
     (case buildFolderUploadManifest (uf_files params) of
        Inl e \<Rightarrow> (s, [], Inl e)
      | Inr [] \<Rightarrow> (s, [], Inl (ThrownError ''No files selected''))
      | Inr (x # xs) \<Rightarrow>
         (env n s,
          [HttpSend (createApiClient settings)
             ((http_request POST (bucket_url (uf_bucket params) ''/objects/batch''))
                \<lparr>hc_timeout := Some 0, hc_data := FormData (folder_form params (x # xs)),
                 hc_headers := [overwrite_header (uf_allow_overwrite params)]\<rparr>)],
          upload_outcome as_batch_upload (reply n)))
   \<and> (\<forall>m. buildFolderUploadManifest (uf_files params) = Inr m \<longrightarrow>
        map_of (folder_form params m) ''manifest'' = Some (FormJson (manifest_json m)) \<and>
        map_of (folder_form params m) ''visibility'' =
          Some (FormText (visibility_value (uf_visibility params))) \<and>
        map_of (folder_form params m) ''prefix'' =
          (if trim (uf_prefix params) = [] then None else Some (FormText (uf_prefix params))) \<and>
        (\<forall>i < length (uf_files params).
           map_of (folder_form params m) (file_field (m ! i)) =
             Some (FormFile (uf_files params ! i) (fl_name (uf_files params ! i)))))"
proof (intro conjI allI impI)
  have "exec (uploadFolder settings params) reply env n s = (s, [], Inl (ThrownError ''No files selected''))"
    if "uf_files params = []" using that by (simp add: uploadFolder_def)
  then show "exec (uploadFolder settings params) reply env n s = (case buildFolderUploadManifest (uf_files params) of
        Inl e \<Rightarrow> (s, [], Inl e)
      | Inr [] \<Rightarrow> (s, [], Inl (ThrownError ''No files selected''))
      | Inr (x # xs) \<Rightarrow>
         (env n s,
          [HttpSend (createApiClient settings)
             ((http_request POST (bucket_url (uf_bucket params) ''/objects/batch''))
                \<lparr>hc_timeout := Some 0, hc_data := FormData (folder_form params (x # xs)),
                 hc_headers := [overwrite_header (uf_allow_overwrite params)]\<rparr>)],
          upload_outcome as_batch_upload (reply n)))"
    using manifest_length [of "uf_files params"]
    by (cases "uf_files params = []")
       (auto simp: buildFolderUploadManifest_def uploadFolder_def exec_bind exec_catch exec_http_send
          exec_response_data upload_outcome_def split: sum.splits list.splits resp_body.splits)
next
  fix m assume m: "buildFolderUploadManifest (uf_files params) = Inr m"
  show "map_of (folder_form params m) ''manifest'' = Some (FormJson (manifest_json m))"
    by (simp add: folder_form_def map_add_def map_of_file_parts_other [OF m])
  show "map_of (folder_form params m) ''visibility'' =
      Some (FormText (visibility_value (uf_visibility params)))"
    by (simp add: folder_form_def map_add_def map_of_file_parts_other [OF m])
  show "map_of (folder_form params m) ''prefix'' =
      (if trim (uf_prefix params) = [] then None else Some (FormText (uf_prefix params)))"
    by (simp add: folder_form_def map_add_def map_of_file_parts_other [OF m])
  fix i assume i: "i < length (uf_files params)"
  have "file_field_name i \<noteq> ''prefix''" "file_field_name i \<noteq> ''visibility''"
    using file_field_name_hd by fastforce+
  then show "map_of (folder_form params m) (file_field (m ! i)) =
      Some (FormFile (uf_files params ! i) (fl_name (uf_files params ! i)))"
    using manifest_item_at(1) [OF m i] map_of_file_parts [OF m i]
    by (simp add: folder_form_def map_add_def)
qed

theorem uploadFolder_form_witness:
  "map_of (folder_form
      \<lparr>uf_bucket = ''b'', uf_prefix = ''p/'',
       uf_files = [\<lparr>fl_name = ''x'', fl_type = [], fl_relative_path = Some ''a/x'', fl_content = 7\<rparr>],
       uf_visibility = Private, uf_allow_overwrite = True\<rparr>
      [\<lparr>file_field = ''file_0'', relative_path = ''a/x''\<rparr>]) ''file_0'' =
   Some (FormFile \<lparr>fl_name = ''x'', fl_type = [], fl_relative_path = Some ''a/x'', fl_content = 7\<rparr> ''x'')"
proof -
  let ?f = "\<lparr>fl_name = ''x'', fl_type = [], fl_relative_path = Some ''a/x'', fl_content = 7\<rparr>"
  let ?p = "\<lparr>uf_bucket = ''b'', uf_prefix = ''p/'', uf_files = [?f],
       uf_visibility = Private, uf_allow_overwrite = True\<rparr>"
  have "buildFolderUploadManifest [?f] = Inr [\<lparr>file_field = ''file_0'', relative_path = ''a/x''\<rparr>]"
    by code_simp
  then show ?thesis
    using uploadFolder_form [of _ ?p _ _ 0 _, THEN conjunct2] by fastforce
qed

text \<open>
  The existence check has three outcomes: true for every answered request, false exactly
  for a failure with status 404, and an \<open>ApiError\<close> for every other failure, with the status of the
  response or 500; it never changes the state.
\<close>

theorem checkObjectExists_outcome:
  "exec (checkObjectExists settings bucket objectKey) reply env n s =
     (env n s, [HttpSend (createApiClient settings) (http_request HEAD (object_url bucket objectKey))],
      case reply n of
        Inr r \<Rightarrow> Inr True
      | Inl e \<Rightarrow>
          (if \<exists>m c p. e = ThrownAxios m c (Some (404, p)) then Inr False
           else Inl (ThrownApi (normalizeRequestError e ''Failed to check object existence'')))) \<and>
   err_status (normalizeRequestError (ThrownAxios m c r) fallback) =
     (case r of Some (st, _) \<Rightarrow> st | None \<Rightarrow> 500)"
  by (simp add: exec_checkObjectExists normalizeRequestError_def Let_def split: option.split)

text \<open>
  The ZIP download. When the request is answered, the document makes an object URL for
  the blob, clicks a link with the chosen file name and gives the URL back, once each and in
  this order; when it fails, nothing is done to the document, no URL is left behind and the
  error is an \<open>ApiError\<close> with the message of the failure, else the fallback.
\<close>

theorem downloadFolderZip_effects:
  "case exec (downloadFolderZip (\<lambda>f. f) settings bucket path) reply undisturbed n before of
     (effects, sent, outcome) \<Rightarrow>
       length sent = 1 \<and>
       (case reply n of
          Inr r \<Rightarrow> outcome = Inr () \<and> effects = before @ [CreateUrl (resp_blob r),
             ClickDownload (resp_blob r)
               (getDownloadFilename (resp_disposition r) (buildFolderArchiveFallbackName path)),
             RevokeUrl (resp_blob r)]
        | Inl e \<Rightarrow> effects = before \<and>
            outcome = Inl (ThrownApi (normalizeBlobDownloadError e ''Folder ZIP download failed'')))"
  by (auto simp: downloadFolderZip_def Let_def exec_bind exec_catch exec_http_send log_effect_def
      split: sum.splits)

text \<open>
  A file name sent in the extended form comes back as it was: the header
  \<open>attachment; filename*=UTF-8''...\<close> with the percent-encoded name, alone or after an ASCII
  fallback in quotes, gives exactly the name; without a header, or with one that names no
  file, the fallback is used.
\<close>

theorem getDownloadFilename_roundtrip:
  assumes "name \<noteq> []"
  shows "getDownloadFilename
      (Some (''attachment; filename*='' @ utf8_marker @ encodeURIComponent name)) fallback = name \<and>
    getDownloadFilename
      (Some (''attachment; filename='' @ [CHR 0x22] @ ''x.zip'' @ [CHR 0x22] @ ''; filename*='' @
         utf8_marker @ encodeURIComponent name)) fallback = name \<and>
    getDownloadFilename None fallback = fallback \<and>
    getDownloadFilename (Some ''inline'') fallback = fallback"
proof -
  let ?h = "''filename*='' @ utf8_marker @ encodeURIComponent name"
  let ?q = "''filename='' @ [CHR 0x22] @ ''x.zip'' @ [CHR 0x22] @ ''; ''"
  note m = search_match_hit [of match_utf8, OF match_utf8_header [OF assms]]
  have skip: "search_match match_utf8 (''attachment; '' @ u) = search_match match_utf8 u"
    "search_match match_utf8 (?q @ u) = search_match match_utf8 u" for u
    by (simp_all add: match_utf8_def lower_char_def is_space_def)
  have hit: "search_match match_utf8 (''attachment; '' @ ?h) = Some (encodeURIComponent name)"
    "search_match match_utf8 (''attachment; '' @ ?q @ ?h) = Some (encodeURIComponent name)"
    by (simp_all only: skip m)
  have "getDownloadFilename (Some ''inline'') fallback = fallback"
    by (simp add: getDownloadFilename_def match_utf8_def match_quoted_def match_unquoted_def lower_char_def)
  moreover have "getDownloadFilename (Some s) fallback = name"
    if "search_match match_utf8 s = Some (encodeURIComponent name)" "s \<noteq> []" for s
    using that by (simp add: getDownloadFilename_def)
  from this [OF hit(1)] this [OF hit(2)]
  have "getDownloadFilename (Some (''attachment; '' @ ?h)) fallback = name"
    "getDownloadFilename (Some (''attachment; '' @ ?q @ ?h)) fallback = name" by simp_all
  ultimately show ?thesis by (simp add: getDownloadFilename_def)
qed

theorem getDownloadFilename_roundtrip_witness:
  "getDownloadFilename (Some (''attachment; filename*='' @ utf8_marker @ encodeURIComponent ''a b;c''))
     ''folder.zip'' = ''a b;c''"
  using getDownloadFilename_roundtrip [of "''a b;c''" "''folder.zip''"] by simp

end
