(* ===== verification/ApiSites.thy ===== *)
theory ApiSites
  imports ApiObjects
begin

text \<open>
  Model of \<open>frontend/src/api/sites.ts\<close>, \<open>buckets.ts\<close>, \<open>system.ts\<close> and \<open>health.ts\<close>: the site
  calls with the two publishing uploads, the bucket calls, the statistics and quota calls and
  the health check.
\<close>

record publish_folder_params =
  pf_bucket :: string
  pf_parent_prefix :: string
  pf_files :: "upload_file list"
  pf_domains :: "string list"
  pf_enabled :: bool
  pf_index_document :: string
  pf_error_document :: string
  pf_spa_fallback :: bool

record publish_file_params =
  pl_bucket :: string
  pl_parent_prefix :: string
  pl_file :: upload_file
  pl_domains :: "string list"
  pl_enabled :: bool
  pl_error_document :: string
  pl_spa_fallback :: bool

record publish_object_params =
  po_bucket :: string
  po_object_key :: string
  po_domains :: "string list"
  po_enabled :: bool
  po_error_document :: string
  po_spa_fallback :: bool

section \<open>Sites\<close>

definition js_bool :: "bool \<Rightarrow> string" where
  "js_bool b = (if b then ''true'' else ''false'')"

definition string_array :: "string list \<Rightarrow> json" where
  "string_array xs = JArr (map JStr xs)"

definition site_json :: "create_site_request \<Rightarrow> json" where
  "site_json p =
     JObj [(''bucket'', JStr (cs_bucket p)), (''root_prefix'', JStr (cs_root_prefix p)),
           (''enabled'', JBool (cs_enabled p)), (''index_document'', JStr (cs_index_document p)),
           (''error_document'', JStr (cs_error_document p)),
           (''spa_fallback'', JBool (cs_spa_fallback p)), (''domains'', string_array (cs_domains p))]"

definition listSites :: "app_settings \<Rightarrow> ('s, site list option) api_task" where
  "listSites settings = apiRequest as_sites settings (http_request GET ''/api/v1/sites'')"

definition createSite :: "app_settings \<Rightarrow> create_site_request \<Rightarrow> ('s, site option) api_task" where
  "createSite settings payload =
     apiRequest as_site settings
       ((http_request POST ''/api/v1/sites'')\<lparr>hc_data := JsonData (site_json payload)\<rparr>)"

definition site_url :: "int \<Rightarrow> string" where
  "site_url siteId = ''/api/v1/sites/'' @ int_string siteId"

definition updateSite :: "app_settings \<Rightarrow> int \<Rightarrow> create_site_request \<Rightarrow> ('s, site option) api_task" where
  "updateSite settings siteId payload =
     apiRequest as_site settings
       ((http_request PUT (site_url siteId))\<lparr>hc_data := JsonData (site_json payload)\<rparr>)"

definition deleteSite :: "app_settings \<Rightarrow> int \<Rightarrow> ('s, unit option) api_task" where
  "deleteSite settings siteId = apiRequest (\<lambda>_. ()) settings (http_request DELETE (site_url siteId))"

text \<open>The catch block of both uploads: errors pass, any other value becomes an error.\<close>

definition rethrow_publish_error :: "thrown \<Rightarrow> thrown" where
  "rethrow_publish_error error =
     (case error of
        ThrownOther _ \<Rightarrow> ThrownError ''Site publish failed''
      | _ \<Rightarrow> error)"

definition publish_folder_form ::
  "publish_folder_params \<Rightarrow> manifest_item list \<Rightarrow> (string \<times> form_value) list" where
  "publish_folder_form params m =
     [(''bucket'', FormText (pf_bucket params))] @
     (if trim (pf_parent_prefix params) \<noteq> []
      then [(''parent_prefix'', FormText (pf_parent_prefix params))] else []) @
     [(''domains'', FormJson (string_array (pf_domains params))),
      (''enabled'', FormText (js_bool (pf_enabled params))),
      (''index_document'', FormText (pf_index_document params)),
      (''error_document'', FormText (pf_error_document params)),
      (''spa_fallback'', FormText (js_bool (pf_spa_fallback params))),
      (''manifest'', FormJson (manifest_json m))] @
     file_parts m (pf_files params)"

definition uploadAndPublishSite ::
  "app_settings \<Rightarrow> publish_folder_params \<Rightarrow> ('s, publish_site_result option) api_task" where
  "uploadAndPublishSite settings params =
     (if length (pf_files params) = 0 then Raise (ThrownError ''No files selected'')
      else case buildFolderUploadManifest (pf_files params) of
             Inl e \<Rightarrow> Raise e
           | Inr m \<Rightarrow>
               catch_task
                 (bind_task
                    (http_send (createApiClient settings)
                       ((http_request POST ''/api/v1/sites/publish'')
                          \<lparr>hc_timeout := Some 0, hc_data := FormData (publish_folder_form params m)\<rparr>))
                    (response_data as_publish))
                 (\<lambda>error. Raise (rethrow_publish_error error)))"

definition publish_file_form :: "publish_file_params \<Rightarrow> (string \<times> form_value) list" where
  "publish_file_form params =
     [(''bucket'', FormText (pl_bucket params))] @
     (if trim (pl_parent_prefix params) \<noteq> []
      then [(''parent_prefix'', FormText (pl_parent_prefix params))] else []) @
     [(''domains'', FormJson (string_array (pl_domains params))),
      (''enabled'', FormText (js_bool (pl_enabled params))),
      (''error_document'', FormText (pl_error_document params)),
      (''spa_fallback'', FormText (js_bool (pl_spa_fallback params))),
      (''file'', FormFile (pl_file params) (fl_name (pl_file params)))]"

definition uploadFileAndPublishSite ::
  "app_settings \<Rightarrow> publish_file_params \<Rightarrow> ('s, site option) api_task" where
  "uploadFileAndPublishSite settings params =
     catch_task
       (bind_task
          (http_send (createApiClient settings)
             ((http_request POST ''/api/v1/sites/publish/file'')
                \<lparr>hc_timeout := Some 0, hc_data := FormData (publish_file_form params)\<rparr>))
          (response_data as_site))
       (\<lambda>error. Raise (rethrow_publish_error error))"

definition publishObjectSite :: "app_settings \<Rightarrow> publish_object_params \<Rightarrow> ('s, site option) api_task" where
  "publishObjectSite settings params =
     apiRequest as_site settings
       ((http_request POST ''/api/v1/sites/publish/object'')
         \<lparr>hc_data := JsonData (JObj
            [(''bucket'', JStr (po_bucket params)), (''object_key'', JStr (po_object_key params)),
             (''domains'', string_array (po_domains params)), (''enabled'', JBool (po_enabled params)),
             (''error_document'', JStr (po_error_document params)),
             (''spa_fallback'', JBool (po_spa_fallback params))])\<rparr>)"

section \<open>Buckets\<close>

definition listBuckets :: "app_settings \<Rightarrow> string option \<Rightarrow> ('s, bucket list option) api_task" where
  "listBuckets settings optSearch =
     (let searchText = nullish (map_option trim optSearch) []
      in apiRequest as_buckets settings
           ((http_request GET ''/api/v1/buckets'')
              \<lparr>hc_params := (if searchText \<noteq> [] then [(''search'', Some (PStr searchText))] else [])\<rparr>))"

definition createBucket :: "app_settings \<Rightarrow> string \<Rightarrow> ('s, bucket option) api_task" where
  "createBucket settings name =
     apiRequest as_bucket settings
       ((http_request POST ''/api/v1/buckets'')\<lparr>hc_data := JsonData (JObj [(''name'', JStr name)])\<rparr>)"

definition deleteBucket :: "app_settings \<Rightarrow> string \<Rightarrow> ('s, unit option) api_task" where
  "deleteBucket settings bucketName =
     apiRequest (\<lambda>_. ()) settings (http_request DELETE (bucket_url bucketName []))"

section \<open>System and health\<close>

text \<open>\<open>envelope.data\<close> after \<open>apiEnvelopeRequest\<close> is \<open>apiRequest\<close>.\<close>

definition getSystemStats :: "app_settings \<Rightarrow> ('s, system_stats_result option) api_task" where
  "getSystemStats settings =
     bind_task (apiEnvelopeRequest as_stats settings (http_request GET ''/api/v1/system/stats''))
       unwrapEnvelope"

definition updateStorageQuota ::
  "app_settings \<Rightarrow> number \<Rightarrow> ('s, system_storage_stats option) api_task" where
  "updateStorageQuota settings maxBytes =
     bind_task
       (apiEnvelopeRequest as_storage settings
          ((http_request PUT ''/api/v1/system/storage/quota'')
             \<lparr>hc_data := JsonData (JObj [(''max_bytes'', JNum maxBytes)])\<rparr>))
       unwrapEnvelope"

definition health_config :: http_config where
  "health_config =
     (http_request GET ''/api/v1/healthz'')
       \<lparr>hc_valid_status := Some (\<lambda>status. status = 200 \<or> status = 503)\<rparr>"

definition getHealthStatus :: "app_settings \<Rightarrow> ('s, health_status_result option) api_task" where
  "getHealthStatus settings =
     bind_task (apiEnvelopeRequest as_health settings health_config) unwrapEnvelope"

section \<open>Lemmas\<close>

text \<open>A request of these modules: the client of the settings, a path under \<open>/api/v1/\<close>.\<close>

definition own_request :: "app_settings \<Rightarrow> http_io \<Rightarrow> bool" where
  "own_request settings q =
     (case q of HttpSend client config \<Rightarrow>
        client = createApiClient settings \<and> starts_with (hc_url config) ''/api/v1/'')"

lemma starts_with_api [simp]: "starts_with (''/api/v1/'' @ s) ''/api/v1/''"
  by (rule starts_with_append)

lemma starts_with_bucket_url [simp]: "starts_with (bucket_url b r) ''/api/v1/''"
  unfolding bucket_url_def starts_with_iff by simp

lemma starts_with_object_url [simp]: "starts_with (object_url b k) ''/api/v1/''"
  by (simp add: object_url_def)

lemma starts_with_site_url [simp]: "starts_with (site_url i) ''/api/v1/''"
  unfolding site_url_def starts_with_iff by simp

lemma starts_with_literal [simp]:
  "starts_with (CHR ''/'' # CHR ''a'' # CHR ''p'' # CHR ''i'' # CHR ''/'' # CHR ''v'' # CHR ''1'' # CHR ''/'' # s)
     ''/api/v1/''"
  unfolding starts_with_iff by simp

lemma own_request_send [simp]:
  "own_request settings (HttpSend (createApiClient settings) config) =
     starts_with (hc_url config) ''/api/v1/''"
  by (simp add: own_request_def)

lemma http_request_url [simp]: "hc_url (http_request m u) = u"
  by (simp add: http_request_def)

lemma requests_ok_envelope [simp]:
  "requests_ok P (bind_task (apiEnvelopeRequest as settings config) unwrapEnvelope) =
     P (HttpSend (createApiClient settings) config)"
  using requests_ok_apiRequest unfolding apiRequest_def .

lemma exec_envelope:
  "exec (bind_task (apiEnvelopeRequest as settings config) unwrapEnvelope) reply env n s =
     (env n s, [HttpSend (createApiClient settings) config], api_outcome as (reply n))"
  using exec_apiRequest unfolding apiRequest_def .

lemmas object_calls =
  listObjects_def listExplorerEntries_def createFolder_def deleteFolder_def deleteObject_def
  deleteExplorerEntriesBatch_def listRecycleBinObjects_def restoreRecycleBinObjects_def
  deleteRecycleBinObjects_def updateObjectVisibility_def createSignedDownloadPath_def

lemmas site_calls =
  listSites_def createSite_def updateSite_def deleteSite_def publishObjectSite_def
  listBuckets_def createBucket_def deleteBucket_def getSystemStats_def updateStorageQuota_def
  getHealthStatus_def health_config_def

lemma uploads_own_requests:
  "requests_ok (own_request settings) (uploadObject settings p1)"
  "requests_ok (own_request settings) (uploadFolder settings p2)"
  "requests_ok (own_request settings) (checkObjectExists settings b k)"
  "requests_ok (own_request settings) (downloadFolderZip put settings b k)"
  "requests_ok (own_request settings) (uploadAndPublishSite settings p3)"
  "requests_ok (own_request settings) (uploadFileAndPublishSite settings p4)"
  by (auto simp: uploadObject_def uploadFolder_def checkObjectExists_def downloadFolderZip_def
      uploadAndPublishSite_def uploadFileAndPublishSite_def Let_def
      intro!: requests_ok_catch requests_ok_bind split: sum.split thrown.split option.split)

section \<open>Properties\<close>

text \<open>
  Every request of the API modules, whatever is answered to the ones before, goes through
  the client of the settings it was given, to a path under \<open>/api/v1/\<close>: no bucket
  name, key, folder, site id or search text can direct a call elsewhere.
\<close>

theorem api_calls_own_requests:
  "requests_ok (own_request settings) (listObjects settings lo) \<and>
   requests_ok (own_request settings) (listExplorerEntries settings le) \<and>
   requests_ok (own_request settings) (createFolder settings cf) \<and>
   requests_ok (own_request settings) (deleteFolder settings b k recursive) \<and>
   requests_ok (own_request settings) (deleteObject settings b k) \<and>
   requests_ok (own_request settings) (deleteExplorerEntriesBatch settings b items) \<and>
   requests_ok (own_request settings) (listRecycleBinObjects settings lr) \<and>
   requests_ok (own_request settings) (restoreRecycleBinObjects settings ids) \<and>
   requests_ok (own_request settings) (deleteRecycleBinObjects settings ids) \<and>
   requests_ok (own_request settings) (updateObjectVisibility settings uv) \<and>
   requests_ok (own_request settings) (createSignedDownloadPath settings b k expires) \<and>
   requests_ok (own_request settings) (uploadObject settings uo) \<and>
   requests_ok (own_request settings) (uploadFolder settings uf) \<and>
   requests_ok (own_request settings) (checkObjectExists settings b k) \<and>
   requests_ok (own_request settings) (downloadFolderZip put settings b k) \<and>
   requests_ok (own_request settings) (listSites settings) \<and>
   requests_ok (own_request settings) (createSite settings payload) \<and>
   requests_ok (own_request settings) (updateSite settings i payload) \<and>
   requests_ok (own_request settings) (deleteSite settings i) \<and>
   requests_ok (own_request settings) (uploadAndPublishSite settings pf) \<and>
   requests_ok (own_request settings) (uploadFileAndPublishSite settings pl) \<and>
   requests_ok (own_request settings) (publishObjectSite settings po) \<and>
   requests_ok (own_request settings) (listBuckets settings query) \<and>
   requests_ok (own_request settings) (createBucket settings b) \<and>
   requests_ok (own_request settings) (deleteBucket settings b) \<and>
   requests_ok (own_request settings) (getSystemStats settings) \<and>
   requests_ok (own_request settings) (updateStorageQuota settings quota) \<and>
   requests_ok (own_request settings) (getHealthStatus settings)"
  by (simp add: object_calls site_calls uploads_own_requests Let_def)

text \<open>
  A failing health check is data, not an error: the request asks for a 503 to be treated
  as an answer, and any answered check yields the health the body reports, for either status;
  a check that is not answered is an \<open>ApiError\<close> with the status of the response or 500.
\<close>

theorem getHealthStatus_outcome:
  "(case hc_valid_status health_config of Some ok \<Rightarrow> ok 200 \<and> ok 503 \<and> \<not> ok 500 \<and> \<not> ok 401 | None \<Rightarrow> False) \<and>
   exec (getHealthStatus settings) reply env n s =
     (env n s, [HttpSend (createApiClient settings) health_config], api_outcome as_health (reply n)) \<and>
   api_outcome as_health (Inr \<lparr>resp_status = 503, resp_body = Envelope rid (Some body),
       resp_disposition = d, resp_blob = blob\<rparr>) = Inr (Some (as_health body)) \<and>
   api_outcome as_health (Inl (ThrownAxios m c (Some (401, NoPayload)))) =
     Inl (ThrownApi \<lparr>err_message = m, err_status = 401, err_code = None\<rparr>)"
  by (simp add: health_config_def getHealthStatus_def exec_envelope api_outcome_def normalizeApiError_def)

end
