(* ===== verification/Storage.thy ===== *)
theory Storage
  imports ApiClient
begin

text \<open>
  Model of what the front end keeps in \<open>localStorage\<close>: the connection settings
  (\<open>frontend/src/lib/settings.tsx\<close>) and the preferences (\<open>lib/preferences.tsx\<close>). A stored
  text is represented by what \<open>JSON.parse\<close> makes of it. Reading and writing may throw, as the
  browser does when storage is blocked or full.
\<close>

section \<open>The browser's storage\<close>

datatype stored_text = EmptyText | BadText | JsonText json

record browser_storage =
  items :: "string \<Rightarrow> stored_text option"
  readable :: bool
  writable :: bool

definition getItem :: "browser_storage \<Rightarrow> string \<Rightarrow> thrown + stored_text option" where
  "getItem st key = (if readable st then Inr (items st key) else Inl (ThrownError ''SecurityError''))"

definition setItem :: "string \<Rightarrow> json \<Rightarrow> browser_storage \<Rightarrow> thrown + browser_storage" where
  "setItem key j st =
     (if writable st then Inr (st\<lparr>items := (items st)(key := Some (JsonText j))\<rparr>)
      else Inl (ThrownError ''QuotaExceededError''))"

text \<open>
  A member of a parsed value: undefined on every value but an object, a throw on null.
\<close>

definition json_member :: "json \<Rightarrow> string \<Rightarrow> thrown + json option" where
  "json_member j name =
     (case j of
        JNull \<Rightarrow> Inl (ThrownError (''Cannot read properties of null (reading '' @ name @ '')''))
      | JObj ms \<Rightarrow> Inr (map_of ms name)
      | _ \<Rightarrow> Inr None)"

text \<open>\<open>member ?? default\<close>, with null and undefined both missing.\<close>

definition member_or :: "json option \<Rightarrow> json \<Rightarrow> json" where
  "member_or m d = (case m of None \<Rightarrow> d | Some JNull \<Rightarrow> d | Some v \<Rightarrow> v)"

section \<open>settings.tsx\<close>

definition settings_key :: string where
  "settings_key = ''light-oss-settings''"

text \<open>
  The parsed members are cast to strings without a check, so what \<open>loadSettings\<close> returns is a
  pair of JSON values; \<open>cast_settings\<close> is the record, where the cast is right. The defaults
  come from the build environment.
\<close>

definition default_settings :: "string option \<Rightarrow> string option \<Rightarrow> app_settings" where
  "default_settings env_url env_token =
     \<lparr>apiBaseUrl = nullish env_url ''http://localhost:8080'',
      bearerToken = nullish env_token ''light-oss''\<rparr>"

definition settings_pair :: "app_settings \<Rightarrow> json \<times> json" where
  "settings_pair s = (JStr (apiBaseUrl s), JStr (bearerToken s))"

definition cast_settings :: "json \<times> json \<Rightarrow> app_settings option" where
  "cast_settings p =
     (case p of (JStr u, JStr t) \<Rightarrow> Some \<lparr>apiBaseUrl = u, bearerToken = t\<rparr> | _ \<Rightarrow> None)"

definition parse_settings :: "app_settings \<Rightarrow> stored_text option \<Rightarrow> json \<times> json" where
  "parse_settings dflt raw =
     (case raw of
        Some (JsonText j) \<Rightarrow>
          (case (json_member j ''apiBaseUrl'', json_member j ''bearerToken'') of
             (Inr u, Inr t) \<Rightarrow> (member_or u (JStr (apiBaseUrl dflt)), member_or t (JStr (bearerToken dflt)))
           | _ \<Rightarrow> settings_pair dflt)
      | _ \<Rightarrow> settings_pair dflt)"

definition loadSettings :: "app_settings \<Rightarrow> browser_storage \<Rightarrow> thrown + (json \<times> json)" where
  "loadSettings dflt st =
     (case getItem st settings_key of
        Inl e \<Rightarrow> Inl e
      | Inr raw \<Rightarrow> Inr (parse_settings dflt raw))"

definition settings_json :: "json \<times> json \<Rightarrow> json" where
  "settings_json p = JObj [(''apiBaseUrl'', fst p), (''bearerToken'', snd p)]"

text \<open>The provider: the initial state, and the effect that runs after every change of it.\<close>

definition settings_initial ::
  "app_settings option \<Rightarrow> app_settings \<Rightarrow> browser_storage \<Rightarrow> thrown + (json \<times> json)" where
  "settings_initial initialSettings dflt st =
     (case initialSettings of Some s \<Rightarrow> Inr (settings_pair s) | None \<Rightarrow> loadSettings dflt st)"

definition settings_effect :: "json \<times> json \<Rightarrow> browser_storage \<Rightarrow> thrown + browser_storage" where
  "settings_effect settings st = setItem settings_key (settings_json settings) st"

section \<open>preferences.tsx\<close>

datatype app_locale = EnUS | ZhCN
datatype app_theme = Light | Dark

primrec locale_value :: "app_locale \<Rightarrow> string" where
  "locale_value EnUS = ''en-US''"
| "locale_value ZhCN = ''zh-CN''"

primrec theme_value :: "app_theme \<Rightarrow> string" where
  "theme_value Light = ''light''"
| "theme_value Dark = ''dark''"

record app_preferences =
  pref_locale :: app_locale
  pref_theme :: app_theme

definition preferences_key :: string where
  "preferences_key = ''light-oss-preferences''"

text \<open>What detection reads: \<open>navigator\<close> and the colour-scheme media query, where they exist.\<close>

record browser_hints =
  nav_languages :: "string list option"
  nav_language :: string
  prefers_dark :: "bool option"

definition detectLocale :: "browser_hints \<Rightarrow> app_locale" where
  "detectLocale h =
     (let languages = nullish (nav_languages h) [nav_language h]
      in if list_ex (\<lambda>language. starts_with (to_lower language) ''zh'') languages then ZhCN else EnUS)"

definition detectTheme :: "browser_hints \<Rightarrow> app_theme" where
  "detectTheme h = (if prefers_dark h = Some True then Dark else Light)"

definition detected :: "browser_hints \<Rightarrow> app_preferences" where
  "detected h = \<lparr>pref_locale = detectLocale h, pref_theme = detectTheme h\<rparr>"

definition parse_locale :: "json option \<Rightarrow> app_locale \<Rightarrow> app_locale" where
  "parse_locale m fallback =
     (if m = Some (JStr ''zh-CN'') then ZhCN else if m = Some (JStr ''en-US'') then EnUS else fallback)"

definition parse_theme :: "json option \<Rightarrow> app_theme \<Rightarrow> app_theme" where
  "parse_theme m fallback =
     (if m = Some (JStr ''dark'') then Dark else if m = Some (JStr ''light'') then Light else fallback)"

definition parse_preferences :: "app_preferences \<Rightarrow> stored_text option \<Rightarrow> app_preferences" where
  "parse_preferences fallback raw =
     (case raw of
        Some (JsonText j) \<Rightarrow>
          (case (json_member j ''locale'', json_member j ''theme'') of
             (Inr l, Inr t) \<Rightarrow>
               \<lparr>pref_locale = parse_locale l (pref_locale fallback),
                pref_theme = parse_theme t (pref_theme fallback)\<rparr>
           | _ \<Rightarrow> fallback)
      | _ \<Rightarrow> fallback)"

definition loadPreferences :: "browser_hints \<Rightarrow> browser_storage \<Rightarrow> thrown + app_preferences" where
  "loadPreferences h st =
     (case getItem st preferences_key of
        Inl e \<Rightarrow> Inl e
      | Inr raw \<Rightarrow> Inr (parse_preferences (detected h) raw))"

definition preferences_json :: "app_preferences \<Rightarrow> json" where
  "preferences_json p =
     JObj [(''locale'', JStr (locale_value (pref_locale p))),
           (''theme'', JStr (theme_value (pref_theme p)))]"

record document_root =
  doc_lang :: string
  doc_dark_class :: bool
  doc_color_scheme :: string

definition preferences_effect ::
  "app_preferences \<Rightarrow> browser_storage \<times> document_root \<Rightarrow> thrown + browser_storage \<times> document_root" where
  "preferences_effect p w =
     (case setItem preferences_key (preferences_json p) (fst w) of
        Inl e \<Rightarrow> Inl e
      | Inr st \<Rightarrow>
          Inr (st, \<lparr>doc_lang = locale_value (pref_locale p), doc_dark_class = (pref_theme p = Dark),
                   doc_color_scheme = theme_value (pref_theme p)\<rparr>))"

definition setLocale :: "app_locale \<Rightarrow> app_preferences \<Rightarrow> app_preferences" where
  "setLocale l current = current\<lparr>pref_locale := l\<rparr>"

definition setTheme :: "app_theme \<Rightarrow> app_preferences \<Rightarrow> app_preferences" where
  "setTheme t current = current\<lparr>pref_theme := t\<rparr>"

text \<open>The toggle button of \<open>components/ThemeToggle.tsx\<close>.\<close>

definition toggle_theme :: "app_preferences \<Rightarrow> app_preferences" where
  "toggle_theme p = setTheme (if pref_theme p = Light then Dark else Light) p"

section \<open>A persisted cell\<close>

text \<open>
  What settings, preferences and pins share: a value that is written as JSON under one key and
  parsed, with defaults, when the page is loaded again.
\<close>

locale persisted_cell =
  fixes key :: string
    and encode :: "'a \<Rightarrow> json"
    and parse :: "stored_text option \<Rightarrow> 'a"
    and valid :: "'a \<Rightarrow> bool"
  assumes parse_encode: "valid v \<Longrightarrow> parse (Some (JsonText (encode v))) = v"
    and parse_valid: "valid (parse raw)"
begin

lemma saved_then_loaded:
  assumes "valid v" and "setItem key (encode v) st = Inr st'"
  shows "parse (items st' key) = v"
  using assms by (auto simp: setItem_def parse_encode split: if_splits)

lemma first_effect_stable: "parse (Some (JsonText (encode (parse raw)))) = parse raw"
  by (simp add: parse_encode parse_valid)

lemma other_key_kept:
  "setItem key j st = Inr st' \<Longrightarrow> k \<noteq> key \<Longrightarrow> items st' k = items st k"
  by (auto simp: setItem_def split: if_splits)

end

lemma member_or_JNull_iff: "member_or m d = JNull \<Longrightarrow> d = JNull"
  by (auto simp: member_or_def split: option.splits json.splits)

interpretation settings_cell: persisted_cell settings_key settings_json "parse_settings dflt"
    "\<lambda>p. fst p \<noteq> JNull \<and> snd p \<noteq> JNull" for dflt
proof unfold_locales
  show "fst v \<noteq> JNull \<and> snd v \<noteq> JNull \<Longrightarrow>
      parse_settings dflt (Some (JsonText (settings_json v))) = v" for v
    by (cases v)
       (auto simp: parse_settings_def settings_json_def json_member_def member_or_def split: json.splits)
next
  show "fst (parse_settings dflt raw) \<noteq> JNull \<and> snd (parse_settings dflt raw) \<noteq> JNull" for raw
    by (auto simp: parse_settings_def settings_pair_def split: option.splits stored_text.splits sum.splits
        dest: member_or_JNull_iff)
qed

interpretation preferences_cell: persisted_cell preferences_key preferences_json
    "parse_preferences fallback" "\<lambda>_. True" for fallback
proof unfold_locales
  show "parse_preferences fallback (Some (JsonText (preferences_json v))) = v" for v
    by (cases "pref_locale v"; cases "pref_theme v")
       (simp_all add: parse_preferences_def preferences_json_def json_member_def parse_locale_def
          parse_theme_def)
qed simp

section \<open>Properties\<close>

text \<open>
  Saved settings survive a reload: what the effect of the provider writes is what the next
  page load reads, under any build defaults; a blocked or damaged entry gives the defaults, and
  the preferences stored beside them are not touched.
\<close>

theorem settings_survive_reload:
  "(case settings_effect (settings_pair s) st of
      Inr st' \<Rightarrow>
        items st' preferences_key = items st preferences_key \<and>
        (case loadSettings dflt st' of
           Inr p \<Rightarrow> cast_settings p = Some s \<and> readable st
         | Inl _ \<Rightarrow> \<not> readable st)
    | Inl _ \<Rightarrow> \<not> writable st) \<and>
   parse_settings dflt None = settings_pair dflt \<and>
   parse_settings dflt (Some BadText) = settings_pair dflt \<and>
   parse_settings dflt (Some (JsonText JNull)) = settings_pair dflt \<and>
   parse_settings dflt (Some (JsonText (JArr js))) = settings_pair dflt"
proof -
  have "parse_settings dflt (Some (JsonText (settings_json (settings_pair s)))) = settings_pair s"
    by (rule settings_cell.parse_encode) (simp add: settings_pair_def)
  moreover have "preferences_key \<noteq> settings_key"
    by (simp add: preferences_key_def settings_key_def)
  ultimately show ?thesis
    by (auto simp: settings_effect_def setItem_def loadSettings_def getItem_def cast_settings_def
        settings_pair_def parse_settings_def json_member_def member_or_def)
qed

lemma cast_settings_iff: "cast_settings (u, t) \<noteq> None \<longleftrightarrow> (\<exists>a. u = JStr a) \<and> (\<exists>b. t = JStr b)"
  by (cases u; cases t) (simp_all add: cast_settings_def)

lemma member_or_string:
  "(\<exists>a. member_or m (JStr d) = JStr a) \<longleftrightarrow> \<not> (\<exists>v. m = Some v \<and> v \<noteq> JNull \<and> (\<forall>a. v \<noteq> JStr a))"
  by (auto simp: member_or_def split: option.split json.split)

text \<open>
  C40. The type of the loaded settings. What the provider starts with is a pair of texts, as its
  type says, for every entry of the storage but one: an object with a member that is neither
  missing, null nor a text. Such a member is loaded as it is.
\<close>

theorem settings_loaded_type:
  "cast_settings (parse_settings dflt raw) \<noteq> None \<longleftrightarrow>
     \<not> (\<exists>ms m v. raw = Some (JsonText (JObj ms)) \<and> (m = ''apiBaseUrl'' \<or> m = ''bearerToken'') \<and>
          map_of ms m = Some v \<and> v \<noteq> JNull \<and> (\<forall>a. v \<noteq> JStr a))"
proof (cases "\<exists>ms. raw = Some (JsonText (JObj ms))")
  case True
  then obtain ms where raw: "raw = Some (JsonText (JObj ms))" by blast
  then have loaded: "parse_settings dflt raw = (member_or (map_of ms ''apiBaseUrl'') (JStr (apiBaseUrl dflt)),
      member_or (map_of ms ''bearerToken'') (JStr (bearerToken dflt)))"
    by (simp add: parse_settings_def json_member_def)
  show ?thesis unfolding loaded cast_settings_iff member_or_string unfolding raw by auto
next
  case False
  then have "cast_settings (parse_settings dflt raw) \<noteq> None"
    by (auto simp: parse_settings_def settings_pair_def json_member_def member_or_def cast_settings_def
        split: option.split stored_text.split json.split)
  with False show ?thesis by blast
qed

text \<open>
  The members of a stored settings object are not checked: an entry whose URL is a number is
  loaded as it is, so the value that the rest of the program calls \<open>trim\<close> on is not a string.
\<close>

theorem loadSettings_unchecked:
  "\<exists>st. loadSettings dflt st = Inr (JInt 8080, JStr ''token'') \<and>
     cast_settings (JInt 8080, JStr ''token'') = None"
proof -
  let ?st = "\<lparr>items = [settings_key \<mapsto> JsonText (JObj [(''apiBaseUrl'', JInt 8080),
      (''bearerToken'', JStr ''token'')])], readable = True, writable = True\<rparr>"
  have "loadSettings dflt ?st = Inr (JInt 8080, JStr ''token'')"
    by (simp add: loadSettings_def getItem_def parse_settings_def json_member_def member_or_def)
  moreover have "cast_settings (JInt 8080, JStr ''token'') = None"
    by (simp add: cast_settings_def)
  ultimately show ?thesis by blast
qed

text \<open>
  Preferences: what the effect stores is what a reload reads, whatever the browser
  would detect; the document shows the same theme and language; toggling the theme twice gives the
  preferences back, and never changes the locale.
\<close>

theorem preferences_survive_reload:
  "(case preferences_effect p (st, doc) of
      Inr (st', doc') \<Rightarrow>
        parse_preferences fallback (items st' preferences_key) = p \<and>
        (doc_dark_class doc' \<longleftrightarrow> doc_color_scheme doc' = ''dark'') \<and>
        doc_lang doc' = locale_value (pref_locale p) \<and>
        items st' settings_key = items st settings_key
    | Inl _ \<Rightarrow> \<not> writable st) \<and>
   toggle_theme (toggle_theme p) = p \<and> toggle_theme p \<noteq> p \<and>
   pref_locale (toggle_theme p) = pref_locale p"
proof -
  have ne: "preferences_key \<noteq> settings_key"
    by (simp add: preferences_key_def settings_key_def)
  have "toggle_theme (toggle_theme p) = p \<and> toggle_theme p \<noteq> p \<and> pref_locale (toggle_theme p) = pref_locale p"
    by (cases p; cases "pref_theme p") (auto simp: toggle_theme_def setTheme_def)
  moreover have "parse_preferences fallback (Some (JsonText (preferences_json p))) = p"
    by (rule preferences_cell.parse_encode) simp
  ultimately show ?thesis using ne
    by (cases "pref_theme p") (auto simp: preferences_effect_def setItem_def)
qed

end
