(* ===== verification/PageTask.thy ===== *)
theory PageTask
  imports ApiSites Storage
begin

text \<open>
  What the handlers of the pages wait for. A page calls the API modules, whose requests are
  passed on (\<open>api_call\<close>), and TanStack Query: \<open>mutateAsync\<close> starts a mutation of the page and
  settles when it has run; invalidation refetches queries. The mutation's own callbacks are
  handlers of the page that the library starts, at any time as far as the model is concerned.
  Toasts are texts: a translation key with its values, or the message of an error.
\<close>

datatype 'm page_io =
    SendHttp http_io
  | MutateAsync 'm
  | InvalidateQueries "string list list"
  | Wait nat

record page_reply =
  rep_http :: "thrown + http_response"
  rep_done :: "thrown + unit"

type_synonym ('s, 'm, 'a) page_task = "('s, 'm page_io, page_reply, thrown, 'a) task"

section \<open>Passing requests on\<close>

primrec lift_task ::
  "('q \<Rightarrow> 'p) \<Rightarrow> ('t \<Rightarrow> 'r) \<Rightarrow> ('s, 'q, 'r, 'e, 'a) task \<Rightarrow> ('s, 'p, 't, 'e, 'a) task" where
  "lift_task f g (Return a) = Return a"
| "lift_task f g (Raise e) = Raise e"
| "lift_task f g (Update h t) = Update h (lift_task f g t)"
| "lift_task f g (Read h) = Read (\<lambda>s. lift_task f g (h s))"
| "lift_task f g (Await q h) = Await (f q) (\<lambda>r. lift_task f g (h (g r)))"

definition api_call :: "('s, 'a) api_task \<Rightarrow> ('s, 'm, 'a) page_task" where
  "api_call t = lift_task SendHttp rep_http t"

definition await_done :: "'m page_io \<Rightarrow> ('s, 'm, unit) page_task" where
  "await_done q = Await q (\<lambda>r. case rep_done r of Inl e \<Rightarrow> Raise e | Inr u \<Rightarrow> Return u)"

abbreviation mutateAsync :: "'m \<Rightarrow> ('s, 'm, unit) page_task" where
  "mutateAsync m \<equiv> await_done (MutateAsync m)"

abbreviation invalidateQueries :: "string list list \<Rightarrow> ('s, 'm, unit) page_task" where
  "invalidateQueries ks \<equiv> await_done (InvalidateQueries ks)"

lemma exec_lift:
  "exec (lift_task f g t) reply env n s =
     (case exec t (\<lambda>k. g (reply k)) env n s of (s', tr, out) \<Rightarrow> (s', map f tr, out))"
  by (induction t arbitrary: n s) (auto simp: Let_def split: prod.splits)

lemma exec_api_call:
  "exec (api_call t) reply env n s =
     (case exec t (\<lambda>k. rep_http (reply k)) env n s of (s', tr, out) \<Rightarrow> (s', map SendHttp tr, out))"
  by (simp add: api_call_def exec_lift)

lemma exec_await_done:
  "exec (await_done q) reply env n s =
     (env n s, [q], case rep_done (reply n) of Inl e \<Rightarrow> Inl e | Inr u \<Rightarrow> Inr u)"
  by (auto simp: await_done_def split: sum.splits)

lemma safe_await_done [simp]: "safe I (await_done q) s = I s"
  by (auto simp: await_done_def split: sum.splits)

text \<open>An API call that does not touch the state keeps every invariant.\<close>

primrec stateless :: "('s, 'q, 'r, 'e, 'a) task \<Rightarrow> bool" where
  "stateless (Return a) = True"
| "stateless (Raise e) = True"
| "stateless (Update f t) = False"
| "stateless (Read g) = False"
| "stateless (Await q g) = (\<forall>r. stateless (g r))"

lemma stateless_bind: "stateless t \<Longrightarrow> (\<And>a. stateless (k a)) \<Longrightarrow> stateless (bind_task t k)"
  by (induction t) auto

lemma stateless_catch: "stateless t \<Longrightarrow> (\<And>e. stateless (h e)) \<Longrightarrow> stateless (catch_task t h)"
  by (induction t) auto

lemma stateless_request [simp]: "stateless (request q)"
  by (auto simp: request_def split: sum.splits)

lemma stateless_http_send [simp]: "stateless (http_send c q)"
  by (simp add: http_send_def)

lemma stateless_apiRequest [simp]: "stateless (apiRequest as settings config)"
  by (auto simp: apiRequest_def apiEnvelopeRequest_def unwrapEnvelope_def
      intro!: stateless_bind stateless_catch split: option.splits)

lemma stateless_envelope [simp]:
  "stateless (bind_task (apiEnvelopeRequest as settings config) unwrapEnvelope)"
  using stateless_apiRequest unfolding apiRequest_def .

lemma stateless_response_data [simp]: "stateless (response_data as r)"
  by (simp add: response_data_def split: resp_body.split)

lemma safe_lift_stateless: "stateless t \<Longrightarrow> I s \<Longrightarrow> safe I (lift_task f g t) s"
  by (induction t arbitrary: s) auto

lemma safe_api_call: "stateless t \<Longrightarrow> I s \<Longrightarrow> safe I (api_call t) s"
  unfolding api_call_def by (rule safe_lift_stateless)

lemma stateless_calls [simp]:
  "stateless (listBuckets settings q)" "stateless (createBucket settings b)"
  "stateless (deleteBucket settings b)" "stateless (listSites settings)"
  "stateless (createSite settings payload)" "stateless (updateSite settings i payload)"
  "stateless (deleteSite settings i)" "stateless (publishObjectSite settings po)"
  "stateless (getSystemStats settings)" "stateless (updateStorageQuota settings k)"
  "stateless (getHealthStatus settings)" "stateless (listExplorerEntries settings le)"
  "stateless (createFolder settings cf)" "stateless (deleteFolder settings b p r)"
  "stateless (deleteObject settings b p)" "stateless (deleteExplorerEntriesBatch settings b its)"
  "stateless (listRecycleBinObjects settings lr)" "stateless (restoreRecycleBinObjects settings ids)"
  "stateless (deleteRecycleBinObjects settings ids)" "stateless (updateObjectVisibility settings uv)"
  "stateless (createSignedDownloadPath settings b p x)"
  by (simp_all add: object_calls site_calls Let_def)

lemma stateless_uploads [simp]:
  "stateless (uploadObject settings uo)" "stateless (uploadFolder settings uf)"
  "stateless (checkObjectExists settings b p)"
  "stateless (uploadAndPublishSite settings pf)" "stateless (uploadFileAndPublishSite settings pl)"
  by (auto simp: uploadObject_def uploadFolder_def checkObjectExists_def uploadAndPublishSite_def
      uploadFileAndPublishSite_def intro!: stateless_bind stateless_catch
      split: sum.splits thrown.splits option.splits)

text \<open>The ZIP download only touches the log of the document.\<close>

lemma safe_downloadFolderZip:
  assumes "\<And>f s. I s \<Longrightarrow> I (put f s)" and "I s"
  shows "safe I (api_call (downloadFolderZip put settings b p)) s"
  using assms
  by (auto simp: api_call_def downloadFolderZip_def http_send_def request_def log_effect_def Let_def
      split: sum.splits)

section \<open>Mutations\<close>

text \<open>
  The options a page hands to \<open>useMutation\<close>: what it runs and its callbacks. Which of the tasks
  the library starts, and when, is left open.
\<close>

record ('s, 'm, 'v, 'r) mutation_options =
  mutationFn :: "'v \<Rightarrow> ('s, 'm, 'r) page_task"
  onSuccess :: "'v \<Rightarrow> 'r \<Rightarrow> ('s, 'm, unit) page_task"
  onError :: "thrown \<Rightarrow> 'v \<Rightarrow> ('s, 'm, unit) page_task"
  onSettled :: "('s, 'm, unit) page_task"

inductive callback_task :: "('s, 'm, 'v, 'r) mutation_options \<Rightarrow> ('s, 'm, unit) page_task \<Rightarrow> bool" for c where
  "callback_task c (bind_task (mutationFn c v) (\<lambda>_. Return ()))"
| "callback_task c (onSuccess c v r)"
| "callback_task c (onError c e v)"
| "callback_task c (onSettled c)"

inductive_cases callback_taskE: "callback_task c t"

section \<open>Toasts\<close>

datatype message_text = Raw string | Key string "(string \<times> int) list"

datatype toast = ToastSuccess message_text | ToastError message_text

text \<open>\<open>error instanceof Error ? error.message : t(key)\<close>.\<close>

definition error_text :: "thrown \<Rightarrow> string \<Rightarrow> message_text" where
  "error_text e key = (case e of ThrownOther _ \<Rightarrow> Key key [] | _ \<Rightarrow> Raw (shown_message e []))"

text \<open>\<open>result.member\<close> where the result may be undefined: the engine throws.\<close>

definition the_result :: "'a option \<Rightarrow> ('s, 'm, 'a) page_task" where
  "the_result x =
     (case x of Some v \<Rightarrow> Return v
      | None \<Rightarrow> Raise (ThrownError ''Cannot read properties of undefined''))"

lemma safe_the_result [simp]: "safe I (the_result x) s = I s"
  by (simp add: the_result_def split: option.split)

lemma exec_the_result:
  "exec (the_result x) reply env n s =
     (s, [], case x of Some v \<Rightarrow> Inr v | None \<Rightarrow> Inl (ThrownError ''Cannot read properties of undefined''))"
  by (simp add: the_result_def split: option.split)

section \<open>lib/utils.ts\<close>

text \<open>
  \<open>downloadFile\<close>: a link is added and clicked, the browser is given 150 ms, the link is removed
  whatever happens.
\<close>

definition downloadFile :: "'s dom_lens \<Rightarrow> string \<Rightarrow> string option \<Rightarrow> ('s, 'm, unit) page_task" where
  "downloadFile put url filename =
     finally_task
       (Update (log_effect put (ClickLink url (Option.bind filename truthy)))
          (await_done (Wait 150)))
       (log_effect put RemoveLink)"

lemma safe_downloadFile:
  assumes "\<And>f s. I s \<Longrightarrow> I (put f s)" and "I s"
  shows "safe I (downloadFile put url name) s"
  using assms by (auto simp: downloadFile_def log_effect_def await_done_def split: sum.splits)

end
