(* ===== verification/SearchParams.thy ===== *)
theory SearchParams
  imports JsString
begin

text \<open>
  \<open>URLSearchParams\<close> as the pages use it: an ordered list of name and value pairs with \<open>get\<close>
  (the first pair), \<open>set\<close> (the first pair is replaced, the others are dropped, or a pair is
  appended) and \<open>delete\<close> (all pairs); and the update loop that the pages share, which
  deletes a name when its new value is empty.
\<close>

type_synonym search_params = "(string \<times> string) list"

definition params_get :: "search_params \<Rightarrow> string \<Rightarrow> string option" where
  "params_get ps k = map_of ps k"

definition params_delete :: "string \<Rightarrow> search_params \<Rightarrow> search_params" where
  "params_delete k ps = filter (\<lambda>(k', _). k' \<noteq> k) ps"

fun params_set :: "string \<Rightarrow> string \<Rightarrow> search_params \<Rightarrow> search_params" where
  "params_set k v [] = [(k, v)]"
| "params_set k v ((k', v') # ps) =
     (if k' = k then (k, v) # params_delete k ps else (k', v') # params_set k v ps)"

section \<open>Stores of named values\<close>

locale param_store =
  fixes get :: "'store \<Rightarrow> 'key \<Rightarrow> 'v list option"
    and set_value :: "'key \<Rightarrow> 'v list \<Rightarrow> 'store \<Rightarrow> 'store"
    and delete :: "'key \<Rightarrow> 'store \<Rightarrow> 'store"
  assumes get_set: "get (set_value k v st) k' = (if k' = k then Some v else get st k')"
    and get_delete: "get (delete k st) k' = (if k' = k then None else get st k')"
begin

lemma get_loop:
  assumes "distinct (map fst us)"
  shows "get (fold (\<lambda>(k, v) st. if v = [] then delete k st else set_value k v st) us st) k' =
     (case map_of us k' of None \<Rightarrow> get st k' | Some v \<Rightarrow> if v = [] then None else Some v)"
  using assms
proof (induction us arbitrary: st)
  case (Cons u us)
  obtain k v where u: "u = (k, v)" by force
  with Cons.prems have "map_of us k = None" by (simp add: map_of_eq_None_iff)
  with Cons u show ?case by (cases "k' = k") (auto simp: get_set get_delete split: option.split)
qed simp

end

lemma params_get_delete: "params_get (params_delete k ps) k' = (if k' = k then None else params_get ps k')"
  by (induction ps) (auto simp: params_get_def params_delete_def)

lemma params_get_set: "params_get (params_set k v ps) k' = (if k' = k then Some v else params_get ps k')"
  by (induction k v ps rule: params_set.induct)
     (auto simp: params_get_def params_get_delete [unfolded params_get_def])

interpretation url_params: param_store params_get params_set params_delete
  by unfold_locales (simp_all add: params_get_set params_get_delete)

text \<open>The loop of \<open>updateSearchParams\<close> over \<open>Object.entries(updates)\<close>.\<close>

definition apply_updates :: "(string \<times> string) list \<Rightarrow> search_params \<Rightarrow> search_params" where
  "apply_updates updates ps =
     fold (\<lambda>(k, v) st. if v = [] then params_delete k st else params_set k v st) updates ps"

lemma get_apply_updates:
  "distinct (map fst us) \<Longrightarrow>
     params_get (apply_updates us ps) k =
       (case map_of us k of None \<Rightarrow> params_get ps k | Some v \<Rightarrow> if v = [] then None else Some v)"
  unfolding apply_updates_def by (rule url_params.get_loop)

end
