(* ===== verification/Listing.thy ===== *)
theory Listing
  imports Prelude
begin

text \<open>
  What the two pages with a list of rows share (\<open>pages/BucketObjectsPage.tsx\<close> and
  \<open>features/buckets/RecycleBinDialog.tsx\<close>): a selection of rows kept as a \<open>Set\<close>, paging by
  cursors with a stack of the cursors before, and for the explorer the back and forward
  history of folders. The interfaces are locales; each page interprets them on its own handlers.
\<close>

section \<open>Sets of rows\<close>

text \<open>A JavaScript \<open>Set\<close> is a list of distinct elements in insertion order.\<close>

definition set_add :: "'k \<Rightarrow> 'k list \<Rightarrow> 'k list" where
  "set_add k xs = (if k \<in> set xs then xs else xs @ [k])"

definition set_delete :: "'k \<Rightarrow> 'k list \<Rightarrow> 'k list" where
  "set_delete k xs = filter (\<lambda>x. x \<noteq> k) xs"

definition set_mark :: "'k \<Rightarrow> bool \<Rightarrow> 'k list \<Rightarrow> 'k list" where
  "set_mark k checked xs = (if checked then set_add k xs else set_delete k xs)"

definition prune :: "'k list \<Rightarrow> 'k list \<Rightarrow> 'k list" where
  "prune visible xs = filter (\<lambda>x. x \<in> set visible) xs"

lemma distinct_set_mark: "distinct xs \<Longrightarrow> distinct (set_mark k c xs)"
  by (auto simp: set_mark_def set_add_def set_delete_def)

lemma set_set_mark: "set (set_mark k c xs) = (if c then insert k (set xs) else set xs - {k})"
  by (auto simp: set_mark_def set_add_def set_delete_def)

lemma distinct_prune: "distinct xs \<Longrightarrow> distinct (prune v xs)"
  by (simp add: prune_def)

lemma set_prune: "set (prune v xs) = set xs \<inter> set v"
  by (auto simp: prune_def)

text \<open>
  \<open>selected\<close> and \<open>visible\<close> read the selection and the keys of the rows; while \<open>locked\<close>, the
  handlers do nothing.
\<close>

locale row_selection =
  fixes selected :: "'s \<Rightarrow> 'k list"
    and visible :: "'s \<Rightarrow> 'k list"
    and locked :: "'s \<Rightarrow> bool"
    and select_all :: "bool \<Rightarrow> 's \<Rightarrow> 's"
    and select_row :: "'k \<Rightarrow> bool \<Rightarrow> 's \<Rightarrow> 's"
  assumes all_locked: "locked s \<Longrightarrow> select_all c s = s"
    and row_locked: "locked s \<Longrightarrow> select_row k c s = s"
    and all_selected: "\<not> locked s \<Longrightarrow>
      selected (select_all c s) = (if c then uniq (visible s) else [])"
    and row_selected: "\<not> locked s \<Longrightarrow> selected (select_row k c s) = set_mark k c (selected s)"
    and all_frame: "visible (select_all c s) = visible s" "locked (select_all c s) = locked s"
    and row_frame: "visible (select_row k c s) = visible s" "locked (select_row k c s) = locked s"
begin

lemma distinct_kept:
  "distinct (selected s) \<Longrightarrow> distinct (selected (select_all c s))"
  "distinct (selected s) \<Longrightarrow> distinct (selected (select_row k c s))"
  by (cases "locked s"; simp add: all_locked all_selected row_locked row_selected distinct_set_mark)+

lemma visible_kept:
  assumes "set (selected s) \<subseteq> set (visible s)"
  shows "set (selected (select_all c s)) \<subseteq> set (visible (select_all c s))"
    and "k \<in> set (visible s) \<Longrightarrow>
      set (selected (select_row k c s)) \<subseteq> set (visible (select_row k c s))"
  using assms
  by (cases "locked s"; auto simp: all_locked all_selected row_locked row_selected
      all_frame row_frame set_set_mark split: if_splits)+

text \<open>Marking the rows one by one selects what the box in the header selects.\<close>

lemma rows_then_all:
  assumes "\<not> locked s"
  shows "set (selected (fold (\<lambda>k. select_row k True) (visible s) s)) = set (selected s) \<union> set (visible s)"
proof -
  have "set (selected (fold (\<lambda>k. select_row k True) ks s')) = set (selected s') \<union> set ks"
    if "\<not> locked s'" for ks s'
    using that by (induction ks arbitrary: s') (auto simp: row_selected row_frame set_set_mark)
  then show ?thesis using assms by blast
qed

end

section \<open>Paging by cursors\<close>

text \<open>
  \<open>cursor\<close> is where the page starts, \<open>stack\<close> the cursors of the pages before it; \<open>forward c\<close> is
  the handler of the next button when the server's next cursor is \<open>c\<close>, \<open>backward\<close> the one of
  the previous button; \<open>same\<close> says that nothing else that decides what is listed differs.
\<close>

locale cursor_pager =
  fixes cursor :: "'s \<Rightarrow> string"
    and stack :: "'s \<Rightarrow> string list"
    and forward :: "string \<Rightarrow> 's \<Rightarrow> 's"
    and backward :: "'s \<Rightarrow> 's"
    and same :: "'s \<Rightarrow> 's \<Rightarrow> bool"
  assumes forward_page: "c \<noteq> [] \<Longrightarrow> cursor (forward c s) = c \<and> stack (forward c s) = stack s @ [cursor s]"
    and forward_end: "forward [] s = s"
    and backward_page: "stack s = cs @ [c] \<Longrightarrow> cursor (backward s) = c \<and> stack (backward s) = cs"
    and backward_start: "stack s = [] \<Longrightarrow> backward s = s"
    and same_refl: "same s s"
    and same_trans: "same s t \<Longrightarrow> same t u \<Longrightarrow> same s u"
    and same_forward: "same s (forward c s)"
    and same_backward: "same s (backward s)"
begin

definition pages_on :: "string list \<Rightarrow> 's \<Rightarrow> 's" where
  "pages_on cs s = fold forward cs s"

definition pages_back :: "nat \<Rightarrow> 's \<Rightarrow> 's" where
  "pages_back n s = (backward ^^ n) s"

lemma forward_then_backward:
  assumes "c \<noteq> []"
  shows "cursor (backward (forward c s)) = cursor s \<and> stack (backward (forward c s)) = stack s
    \<and> same s (backward (forward c s))"
  using forward_page [OF assms, of s] backward_page [of "forward c s" "stack s" "cursor s"]
    same_trans [OF same_forward same_backward, of s c] by simp

lemma pages_on_stack:
  "[] \<notin> set cs \<Longrightarrow> length (stack (pages_on cs s)) = length (stack s) + length cs"
  by (induction cs arbitrary: s) (auto simp: pages_on_def forward_page)

lemma pages_on_same: "same s (pages_on cs s)"
proof (induction cs arbitrary: s)
  case (Cons c cs)
  have "same (forward c s) (pages_on (c # cs) s)" using Cons.IH by (simp add: pages_on_def)
  then show ?case using same_trans [OF same_forward] by blast
qed (simp add: pages_on_def same_refl)

lemma pages_back_same: "same s (pages_back n s)"
proof (induction n)
  case (Suc n)
  then show ?case using same_trans [OF _ same_backward] by (simp add: pages_back_def)
qed (simp add: pages_back_def same_refl)

text \<open>Going on over any number of pages and back as many restores cursor and stack.\<close>

lemma pages_on_snoc: "pages_on (cs @ [c]) s = forward c (pages_on cs s)"
  by (simp add: pages_on_def)

lemma pages_back_Suc: "pages_back (Suc n) s = pages_back n (backward s)"
  by (simp add: pages_back_def funpow_swap1)

lemma backward_determined:
  assumes "cursor s = cursor t" "stack s = stack t"
  shows "cursor (backward s) = cursor (backward t) \<and> stack (backward s) = stack (backward t)"
proof (cases "stack t" rule: rev_cases)
  case Nil
  with assms show ?thesis by (simp add: backward_start)
next
  case (snoc cs c)
  with assms show ?thesis using backward_page by metis
qed

lemma pages_back_determined:
  "cursor s = cursor t \<Longrightarrow> stack s = stack t \<Longrightarrow>
     cursor (pages_back n s) = cursor (pages_back n t) \<and> stack (pages_back n s) = stack (pages_back n t)"
proof (induction n arbitrary: s t)
  case (Suc n)
  from Suc.IH backward_determined [OF Suc.prems] show ?case unfolding pages_back_Suc by blast
qed (simp add: pages_back_def)

lemma pages_there_and_back:
  assumes "[] \<notin> set cs"
  shows "cursor (pages_back (length cs) (pages_on cs s)) = cursor s \<and>
    stack (pages_back (length cs) (pages_on cs s)) = stack s \<and>
    same s (pages_back (length cs) (pages_on cs s))"
proof -
  have "cursor (pages_back (length cs) (pages_on cs s)) = cursor s \<and>
      stack (pages_back (length cs) (pages_on cs s)) = stack s"
    using assms
  proof (induction cs rule: rev_induct)
    case (snoc c cs)
    let ?t = "pages_on cs s"
    have "cursor (backward (forward c ?t)) = cursor ?t \<and> stack (backward (forward c ?t)) = stack ?t"
      using forward_then_backward [of c ?t] snoc.prems by auto
    with pages_back_determined [of "backward (forward c ?t)" ?t "length cs"] snoc show ?case
      by (simp add: pages_on_snoc pages_back_Suc)
  qed (simp add: pages_on_def pages_back_def)
  moreover have "same s (pages_back (length cs) (pages_on cs s))"
    using same_trans [OF pages_on_same pages_back_same] .
  ultimately show ?thesis by blast
qed

end

section \<open>A history of places\<close>

text \<open>
  The abstract back and forward history: the places left behind (last is nearest), the present
  one, and the places to return to. Without a past, going back leads to the parent.
\<close>

record 'p trail =
  past :: "'p list"
  here :: 'p
  future :: "'p list"

definition visit :: "'p \<Rightarrow> 'p trail \<Rightarrow> 'p trail" where
  "visit p z = (if p = here z then z else \<lparr>past = past z @ [here z], here = p, future = []\<rparr>)"

definition go_back :: "('p \<Rightarrow> 'p) \<Rightarrow> 'p trail \<Rightarrow> 'p trail" where
  "go_back parent z =
     (if past z \<noteq> [] then \<lparr>past = butlast (past z), here = last (past z), future = future z @ [here z]\<rparr>
      else if parent (here z) = here z then z
      else \<lparr>past = [], here = parent (here z), future = future z @ [here z]\<rparr>)"

definition go_forward :: "'p trail \<Rightarrow> 'p trail" where
  "go_forward z =
     (if future z = [] then z
      else \<lparr>past = past z @ [here z], here = last (future z), future = butlast (future z)\<rparr>)"

lemma go_back_visit: "p \<noteq> here z \<Longrightarrow> go_back f (visit p z) = z\<lparr>future := [p]\<rparr>"
  by (cases z) (simp add: visit_def go_back_def)

lemma go_forward_back: "past z \<noteq> [] \<Longrightarrow> go_forward (go_back f z) = z"
  by (cases z) (simp add: go_forward_def go_back_def)

lemma go_back_forward: "future z \<noteq> [] \<Longrightarrow> go_back f (go_forward z) = z"
  by (cases z) (simp add: go_forward_def go_back_def)

end
