(* ===== verification/ExplorerModel.thy ===== *)
theory ExplorerModel
  imports PageTask SearchParams Listing
begin

text \<open>
  Model of \<open>frontend/src/pages/BucketObjectsPage.tsx\<close>: the state of the page, the values it
  derives from the address, its effects, its mutations and its handlers. A handler that awaits
  is a task built from the state of the render it belongs to (\<open>s\<close>), as its closure is; what it
  sets is applied to the state at that moment. \<open>explorer_commit\<close> is what the effects do
  after a state change.
\<close>

section \<open>State\<close>

record upload_value =
  up_object_key :: string
  up_file :: upload_file
  up_visibility :: visibility

record folder_value =
  fv_files :: "upload_file list"
  fv_visibility :: visibility

record publish_value =
  pv_domains :: "string list"
  pv_enabled :: bool
  pv_index_document :: string
  pv_error_document :: string
  pv_spa_fallback :: bool

datatype publish_upload = PublishFolder publish_folder_params | PublishFile publish_file_params

datatype explorer_mutation =
    UploadM upload_value
  | UploadFolderM folder_value
  | CreateFolderM string
  | PublishUploadM publish_upload
  | DeleteFileM string
  | DeleteFolderM string
  | VisibilityM string visibility
  | PublishSiteM string publish_value
  | PublishObjectM string publish_value

text \<open>\<open>PendingOverwriteUpload\<close>; its kind is always \<open>object\<close>.\<close>

record pending_upload =
  pu_value :: upload_value
  pu_target :: "string option"

record explorer_page =
  ep_settings :: app_settings
  ep_bucket :: string
  ep_params :: search_params
  ep_search_input :: string
  ep_cursor_history :: "string list"
  ep_back_history :: "string list"
  ep_forward_history :: "string list"
  ep_progress :: number
  ep_reset_signal :: nat
  ep_checking_overwrite :: bool
  ep_pending_overwrite :: "pending_upload option"
  ep_retrying_overwrite :: bool
  ep_deleting_path :: string
  ep_downloading_file :: string
  ep_downloading_folder :: string
  ep_selected :: "string list"
  ep_bulk_download :: bool
  ep_bulk_delete :: bool
  ep_bulk_dialog :: bool
  ep_publishing_path :: string
  ep_data :: "explorer_entries_result option"
  ep_data_version :: nat
  ep_error :: "thrown option"
  ep_fetching :: bool
  ep_document :: "dom_effect list"
  ep_toasts :: "toast list"

type_synonym 'a explorer_task = "(explorer_page, explorer_mutation, 'a) page_task"

text \<open>The state of a page that has just been opened.\<close>

definition explorer_initial :: "app_settings \<Rightarrow> string \<Rightarrow> search_params \<Rightarrow> explorer_page" where
  "explorer_initial settings bucket params =
     \<lparr>ep_settings = settings, ep_bucket = bucket, ep_params = params, ep_search_input = [],
      ep_cursor_history = [], ep_back_history = [], ep_forward_history = [], ep_progress = Fin 0,
      ep_reset_signal = 0, ep_checking_overwrite = False, ep_pending_overwrite = None,
      ep_retrying_overwrite = False, ep_deleting_path = [], ep_downloading_file = [],
      ep_downloading_folder = [], ep_selected = [], ep_bulk_download = False, ep_bulk_delete = False,
      ep_bulk_dialog = False, ep_publishing_path = [], ep_data = None, ep_data_version = 0,
      ep_error = None, ep_fetching = False, ep_document = [], ep_toasts = []\<rparr>"

definition put_document :: "explorer_page dom_lens" where
  "put_document f s = s\<lparr>ep_document := f (ep_document s)\<rparr>"

definition show_toast :: "toast \<Rightarrow> explorer_page \<Rightarrow> explorer_page" where
  "show_toast m s = s\<lparr>ep_toasts := ep_toasts s @ [m]\<rparr>"

section \<open>Derived values\<close>

definition page_prefix :: "explorer_page \<Rightarrow> string" where
  "page_prefix s = normalizeExplorerPrefix (params_get (ep_params s) ''prefix'')"

definition page_search :: "explorer_page \<Rightarrow> string" where
  "page_search s = normalizeExplorerSearch (params_get (ep_params s) ''search'')"

definition page_cursor :: "explorer_page \<Rightarrow> string" where
  "page_cursor s = nullish (params_get (ep_params s) ''cursor'') []"

definition page_limit :: "explorer_page \<Rightarrow> nat" where
  "page_limit s = parseExplorerLimit (params_get (ep_params s) ''limit'')"

definition page_sort_by :: "explorer_page \<Rightarrow> sort_by" where
  "page_sort_by s = nullish (normalizeExplorerSortBy (params_get (ep_params s) ''sort_by'')) ByCreatedAt"

definition page_sort_order :: "explorer_page \<Rightarrow> sort_order" where
  "page_sort_order s = nullish (normalizeExplorerSortOrder (params_get (ep_params s) ''sort_order'')) Desc"

definition entries_base_key :: "explorer_page \<Rightarrow> string list" where
  "entries_base_key s =
     [''explorer-entries'', apiBaseUrl (ep_settings s), bearerToken (ep_settings s), ep_bucket s]"

definition sites_key :: "explorer_page \<Rightarrow> string list" where
  "sites_key s = [''sites'', apiBaseUrl (ep_settings s), bearerToken (ep_settings s)]"

text \<open>The function of the entries query; it is enabled while there is a bucket.\<close>

definition entries_request :: "explorer_page \<Rightarrow> ('t, explorer_entries_result option) api_task" where
  "entries_request s =
     listExplorerEntries (ep_settings s)
       \<lparr>le_bucket = ep_bucket s, le_prefix = page_prefix s, le_search = page_search s,
        le_limit = page_limit s, le_cursor = page_cursor s,
        le_sort_by = Some (page_sort_by s), le_sort_order = Some (page_sort_order s)\<rparr>"

definition page_entries :: "explorer_page \<Rightarrow> explorer_entry list" where
  "page_entries s = (case ep_data s of None \<Rightarrow> [] | Some d \<Rightarrow> ee_items d)"

definition entry_paths :: "explorer_page \<Rightarrow> string list" where
  "entry_paths s = map entry_path (page_entries s)"

definition selected_entries :: "explorer_page \<Rightarrow> explorer_entry list" where
  "selected_entries s = filter (\<lambda>e. entry_path e \<in> set (ep_selected s)) (page_entries s)"

definition bulk_actions_pending :: "explorer_page \<Rightarrow> bool" where
  "bulk_actions_pending s \<longleftrightarrow> ep_bulk_download s \<or> ep_bulk_delete s"

definition isBucketNotFoundError :: "thrown option \<Rightarrow> bool" where
  "isBucketNotFoundError error =
     (case error of None \<Rightarrow> False | Some e \<Rightarrow> thrown_code e = Some ''bucket_not_found'')"

definition isObjectExistsError :: "thrown \<Rightarrow> bool" where
  "isObjectExistsError error \<longleftrightarrow> thrown_code error = Some ''object_exists''"

text \<open>What the confirmation dialog names.\<close>

definition overwrite_target :: "explorer_page \<Rightarrow> string" where
  "overwrite_target s =
     (case ep_pending_overwrite s of
        None \<Rightarrow> []
      | Some p \<Rightarrow>
          nullish (pu_target p)
            (joinExplorerPath (page_prefix s)
               (or_else (up_object_key (pu_value p)) (fl_name (up_file (pu_value p))))))"

text \<open>The arguments are the pending flags of the three upload mutations.\<close>

definition upload_pending :: "bool \<Rightarrow> bool \<Rightarrow> bool \<Rightarrow> explorer_page \<Rightarrow> bool" where
  "upload_pending single folder publish s \<longleftrightarrow>
     single \<or> folder \<or> publish \<or> ep_checking_overwrite s \<or> ep_retrying_overwrite s"

section \<open>Effects\<close>

text \<open>Everything but the cursor that decides what is listed, and the whole location.\<close>

definition list_filter :: "explorer_page \<Rightarrow> string \<times> string \<times> string \<times> nat \<times> sort_by \<times> sort_order" where
  "list_filter s =
     (ep_bucket s, page_prefix s, page_search s, page_limit s, page_sort_by s, page_sort_order s)"

definition search_effect :: "explorer_page \<Rightarrow> explorer_page \<Rightarrow> explorer_page" where
  "search_effect old s =
     (if page_search s \<noteq> page_search old then s\<lparr>ep_search_input := page_search s\<rparr> else s)"

definition paging_effect :: "explorer_page \<Rightarrow> explorer_page \<Rightarrow> explorer_page" where
  "paging_effect old s = (if list_filter s \<noteq> list_filter old then s\<lparr>ep_cursor_history := []\<rparr> else s)"

definition bucket_effect :: "explorer_page \<Rightarrow> explorer_page \<Rightarrow> explorer_page" where
  "bucket_effect old s =
     (if ep_bucket s \<noteq> ep_bucket old then s\<lparr>ep_back_history := [], ep_forward_history := []\<rparr> else s)"

definition location_effect :: "explorer_page \<Rightarrow> explorer_page \<Rightarrow> explorer_page" where
  "location_effect old s =
     (if list_filter s \<noteq> list_filter old \<or> page_cursor s \<noteq> page_cursor old
      then s\<lparr>ep_selected := []\<rparr> else s)"

text \<open>Runs when the identity of the entries changes, which the version stands for.\<close>

definition entries_effect :: "explorer_page \<Rightarrow> explorer_page \<Rightarrow> explorer_page" where
  "entries_effect old s =
     (if ep_data_version s \<noteq> ep_data_version old
      then s\<lparr>ep_selected := prune (entry_paths s) (ep_selected s)\<rparr> else s)"

definition explorer_commit :: "explorer_page \<Rightarrow> explorer_page \<Rightarrow> explorer_page" where
  "explorer_commit old s =
     entries_effect old (location_effect old (bucket_effect old
       (paging_effect old (search_effect old s))))"

section \<open>Synchronous handlers\<close>

definition updateSearchParams :: "(string \<times> string) list \<Rightarrow> explorer_page \<Rightarrow> explorer_page" where
  "updateSearchParams updates s = s\<lparr>ep_params := apply_updates updates (ep_params s)\<rparr>"

definition applyPrefixNavigation :: "string \<Rightarrow> explorer_page \<Rightarrow> explorer_page" where
  "applyPrefixNavigation nextPrefix s =
     updateSearchParams [(''prefix'', nextPrefix), (''search'', []), (''cursor'', [])]
       (s\<lparr>ep_cursor_history := [], ep_search_input := []\<rparr>)"

definition handleNavigatePrefix :: "string \<Rightarrow> bool option \<Rightarrow> bool option \<Rightarrow> explorer_page \<Rightarrow> explorer_page" where
  "handleNavigatePrefix nextPrefix optClearForward optRecord s =
     (let normalizedNextPrefix = normalizeExplorerPrefix (Some nextPrefix);
          recordHistory = nullish optRecord True;
          clearForwardHistory = nullish optClearForward True;
          s1 = (if normalizedNextPrefix \<noteq> page_prefix s \<and> recordHistory
                then s\<lparr>ep_back_history := ep_back_history s @ [page_prefix s]\<rparr> else s);
          s2 = (if normalizedNextPrefix \<noteq> page_prefix s \<and> clearForwardHistory
                then s1\<lparr>ep_forward_history := []\<rparr> else s1)
      in applyPrefixNavigation normalizedNextPrefix s2)"

definition handlePrefixBack :: "explorer_page \<Rightarrow> explorer_page" where
  "handlePrefixBack s =
     (if length (ep_back_history s) > 0
      then (let previousPrefix = last (ep_back_history s)
            in applyPrefixNavigation previousPrefix
                 (s\<lparr>ep_back_history := butlast (ep_back_history s),
                    ep_forward_history := ep_forward_history s @ [page_prefix s]\<rparr>))
      else (let parentPrefix = getParentExplorerPrefix (page_prefix s)
            in if parentPrefix = page_prefix s then s
               else applyPrefixNavigation parentPrefix
                      (s\<lparr>ep_forward_history := ep_forward_history s @ [page_prefix s]\<rparr>)))"

definition handlePrefixForward :: "explorer_page \<Rightarrow> explorer_page" where
  "handlePrefixForward s =
     (if length (ep_forward_history s) = 0 then s
      else applyPrefixNavigation (last (ep_forward_history s))
             (s\<lparr>ep_forward_history := butlast (ep_forward_history s),
                ep_back_history := ep_back_history s @ [page_prefix s]\<rparr>))"

definition canNavigatePrefixBack :: "explorer_page \<Rightarrow> bool" where
  "canNavigatePrefixBack s \<longleftrightarrow> length (ep_back_history s) > 0 \<or> page_prefix s \<noteq> []"

definition canNavigatePrefixForward :: "explorer_page \<Rightarrow> bool" where
  "canNavigatePrefixForward s \<longleftrightarrow> length (ep_forward_history s) > 0"

definition handleCancelOverwriteUpload :: "explorer_page \<Rightarrow> explorer_page" where
  "handleCancelOverwriteUpload s =
     (if ep_retrying_overwrite s then s else s\<lparr>ep_pending_overwrite := None, ep_progress := Fin 0\<rparr>)"

definition handleSelectAll :: "bool \<Rightarrow> explorer_page \<Rightarrow> explorer_page" where
  "handleSelectAll checked s =
     (if bulk_actions_pending s then s
      else s\<lparr>ep_selected := (if checked then uniq (entry_paths s) else [])\<rparr>)"

definition handleSelectEntry :: "string \<Rightarrow> bool \<Rightarrow> explorer_page \<Rightarrow> explorer_page" where
  "handleSelectEntry entryPath checked s =
     (if bulk_actions_pending s then s
      else s\<lparr>ep_selected := set_mark entryPath checked (ep_selected s)\<rparr>)"

definition handleSearchSubmit :: "explorer_page \<Rightarrow> explorer_page" where
  "handleSearchSubmit s =
     updateSearchParams [(''search'', trim (ep_search_input s)), (''cursor'', [])]
       (s\<lparr>ep_cursor_history := []\<rparr>)"

definition handleSortApply :: "sort_by \<Rightarrow> sort_order \<Rightarrow> explorer_page \<Rightarrow> explorer_page" where
  "handleSortApply nextSortBy nextSortOrder s =
     updateSearchParams
       [(''sort_by'', sort_by_value nextSortBy), (''sort_order'', sort_order_value nextSortOrder),
        (''cursor'', [])]
       (s\<lparr>ep_cursor_history := []\<rparr>)"

definition handleSortClear :: "explorer_page \<Rightarrow> explorer_page" where
  "handleSortClear s =
     updateSearchParams [(''sort_by'', []), (''sort_order'', []), (''cursor'', [])]
       (s\<lparr>ep_cursor_history := []\<rparr>)"

text \<open>The page-size menu, whose values are the printed sizes.\<close>

definition handleLimitChange :: "nat \<Rightarrow> explorer_page \<Rightarrow> explorer_page" where
  "handleLimitChange value s = updateSearchParams [(''limit'', nat_digits value), (''cursor'', [])] s"

definition next_cursor :: "explorer_page \<Rightarrow> string" where
  "next_cursor s = (case ep_data s of None \<Rightarrow> [] | Some d \<Rightarrow> ee_next_cursor d)"

text \<open>The next button, for the cursor that the data of the render holds.\<close>

definition forward_page :: "string \<Rightarrow> explorer_page \<Rightarrow> explorer_page" where
  "forward_page nextCursor s =
     (if nextCursor = [] then s
      else updateSearchParams [(''cursor'', nextCursor)]
             (s\<lparr>ep_cursor_history := ep_cursor_history s @ [page_cursor s]\<rparr>))"

definition handleNextPage :: "explorer_page \<Rightarrow> explorer_page" where
  "handleNextPage s = forward_page (next_cursor s) s"

definition handlePrevPage :: "explorer_page \<Rightarrow> explorer_page" where
  "handlePrevPage s =
     (if length (ep_cursor_history s) = 0 then s
      else updateSearchParams [(''cursor'', last (ep_cursor_history s))]
             (s\<lparr>ep_cursor_history := butlast (ep_cursor_history s)\<rparr>))"

text \<open>The dialogs and the clear button of the bulk bar.\<close>

definition handleBulkDialogOpenChange :: "bool \<Rightarrow> explorer_page \<Rightarrow> explorer_page" where
  "handleBulkDialogOpenChange open_now s =
     (if \<not> ep_bulk_delete s then s\<lparr>ep_bulk_dialog := open_now\<rparr> else s)"

definition handleOverwriteDialogOpenChange :: "bool \<Rightarrow> explorer_page \<Rightarrow> explorer_page" where
  "handleOverwriteDialogOpenChange open_now s =
     (if \<not> open_now then handleCancelOverwriteUpload s else s)"

definition handleClearSelection :: "explorer_page \<Rightarrow> explorer_page" where
  "handleClearSelection s = s\<lparr>ep_selected := []\<rparr>"

section \<open>Rendering decisions\<close>

datatype bulk_action = BulkDownload | BulkDelete | BulkClear

record bulk_button =
  bb_action :: bulk_action
  bb_disabled :: bool
  bb_label :: string

definition bulk_action_buttons :: "explorer_page \<Rightarrow> bulk_button list" where
  "bulk_action_buttons s =
     [\<lparr>bb_action = BulkDownload, bb_disabled = bulk_actions_pending s,
       bb_label = (if ep_bulk_download s then ''explorer.bulk.downloading'' else ''explorer.bulk.download'')\<rparr>,
      \<lparr>bb_action = BulkDelete, bb_disabled = bulk_actions_pending s,
       bb_label = (if ep_bulk_delete s then ''explorer.bulk.deleting'' else ''explorer.bulk.delete'')\<rparr>,
      \<lparr>bb_action = BulkClear, bb_disabled = bulk_actions_pending s,
       bb_label = ''explorer.bulk.clearSelection''\<rparr>]"

datatype entries_body = EntriesLoading | EntriesTable "explorer_entry list" | EntriesEmpty

record entries_panel =
  panel_error :: bool
  panel_body :: entries_body
  panel_overlay :: bool
  panel_bulk_bar :: "bulk_button list"
  panel_page :: nat
  panel_limit :: string
  panel_prev_disabled :: bool
  panel_next_disabled :: bool

text \<open>What the panel under the toolbar shows for a state of the page.\<close>

definition explorer_panel :: "explorer_page \<Rightarrow> entries_panel" where
  "explorer_panel s =
     \<lparr>panel_error = (ep_error s \<noteq> None),
      panel_body =
        (if ep_data s = None \<and> ep_fetching s then EntriesLoading
         else if page_entries s \<noteq> [] then EntriesTable (page_entries s)
         else EntriesEmpty),
      panel_overlay = (ep_data s \<noteq> None \<and> ep_fetching s),
      panel_bulk_bar = (if selected_entries s \<noteq> [] then bulk_action_buttons s else []),
      panel_page = length (ep_cursor_history s) + 1,
      panel_limit = nat_digits (page_limit s),
      panel_prev_disabled = (length (ep_cursor_history s) = 0),
      panel_next_disabled = (next_cursor s = [])\<rparr>"

definition page_unavailable :: "explorer_page \<Rightarrow> bool" where
  "page_unavailable s \<longleftrightarrow> ep_bucket s = [] \<or> isBucketNotFoundError (ep_error s)"

end
