(* ===== verification/ExplorerTasks.thy ===== *)
theory ExplorerTasks
  imports ExplorerModel
begin

text \<open>
  The asynchronous half of the model of \<open>frontend/src/pages/BucketObjectsPage.tsx\<close>: the
  mutations handed to TanStack Query, and the handlers that await. In each of them \<open>s\<close> is the
  state of the render whose closure runs.
\<close>

type_synonym ('v, 'r) explorer_callbacks =
  "(explorer_page, explorer_mutation, 'v, 'r) mutation_options"

section \<open>Upload requests\<close>

definition uploadObjectRequest ::
  "explorer_page \<Rightarrow> upload_value \<Rightarrow> bool \<Rightarrow> ('t, object_item option) api_task" where
  "uploadObjectRequest s value allowOverwrite =
     uploadObject (ep_settings s)
       \<lparr>uo_bucket = ep_bucket s, uo_object_key = joinExplorerPath (page_prefix s) (up_object_key value),
        uo_file = up_file value, uo_visibility = up_visibility value,
        uo_allow_overwrite = allowOverwrite\<rparr>"

definition uploadFolderRequest ::
  "explorer_page \<Rightarrow> folder_value \<Rightarrow> bool \<Rightarrow> ('t, batch_upload_result option) api_task" where
  "uploadFolderRequest s value allowOverwrite =
     uploadFolder (ep_settings s)
       \<lparr>uf_bucket = ep_bucket s, uf_prefix = page_prefix s, uf_files = fv_files value,
        uf_visibility = fv_visibility value, uf_allow_overwrite = allowOverwrite\<rparr>"

definition findObjectConflictTarget ::
  "explorer_page \<Rightarrow> upload_value \<Rightarrow> string option explorer_task" where
  "findObjectConflictTarget s value =
     (let objectKey = joinExplorerPath (page_prefix s) (up_object_key value)
      in bind_task (api_call (checkObjectExists (ep_settings s) (ep_bucket s) objectKey))
           (\<lambda>exists. Return (if exists then Some objectKey else None)))"

text \<open>Parts that the callbacks share: a toast, and the progress bar back at zero.\<close>

definition toast_then :: "toast \<Rightarrow> 'a explorer_task \<Rightarrow> 'a explorer_task" where
  "toast_then m t = Update (show_toast m) t"

definition reset_progress :: "explorer_page \<Rightarrow> explorer_page" where
  "reset_progress s = s\<lparr>ep_progress := Fin 0\<rparr>"

definition success_key :: "string \<Rightarrow> toast" where
  "success_key k = ToastSuccess (Key k [])"

section \<open>Mutations\<close>

definition uploadMutation :: "explorer_page \<Rightarrow> (upload_value, object_item option) explorer_callbacks" where
  "uploadMutation s =
     \<lparr>mutationFn = (\<lambda>value. api_call (uploadObjectRequest s value False)),
      onSuccess = (\<lambda>_ _. Update reset_progress
         (toast_then (success_key ''toast.objectUploaded'')
           (invalidateQueries [entries_base_key s]))),
      onError = (\<lambda>error value. Update reset_progress
         (if isObjectExistsError error
          then Update (\<lambda>now. now\<lparr>ep_pending_overwrite :=
                 Some \<lparr>pu_value = value,
                       pu_target = Some (joinExplorerPath (page_prefix s) (up_object_key value))\<rparr>\<rparr>)
               (Return ())
          else toast_then (ToastError (error_text error ''errors.uploadObject'')) (Return ()))),
      onSettled = Return ()\<rparr>"

definition uploadFolderMutation ::
  "explorer_page \<Rightarrow> (folder_value, batch_upload_result option) explorer_callbacks" where
  "uploadFolderMutation s =
     \<lparr>mutationFn = (\<lambda>value. api_call (uploadFolderRequest s value True)),
      onSuccess = (\<lambda>_ _. Update reset_progress
         (toast_then (success_key ''toast.folderUploaded'')
           (invalidateQueries [entries_base_key s]))),
      onError = (\<lambda>error _. Update reset_progress
         (toast_then (ToastError (error_text error ''errors.uploadFolder'')) (Return ()))),
      onSettled = Return ()\<rparr>"

definition createFolderMutation :: "explorer_page \<Rightarrow> (string, unit option) explorer_callbacks" where
  "createFolderMutation s =
     \<lparr>mutationFn = (\<lambda>name. api_call (createFolder (ep_settings s)
         \<lparr>cf_bucket = ep_bucket s, cf_prefix = page_prefix s, cf_name = name\<rparr>)),
      onSuccess = (\<lambda>_ _. toast_then (success_key ''toast.folderCreated'')
         (invalidateQueries [entries_base_key s])),
      onError = (\<lambda>error _. toast_then (ToastError (error_text error ''errors.createFolder'')) (Return ())),
      onSettled = Return ()\<rparr>"

text \<open>The single-file mode wraps its site as a result with one upload.\<close>

definition uploadAndPublishSiteMutation ::
  "explorer_page \<Rightarrow> (publish_upload, (int \<times> site option) option) explorer_callbacks" where
  "uploadAndPublishSiteMutation s =
     \<lparr>mutationFn = (\<lambda>value.
         case value of
           PublishFolder p \<Rightarrow>
             bind_task (api_call (uploadAndPublishSite (ep_settings s) p))
               (\<lambda>r. Return (map_option (\<lambda>x. (ps_uploaded_count x, Some (ps_site x))) r))
         | PublishFile p \<Rightarrow>
             bind_task (api_call (uploadFileAndPublishSite (ep_settings s) p))
               (\<lambda>site. Return (Some (1, site)))),
      onSuccess = (\<lambda>_ _. Update reset_progress
         (toast_then (success_key ''toast.sitePublished'')
           (invalidateQueries [entries_base_key s, sites_key s]))),
      onError = (\<lambda>error _. Update reset_progress
         (toast_then (ToastError (error_text error ''errors.publishSite'')) (Return ()))),
      onSettled = Return ()\<rparr>"

definition set_deleting :: "string \<Rightarrow> explorer_page \<Rightarrow> explorer_page" where
  "set_deleting path s = s\<lparr>ep_deleting_path := path\<rparr>"

definition deleteFileMutation :: "explorer_page \<Rightarrow> (string, unit) explorer_callbacks" where
  "deleteFileMutation s =
     \<lparr>mutationFn = (\<lambda>objectKey. Update (set_deleting objectKey)
         (bind_task (api_call (deleteObject (ep_settings s) (ep_bucket s) objectKey)) (\<lambda>_. Return ()))),
      onSuccess = (\<lambda>_ _. toast_then (success_key ''toast.objectDeleted'')
         (invalidateQueries [entries_base_key s])),
      onError = (\<lambda>error _. toast_then (ToastError (error_text error ''errors.deleteObject'')) (Return ())),
      onSettled = Update (set_deleting []) (Return ())\<rparr>"

definition deleteFolderMutation :: "explorer_page \<Rightarrow> (string, unit) explorer_callbacks" where
  "deleteFolderMutation s =
     \<lparr>mutationFn = (\<lambda>folderPath. Update (set_deleting folderPath)
         (bind_task (api_call (deleteFolder (ep_settings s) (ep_bucket s) folderPath True)) (\<lambda>_. Return ()))),
      onSuccess = (\<lambda>_ _. toast_then (success_key ''toast.folderDeleted'')
         (invalidateQueries [entries_base_key s])),
      onError = (\<lambda>error _. toast_then (ToastError (error_text error ''errors.deleteFolder'')) (Return ())),
      onSettled = Update (set_deleting []) (Return ())\<rparr>"

definition updateVisibilityMutation ::
  "explorer_page \<Rightarrow> (string \<times> visibility, object_item option) explorer_callbacks" where
  "updateVisibilityMutation s =
     \<lparr>mutationFn = (\<lambda>(objectKey, visibility). api_call (updateObjectVisibility (ep_settings s)
         \<lparr>uv_bucket = ep_bucket s, uv_object_key = objectKey, uv_visibility = visibility\<rparr>)),
      onSuccess = (\<lambda>_ _. invalidateQueries [entries_base_key s]),
      onError = (\<lambda>_ _. Return ()),
      onSettled = Return ()\<rparr>"

definition set_publishing :: "string \<Rightarrow> explorer_page \<Rightarrow> explorer_page" where
  "set_publishing path s = s\<lparr>ep_publishing_path := path\<rparr>"

definition publishSiteMutation ::
  "explorer_page \<Rightarrow> (string \<times> publish_value, site option) explorer_callbacks" where
  "publishSiteMutation s =
     \<lparr>mutationFn = (\<lambda>(folderPath, value). Update (set_publishing folderPath)
         (api_call (createSite (ep_settings s)
            \<lparr>cs_bucket = ep_bucket s, cs_root_prefix = folderPath, cs_enabled = pv_enabled value,
             cs_index_document = pv_index_document value, cs_error_document = pv_error_document value,
             cs_spa_fallback = pv_spa_fallback value, cs_domains = pv_domains value\<rparr>))),
      onSuccess = (\<lambda>_ _. toast_then (success_key ''toast.sitePublished'') (Return ())),
      onError = (\<lambda>error _. toast_then (ToastError (error_text error ''errors.publishSite'')) (Return ())),
      onSettled = Update (set_publishing []) (Return ())\<rparr>"

definition publishObjectSiteMutation ::
  "explorer_page \<Rightarrow> (string \<times> publish_value, site option) explorer_callbacks" where
  "publishObjectSiteMutation s =
     \<lparr>mutationFn = (\<lambda>(objectKey, value). Update (set_publishing objectKey)
         (api_call (publishObjectSite (ep_settings s)
            \<lparr>po_bucket = ep_bucket s, po_object_key = objectKey, po_domains = pv_domains value,
             po_enabled = pv_enabled value, po_error_document = pv_error_document value,
             po_spa_fallback = pv_spa_fallback value\<rparr>))),
      onSuccess = (\<lambda>_ _. toast_then (success_key ''toast.sitePublished'')
         (invalidateQueries [entries_base_key s, sites_key s])),
      onError = (\<lambda>error _. toast_then (ToastError (error_text error ''errors.publishSite'')) (Return ())),
      onSettled = Update (set_publishing []) (Return ())\<rparr>"

section \<open>Handlers\<close>

text \<open>
  \<open>handleUpload\<close>: the existence check, its failure shown and swallowed, the question before
  an overwrite, and the upload.
\<close>

definition set_checking :: "bool \<Rightarrow> explorer_page \<Rightarrow> explorer_page" where
  "set_checking b s = s\<lparr>ep_checking_overwrite := b\<rparr>"

definition ask_overwrite :: "upload_value \<Rightarrow> string \<Rightarrow> explorer_page \<Rightarrow> explorer_page" where
  "ask_overwrite value target s =
     s\<lparr>ep_pending_overwrite := Some \<lparr>pu_value = value, pu_target = Some target\<rparr>\<rparr>"

definition overwrite_question :: thrown where
  "overwrite_question = ThrownError ''overwrite_confirmation_required''"

definition handleUpload :: "explorer_page \<Rightarrow> upload_value \<Rightarrow> unit explorer_task" where
  "handleUpload s value =
     Update reset_progress (Update (set_checking True)
       (bind_task
          (finally_task
             (catch_task
                (bind_task (findObjectConflictTarget s value) (\<lambda>target. Return (Some target)))
                (\<lambda>error. toast_then (ToastError (error_text error ''errors.uploadObject'')) (Return None)))
             (set_checking False))
          (\<lambda>checked.
             case checked of
               None \<Rightarrow> Return ()
             | Some conflictTarget \<Rightarrow>
                 (if nullish conflictTarget [] \<noteq> []
                  then Update (ask_overwrite value (nullish conflictTarget [])) (Raise overwrite_question)
                  else mutateAsync (UploadM value)))))"

definition handleUploadFolder :: "folder_value \<Rightarrow> unit explorer_task" where
  "handleUploadFolder value = Update reset_progress (mutateAsync (UploadFolderM value))"

definition handleConfirmOverwriteUpload :: "explorer_page \<Rightarrow> unit explorer_task" where
  "handleConfirmOverwriteUpload s =
     (case ep_pending_overwrite s of
        None \<Rightarrow> Return ()
      | Some overwriteUpload \<Rightarrow>
          (if ep_retrying_overwrite s then Return ()
           else Update (\<lambda>now. now\<lparr>ep_pending_overwrite := None, ep_retrying_overwrite := True\<rparr>)
             (finally_task
                (catch_task
                   (bind_task (api_call (uploadObjectRequest s (pu_value overwriteUpload) True))
                      (\<lambda>_. Update (\<lambda>now. now\<lparr>ep_reset_signal := ep_reset_signal now + 1\<rparr>)
                         (toast_then (success_key ''toast.objectUploaded'')
                           (invalidateQueries [entries_base_key s]))))
                   (\<lambda>error. toast_then (ToastError (error_text error ''errors.uploadObject'')) (Return ())))
                (\<lambda>now. now\<lparr>ep_retrying_overwrite := False, ep_progress := Fin 0\<rparr>))))"

definition handleCreateFolder :: "string \<Rightarrow> unit explorer_task" where
  "handleCreateFolder name = mutateAsync (CreateFolderM name)"

definition handleUploadAndPublishSite :: "publish_upload \<Rightarrow> unit explorer_task" where
  "handleUploadAndPublishSite value = mutateAsync (PublishUploadM value)"

definition handleDeleteFile :: "string \<Rightarrow> unit explorer_task" where
  "handleDeleteFile objectKey = mutateAsync (DeleteFileM objectKey)"

definition handleDeleteFolder :: "string \<Rightarrow> unit explorer_task" where
  "handleDeleteFolder folderPath = mutateAsync (DeleteFolderM folderPath)"

definition handlePublishSite :: "string \<Rightarrow> publish_value \<Rightarrow> unit explorer_task" where
  "handlePublishSite folderPath value = mutateAsync (PublishSiteM folderPath value)"

definition handlePublishObjectSite :: "string \<Rightarrow> publish_value \<Rightarrow> unit explorer_task" where
  "handlePublishObjectSite objectKey value = mutateAsync (PublishObjectM objectKey value)"

definition handleUpdateVisibility :: "string \<Rightarrow> visibility \<Rightarrow> unit explorer_task" where
  "handleUpdateVisibility objectKey visibility = mutateAsync (VisibilityM objectKey visibility)"

text \<open>
  Downloads. \<open>url_with_download\<close> stands for the browser's URL class: the address with its
  \<open>download\<close> parameter set to true, or nothing where the constructor throws.
\<close>

definition appendDownloadQuery :: "(string \<Rightarrow> string option) \<Rightarrow> string \<Rightarrow> string" where
  "appendDownloadQuery url_with_download url =
     nullish (url_with_download url)
       (url @ (if str_includes url ''?'' then ''&'' else ''?'') @ ''download=true'')"

definition downloadExplorerFileEntry ::
  "(string \<Rightarrow> string option) \<Rightarrow> explorer_page \<Rightarrow> explorer_entry \<Rightarrow> unit explorer_task" where
  "downloadExplorerFileEntry url_with_download s entry =
     bind_task
       (if file_visibility entry = Public
        then Return (buildPublicObjectURL (apiBaseUrl (ep_settings s)) (ep_bucket s)
                       (file_object_key entry) True)
        else bind_task
               (api_call (createSignedDownloadPath (ep_settings s) (ep_bucket s)
                  (file_object_key entry) None))
               (\<lambda>result. bind_task (the_result result)
                  (\<lambda>signed. Return (buildApiURL (apiBaseUrl (ep_settings s)) (sd_path signed)))))
       (\<lambda>downloadUrl. downloadFile put_document (appendDownloadQuery url_with_download downloadUrl)
          (Some (or_else (file_original_filename entry) (entry_name entry))))"

definition downloadExplorerDirectoryEntry :: "explorer_page \<Rightarrow> explorer_entry \<Rightarrow> unit explorer_task" where
  "downloadExplorerDirectoryEntry s entry =
     api_call (downloadFolderZip put_document (ep_settings s) (ep_bucket s) (entry_path entry))"

definition set_downloading_file :: "string \<Rightarrow> explorer_page \<Rightarrow> explorer_page" where
  "set_downloading_file path s = s\<lparr>ep_downloading_file := path\<rparr>"

definition set_downloading_folder :: "string \<Rightarrow> explorer_page \<Rightarrow> explorer_page" where
  "set_downloading_folder path s = s\<lparr>ep_downloading_folder := path\<rparr>"

definition handleDownloadFile ::
  "(string \<Rightarrow> string option) \<Rightarrow> explorer_page \<Rightarrow> explorer_entry \<Rightarrow> unit explorer_task" where
  "handleDownloadFile url_with_download s entry =
     Update (set_downloading_file (entry_path entry))
       (finally_task
          (catch_task (downloadExplorerFileEntry url_with_download s entry)
             (\<lambda>error. toast_then (ToastError (error_text error ''errors.downloadObject'')) (Return ())))
          (set_downloading_file []))"

definition handleDownloadFolder :: "explorer_page \<Rightarrow> string \<Rightarrow> unit explorer_task" where
  "handleDownloadFolder s folderPath =
     Update (set_downloading_folder folderPath)
       (finally_task
          (catch_task
             (api_call (downloadFolderZip put_document (ep_settings s) (ep_bucket s) folderPath))
             (\<lambda>error. toast_then (ToastError (error_text error ''errors.downloadFolderZip'')) (Return ())))
          (set_downloading_folder []))"

text \<open>The body of the loop of the bulk download: one entry, counted as a success or a failure.\<close>

definition download_entry ::
  "(string \<Rightarrow> string option) \<Rightarrow> explorer_page \<Rightarrow> explorer_entry \<Rightarrow> nat \<times> nat \<Rightarrow> (nat \<times> nat) explorer_task" where
  "download_entry url_with_download s entry counts =
     finally_task
       (catch_task
          (bind_task
             (if is_file entry
              then Update (set_downloading_file (entry_path entry))
                     (downloadExplorerFileEntry url_with_download s entry)
              else Update (set_downloading_folder (entry_path entry))
                     (downloadExplorerDirectoryEntry s entry))
             (\<lambda>_. Return (fst counts + 1, snd counts)))
          (\<lambda>_. Return (fst counts, snd counts + 1)))
       (\<lambda>now. set_downloading_folder [] (set_downloading_file [] now))"

primrec download_entries ::
  "(string \<Rightarrow> string option) \<Rightarrow> explorer_page \<Rightarrow> explorer_entry list \<Rightarrow> nat \<times> nat \<Rightarrow> (nat \<times> nat) explorer_task" where
  "download_entries url_with_download s [] counts = Return counts"
| "download_entries url_with_download s (entry # rest) counts =
     bind_task (download_entry url_with_download s entry counts)
       (download_entries url_with_download s rest)"

definition set_bulk_download :: "bool \<Rightarrow> explorer_page \<Rightarrow> explorer_page" where
  "set_bulk_download b s = s\<lparr>ep_bulk_download := b\<rparr>"

definition bulk_download_toast :: "nat \<times> nat \<Rightarrow> toast" where
  "bulk_download_toast counts =
     (if snd counts = 0
      then ToastSuccess (Key ''toast.bulkDownloadCompleted'' [(''count'', int (fst counts))])
      else ToastError (Key ''toast.bulkDownloadPartial''
             [(''successCount'', int (fst counts)), (''failedCount'', int (snd counts))]))"

definition handleBulkDownload :: "(string \<Rightarrow> string option) \<Rightarrow> explorer_page \<Rightarrow> unit explorer_task" where
  "handleBulkDownload url_with_download s =
     (if selected_entries s = [] \<or> bulk_actions_pending s then Return ()
      else Update (set_bulk_download True)
        (bind_task
           (finally_task (download_entries url_with_download s (selected_entries s) (0, 0))
              (set_bulk_download False))
           (\<lambda>counts. toast_then (bulk_download_toast counts) (Return ()))))"

text \<open>\<open>handleConfirmBulkDelete\<close>: what failed stays selected.\<close>

definition delete_items :: "explorer_entry list \<Rightarrow> delete_batch_item list" where
  "delete_items es = map (\<lambda>e. \<lparr>dbi_type = type_of_entry e, dbi_path = entry_path e\<rparr>) es"

definition apply_delete_result :: "delete_batch_result \<Rightarrow> explorer_page \<Rightarrow> explorer_page" where
  "apply_delete_result result now =
     (let failedPaths = uniq (map dbi_path (db_failed_items result));
          after = (if db_failed_count result = 0
                   then show_toast (ToastSuccess (Key ''toast.bulkDeleteCompleted''
                          [(''count'', db_deleted_count result)])) (now\<lparr>ep_selected := []\<rparr>)
                   else show_toast (ToastError (Key ''toast.bulkDeletePartial''
                          [(''successCount'', db_deleted_count result),
                           (''failedCount'', db_failed_count result)])) (now\<lparr>ep_selected := failedPaths\<rparr>))
      in after\<lparr>ep_bulk_dialog := False\<rparr>)"

definition set_bulk_delete :: "bool \<Rightarrow> explorer_page \<Rightarrow> explorer_page" where
  "set_bulk_delete b s = s\<lparr>ep_bulk_delete := b\<rparr>"

definition handleConfirmBulkDelete :: "explorer_page \<Rightarrow> unit explorer_task" where
  "handleConfirmBulkDelete s =
     (if selected_entries s = [] \<or> ep_bulk_delete s then Return ()
      else Update (set_bulk_delete True)
        (finally_task
           (catch_task
              (bind_task
                 (api_call (deleteExplorerEntriesBatch (ep_settings s) (ep_bucket s)
                    (delete_items (selected_entries s))))
                 (\<lambda>answer. bind_task (the_result answer)
                    (\<lambda>result. Update (apply_delete_result result)
                       (invalidateQueries [entries_base_key s]))))
              (\<lambda>error. toast_then (ToastError (error_text error ''errors.bulkDeleteEntries'')) (Return ())))
           (set_bulk_delete False)))"

end
