(* ===== verification/ExplorerPage.thy ===== *)
theory ExplorerPage
  imports ExplorerTasks
begin

text \<open>
  Properties of the explorer page: its rows and its paging are the interfaces of \<open>Listing\<close>,
  its back and forward buttons implement the abstract trail, every interleaving of its handlers
  keeps the invariant, and the uploads, downloads and deletions have the outcomes they report.
\<close>

section \<open>Rows and pages\<close>

interpretation explorer_rows: row_selection ep_selected entry_paths bulk_actions_pending
    handleSelectAll handleSelectEntry
  by unfold_locales
     (simp_all add: handleSelectAll_def handleSelectEntry_def entry_paths_def page_entries_def
        bulk_actions_pending_def)

lemma params_after_updates:
  "ep_params (updateSearchParams us s) = apply_updates us (ep_params s)"
  by (simp add: updateSearchParams_def)

lemma get_one_update:
  "params_get (apply_updates [(k, v)] ps) k' =
     (if k' = k then (if v = [] then None else Some v) else params_get ps k')"
  by (simp add: get_apply_updates)

lemma page_cursor_step:
  "page_cursor (updateSearchParams [(''cursor'', c)] s) = c"
  by (simp add: page_cursor_def params_after_updates get_one_update)

lemma list_filter_cursor_step [simp]:
  "list_filter (updateSearchParams [(''cursor'', c)] s) = list_filter s"
  by (simp add: list_filter_def page_prefix_def page_search_def page_limit_def page_sort_by_def
      page_sort_order_def params_after_updates get_one_update) (simp add: updateSearchParams_def)

lemma list_filter_history [simp]: "list_filter (s\<lparr>ep_cursor_history := h\<rparr>) = list_filter s"
  by (simp add: list_filter_def page_prefix_def page_search_def page_limit_def page_sort_by_def
      page_sort_order_def)

lemma cursor_history_updates [simp]:
  "ep_cursor_history (updateSearchParams us s) = ep_cursor_history s"
  "page_cursor (s\<lparr>ep_cursor_history := h\<rparr>) = page_cursor s"
  by (simp_all add: updateSearchParams_def page_cursor_def)

text \<open>A handler followed by the effects of the render it causes.\<close>

definition settle :: "(explorer_page \<Rightarrow> explorer_page) \<Rightarrow> explorer_page \<Rightarrow> explorer_page" where
  "settle h s = explorer_commit s (h s)"

lemma commit_same_filter:
  assumes "list_filter s' = list_filter s" "ep_data_version s' = ep_data_version s"
  shows "list_filter (explorer_commit s s') = list_filter s' \<and>
    page_cursor (explorer_commit s s') = page_cursor s' \<and>
    ep_cursor_history (explorer_commit s s') = ep_cursor_history s'"
proof -
  have frame: "list_filter (t\<lparr>ep_selected := x\<rparr>) = list_filter t"
    "page_cursor (t\<lparr>ep_selected := x\<rparr>) = page_cursor t" for t x
    by (simp_all add: list_filter_def page_prefix_def page_search_def page_limit_def page_sort_by_def
        page_sort_order_def page_cursor_def)
  from assms have "page_search s' = page_search s" "ep_bucket s' = ep_bucket s"
    by (simp_all add: list_filter_def)
  with assms show ?thesis
    by (simp add: explorer_commit_def search_effect_def paging_effect_def bucket_effect_def
        location_effect_def entries_effect_def frame)
qed

lemma data_version_updates [simp]: "ep_data_version (updateSearchParams us s) = ep_data_version s"
  by (simp add: updateSearchParams_def)

lemma commit_id [simp]: "explorer_commit s s = s"
  by (simp add: explorer_commit_def search_effect_def paging_effect_def bucket_effect_def
      location_effect_def entries_effect_def)

lemma settle_forward_page:
  assumes "c \<noteq> []"
  shows "page_cursor (settle (forward_page c) s) = c"
    "ep_cursor_history (settle (forward_page c) s) = ep_cursor_history s @ [page_cursor s]"
    "list_filter (settle (forward_page c) s) = list_filter s"
  using assms commit_same_filter [of "forward_page c s" s]
  by (simp_all add: settle_def forward_page_def page_cursor_step)

lemma settle_prev_page:
  assumes "ep_cursor_history s = cs @ [c]"
  shows "page_cursor (settle handlePrevPage s) = c"
    "ep_cursor_history (settle handlePrevPage s) = cs"
  using assms commit_same_filter [of "handlePrevPage s" s]
  by (simp_all add: settle_def handlePrevPage_def page_cursor_step)

lemma list_filter_prev_page: "list_filter (settle handlePrevPage s) = list_filter s"
  using commit_same_filter [of "handlePrevPage s" s]
  by (auto simp: settle_def handlePrevPage_def)

lemma list_filter_forward_page: "list_filter (settle (forward_page c) s) = list_filter s"
  by (cases "c = []") (simp_all add: settle_forward_page, simp add: settle_def forward_page_def)

interpretation explorer_pager: cursor_pager page_cursor ep_cursor_history
    "\<lambda>c. settle (forward_page c)" "settle handlePrevPage" "\<lambda>s t. list_filter t = list_filter s"
proof unfold_locales
  show "settle (forward_page []) s = s" for s
    by (simp add: settle_def forward_page_def)
  show "ep_cursor_history s = [] \<Longrightarrow> settle handlePrevPage s = s" for s
    by (simp add: settle_def handlePrevPage_def)
qed (simp_all add: settle_forward_page settle_prev_page list_filter_prev_page list_filter_forward_page)

section \<open>The history of folders\<close>

text \<open>The trail of a page, and the prefixes on which normalisation is stable.\<close>

definition trail_of :: "explorer_page \<Rightarrow> string trail" where
  "trail_of s = \<lparr>past = ep_back_history s, here = page_prefix s, future = ep_forward_history s\<rparr>"

definition stable_prefix :: "string \<Rightarrow> bool" where
  "stable_prefix p \<longleftrightarrow> normalizeExplorerPrefix (Some p) = p"

definition stable_trail :: "explorer_page \<Rightarrow> bool" where
  "stable_trail s \<longleftrightarrow> (\<forall>p \<in> set (ep_back_history s) \<union> {page_prefix s} \<union> set (ep_forward_history s).
     stable_prefix p)"

lemma stable_Nil [simp]: "stable_prefix []"
  by (simp add: stable_prefix_def)

lemma page_prefix_navigation:
  "stable_prefix p \<Longrightarrow> page_prefix (applyPrefixNavigation p s) = p"
  by (auto simp: page_prefix_def applyPrefixNavigation_def params_after_updates get_apply_updates
      stable_prefix_def split: option.splits) (simp_all add: normalizeExplorerPrefix_def strip_leading_slashes_def strip_trailing_slashes_def)

lemma trail_navigation:
  "stable_prefix p \<Longrightarrow> trail_of (applyPrefixNavigation p s) =
     \<lparr>past = ep_back_history s, here = p, future = ep_forward_history s\<rparr>"
  using page_prefix_navigation [of p s]
  by (simp add: trail_of_def) (simp add: applyPrefixNavigation_def updateSearchParams_def)

lemma trail_commit:
  "ep_bucket s' = ep_bucket s \<Longrightarrow> trail_of (explorer_commit s s') = trail_of s'"
  by (simp add: explorer_commit_def search_effect_def paging_effect_def bucket_effect_def
      location_effect_def entries_effect_def trail_of_def page_prefix_def)

lemma bucket_navigation:
  "ep_bucket (applyPrefixNavigation p s) = ep_bucket s"
  by (simp add: applyPrefixNavigation_def updateSearchParams_def)

lemma bucket_handlers [simp]:
  "ep_bucket (handleNavigatePrefix p c r s) = ep_bucket s"
  "ep_bucket (handlePrefixBack s) = ep_bucket s"
  "ep_bucket (handlePrefixForward s) = ep_bucket s"
  by (simp_all add: handleNavigatePrefix_def handlePrefixBack_def handlePrefixForward_def
      bucket_navigation Let_def)

lemma page_prefix_record [simp]:
  "page_prefix (s\<lparr>ep_back_history := b\<rparr>) = page_prefix s"
  "page_prefix (s\<lparr>ep_forward_history := f\<rparr>) = page_prefix s"
  by (simp_all add: page_prefix_def)

lemma trail_visit:
  "stable_prefix (normalizeExplorerPrefix (Some p)) \<Longrightarrow>
     trail_of (handleNavigatePrefix p None None s) = visit (normalizeExplorerPrefix (Some p)) (trail_of s)"
  by (auto simp: handleNavigatePrefix_def Let_def trail_navigation) (simp_all add: trail_of_def visit_def)

lemma trail_back:
  assumes "stable_trail s" "stable_prefix (getParentExplorerPrefix (page_prefix s))"
  shows "trail_of (handlePrefixBack s) = go_back getParentExplorerPrefix (trail_of s)"
proof (cases "ep_back_history s = []")
  case True
  with assms(2) show ?thesis
    by (simp add: handlePrefixBack_def Let_def trail_navigation) (simp add: trail_of_def go_back_def)
next
  case False
  with assms(1) have "stable_prefix (last (ep_back_history s))" by (simp add: stable_trail_def)
  with False show ?thesis
    by (simp add: handlePrefixBack_def Let_def trail_navigation) (simp add: trail_of_def go_back_def)
qed

lemma trail_forward:
  assumes "stable_trail s"
  shows "trail_of (handlePrefixForward s) = go_forward (trail_of s)"
proof (cases "ep_forward_history s = []")
  case True
  then show ?thesis by (simp add: handlePrefixForward_def trail_of_def go_forward_def)
next
  case False
  with assms have "stable_prefix (last (ep_forward_history s))" by (simp add: stable_trail_def)
  with False show ?thesis
    by (simp add: handlePrefixForward_def Let_def trail_navigation) (simp add: trail_of_def go_forward_def)
qed

lemma trail_settle:
  "ep_bucket (h s) = ep_bucket s \<Longrightarrow> trail_of (settle h s) = trail_of (h s)"
  unfolding settle_def by (rule trail_commit)

lemma stable_plain_path: "plain_path segs \<Longrightarrow> stable_prefix (folder_prefix segs)"
  by (simp add: stable_prefix_def)

section \<open>Every interleaving\<close>

definition prefix_shaped :: "string \<Rightarrow> bool" where
  "prefix_shaped p \<longleftrightarrow> p = [] \<or> (last p = slash \<and> hd p \<noteq> slash)"

lemma shaped_normalize [simp]: "prefix_shaped (normalizeExplorerPrefix v)"
  by (cases rule: normalizeExplorerPrefix_shape [of v]) (auto simp: prefix_shaped_def hd_append)

lemma shaped_parent [simp]: "prefix_shaped (getParentExplorerPrefix p)"
proof -
  let ?segs = "filter_truthy (split_on slash (normalizeExplorerPrefix (Some p)))"
  have seg: "\<forall>s \<in> set ?segs. plain_segment s"
    by (auto simp: filter_truthy_def plain_segment_def dest: split_on_segments)
  show ?thesis
  proof (cases "normalizeExplorerPrefix (Some p) = [] \<or> length ?segs \<le> 1")
    case True
    then show ?thesis by (auto simp: getParentExplorerPrefix_def prefix_shaped_def Let_def)
  next
    case False
    then have ne: "butlast ?segs \<noteq> []" by (cases ?segs rule: rev_cases) auto
    have b: "\<forall>s \<in> set (butlast ?segs). plain_segment s" using seg by (auto dest: in_set_butlastD)
    with ne have "plain_segment (hd (butlast ?segs))" by simp
    then have "hd (hd (butlast ?segs)) \<noteq> slash" by (metis hd_in_set plain_segment_def)
    with join_segments_edges [OF ne b] False show ?thesis
      by (simp add: getParentExplorerPrefix_def prefix_shaped_def Let_def hd_append)
  qed
qed

text \<open>
  The invariant: no path is selected twice; the histories hold prefixes as \<open>normalizeExplorerPrefix\<close> makes
  them; and a pending overwrite always knows its target, so the dialog never has to guess it.
\<close>

definition explorer_inv :: "explorer_page \<Rightarrow> bool" where
  "explorer_inv s \<longleftrightarrow>
     distinct (ep_selected s) \<and>
     list_all prefix_shaped (ep_back_history s) \<and> list_all prefix_shaped (ep_forward_history s) \<and>
     (case ep_pending_overwrite s of None \<Rightarrow> True | Some p \<Rightarrow> pu_target p \<noteq> None)"

datatype explorer_event =
    Navigate string | PrefixBack | PrefixForward
  | SelectAllRows bool | SelectRow string bool | ClearRows
  | TypeSearch string | SubmitSearch | ApplySort sort_by sort_order | ClearSort | ChooseLimit nat
  | NextPage | PrevPage | BulkDialog bool | OverwriteDialog bool
  | AddressChanged string search_params | SettingsChanged app_settings
  | EntriesChanged "explorer_entries_result option" "thrown option" bool
  | UploadProgress number

text \<open>What the user, the router, the settings, the query and an upload in progress can do.\<close>

fun apply_event :: "explorer_event \<Rightarrow> explorer_page \<Rightarrow> explorer_page" where
  "apply_event (Navigate p) s = handleNavigatePrefix p None None s"
| "apply_event PrefixBack s = handlePrefixBack s"
| "apply_event PrefixForward s = handlePrefixForward s"
| "apply_event (SelectAllRows c) s = handleSelectAll c s"
| "apply_event (SelectRow p c) s = handleSelectEntry p c s"
| "apply_event ClearRows s = handleClearSelection s"
| "apply_event (TypeSearch v) s = s\<lparr>ep_search_input := v\<rparr>"
| "apply_event SubmitSearch s = handleSearchSubmit s"
| "apply_event (ApplySort k d) s = handleSortApply k d s"
| "apply_event ClearSort s = handleSortClear s"
| "apply_event (ChooseLimit n) s = handleLimitChange n s"
| "apply_event NextPage s = handleNextPage s"
| "apply_event PrevPage s = handlePrevPage s"
| "apply_event (BulkDialog b) s = handleBulkDialogOpenChange b s"
| "apply_event (OverwriteDialog b) s = handleOverwriteDialogOpenChange b s"
| "apply_event (AddressChanged b ps) s = s\<lparr>ep_bucket := b, ep_params := ps\<rparr>"
| "apply_event (SettingsChanged st) s = s\<lparr>ep_settings := st\<rparr>"
| "apply_event (EntriesChanged d e f) s =
     s\<lparr>ep_data := d, ep_data_version := ep_data_version s + 1, ep_error := e, ep_fetching := f\<rparr>"
| "apply_event (UploadProgress n) s = s\<lparr>ep_progress := n\<rparr>"

inductive explorer_starts :: "(string \<Rightarrow> string option) \<Rightarrow> explorer_page \<Rightarrow> unit explorer_task \<Rightarrow> bool"
  for u where
  "explorer_starts u s (Update (apply_event ev) (Return ()))"
| "explorer_starts u s (handleUpload s v)"
| "explorer_starts u s (handleUploadFolder fv)"
| "explorer_starts u s (handleConfirmOverwriteUpload s)"
| "explorer_starts u s (handleCreateFolder n)"
| "explorer_starts u s (handleUploadAndPublishSite pv)"
| "explorer_starts u s (handleDeleteFile k)"
| "explorer_starts u s (handleDeleteFolder k)"
| "explorer_starts u s (handlePublishSite k p)"
| "explorer_starts u s (handlePublishObjectSite k p)"
| "explorer_starts u s (handleUpdateVisibility k w)"
| "explorer_starts u s (handleDownloadFile u s e)"
| "explorer_starts u s (handleDownloadFolder s k)"
| "explorer_starts u s (handleBulkDownload u s)"
| "explorer_starts u s (handleConfirmBulkDelete s)"
| "callback_task (uploadMutation r) t \<Longrightarrow> explorer_starts u s t"
| "callback_task (uploadFolderMutation r) t \<Longrightarrow> explorer_starts u s t"
| "callback_task (createFolderMutation r) t \<Longrightarrow> explorer_starts u s t"
| "callback_task (uploadAndPublishSiteMutation r) t \<Longrightarrow> explorer_starts u s t"
| "callback_task (deleteFileMutation r) t \<Longrightarrow> explorer_starts u s t"
| "callback_task (deleteFolderMutation r) t \<Longrightarrow> explorer_starts u s t"
| "callback_task (updateVisibilityMutation r) t \<Longrightarrow> explorer_starts u s t"
| "callback_task (publishSiteMutation r) t \<Longrightarrow> explorer_starts u s t"
| "callback_task (publishObjectSiteMutation r) t \<Longrightarrow> explorer_starts u s t"

inductive_cases explorer_startsE: "explorer_starts u s t"

text \<open>Updates of parts that the invariant does not read.\<close>

lemma inv_frame [simp]:
  "explorer_inv (s\<lparr>ep_params := x1\<rparr>) = explorer_inv s"
  "explorer_inv (s\<lparr>ep_search_input := x2\<rparr>) = explorer_inv s"
  "explorer_inv (s\<lparr>ep_cursor_history := x3\<rparr>) = explorer_inv s"
  "explorer_inv (s\<lparr>ep_progress := x4\<rparr>) = explorer_inv s"
  "explorer_inv (s\<lparr>ep_bulk_dialog := x5\<rparr>) = explorer_inv s"
  "explorer_inv (s\<lparr>ep_bucket := x6\<rparr>) = explorer_inv s"
  "explorer_inv (s\<lparr>ep_settings := x7\<rparr>) = explorer_inv s"
  "explorer_inv (s\<lparr>ep_data := x8\<rparr>) = explorer_inv s"
  "explorer_inv (s\<lparr>ep_data_version := x9\<rparr>) = explorer_inv s"
  "explorer_inv (s\<lparr>ep_error := x10\<rparr>) = explorer_inv s"
  "explorer_inv (s\<lparr>ep_fetching := x11\<rparr>) = explorer_inv s"
  "explorer_inv (s\<lparr>ep_reset_signal := x12\<rparr>) = explorer_inv s"
  "explorer_inv (s\<lparr>ep_retrying_overwrite := x13\<rparr>) = explorer_inv s"
  by (simp_all add: explorer_inv_def)

lemma inv_named [simp]:
  "explorer_inv (show_toast m s) = explorer_inv s"
  "explorer_inv (reset_progress s) = explorer_inv s"
  "explorer_inv (set_checking b s) = explorer_inv s"
  "explorer_inv (set_deleting k s) = explorer_inv s"
  "explorer_inv (set_publishing k s) = explorer_inv s"
  "explorer_inv (set_downloading_file k s) = explorer_inv s"
  "explorer_inv (set_downloading_folder k s) = explorer_inv s"
  "explorer_inv (set_bulk_download b s) = explorer_inv s"
  "explorer_inv (set_bulk_delete b s) = explorer_inv s"
  "explorer_inv (put_document f s) = explorer_inv s"
  by (simp_all add: show_toast_def reset_progress_def set_checking_def set_deleting_def
      set_publishing_def set_downloading_file_def set_downloading_folder_def set_bulk_download_def
      set_bulk_delete_def put_document_def explorer_inv_def)

lemma inv_updates:
  "explorer_inv s \<Longrightarrow> explorer_inv (updateSearchParams us s)"
  "explorer_inv s \<Longrightarrow> explorer_inv (applyPrefixNavigation p s)"
  "explorer_inv s \<Longrightarrow> explorer_inv (s\<lparr>ep_pending_overwrite := None\<rparr>)"
  "explorer_inv s \<Longrightarrow> explorer_inv (s\<lparr>ep_pending_overwrite := Some \<lparr>pu_value = v, pu_target = Some k\<rparr>\<rparr>)"
  "explorer_inv s \<Longrightarrow> explorer_inv (ask_overwrite v k s)"
  "explorer_inv s \<Longrightarrow> explorer_inv (apply_delete_result r s)"
  by (auto simp: updateSearchParams_def applyPrefixNavigation_def ask_overwrite_def
      apply_delete_result_def Let_def show_toast_def explorer_inv_def)

lemma inv_histories:
  assumes "explorer_inv s" "list_all prefix_shaped b" "list_all prefix_shaped f"
  shows "explorer_inv (s\<lparr>ep_back_history := b, ep_forward_history := f\<rparr>)"
    and "explorer_inv (s\<lparr>ep_forward_history := f, ep_back_history := b\<rparr>)"
    and "explorer_inv (s\<lparr>ep_back_history := b\<rparr>)"
    and "explorer_inv (s\<lparr>ep_forward_history := f\<rparr>)"
  using assms by (auto simp: explorer_inv_def)

lemma shaped_page_prefix [simp]: "prefix_shaped (page_prefix s)"
  by (simp add: page_prefix_def)

lemma list_all_butlast: "list_all P xs \<Longrightarrow> list_all P (butlast xs)"
  by (auto simp: list_all_iff dest: in_set_butlastD)

lemma inv_navigation:
  assumes "explorer_inv s"
  shows "explorer_inv (handleNavigatePrefix p c r s)"
    and "explorer_inv (handlePrefixBack s)" and "explorer_inv (handlePrefixForward s)"
  using assms
  by (auto simp: handleNavigatePrefix_def handlePrefixBack_def handlePrefixForward_def Let_def
      intro!: inv_updates inv_histories list_all_butlast)
     (auto simp: explorer_inv_def list_all_butlast)

lemma inv_selection:
  assumes "explorer_inv s"
  shows "explorer_inv (handleSelectAll c s)" and "explorer_inv (handleSelectEntry k c s)"
    and "explorer_inv (handleClearSelection s)"
  using assms explorer_rows.distinct_kept
  by (auto simp: explorer_inv_def handleSelectAll_def handleSelectEntry_def handleClearSelection_def
      distinct_set_mark)

lemma inv_event: "explorer_inv s \<Longrightarrow> explorer_inv (apply_event ev s)"
  by (cases ev)
     (auto simp: inv_navigation inv_selection handleSearchSubmit_def handleSortApply_def
      handleSortClear_def handleLimitChange_def handleNextPage_def forward_page_def handlePrevPage_def
      handleBulkDialogOpenChange_def handleOverwriteDialogOpenChange_def
      handleCancelOverwriteUpload_def intro!: inv_updates)

lemma inv_commit: "explorer_inv s \<Longrightarrow> explorer_inv (explorer_commit old s)"
  by (simp add: explorer_commit_def search_effect_def paging_effect_def bucket_effect_def
      location_effect_def entries_effect_def explorer_inv_def distinct_prune)

lemma safe_toast_then [simp]: "safe explorer_inv (toast_then m t) s = safe explorer_inv t (show_toast m s)"
  by (simp add: toast_then_def)

lemma safe_document:
  assumes "explorer_inv s"
  shows "safe explorer_inv (api_call (downloadFolderZip put_document st b k)) s"
    and "safe explorer_inv (downloadFile put_document url name) s"
  using assms by (simp_all add: safe_downloadFolderZip safe_downloadFile)

lemmas safe_rules = safe_bind safe_catch safe_finally safe_api_call inv_updates safe_document

lemma stateless_requests [simp]:
  "stateless (uploadObjectRequest s v b)" "stateless (uploadFolderRequest s fv b)"
  by (simp_all add: uploadObjectRequest_def uploadFolderRequest_def)

lemma safe_conflict_target:
  "explorer_inv s \<Longrightarrow> safe explorer_inv (findObjectConflictTarget r v) s"
  by (auto simp: findObjectConflictTarget_def Let_def intro!: safe_rules)

lemma safe_download_file:
  "explorer_inv s \<Longrightarrow> safe explorer_inv (downloadExplorerFileEntry u r e) s"
  by (auto simp: downloadExplorerFileEntry_def intro!: safe_rules)

lemma safe_download_directory:
  "explorer_inv s \<Longrightarrow> safe explorer_inv (downloadExplorerDirectoryEntry r e) s"
  by (auto simp: downloadExplorerDirectoryEntry_def intro!: safe_rules)

lemma safe_download_entries:
  "explorer_inv s \<Longrightarrow> safe explorer_inv (download_entries u r es counts) s"
  by (induction es arbitrary: s counts)
     (auto simp: download_entry_def intro!: safe_rules safe_download_file safe_download_directory)

lemma safe_handlers:
  assumes "explorer_inv s"
  shows "safe explorer_inv (handleUpload r v) s"
    and "safe explorer_inv (handleConfirmOverwriteUpload r) s"
    and "safe explorer_inv (handleDownloadFile u r e) s"
    and "safe explorer_inv (handleDownloadFolder r k) s"
    and "safe explorer_inv (handleBulkDownload u r) s"
    and "safe explorer_inv (handleConfirmBulkDelete r) s"
  using assms
  by (auto simp: handleUpload_def handleConfirmOverwriteUpload_def handleDownloadFile_def
      handleDownloadFolder_def handleBulkDownload_def handleConfirmBulkDelete_def
      intro!: safe_rules safe_conflict_target safe_download_file safe_download_entries
      split: option.split)

lemma safe_callbacks:
  assumes "explorer_inv s"
  shows "callback_task (uploadMutation r) t1 \<Longrightarrow> safe explorer_inv t1 s"
    and "callback_task (uploadFolderMutation r) t2 \<Longrightarrow> safe explorer_inv t2 s"
    and "callback_task (createFolderMutation r) t3 \<Longrightarrow> safe explorer_inv t3 s"
    and "callback_task (uploadAndPublishSiteMutation r) t4 \<Longrightarrow> safe explorer_inv t4 s"
    and "callback_task (deleteFileMutation r) t5 \<Longrightarrow> safe explorer_inv t5 s"
    and "callback_task (deleteFolderMutation r) t6 \<Longrightarrow> safe explorer_inv t6 s"
    and "callback_task (updateVisibilityMutation r) t7 \<Longrightarrow> safe explorer_inv t7 s"
    and "callback_task (publishSiteMutation r) t8 \<Longrightarrow> safe explorer_inv t8 s"
    and "callback_task (publishObjectSiteMutation r) t9 \<Longrightarrow> safe explorer_inv t9 s"
  using assms
  by (auto elim!: callback_taskE intro!: safe_rules split: publish_upload.split
      simp: uploadMutation_def uploadFolderMutation_def createFolderMutation_def
        uploadAndPublishSiteMutation_def deleteFileMutation_def deleteFolderMutation_def
        updateVisibilityMutation_def publishSiteMutation_def publishObjectSiteMutation_def)

lemma safe_starts: "explorer_starts u s t \<Longrightarrow> explorer_inv s \<Longrightarrow> safe explorer_inv t s"
  by (erule explorer_startsE)
     (auto simp: inv_event safe_handlers safe_callbacks handleUploadFolder_def handleCreateFolder_def
        handleUploadAndPublishSite_def handleDeleteFile_def handleDeleteFolder_def
        handlePublishSite_def handlePublishObjectSite_def handleUpdateVisibility_def)

lemma inv_initial: "explorer_inv (explorer_initial settings bucket params)"
  by (simp add: explorer_inv_def explorer_initial_def)

interpretation explorer_machine: page_machine explorer_commit "explorer_starts u"
    "explorer_initial settings bucket params" explorer_inv for u settings bucket params
  by unfold_locales (simp_all add: inv_initial inv_commit safe_starts)

end
