(* ===== verification/ExplorerProps.thy ===== *)
theory ExplorerProps
  imports ExplorerPage
begin

text \<open>
  The properties of the explorer page: its invariant under every interleaving, its navigation,
  paging and selection, and the outcomes of uploads, downloads and deletions for every answer.
\<close>

section \<open>Outcomes of the API calls on the page\<close>

lemma exec_upload_request:
  "exec (api_call (uploadObjectRequest s v b)) reply env n now =
     (env n now,
      [SendHttp (HttpSend (createApiClient (ep_settings s))
         ((http_request PUT (object_url (ep_bucket s) (joinExplorerPath (page_prefix s) (up_object_key v))))
            \<lparr>hc_timeout := Some 0, hc_data := FileData (up_file v),
             hc_headers :=
               [(''Content-Type'', resolveUploadContentType (up_file v)),
                (''X-Object-Visibility'', visibility_value (up_visibility v)),
                (''X-Original-Filename'', encodeHeaderFilename (fl_name (up_file v))),
                overwrite_header b]\<rparr>))],
      upload_outcome as_object (rep_http (reply n)))"
  by (auto simp: uploadObjectRequest_def uploadObject_def exec_api_call exec_bind exec_catch
      exec_http_send exec_response_data upload_outcome_def split: sum.splits resp_body.splits)

lemma exec_conflict_target:
  "exec (findObjectConflictTarget s v) reply env n now =
     (let key = joinExplorerPath (page_prefix s) (up_object_key v)
      in (env n now,
          [SendHttp (HttpSend (createApiClient (ep_settings s))
             (http_request HEAD (object_url (ep_bucket s) key)))],
          case rep_http (reply n) of
            Inr r \<Rightarrow> Inr (Some key)
          | Inl e \<Rightarrow>
              (if \<exists>m c p. e = ThrownAxios m c (Some (404, p)) then Inr None
               else Inl (ThrownApi (normalizeRequestError e ''Failed to check object existence'')))))"
  by (auto simp: findObjectConflictTarget_def Let_def exec_bind exec_api_call exec_checkObjectExists
      split: sum.splits)

section \<open>Plain folders\<close>

definition plain_trail :: "explorer_page \<Rightarrow> bool" where
  "plain_trail s \<longleftrightarrow>
     (\<forall>p \<in> set (ep_back_history s) \<union> {page_prefix s} \<union> set (ep_forward_history s).
        \<exists>segs. plain_path segs \<and> p = folder_prefix segs)"

lemma plain_trail_stable: "plain_trail s \<Longrightarrow> stable_trail s"
  unfolding plain_trail_def stable_trail_def using stable_plain_path by metis

lemma plain_trail_parent:
  assumes "plain_trail s" shows "stable_prefix (getParentExplorerPrefix (page_prefix s))"
proof -
  from assms obtain segs where "plain_path segs" "page_prefix s = folder_prefix segs"
    unfolding plain_trail_def by blast
  then show ?thesis by (simp add: getParent_path stable_plain_path plain_path_butlast)
qed

section \<open>What the effects keep\<close>

lemma effects_keep_address [simp]:
  "ep_params (search_effect old t) = ep_params t" "ep_bucket (search_effect old t) = ep_bucket t"
  "ep_params (paging_effect old t) = ep_params t" "ep_bucket (paging_effect old t) = ep_bucket t"
  "ep_params (bucket_effect old t) = ep_params t" "ep_bucket (bucket_effect old t) = ep_bucket t"
  "ep_params (location_effect old t) = ep_params t" "ep_bucket (location_effect old t) = ep_bucket t"
  "ep_params (entries_effect old t) = ep_params t" "ep_bucket (entries_effect old t) = ep_bucket t"
  by (simp_all add: search_effect_def paging_effect_def bucket_effect_def location_effect_def
      entries_effect_def)

lemma commit_keeps_address [simp]:
  "ep_params (explorer_commit old t) = ep_params t" "ep_bucket (explorer_commit old t) = ep_bucket t"
  by (simp_all add: explorer_commit_def)

lemma page_params_commit [simp]:
  "page_search (explorer_commit old t) = page_search t" "page_sort_by (explorer_commit old t) = page_sort_by t"
  "page_sort_order (explorer_commit old t) = page_sort_order t" "page_limit (explorer_commit old t) = page_limit t"
  "page_cursor (explorer_commit old t) = page_cursor t" "page_prefix (explorer_commit old t) = page_prefix t"
  "list_filter (explorer_commit old t) = list_filter t"
  by (simp_all add: page_search_def page_sort_by_def page_sort_order_def page_limit_def
      page_cursor_def page_prefix_def list_filter_def)

lemma effects_keep_filter [simp]:
  "list_filter (search_effect old t) = list_filter t" "list_filter (paging_effect old t) = list_filter t"
  "list_filter (bucket_effect old t) = list_filter t"
  by (simp_all add: search_effect_def paging_effect_def bucket_effect_def page_search_def
      page_sort_by_def page_sort_order_def page_limit_def page_prefix_def list_filter_def)

lemma effects_keep_stack [simp]:
  "ep_cursor_history (entries_effect old t) = ep_cursor_history t"
  "ep_cursor_history (location_effect old t) = ep_cursor_history t"
  "ep_cursor_history (bucket_effect old t) = ep_cursor_history t"
  by (simp_all add: entries_effect_def location_effect_def bucket_effect_def)

lemma commit_new_filter:
  assumes "list_filter t \<noteq> list_filter old"
  shows "ep_cursor_history (explorer_commit old t) = [] \<and> ep_selected (explorer_commit old t) = []"
proof -
  have "ep_cursor_history (paging_effect old u) = []" "ep_selected (location_effect old u) = []"
    if "list_filter u \<noteq> list_filter old" for u
    using that by (simp_all add: paging_effect_def location_effect_def)
  moreover have "ep_selected (entries_effect old u) = []" if "ep_selected u = []" for u
    using that by (simp add: entries_effect_def prune_def)
  ultimately show ?thesis using assms by (simp add: explorer_commit_def)
qed

section \<open>Running the handlers\<close>

lemma exec_toast_then [simp]:
  "exec (toast_then m t) reply env n now = exec t reply env n (show_toast m now)"
  by (simp add: toast_then_def)

lemma exec_handleUpload:
  assumes "joinExplorerPath (page_prefix s) (up_object_key v) = key" and "key \<noteq> []"
    and "env n (set_checking True (reset_progress now)) = now'"
  shows "exec (handleUpload s v) reply env n now =
     (let check = SendHttp (HttpSend (createApiClient (ep_settings s))
                    (http_request HEAD (object_url (ep_bucket s) key)))
      in case rep_http (reply n) of
           Inr r \<Rightarrow> (ask_overwrite v key (set_checking False now'), [check], Inl overwrite_question)
         | Inl e \<Rightarrow>
             (if \<exists>m c p. e = ThrownAxios m c (Some (404, p))
              then (env (Suc n) (set_checking False now'), [check, MutateAsync (UploadM v)],
                    case rep_done (reply (Suc n)) of Inl x \<Rightarrow> Inl x | Inr u \<Rightarrow> Inr u)
              else (set_checking False (show_toast (ToastError (Raw
                      (err_message (normalizeRequestError e ''Failed to check object existence'')))) now'),
                    [check], Inr ())))"
  using assms
  by (auto simp: handleUpload_def exec_bind exec_finally exec_catch exec_conflict_target Let_def
      exec_await_done error_text_def shown_message_def split: sum.splits if_splits)

text \<open>The steps of an upload whose key exists: one request, then the question.\<close>

lemma handleUpload_shape:
  assumes "joinExplorerPath (page_prefix s) (up_object_key v) = key" "key \<noteq> []" "rep_http r = Inr x"
  shows "\<exists>Q G. handleUpload s v = Update reset_progress (Update (set_checking True) (Await Q G)) \<and>
    G r = Update (set_checking False) (Update (ask_overwrite v key) (Raise overwrite_question))"
  using assms
  by (simp add: handleUpload_def findObjectConflictTarget_def checkObjectExists_def api_call_def
      http_send_def request_def Let_def)

lemma exec_handleConfirm:
  assumes "ep_pending_overwrite s = Some p" "\<not> ep_retrying_overwrite s"
  shows "case exec (handleConfirmOverwriteUpload s) reply env n now of (now', sent, outcome) \<Rightarrow>
    outcome = Inr () \<and> \<not> ep_retrying_overwrite now' \<and> sent \<noteq> [] \<and>
    (\<exists>config. hd sent = SendHttp (HttpSend (createApiClient (ep_settings s)) config) \<and>
       hc_method config = PUT \<and> map_of (hc_headers config) ''X-Allow-Overwrite'' = Some ''true'' \<and>
       hc_url config = object_url (ep_bucket s)
         (joinExplorerPath (page_prefix s) (up_object_key (pu_value p))))"
  using assms
  by (auto simp: handleConfirmOverwriteUpload_def exec_bind exec_finally exec_catch exec_upload_request
      exec_await_done http_request_def overwrite_header_def split: sum.splits prod.splits)

definition downloads_idle :: "explorer_page \<Rightarrow> bool" where
  "downloads_idle s \<longleftrightarrow> ep_downloading_file s = [] \<and> ep_downloading_folder s = []"

lemma download_entry_result:
  obtains ok now' tr where
    "exec (download_entry u s e counts) reply env n now =
       (now', tr, Inr (if ok then (fst counts + 1, snd counts) else (fst counts, snd counts + 1)))"
    "downloads_idle now'"
proof -
  let ?body = "if is_file e
     then Update (set_downloading_file (entry_path e)) (downloadExplorerFileEntry u s e)
     else Update (set_downloading_folder (entry_path e)) (downloadExplorerDirectoryEntry s e)"
  obtain b tr out where x: "exec ?body reply env n now = (b, tr, out)" by (metis prod_cases3)
  have idle: "downloads_idle (set_downloading_folder [] (set_downloading_file [] b))" for b
    by (simp add: downloads_idle_def set_downloading_folder_def set_downloading_file_def)
  show thesis
  proof (cases out)
    case (Inl err)
    then show thesis
      by (intro that [of "set_downloading_folder [] (set_downloading_file [] b)" tr False] idle)
         (simp add: download_entry_def exec_finally exec_catch exec_bind x)
  next
    case (Inr res)
    then show thesis
      by (intro that [of "set_downloading_folder [] (set_downloading_file [] b)" tr True] idle)
         (simp add: download_entry_def exec_finally exec_catch exec_bind x)
  qed
qed

lemma download_entries_result:
  "\<exists>now' tr a b. exec (download_entries u s es counts) reply env n now = (now', tr, Inr (a, b)) \<and>
     a + b = fst counts + snd counts + length es \<and> (es \<noteq> [] \<longrightarrow> downloads_idle now')"
proof (induction es arbitrary: counts n now)
  case (Cons e es)
  from download_entry_result [of u s e counts reply env n now] obtain ok now1 tr1 where
    x: "exec (download_entry u s e counts) reply env n now =
       (now1, tr1, Inr (if ok then (fst counts + 1, snd counts) else (fst counts, snd counts + 1)))" and
    idle: "downloads_idle now1" .
  let ?c = "if ok then (fst counts + 1, snd counts) else (fst counts, snd counts + 1)"
  from Cons.IH [of ?c "n + length tr1" now1] obtain now2 tr2 a b where
    y: "exec (download_entries u s es ?c) reply env (n + length tr1) now1 = (now2, tr2, Inr (a, b))"
      "a + b = fst ?c + snd ?c + length es" "es \<noteq> [] \<longrightarrow> downloads_idle now2" by blast
  have "downloads_idle now2"
  proof (cases "es = []")
    case True
    with y(1) idle show ?thesis by simp
  qed (use y(3) in simp)
  moreover have "exec (download_entries u s (e # es) counts) reply env n now = (now2, tr1 @ tr2, Inr (a, b))"
    using y(1) by (simp add: exec_bind x)
  moreover have "a + b = fst counts + snd counts + length (e # es)" using y(2) by (simp split: if_splits)
  ultimately show ?case by blast
next
  case Nil
  then show ?case by (cases counts) simp
qed

section \<open>Properties\<close>



text \<open>
  C3. The back and forward buttons implement the abstract trail: on folders of plain segments,
  opening a folder is \<open>visit\<close>, the back button is \<open>go_back\<close> with the parent folder behind an empty
  history, and the forward button is \<open>go_forward\<close>, each after the effects of its render; so
  opening a folder and going back returns to the folder before, with its past intact.
\<close>

theorem explorer_history_refines:
  assumes "plain_trail s" and "plain_path segs"
  shows "trail_of (settle (handleNavigatePrefix (folder_prefix segs) None None) s) =
      visit (folder_prefix segs) (trail_of s) \<and>
    trail_of (settle handlePrefixBack s) = go_back getParentExplorerPrefix (trail_of s) \<and>
    trail_of (settle handlePrefixForward s) = go_forward (trail_of s) \<and>
    (folder_prefix segs \<noteq> page_prefix s \<longrightarrow>
       trail_of (settle handlePrefixBack (settle (handleNavigatePrefix (folder_prefix segs) None None) s)) =
         \<lparr>past = ep_back_history s, here = page_prefix s, future = [folder_prefix segs]\<rparr>)"
proof (intro conjI impI)
  let ?p = "folder_prefix segs" and ?open = "handleNavigatePrefix (folder_prefix segs) None None"
  have p: "normalizeExplorerPrefix (Some ?p) = ?p" using assms(2) by simp
  show visit: "trail_of (settle ?open s) = visit ?p (trail_of s)"
    using trail_visit [of ?p s] assms(2) by (simp add: trail_settle p stable_plain_path)
  show "trail_of (settle handlePrefixBack s) = go_back getParentExplorerPrefix (trail_of s)"
    using trail_back plain_trail_stable plain_trail_parent assms(1) by (simp add: trail_settle)
  show "trail_of (settle handlePrefixForward s) = go_forward (trail_of s)"
    using trail_forward plain_trail_stable assms(1) by (simp add: trail_settle)
  assume new: "?p \<noteq> page_prefix s"
  let ?t = "settle ?open s"
  from visit new have t: "ep_back_history ?t = ep_back_history s @ [page_prefix s]"
    "page_prefix ?t = ?p" "ep_forward_history ?t = []"
    by (simp_all add: trail_of_def visit_def)
  then have "plain_trail ?t"
    using assms unfolding plain_trail_def by auto
  then have "trail_of (settle handlePrefixBack ?t) = go_back getParentExplorerPrefix (trail_of ?t)"
    using trail_back plain_trail_stable plain_trail_parent by (simp add: trail_settle)
  also have "\<dots> = \<lparr>past = ep_back_history s, here = page_prefix s, future = [?p]\<rparr>"
    unfolding visit using new go_back_visit [of ?p "trail_of s"] by (simp add: trail_of_def)
  finally show "trail_of (settle handlePrefixBack ?t) =
      \<lparr>past = ep_back_history s, here = page_prefix s, future = [?p]\<rparr>" .
qed

theorem explorer_history_refines_witness:
  "trail_of (settle handlePrefixBack (settle (handleNavigatePrefix ''a/'' None None)
      (explorer_initial \<lparr>apiBaseUrl = [], bearerToken = []\<rparr> ''b'' []))) =
   \<lparr>past = [], here = [], future = [''a/'']\<rparr>"
proof -
  let ?s = "explorer_initial \<lparr>apiBaseUrl = [], bearerToken = []\<rparr> ''b'' []"
  have s: "ep_back_history ?s = []" "ep_forward_history ?s = []" "page_prefix ?s = []"
    by (simp_all add: explorer_initial_def page_prefix_def params_get_def normalizeExplorerPrefix_def
        strip_leading_slashes_def strip_trailing_slashes_def)
  have a: "folder_prefix [''a''] = ''a/''" "plain_path [''a'']"
    by (simp_all add: folder_prefix_def slash_def plain_path_def plain_segment_def is_space_def)
  have "plain_trail ?s"
    using s unfolding plain_trail_def
    by (auto intro!: exI [of _ "[]"] simp: plain_path_def)
  from explorer_history_refines [OF this a(2)] show ?thesis
    by (simp add: a(1) s)
qed

text \<open>
  Paging. Whatever the cursors the server hands out, going on over any number of pages and
  back over as many returns to the same cursor with the same stack; the page number counts
  along, and folder, search, sorting and page size stay as they are throughout.
\<close>

theorem explorer_paging:
  assumes "[] \<notin> set cs"
  shows "let there = fold (\<lambda>c. settle (forward_page c)) cs s;
             back = (settle handlePrevPage ^^ length cs) there
    in panel_page (explorer_panel there) = panel_page (explorer_panel s) + length cs \<and>
       list_filter there = list_filter s \<and>
       page_cursor back = page_cursor s \<and> ep_cursor_history back = ep_cursor_history s \<and>
       list_filter back = list_filter s"
  using explorer_pager.pages_there_and_back [OF assms, of s]
    explorer_pager.pages_on_stack [OF assms, of s] explorer_pager.pages_on_same
  by (simp add: Let_def explorer_panel_def explorer_pager.pages_on_def explorer_pager.pages_back_def)

theorem explorer_paging_witness:
  "page_cursor ((settle handlePrevPage ^^ 2) (fold (\<lambda>c. settle (forward_page c)) [''c1'', ''c2'']
     (explorer_initial \<lparr>apiBaseUrl = [], bearerToken = []\<rparr> ''b'' []))) = []"
proof -
  let ?s = "explorer_initial \<lparr>apiBaseUrl = [], bearerToken = []\<rparr> ''b'' []"
  have "page_cursor ?s = []" by (simp add: explorer_initial_def page_cursor_def params_get_def)
  then show ?thesis
    using explorer_paging [of "[''c1'', ''c2'']" ?s] by (simp add: Let_def numeral_2_eq_2)
qed

text \<open>
  A new question starts at the first page and with nothing selected. Submitting a search,
  sorting and choosing another page size have the effect on the listing that they name, read
  back through the address; the cursor and, where the listing changes, the stack of cursors
  and the selection are empty afterwards.
\<close>

theorem explorer_requery:
  "page_search (settle handleSearchSubmit s) = trim (ep_search_input s) \<and>
   page_cursor (settle handleSearchSubmit s) = [] \<and>
   page_sort_by (settle (handleSortApply k d) s) = k \<and> page_sort_order (settle (handleSortApply k d) s) = d \<and>
   page_cursor (settle (handleSortApply k d) s) = [] \<and>
   page_sort_by (settle handleSortClear s) = ByCreatedAt \<and> page_sort_order (settle handleSortClear s) = Desc \<and>
   (n \<in> set explorerPageSizes \<longrightarrow> page_limit (settle (handleLimitChange n) s) = n) \<and>
   page_cursor (settle (handleLimitChange n) s) = [] \<and>
   (list_filter (h s) \<noteq> list_filter s \<longrightarrow>
      ep_cursor_history (settle h s) = [] \<and> ep_selected (settle h s) = [])"
proof (intro conjI impI)
  show "list_filter (h s) \<noteq> list_filter s \<Longrightarrow> ep_cursor_history (settle h s) = []"
    and "list_filter (h s) \<noteq> list_filter s \<Longrightarrow> ep_selected (settle h s) = []"
    using commit_new_filter [of "h s" s] by (simp_all add: settle_def)
  show "n \<in> set explorerPageSizes \<Longrightarrow> page_limit (settle (handleLimitChange n) s) = n"
    using parseExplorerLimit_printed [of n]
    unfolding settle_def page_params_commit
    by (simp add: handleLimitChange_def page_limit_def params_after_updates get_apply_updates)
qed (simp_all only: settle_def page_params_commit,
   simp_all add: handleSearchSubmit_def handleSortApply_def handleSortClear_def
    handleLimitChange_def page_search_def page_cursor_def page_sort_by_def page_sort_order_def
    params_after_updates get_apply_updates normalizeExplorerSearch_def
    normalizeExplorerSortBy_def [of None] normalizeExplorerSortOrder_def [of None]
    explorerSortByValues_def explorerSortOrderValues_def)

theorem explorer_requery_witness:
  "page_limit (settle (handleLimitChange 50)
     (explorer_initial \<lparr>apiBaseUrl = [], bearerToken = []\<rparr> ''b'' [(''cursor'', ''c'')])) = 50"
  using explorer_requery [where n = 50 and
      s = "explorer_initial \<lparr>apiBaseUrl = [], bearerToken = []\<rparr> ''b'' [(''cursor'', ''c'')]"]
  by (simp add: explorerPageSizes_def)

text \<open>
  Selecting rows. The box in the header selects exactly the listed entries or none, a row's
  box changes the selection of that row alone, and both do nothing while a bulk action runs; what
  a bulk action works on is always a part of what is listed, in the order of the list.
\<close>

theorem explorer_selection:
  "(\<not> bulk_actions_pending s \<longrightarrow>
      selected_entries (handleSelectAll True s) = page_entries s \<and>
      selected_entries (handleSelectAll False s) = [] \<and>
      set (ep_selected (handleSelectEntry p c s)) =
        (if c then insert p (set (ep_selected s)) else set (ep_selected s) - {p})) \<and>
   (bulk_actions_pending s \<longrightarrow> handleSelectAll c s = s \<and> handleSelectEntry p c s = s) \<and>
   (\<exists>keep. selected_entries s = filter keep (page_entries s)) \<and>
   (panel_bulk_bar (explorer_panel s) \<noteq> [] \<longleftrightarrow> (\<exists>e \<in> set (page_entries s). entry_path e \<in> set (ep_selected s)))"
proof -
  have "page_entries (handleSelectAll c s) = page_entries s" for c
    by (simp add: handleSelectAll_def page_entries_def)
  then have "selected_entries (handleSelectAll True s) = page_entries s"
    "selected_entries (handleSelectAll False s) = []" if "\<not> bulk_actions_pending s"
    using that explorer_rows.all_selected [OF that]
    by (simp_all add: selected_entries_def entry_paths_def)
  moreover have "\<exists>keep. selected_entries s = filter keep (page_entries s)"
    unfolding selected_entries_def by blast
  moreover have "panel_bulk_bar (explorer_panel s) \<noteq> [] \<longleftrightarrow>
      (\<exists>e \<in> set (page_entries s). entry_path e \<in> set (ep_selected s))"
    by (simp add: explorer_panel_def selected_entries_def bulk_action_buttons_def filter_empty_conv)
  ultimately show ?thesis
    using explorer_rows.row_selected explorer_rows.all_locked explorer_rows.row_locked
    by (simp add: set_set_mark)
qed

theorem explorer_selection_witness:
  "selected_entries (handleSelectAll True ((explorer_initial \<lparr>apiBaseUrl = [], bearerToken = []\<rparr> ''b'' [])
      \<lparr>ep_data := Some \<lparr>ee_items = [DirectoryEntry ''a/'' ''a'' None], ee_next_cursor = []\<rparr>\<rparr>)) =
   [DirectoryEntry ''a/'' ''a'' None]"
proof -
  let ?s = "(explorer_initial \<lparr>apiBaseUrl = [], bearerToken = []\<rparr> ''b'' [])
      \<lparr>ep_data := Some \<lparr>ee_items = [DirectoryEntry ''a/'' ''a'' None], ee_next_cursor = []\<rparr>\<rparr>"
  have "\<not> bulk_actions_pending ?s" "page_entries ?s = [DirectoryEntry ''a/'' ''a'' None]"
    by (simp_all add: explorer_initial_def bulk_actions_pending_def page_entries_def)
  then show ?thesis using explorer_selection [of ?s] by simp
qed



text \<open>
  A confirmed overwrite. While the folder is the one the question was asked in, confirming sends
  exactly one kind of upload: a PUT to the object the dialog names, with overwriting allowed;
  the handler never throws and the retry flag is down afterwards.
\<close>

theorem confirm_overwrites_target:
  assumes "ep_pending_overwrite s = Some p" and "\<not> ep_retrying_overwrite s"
    and "pu_target p = Some (joinExplorerPath (page_prefix s) (up_object_key (pu_value p)))"
  shows "case exec (handleConfirmOverwriteUpload s) reply env n now of (now', sent, outcome) \<Rightarrow>
    outcome = Inr () \<and> \<not> ep_retrying_overwrite now' \<and> sent \<noteq> [] \<and>
    (\<exists>config. hd sent = SendHttp (HttpSend (createApiClient (ep_settings s)) config) \<and>
       hc_method config = PUT \<and> map_of (hc_headers config) ''X-Allow-Overwrite'' = Some ''true'' \<and>
       hc_url config = object_url (ep_bucket s) (overwrite_target s))"
  using exec_handleConfirm [OF assms(1,2), of reply env n now] assms(1,3)
  by (simp add: overwrite_target_def)

theorem confirm_overwrites_target_witness:
  "\<exists>s now' sent outcome. overwrite_target s = ''k'' \<and>
     exec (handleConfirmOverwriteUpload s) (\<lambda>_. \<lparr>rep_http = Inl (ThrownError ''x''), rep_done = Inr ()\<rparr>)
       undisturbed 0 s = (now', sent, outcome) \<and> outcome = Inr ()"
proof -
  let ?v = "\<lparr>up_object_key = ''k'', up_file = \<lparr>fl_name = ''k'', fl_type = [], fl_relative_path = None,
           fl_content = 0\<rparr>, up_visibility = Private\<rparr>"
  let ?p = "\<lparr>pu_value = ?v, pu_target = Some ''k''\<rparr>"
  let ?s = "(explorer_initial \<lparr>apiBaseUrl = [], bearerToken = []\<rparr> ''b'' [])\<lparr>ep_pending_overwrite := Some ?p\<rparr>"
  have "joinExplorerPath (page_prefix ?s) ''k'' = ''k''" by code_simp
  then have h: "ep_pending_overwrite ?s = Some ?p" "\<not> ep_retrying_overwrite ?s"
    "pu_target ?p = Some (joinExplorerPath (page_prefix ?s) (up_object_key (pu_value ?p)))"
    by (simp_all add: explorer_initial_def)
  have "overwrite_target ?s = ''k''" by (simp add: overwrite_target_def)
  moreover obtain now' sent outcome where "exec (handleConfirmOverwriteUpload ?s)
      (\<lambda>_. \<lparr>rep_http = Inl (ThrownError ''x''), rep_done = Inr ()\<rparr>) undisturbed 0 ?s = (now', sent, outcome)"
    by (metis prod_cases3)
  moreover from this have "outcome = Inr ()"
    using confirm_overwrites_target [OF h, where n = 0 and now = ?s and env = undisturbed and
        reply = "\<lambda>_. \<lparr>rep_http = Inl (ThrownError ''x''), rep_done = Inr ()\<rparr>"] by simp
  ultimately show ?thesis by blast
qed

text \<open>
  C15. A confirmed overwrite can hit another object than the one the dialog names: there is a
  run of the page (an upload into \<open>a/\<close> whose key exists, then the browser's back button with
  the question open) in which the dialog names \<open>a/k\<close> and confirming overwrites \<open>k\<close>.
\<close>

theorem confirm_overwrites_other_key:
  "\<exists>s js p. reachable_from explorer_commit (explorer_starts u)
       (explorer_initial settings ''b'' [(''prefix'', ''a/'')]) (s, js) \<and>
     ep_pending_overwrite s = Some p \<and> overwrite_target s = ''a/k'' \<and>
     (\<forall>reply env n now. case exec (handleConfirmOverwriteUpload s) reply env n now of (now', sent, outcome) \<Rightarrow>
        \<exists>config. hd sent = SendHttp (HttpSend (createApiClient settings) config) \<and>
          hc_url config = object_url ''b'' ''k'')"
proof -
  let ?s0 = "explorer_initial settings ''b'' [(''prefix'', ''a/'')]"
  let ?v = "\<lparr>up_object_key = ''k'', up_file = \<lparr>fl_name = ''k'', fl_type = [], fl_relative_path = None,
           fl_content = 0\<rparr>, up_visibility = Private\<rparr>"
  let ?ok = "\<lparr>rep_http = Inr \<lparr>resp_status = 200, resp_body = EmptyBody, resp_disposition = None,
           resp_blob = 0\<rparr>, rep_done = Inr ()\<rparr>"
  have key: "joinExplorerPath (page_prefix ?s0) (up_object_key ?v) = ''a/k''"
  proof -
    have "page_prefix ?s0 = ''a/''"
      by (simp add: explorer_initial_def page_prefix_def params_get_def) code_simp
    moreover have "joinExplorerPath ''a/'' ''k'' = ''a/k''" by code_simp
    ultimately show ?thesis by simp
  qed
  from handleUpload_shape [OF this, of ?ok] obtain Q G where
    t: "handleUpload ?s0 ?v = Update reset_progress (Update (set_checking True) (Await Q G))" and
    g: "G ?ok = Update (set_checking False) (Update (ask_overwrite ?v ''a/k'') (Raise overwrite_question))"
    by auto
  let ?R = "reachable_from explorer_commit (explorer_starts u) ?s0"
  let ?s1 = "explorer_commit ?s0 (set_checking True (reset_progress ?s0))"
  let ?s2 = "explorer_commit ?s1 (ask_overwrite ?v ''a/k'' (set_checking False ?s1))"
  let ?s3 = "explorer_commit ?s2 (apply_event (AddressChanged ''b'' []) ?s2)"
  have "machine_step explorer_commit (explorer_starts u) (?s0, []) (?s1, [(Q, G)] @ [])"
    by (rule machine_step.start [where t = "handleUpload ?s0 ?v"])
       (rule explorer_starts.intros(2), simp add: t)
  then have r1: "?R (?s1, [(Q, G)])" using reachable_from.step [OF reachable_from.initial] by simp
  have "machine_step explorer_commit (explorer_starts u) (?s1, [] @ (Q, G) # []) (?s2, [] @ [] @ [])"
    by (rule machine_step.resume [where r = ?ok]) (simp add: g)
  then have r2: "?R (?s2, [])" using reachable_from.step [OF r1] by simp
  have "machine_step explorer_commit (explorer_starts u) (?s2, []) (?s3, [] @ [])"
    by (rule machine_step.start [where t = "Update (apply_event (AddressChanged ''b'' [])) (Return ())"])
       (rule explorer_starts.intros(1), simp)
  then have r3: "?R (?s3, [])" using reachable_from.step [OF r2] by simp
  have pending: "ep_pending_overwrite (explorer_commit old t) = ep_pending_overwrite t"
    "ep_retrying_overwrite (explorer_commit old t) = ep_retrying_overwrite t"
    "ep_settings (explorer_commit old t) = ep_settings t" for old t
    by (simp_all add: explorer_commit_def search_effect_def paging_effect_def bucket_effect_def
        location_effect_def entries_effect_def)
  have s3: "ep_pending_overwrite ?s3 = Some \<lparr>pu_value = ?v, pu_target = Some ''a/k''\<rparr>"
    "\<not> ep_retrying_overwrite ?s3" "ep_settings ?s3 = settings" "ep_bucket ?s3 = ''b''" "ep_params ?s3 = []"
    by (simp_all add: pending ask_overwrite_def set_checking_def reset_progress_def)
       (simp_all add: explorer_initial_def)
  have "page_prefix ?s3 = []" unfolding page_prefix_def s3 by code_simp
  then have "joinExplorerPath (page_prefix ?s3) (up_object_key ?v) = ''k''" by simp code_simp
  then have "case exec (handleConfirmOverwriteUpload ?s3) reply env n now of (now', sent, outcome) \<Rightarrow>
        \<exists>config. hd sent = SendHttp (HttpSend (createApiClient settings) config) \<and>
          hc_url config = object_url ''b'' ''k''" for reply env n now
    using exec_handleConfirm [OF s3(1,2), of reply env n now] unfolding s3 by auto
  moreover have "overwrite_target ?s3 = ''a/k''" by (simp only: overwrite_target_def s3) simp
  ultimately show ?thesis using r3 s3(1) by blast
qed



text \<open>
  C4. The bulk deletion asks for exactly the selected entries, in the order of the list. If the
  server answers, the dialog closes and what stays selected is what failed, or nothing; if it
  does not, selection and dialog stay as they are; the handler never throws and the pending flag is down
  in the end.
\<close>

theorem bulk_delete_outcome:
  assumes "selected_entries s \<noteq> []" and "\<not> ep_bulk_delete s"
  shows "case exec (handleConfirmBulkDelete s) reply undisturbed n s of (now', sent, outcome) \<Rightarrow>
    outcome = Inr () \<and> \<not> ep_bulk_delete now' \<and>
    (\<exists>config. hd sent = SendHttp (HttpSend (createApiClient (ep_settings s)) config) \<and>
       hc_url config = bucket_url (ep_bucket s) ''/entries/batch-delete'' \<and>
       hc_data config = JsonData (JObj [(''items'', JArr (map (\<lambda>e.
          JObj [(''type'', JStr (entry_type_value (type_of_entry e))), (''path'', JStr (entry_path e))])
          (selected_entries s)))])) \<and>
    (case api_outcome as_batch_delete (rep_http (reply n)) of
       Inr (Some result) \<Rightarrow>
         ep_selected now' = (if db_failed_count result = 0 then [] else uniq (map dbi_path (db_failed_items result))) \<and>
         \<not> ep_bulk_dialog now' \<and> sent = [hd sent, InvalidateQueries [entries_base_key s]]
     | _ \<Rightarrow> ep_selected now' = ep_selected s \<and> ep_bulk_dialog now' = ep_bulk_dialog s \<and> sent = [hd sent])"
  using assms
  by (auto simp: handleConfirmBulkDelete_def deleteExplorerEntriesBatch_def exec_bind exec_finally
      exec_catch exec_api_call exec_apiRequest exec_the_result exec_await_done delete_items_def
      apply_delete_result_def show_toast_def set_bulk_delete_def http_request_def Let_def o_def
      split: sum.splits option.splits prod.splits)

theorem bulk_delete_outcome_witness:
  "case exec (handleConfirmBulkDelete
      ((explorer_initial \<lparr>apiBaseUrl = [], bearerToken = []\<rparr> ''b'' [])
         \<lparr>ep_data := Some \<lparr>ee_items = [DirectoryEntry ''a/'' ''a'' None], ee_next_cursor = []\<rparr>,
          ep_selected := [''a/'']\<rparr>))
      (\<lambda>_. \<lparr>rep_http = Inl (ThrownError ''down''), rep_done = Inr ()\<rparr>) undisturbed 0
      ((explorer_initial \<lparr>apiBaseUrl = [], bearerToken = []\<rparr> ''b'' [])
         \<lparr>ep_data := Some \<lparr>ee_items = [DirectoryEntry ''a/'' ''a'' None], ee_next_cursor = []\<rparr>,
          ep_selected := [''a/'']\<rparr>) of
     (now', sent, outcome) \<Rightarrow> outcome = Inr () \<and> ep_selected now' = [''a/'']"
proof -
  let ?s = "(explorer_initial \<lparr>apiBaseUrl = [], bearerToken = []\<rparr> ''b'' [])
         \<lparr>ep_data := Some \<lparr>ee_items = [DirectoryEntry ''a/'' ''a'' None], ee_next_cursor = []\<rparr>,
          ep_selected := [''a/'']\<rparr>"
  have h: "selected_entries ?s \<noteq> []" "\<not> ep_bulk_delete ?s"
    by (simp_all add: explorer_initial_def selected_entries_def page_entries_def)
  from bulk_delete_outcome [OF this, where n = 0 and
      reply = "\<lambda>_. \<lparr>rep_http = Inl (ThrownError ''down''), rep_done = Inr ()\<rparr>"]
  show ?thesis by (simp add: api_outcome_def split: prod.splits)
qed

end
