(* ===== verification/RecycleBin.thy ===== *)
theory RecycleBin
  imports PageTask Listing
begin

text \<open>
  Model of \<open>frontend/src/features/buckets/RecycleBinDialog.tsx\<close>: the dialog that lists the
  deleted objects of a bucket by pages, the selection, the two confirmation dialogs and the
  dialog with what could not be restored, the two mutations, and the part of the query cache
  that a restore edits. The rows and the paging are the interfaces of \<open>Listing\<close>.
\<close>

section \<open>State\<close>

datatype recycle_mutation = RestoreM "recycle_bin_object_item list" | DeleteM "recycle_bin_object_item list"

record recycle_page =
  rs_settings :: app_settings
  rs_bucket :: string
  rs_open :: bool
  rs_cursor :: string
  rs_history :: "string list"
  rs_selected :: "int list"
  rs_pending_restore :: "recycle_bin_object_item list"
  rs_restore_dialog :: bool
  rs_failed :: "recycle_bin_failed_item list"
  rs_failed_dialog :: bool
  rs_pending_delete :: "recycle_bin_object_item list"
  rs_delete_dialog :: bool
  rs_cache :: "(string list \<times> recycle_bin_list_result) list"
  rs_fetching :: bool
  rs_error :: bool
  rs_restoring :: bool
  rs_deleting :: bool
  rs_toasts :: "toast list"

type_synonym 'a recycle_task = "(recycle_page, recycle_mutation, 'a) page_task"

type_synonym ('v, 'r) recycle_options = "(recycle_page, recycle_mutation, 'v, 'r) mutation_options"

definition recycle_initial :: "app_settings \<Rightarrow> string \<Rightarrow> recycle_page" where
  "recycle_initial settings bucket =
     \<lparr>rs_settings = settings, rs_bucket = bucket, rs_open = False, rs_cursor = [], rs_history = [],
      rs_selected = [], rs_pending_restore = [], rs_restore_dialog = False, rs_failed = [],
      rs_failed_dialog = False, rs_pending_delete = [], rs_delete_dialog = False, rs_cache = [],
      rs_fetching = False, rs_error = False, rs_restoring = False, rs_deleting = False, rs_toasts = []\<rparr>"

definition recycleBinPageSize :: nat where
  "recycleBinPageSize = 20"

definition recycle_base_key :: "recycle_page \<Rightarrow> string list" where
  "recycle_base_key s =
     [''recycle-bin-objects'', apiBaseUrl (rs_settings s), bearerToken (rs_settings s), rs_bucket s]"

definition recycle_key :: "recycle_page \<Rightarrow> string list" where
  "recycle_key s = recycle_base_key s @ [rs_cursor s]"

definition recycle_request :: "recycle_page \<Rightarrow> ('t, recycle_bin_list_result option) api_task" where
  "recycle_request s =
     listRecycleBinObjects (rs_settings s)
       \<lparr>lr_bucket = Some (rs_bucket s), lr_limit = recycleBinPageSize, lr_cursor = rs_cursor s\<rparr>"

definition recycle_query_enabled :: "recycle_page \<Rightarrow> bool" where
  "recycle_query_enabled s \<longleftrightarrow>
     rs_open s \<and> trim (apiBaseUrl (rs_settings s)) \<noteq> [] \<and> trim (rs_bucket s) \<noteq> []"

definition recycle_data :: "recycle_page \<Rightarrow> recycle_bin_list_result option" where
  "recycle_data s = map_of (rs_cache s) (recycle_key s)"

definition recycle_items :: "recycle_page \<Rightarrow> recycle_bin_object_item list" where
  "recycle_items s = (case recycle_data s of None \<Rightarrow> [] | Some d \<Rightarrow> rbl_items d)"

definition recycle_ids :: "recycle_page \<Rightarrow> int list" where
  "recycle_ids s = map rb_id (recycle_items s)"

definition recycle_selected_items :: "recycle_page \<Rightarrow> recycle_bin_object_item list" where
  "recycle_selected_items s = filter (\<lambda>it. rb_id it \<in> set (rs_selected s)) (recycle_items s)"

datatype checkbox = Checked | Unchecked | Indeterminate

definition select_all_box :: "recycle_page \<Rightarrow> checkbox" where
  "select_all_box s =
     (let selectedCount = length (recycle_selected_items s); count = length (recycle_items s);
          allSelected = (count > 0 \<and> selectedCount = count);
          partiallySelected = (selectedCount > 0 \<and> selectedCount < count)
      in if allSelected then Checked else if partiallySelected then Indeterminate else Unchecked)"

definition actions_pending :: "recycle_page \<Rightarrow> bool" where
  "actions_pending s \<longleftrightarrow> rs_restoring s \<or> rs_deleting s"

section \<open>Effects\<close>

definition clear_recycle_state :: "recycle_page \<Rightarrow> recycle_page" where
  "clear_recycle_state s =
     s\<lparr>rs_cursor := [], rs_history := [], rs_selected := [], rs_pending_restore := [],
       rs_restore_dialog := False, rs_failed := [], rs_failed_dialog := False,
       rs_pending_delete := [], rs_delete_dialog := False\<rparr>"

text \<open>The second effect sees the items of the render, before the first one is applied.\<close>

definition recycle_commit :: "recycle_page \<Rightarrow> recycle_page \<Rightarrow> recycle_page" where
  "recycle_commit old s =
     (let s1 = (if rs_bucket s \<noteq> rs_bucket old then clear_recycle_state s else s)
      in if recycle_items s \<noteq> recycle_items old
         then s1\<lparr>rs_selected := prune (recycle_ids s) (rs_selected s1)\<rparr> else s1)"

section \<open>Cache\<close>

text \<open>\<open>setQueriesData\<close> edits every cached query whose key begins with the base key.\<close>

definition removeRecycleBinItemsFromCache ::
  "string list \<Rightarrow> recycle_bin_object_item list \<Rightarrow> recycle_page \<Rightarrow> recycle_page" where
  "removeRecycleBinItemsFromCache base itemList s =
     (if length itemList = 0 then s
      else s\<lparr>rs_cache := map (\<lambda>(key, current).
               if take (length base) key = base
               then (key, current\<lparr>rbl_items :=
                      filter (\<lambda>it. rb_id it \<notin> set (map rb_id itemList)) (rbl_items current)\<rparr>)
               else (key, current)) (rs_cache s)\<rparr>)"

definition explorer_key :: "app_settings \<Rightarrow> string \<Rightarrow> string list" where
  "explorer_key settings bucket =
     [''explorer-entries'', apiBaseUrl settings, bearerToken settings, bucket]"

definition invalidateAffectedQueries ::
  "app_settings \<Rightarrow> recycle_bin_object_item list \<Rightarrow> unit recycle_task" where
  "invalidateAffectedQueries settings itemList =
     invalidateQueries (map (explorer_key settings) (uniq (map rb_bucket_name itemList)))"

section \<open>Mutations\<close>

definition recycle_toast :: "toast \<Rightarrow> recycle_page \<Rightarrow> recycle_page" where
  "recycle_toast m s = s\<lparr>rs_toasts := rs_toasts s @ [m]\<rparr>"

definition forget_ids :: "recycle_bin_object_item list \<Rightarrow> int list \<Rightarrow> int list" where
  "forget_ids itemList current =
     (if current = [] then current else fold (\<lambda>it ids. set_delete (rb_id it) ids) itemList current)"

definition succeeded :: "recycle_bin_failed_item list \<Rightarrow> recycle_bin_object_item list \<Rightarrow> recycle_bin_object_item list" where
  "succeeded failed targets = filter (\<lambda>it. rb_id it \<notin> set (map rbf_id failed)) targets"

definition apply_restore ::
  "recycle_page \<Rightarrow> recycle_bin_object_item list \<Rightarrow> restore_result \<Rightarrow> recycle_page \<Rightarrow> recycle_page" where
  "apply_restore s targetItems result now =
     (let restoredItems = succeeded (rr_failed_items result) targetItems;
          s1 = now\<lparr>rs_restore_dialog := False, rs_pending_restore := [],
                   rs_selected := forget_ids restoredItems (rs_selected now)\<rparr>;
          s2 = (if rr_failed_count result = 0
                then recycle_toast (ToastSuccess (Key ''toast.recycleBin.restored''
                       [(''count'', rr_restored_count result)])) s1
                else recycle_toast (ToastError (Key ''toast.recycleBin.restorePartial''
                       [(''successCount'', rr_restored_count result),
                        (''failedCount'', rr_failed_count result)])) s1);
          s3 = (if length (rr_failed_items result) > 0
                then s2\<lparr>rs_failed := rr_failed_items result, rs_failed_dialog := True\<rparr>
                else s2\<lparr>rs_failed := [], rs_failed_dialog := False\<rparr>)
      in removeRecycleBinItemsFromCache (recycle_base_key s) restoredItems s3)"

definition restoreMutation ::
  "recycle_page \<Rightarrow> (recycle_bin_object_item list, recycle_bin_object_item list \<times> restore_result option) recycle_options" where
  "restoreMutation s =
     \<lparr>mutationFn = (\<lambda>targetItems.
        bind_task (api_call (restoreRecycleBinObjects (rs_settings s) (map rb_id targetItems)))
          (\<lambda>result. Return (targetItems, result))),
      onSuccess = (\<lambda>_ (targetItems, answer).
        bind_task (the_result answer) (\<lambda>result.
          Update (apply_restore s targetItems result)
            (invalidateAffectedQueries (rs_settings s) (succeeded (rr_failed_items result) targetItems)))),
      onError = (\<lambda>error _.
        Update (recycle_toast (ToastError (error_text error ''errors.recycleBin.restore''))) (Return ())),
      onSettled = Return ()\<rparr>"

definition apply_delete ::
  "recycle_bin_object_item list \<Rightarrow> delete_recycle_result \<Rightarrow> recycle_page \<Rightarrow> recycle_page" where
  "apply_delete targetItems result now =
     (let deletedItems = succeeded (dr_failed_items result) targetItems;
          s1 = now\<lparr>rs_delete_dialog := False, rs_pending_delete := [],
                   rs_selected := forget_ids deletedItems (rs_selected now)\<rparr>
      in if dr_failed_count result = 0
         then recycle_toast (ToastSuccess (Key ''toast.recycleBin.deleted''
                [(''count'', dr_deleted_count result)])) s1
         else recycle_toast (ToastError (Key ''toast.recycleBin.deletePartial''
                [(''successCount'', dr_deleted_count result),
                 (''failedCount'', dr_failed_count result)])) s1)"

definition deleteMutation ::
  "recycle_page \<Rightarrow> (recycle_bin_object_item list, recycle_bin_object_item list \<times> delete_recycle_result option) recycle_options" where
  "deleteMutation s =
     \<lparr>mutationFn = (\<lambda>targetItems.
        bind_task (api_call (deleteRecycleBinObjects (rs_settings s) (map rb_id targetItems)))
          (\<lambda>result. Return (targetItems, result))),
      onSuccess = (\<lambda>_ (targetItems, answer).
        bind_task (the_result answer) (\<lambda>result.
          Update (apply_delete targetItems result)
            (bind_task
               (invalidateAffectedQueries (rs_settings s) (succeeded (dr_failed_items result) targetItems))
               (\<lambda>_. invalidateQueries [recycle_base_key s])))),
      onError = (\<lambda>error _.
        Update (recycle_toast (ToastError (error_text error ''errors.recycleBin.delete''))) (Return ())),
      onSettled = Return ()\<rparr>"

section \<open>Handlers\<close>

definition handleOpenChange :: "bool \<Rightarrow> recycle_page \<Rightarrow> recycle_page" where
  "handleOpenChange nextOpen s =
     (let s1 = s\<lparr>rs_open := nextOpen\<rparr> in if nextOpen then s1 else clear_recycle_state s1)"

definition handleSelectAllItems :: "bool \<Rightarrow> recycle_page \<Rightarrow> recycle_page" where
  "handleSelectAllItems checked s = s\<lparr>rs_selected := (if checked then uniq (recycle_ids s) else [])\<rparr>"

definition handleSelectRow :: "int \<Rightarrow> bool \<Rightarrow> recycle_page \<Rightarrow> recycle_page" where
  "handleSelectRow itemID checked s = s\<lparr>rs_selected := set_mark itemID checked (rs_selected s)\<rparr>"

definition recycle_next_cursor :: "recycle_page \<Rightarrow> string" where
  "recycle_next_cursor s = (case recycle_data s of None \<Rightarrow> [] | Some d \<Rightarrow> rbl_next_cursor d)"

definition recycle_forward :: "string \<Rightarrow> recycle_page \<Rightarrow> recycle_page" where
  "recycle_forward nextCursor s =
     (if nextCursor = [] then s
      else s\<lparr>rs_history := rs_history s @ [rs_cursor s], rs_cursor := nextCursor\<rparr>)"

definition handleRecycleNext :: "recycle_page \<Rightarrow> recycle_page" where
  "handleRecycleNext s = recycle_forward (recycle_next_cursor s) s"

definition handleRecyclePrev :: "recycle_page \<Rightarrow> recycle_page" where
  "handleRecyclePrev s =
     (if length (rs_history s) = 0 then s
      else s\<lparr>rs_cursor := last (rs_history s), rs_history := butlast (rs_history s)\<rparr>)"

definition openRestoreConfirmation :: "recycle_bin_object_item list \<Rightarrow> recycle_page \<Rightarrow> recycle_page" where
  "openRestoreConfirmation targetItems s =
     s\<lparr>rs_pending_restore := targetItems, rs_restore_dialog := True\<rparr>"

definition openDeleteConfirmation :: "recycle_bin_object_item list \<Rightarrow> recycle_page \<Rightarrow> recycle_page" where
  "openDeleteConfirmation targetItems s =
     s\<lparr>rs_pending_delete := targetItems, rs_delete_dialog := True\<rparr>"

definition handleRestore :: "recycle_page \<Rightarrow> unit recycle_task" where
  "handleRestore s =
     (if length (rs_pending_restore s) = 0 then Return () else mutateAsync (RestoreM (rs_pending_restore s)))"

definition handleDelete :: "recycle_page \<Rightarrow> unit recycle_task" where
  "handleDelete s =
     (if length (rs_pending_delete s) = 0 then Return () else mutateAsync (DeleteM (rs_pending_delete s)))"

definition restoreDialogChange :: "bool \<Rightarrow> recycle_page \<Rightarrow> recycle_page" where
  "restoreDialogChange nextOpen s =
     (if rs_restoring s then s
      else (let s1 = s\<lparr>rs_restore_dialog := nextOpen\<rparr>
            in if nextOpen then s1 else s1\<lparr>rs_pending_restore := []\<rparr>))"

definition failedDialogChange :: "bool \<Rightarrow> recycle_page \<Rightarrow> recycle_page" where
  "failedDialogChange nextOpen s =
     (let s1 = s\<lparr>rs_failed_dialog := nextOpen\<rparr> in if nextOpen then s1 else s1\<lparr>rs_failed := []\<rparr>)"

definition deleteDialogChange :: "bool \<Rightarrow> recycle_page \<Rightarrow> recycle_page" where
  "deleteDialogChange nextOpen s =
     (if rs_deleting s then s
      else (let s1 = s\<lparr>rs_delete_dialog := nextOpen\<rparr>
            in if nextOpen then s1 else s1\<lparr>rs_pending_delete := []\<rparr>))"

section \<open>Rendering decisions\<close>

datatype recycle_body = RecycleLoading | RecycleTable "(recycle_bin_object_item \<times> bool) list" | RecycleEmpty

record recycle_panel =
  rp_body :: recycle_body
  rp_box :: checkbox
  rp_bulk_count :: nat
  rp_bulk_disabled :: bool
  rp_page :: nat
  rp_prev_disabled :: bool
  rp_next_disabled :: bool

definition recycle_view :: "recycle_page \<Rightarrow> recycle_panel" where
  "recycle_view s =
     \<lparr>rp_body = (if rs_fetching s then RecycleLoading
                 else if recycle_items s \<noteq> []
                 then RecycleTable (map (\<lambda>it. (it, rb_id it \<in> set (rs_selected s))) (recycle_items s))
                 else RecycleEmpty),
      rp_box = select_all_box s,
      rp_bulk_count = length (recycle_selected_items s),
      rp_bulk_disabled = actions_pending s,
      rp_page = length (rs_history s) + 1,
      rp_prev_disabled = (length (rs_history s) = 0),
      rp_next_disabled = (recycle_next_cursor s = [])\<rparr>"

end
