(* ===== verification/RecycleProps.thy ===== *)
theory RecycleProps
  imports RecycleBin
begin

text \<open>
  Properties of the recycle bin: its rows and its paging are the interfaces of \<open>Listing\<close>, every
  interleaving of its handlers keeps the invariant, and a restore or a deletion leaves exactly
  what the server could not do.
\<close>

section \<open>Rows and pages\<close>

lemma recycle_frame [simp]:
  "recycle_items (s\<lparr>rs_selected := x1\<rparr>) = recycle_items s"
  "recycle_items (s\<lparr>rs_open := x2\<rparr>) = recycle_items s"
  "recycle_items (s\<lparr>rs_history := x3\<rparr>) = recycle_items s"
  "recycle_items (s\<lparr>rs_toasts := x4\<rparr>) = recycle_items s"
  "recycle_items (s\<lparr>rs_failed := x5\<rparr>) = recycle_items s"
  "recycle_items (s\<lparr>rs_failed_dialog := x6\<rparr>) = recycle_items s"
  "recycle_items (s\<lparr>rs_pending_restore := x7\<rparr>) = recycle_items s"
  "recycle_items (s\<lparr>rs_restore_dialog := x8\<rparr>) = recycle_items s"
  "recycle_items (s\<lparr>rs_pending_delete := x9\<rparr>) = recycle_items s"
  "recycle_items (s\<lparr>rs_delete_dialog := x10\<rparr>) = recycle_items s"
  by (simp_all add: recycle_items_def recycle_data_def recycle_key_def recycle_base_key_def)

interpretation recycle_rows: row_selection rs_selected recycle_ids "\<lambda>_. False"
    handleSelectAllItems handleSelectRow
  by unfold_locales (simp_all add: handleSelectAllItems_def handleSelectRow_def recycle_ids_def)

interpretation recycle_pager: cursor_pager rs_cursor rs_history recycle_forward handleRecyclePrev
    "\<lambda>s t. recycle_base_key t = recycle_base_key s"
  by unfold_locales
     (auto simp: recycle_forward_def handleRecyclePrev_def recycle_base_key_def)

section \<open>Every interleaving\<close>

text \<open>
  The cursors left behind and the present one: the first page has the empty cursor, and no
  other page has.
\<close>

definition proper_pages :: "recycle_page \<Rightarrow> bool" where
  "proper_pages s \<longleftrightarrow>
     hd (rs_history s @ [rs_cursor s]) = [] \<and> [] \<notin> set (tl (rs_history s @ [rs_cursor s]))"

text \<open>
  The invariant: no row is selected twice, the pages are proper, and rows wait for a
  confirmation, or are reported as failed, only while the dialog that shows them is open.
\<close>

definition recycle_inv :: "recycle_page \<Rightarrow> bool" where
  "recycle_inv s \<longleftrightarrow>
     distinct (rs_selected s) \<and> proper_pages s \<and>
     (rs_pending_restore s = [] \<or> rs_restore_dialog s) \<and>
     (rs_pending_delete s = [] \<or> rs_delete_dialog s) \<and>
     (rs_failed s = [] \<or> rs_failed_dialog s)"

datatype recycle_event =
    OpenBin bool | SelectAllItems bool | SelectItem int bool | ClearItems
  | RecycleNext | RecyclePrev
  | AskRestore "recycle_bin_object_item list" | AskDelete "recycle_bin_object_item list"
  | RestoreDialog bool | FailedDialog bool | DeleteDialog bool
  | BucketChanged string | RecycleSettings app_settings
  | CacheChanged "(string list \<times> recycle_bin_list_result) list" bool bool
  | PendingChanged bool bool

text \<open>What the user, the page around the dialog, the settings and the query library can do.\<close>

fun recycle_event_step :: "recycle_event \<Rightarrow> recycle_page \<Rightarrow> recycle_page" where
  "recycle_event_step (OpenBin b) s = handleOpenChange b s"
| "recycle_event_step (SelectAllItems c) s = handleSelectAllItems c s"
| "recycle_event_step (SelectItem i c) s = handleSelectRow i c s"
| "recycle_event_step ClearItems s = s\<lparr>rs_selected := []\<rparr>"
| "recycle_event_step RecycleNext s = handleRecycleNext s"
| "recycle_event_step RecyclePrev s = handleRecyclePrev s"
| "recycle_event_step (AskRestore its) s = openRestoreConfirmation its s"
| "recycle_event_step (AskDelete its) s = openDeleteConfirmation its s"
| "recycle_event_step (RestoreDialog b) s = restoreDialogChange b s"
| "recycle_event_step (FailedDialog b) s = failedDialogChange b s"
| "recycle_event_step (DeleteDialog b) s = deleteDialogChange b s"
| "recycle_event_step (BucketChanged b) s = s\<lparr>rs_bucket := b\<rparr>"
| "recycle_event_step (RecycleSettings st) s = s\<lparr>rs_settings := st\<rparr>"
| "recycle_event_step (CacheChanged c f e) s = s\<lparr>rs_cache := c, rs_fetching := f, rs_error := e\<rparr>"
| "recycle_event_step (PendingChanged r d) s = s\<lparr>rs_restoring := r, rs_deleting := d\<rparr>"

text \<open>The refresh button is the fourth rule.\<close>

inductive recycle_starts :: "recycle_page \<Rightarrow> unit recycle_task \<Rightarrow> bool" where
  "recycle_starts s (Update (recycle_event_step ev) (Return ()))"
| "recycle_starts s (handleRestore s)"
| "recycle_starts s (handleDelete s)"
| "recycle_starts s (invalidateQueries [recycle_base_key s])"
| "callback_task (restoreMutation r) t \<Longrightarrow> recycle_starts s t"
| "callback_task (deleteMutation r) t \<Longrightarrow> recycle_starts s t"

inductive_cases recycle_startsE: "recycle_starts s t"

lemma proper_pages_forward: "proper_pages s \<Longrightarrow> proper_pages (recycle_forward c s)"
  by (cases "rs_history s") (auto simp: proper_pages_def recycle_forward_def)

lemma proper_pages_prev: "proper_pages s \<Longrightarrow> proper_pages (handleRecyclePrev s)"
proof (cases "rs_history s" rule: rev_cases)
  case (snoc cs c)
  moreover assume "proper_pages s"
  ultimately show ?thesis by (cases cs) (auto simp: proper_pages_def handleRecyclePrev_def)
qed (simp add: handleRecyclePrev_def)

lemma proper_pages_frame:
  "rs_cursor t = rs_cursor s \<Longrightarrow> rs_history t = rs_history s \<Longrightarrow> proper_pages t = proper_pages s"
  by (simp add: proper_pages_def)

lemma inv_clear [simp]: "recycle_inv (clear_recycle_state s)"
  by (simp add: recycle_inv_def proper_pages_def clear_recycle_state_def)

lemma inv_recycle_toast [simp]: "recycle_inv (recycle_toast m s) = recycle_inv s"
  by (simp add: recycle_inv_def proper_pages_def recycle_toast_def)

lemma inv_cache [simp]: "recycle_inv (removeRecycleBinItemsFromCache b its s) = recycle_inv s"
  by (simp add: recycle_inv_def proper_pages_def removeRecycleBinItemsFromCache_def)

lemma forget_ids_filter: "forget_ids its xs = filter (\<lambda>x. x \<notin> rb_id ` set its) xs"
proof -
  have "fold (\<lambda>it ids. set_delete (rb_id it) ids) its xs = filter (\<lambda>x. x \<notin> rb_id ` set its) xs" for xs
    by (induction its arbitrary: xs) (auto simp: set_delete_def intro!: filter_cong)
  then show ?thesis by (simp add: forget_ids_def)
qed

lemma inv_restore: "recycle_inv now \<Longrightarrow> recycle_inv (apply_restore s its r now)"
  by (auto simp: apply_restore_def Let_def forget_ids_filter)
     (auto simp: recycle_inv_def proper_pages_def recycle_toast_def)

lemma inv_delete: "recycle_inv now \<Longrightarrow> recycle_inv (apply_delete its r now)"
  by (auto simp: apply_delete_def Let_def forget_ids_filter)
     (auto simp: recycle_inv_def proper_pages_def recycle_toast_def)

lemma inv_pages:
  assumes "recycle_inv s"
  shows "recycle_inv (recycle_forward c s)" and "recycle_inv (handleRecyclePrev s)"
  using assms proper_pages_forward [of s c] proper_pages_prev [of s]
  by (auto simp: recycle_inv_def recycle_forward_def handleRecyclePrev_def)

lemma inv_handlers:
  assumes "recycle_inv s"
  shows "recycle_inv (s\<lparr>rs_open := b\<rparr>)" "recycle_inv (s\<lparr>rs_selected := []\<rparr>)"
    "recycle_inv (s\<lparr>rs_bucket := k\<rparr>)" "recycle_inv (s\<lparr>rs_settings := st\<rparr>)"
    "recycle_inv (s\<lparr>rs_cache := c, rs_fetching := b, rs_error := b'\<rparr>)"
    "recycle_inv (s\<lparr>rs_restoring := b, rs_deleting := b'\<rparr>)"
    "recycle_inv (handleSelectAllItems b s)" "recycle_inv (handleSelectRow i b s)"
    "recycle_inv (openRestoreConfirmation its s)" "recycle_inv (openDeleteConfirmation its s)"
    "recycle_inv (restoreDialogChange b s)" "recycle_inv (failedDialogChange b s)"
    "recycle_inv (deleteDialogChange b s)"
  using assms
  by (auto simp: recycle_inv_def proper_pages_def handleSelectAllItems_def handleSelectRow_def
      distinct_set_mark openRestoreConfirmation_def openDeleteConfirmation_def
      restoreDialogChange_def failedDialogChange_def deleteDialogChange_def Let_def)

lemma recycle_inv_event: "recycle_inv s \<Longrightarrow> recycle_inv (recycle_event_step ev s)"
  by (cases ev) (simp_all add: inv_pages inv_handlers handleRecycleNext_def handleOpenChange_def Let_def)

lemma recycle_inv_commit: "recycle_inv s \<Longrightarrow> recycle_inv (recycle_commit old s)"
  by (auto simp: recycle_commit_def Let_def)
     (auto simp: recycle_inv_def distinct_prune clear_recycle_state_def proper_pages_def prune_def)

lemma stateless_recycle [simp]:
  "stateless (restoreRecycleBinObjects st ids)" "stateless (deleteRecycleBinObjects st ids)"
  by simp_all

lemma recycle_safe_starts: "recycle_starts s t \<Longrightarrow> recycle_inv s \<Longrightarrow> safe recycle_inv t s"
  by (erule recycle_startsE)
     (auto simp: recycle_inv_event handleRestore_def handleDelete_def restoreMutation_def
        deleteMutation_def invalidateAffectedQueries_def inv_restore inv_delete elim!: callback_taskE
        intro!: safe_bind safe_api_call split: prod.splits)

interpretation recycle_machine: page_machine recycle_commit recycle_starts
    "recycle_initial settings bucket" recycle_inv for settings bucket
  by unfold_locales
     (simp_all add: recycle_inv_commit recycle_safe_starts,
      simp add: recycle_inv_def proper_pages_def recycle_initial_def)

section \<open>What a restore leaves\<close>

lemma map_of_edit:
  "map_of (map (\<lambda>(k, c). if P k then (k, f c) else (k, c)) xs) k =
     map_option (\<lambda>c. if P k then f c else c) (map_of xs k)"
  by (induction xs) auto

text \<open>In the cache of the base key of the page, the rows of the page are those not removed.\<close>

lemma items_removed:
  assumes "b = recycle_base_key s"
  shows "recycle_items (removeRecycleBinItemsFromCache b its s) =
     filter (\<lambda>it. rb_id it \<notin> rb_id ` set its) (recycle_items s)"
proof -
  have "take (length (recycle_base_key s)) (recycle_key s) = recycle_base_key s"
    by (simp add: recycle_key_def)
  moreover have "recycle_key (removeRecycleBinItemsFromCache b its s) = recycle_key s" for b
    by (simp add: recycle_key_def recycle_base_key_def removeRecycleBinItemsFromCache_def)
  ultimately show ?thesis
    by (cases "map_of (rs_cache s) (recycle_key s)")
       (auto simp: assms recycle_items_def recycle_data_def removeRecycleBinItemsFromCache_def map_of_edit)
qed

lemma base_key_frame [simp]:
  "recycle_base_key (s\<lparr>rs_selected := x1\<rparr>) = recycle_base_key s"
  "recycle_base_key (s\<lparr>rs_toasts := x2\<rparr>) = recycle_base_key s"
  "recycle_base_key (s\<lparr>rs_failed := x3\<rparr>) = recycle_base_key s"
  "recycle_base_key (s\<lparr>rs_failed_dialog := x4\<rparr>) = recycle_base_key s"
  "recycle_base_key (s\<lparr>rs_pending_restore := x5\<rparr>) = recycle_base_key s"
  "recycle_base_key (s\<lparr>rs_restore_dialog := x6\<rparr>) = recycle_base_key s"
  by (simp_all add: recycle_base_key_def)

lemma removed_fields [simp]:
  "rs_selected (removeRecycleBinItemsFromCache b its s) = rs_selected s"
  "rs_restore_dialog (removeRecycleBinItemsFromCache b its s) = rs_restore_dialog s"
  "rs_pending_restore (removeRecycleBinItemsFromCache b its s) = rs_pending_restore s"
  "rs_failed (removeRecycleBinItemsFromCache b its s) = rs_failed s"
  "rs_failed_dialog (removeRecycleBinItemsFromCache b its s) = rs_failed_dialog s"
  by (simp_all add: removeRecycleBinItemsFromCache_def)

lemma restored_rows:
  assumes "recycle_base_key now = recycle_base_key s"
  shows "recycle_items (apply_restore s targets r now) =
    filter (\<lambda>it. rb_id it \<notin> rb_id ` set (succeeded (rr_failed_items r) targets)) (recycle_items now)"
  using assms
  by (simp add: apply_restore_def Let_def recycle_toast_def items_removed)

lemma restored_fields:
  "rs_selected (apply_restore s targets r now) =
     filter (\<lambda>x. x \<notin> rb_id ` set (succeeded (rr_failed_items r) targets)) (rs_selected now)"
  "\<not> rs_restore_dialog (apply_restore s targets r now)"
  "rs_pending_restore (apply_restore s targets r now) = []"
  "rs_failed (apply_restore s targets r now) = rr_failed_items r"
  "rs_failed_dialog (apply_restore s targets r now) \<longleftrightarrow> rr_failed_items r \<noteq> []"
  by (simp_all add: apply_restore_def Let_def recycle_toast_def forget_ids_filter)

lemma deleted_fields:
  "rs_selected (apply_delete targets r now) =
     filter (\<lambda>x. x \<notin> rb_id ` set (succeeded (dr_failed_items r) targets)) (rs_selected now)"
  "\<not> rs_delete_dialog (apply_delete targets r now)"
  "rs_pending_delete (apply_delete targets r now) = []"
  "recycle_items (apply_delete targets r now) = recycle_items now"
  by (simp_all add: apply_delete_def Let_def recycle_toast_def forget_ids_filter)

section \<open>Properties\<close>

text \<open>The ids of the rows that the server has dealt with.\<close>

definition gone_ids :: "recycle_bin_failed_item list \<Rightarrow> recycle_bin_object_item list \<Rightarrow> int set" where
  "gone_ids failed targets = rb_id ` set targets - rbf_id ` set failed"

lemma succeeded_ids: "rb_id ` set (succeeded failed targets) = gone_ids failed targets"
  by (auto simp: succeeded_def gone_ids_def)

text \<open>
  C23. When a restore has succeeded, whatever the server answered: the confirmation is closed and
  forgets its rows; exactly the rows that were restored leave the selection and the list on the
  screen, the rows that failed stay in both; what failed is on the screen if and only if
  something failed; and the listings of the buckets concerned, each once, are refetched.
\<close>

theorem restore_outcome:
  assumes "exec (onSuccess (restoreMutation s) v (targets, Some r)) reply undisturbed n now = (s', tr, out)"
    and "recycle_base_key now = recycle_base_key s"
  shows "rs_selected s' = filter (\<lambda>i. i \<notin> gone_ids (rr_failed_items r) targets) (rs_selected now) \<and>
    recycle_items s' = filter (\<lambda>it. rb_id it \<notin> gone_ids (rr_failed_items r) targets) (recycle_items now) \<and>
    \<not> rs_restore_dialog s' \<and> rs_pending_restore s' = [] \<and>
    rs_failed s' = rr_failed_items r \<and> (rs_failed_dialog s' \<longleftrightarrow> rr_failed_items r \<noteq> []) \<and>
    tr = [InvalidateQueries (map (explorer_key (rs_settings s))
      (uniq (map rb_bucket_name (succeeded (rr_failed_items r) targets))))]"
proof -
  have run: "s' = apply_restore s targets r now" "tr = [InvalidateQueries (map (explorer_key (rs_settings s))
      (uniq (map rb_bucket_name (succeeded (rr_failed_items r) targets))))]"
    using assms(1)
    by (simp_all add: restoreMutation_def exec_bind exec_the_result invalidateAffectedQueries_def
        exec_await_done)
  show ?thesis using run by (simp add: restored_fields restored_rows [OF assms(2)] succeeded_ids)
qed

theorem restore_outcome_witness:
  "\<forall>it st. \<exists>s' out. exec (onSuccess (restoreMutation (recycle_initial st ''k'')) [] ([it\<lparr>rb_id := 7\<rparr>], Some
      \<lparr>rr_restored_count = 1, rr_failed_count = 0, rr_failed_items = []\<rparr>))
      (\<lambda>_. \<lparr>rep_http = Inl (ThrownOther None), rep_done = Inr ()\<rparr>) undisturbed 0
      ((recycle_initial st ''k'')\<lparr>rs_selected := [7, 8]\<rparr>)
      = (s', [InvalidateQueries [explorer_key st (rb_bucket_name it)]], out) \<and> rs_selected s' = [8]"
proof (intro allI)
  fix it :: recycle_bin_object_item and st
  let ?s = "recycle_initial st ''k''"
  let ?now = "?s\<lparr>rs_selected := [7, 8]\<rparr>"
  let ?r = "\<lparr>rr_restored_count = 1, rr_failed_count = 0, rr_failed_items = []\<rparr>"
  let ?reply = "\<lambda>_::nat. \<lparr>rep_http = Inl (ThrownOther None), rep_done = Inr ()\<rparr>"
  obtain s' tr out where run: "exec (onSuccess (restoreMutation ?s) [] ([it\<lparr>rb_id := 7\<rparr>], Some ?r))
      ?reply undisturbed 0 ?now = (s', tr, out)"
    by (metis prod_cases3)
  have "rs_settings ?s = st" by (simp add: recycle_initial_def)
  with restore_outcome [OF run] run
  show "\<exists>s' out. exec (onSuccess (restoreMutation ?s) [] ([it\<lparr>rb_id := 7\<rparr>], Some ?r)) ?reply undisturbed 0 ?now
        = (s', [InvalidateQueries [explorer_key st (rb_bucket_name it)]], out) \<and> rs_selected s' = [8]"
    by (auto simp: succeeded_def gone_ids_def uniq_def)
qed

text \<open>
  When the server has answered a permanent deletion, the confirmation is closed and forgets
  its rows, exactly the deleted rows leave the selection, the rows on the screen stay as they
  are until the list is refetched; the listings of the buckets concerned are refetched first
  and then, if that succeeded, every page of the recycle bin.
\<close>

theorem recycle_delete_outcome:
  assumes "exec (onSuccess (deleteMutation s) v (targets, Some r)) reply undisturbed n now = (s', tr, out)"
  shows "rs_selected s' = filter (\<lambda>i. i \<notin> gone_ids (dr_failed_items r) targets) (rs_selected now) \<and>
    recycle_items s' = recycle_items now \<and> \<not> rs_delete_dialog s' \<and> rs_pending_delete s' = [] \<and>
    hd tr = InvalidateQueries (map (explorer_key (rs_settings s))
      (uniq (map rb_bucket_name (succeeded (dr_failed_items r) targets)))) \<and>
    tl tr = (case rep_done (reply n) of Inl _ \<Rightarrow> [] | Inr _ \<Rightarrow> [InvalidateQueries [recycle_base_key s]])"
proof -
  have "s' = apply_delete targets r now"
    using assms
    by (auto simp: deleteMutation_def exec_bind exec_the_result invalidateAffectedQueries_def
        exec_await_done split: sum.splits)
  moreover from assms have "hd tr = InvalidateQueries (map (explorer_key (rs_settings s))
      (uniq (map rb_bucket_name (succeeded (dr_failed_items r) targets)))) \<and>
    tl tr = (case rep_done (reply n) of Inl _ \<Rightarrow> [] | Inr _ \<Rightarrow> [InvalidateQueries [recycle_base_key s]])"
    by (auto simp: deleteMutation_def exec_bind exec_the_result invalidateAffectedQueries_def
        exec_await_done split: sum.splits)
  ultimately show ?thesis by (simp add: deleted_fields succeeded_ids)
qed

theorem recycle_delete_outcome_witness:
  "\<forall>it st. \<exists>s' tr out. exec (onSuccess (deleteMutation (recycle_initial st ''k'')) [] ([it\<lparr>rb_id := 7\<rparr>], Some
      \<lparr>dr_deleted_count = 1, dr_failed_count = 0, dr_failed_items = []\<rparr>))
      (\<lambda>_. \<lparr>rep_http = Inl (ThrownOther None), rep_done = Inr ()\<rparr>) undisturbed 0
      ((recycle_initial st ''k'')\<lparr>rs_selected := [7, 8]\<rparr>) = (s', tr, out) \<and> rs_selected s' = [8] \<and>
      tl tr = [InvalidateQueries [recycle_base_key (recycle_initial st ''k'')]]"
proof (intro allI)
  fix it :: recycle_bin_object_item and st
  let ?s = "recycle_initial st ''k''"
  let ?now = "?s\<lparr>rs_selected := [7, 8]\<rparr>"
  let ?r = "\<lparr>dr_deleted_count = 1, dr_failed_count = 0, dr_failed_items = []\<rparr>"
  let ?reply = "\<lambda>_::nat. \<lparr>rep_http = Inl (ThrownOther None), rep_done = Inr ()\<rparr>"
  obtain s' tr out where run: "exec (onSuccess (deleteMutation ?s) [] ([it\<lparr>rb_id := 7\<rparr>], Some ?r))
      ?reply undisturbed 0 ?now = (s', tr, out)"
    by (metis prod_cases3)
  with recycle_delete_outcome [OF run]
  show "\<exists>s' tr out. exec (onSuccess (deleteMutation ?s) [] ([it\<lparr>rb_id := 7\<rparr>], Some ?r)) ?reply undisturbed 0 ?now
        = (s', tr, out) \<and> rs_selected s' = [8] \<and> tl tr = [InvalidateQueries [recycle_base_key ?s]]"
    by (auto simp: gone_ids_def)
qed

text \<open>
  C22. In every state that interleavings of the user's actions, the query library's callbacks and
  the answers of the server lead to: no row is selected twice; the first page and no other has
  the empty cursor; and no row waits for a confirmation, and none is kept as failed, behind a
  closed dialog.
\<close>

theorem recycle_reachable_invariant:
  assumes "reachable_from recycle_commit recycle_starts (recycle_initial settings bucket) (s, jobs)"
  shows "recycle_inv s"
  using assms by (rule recycle_machine.reachable_inv)

theorem recycle_reachable_invariant_witness:
  "\<forall>settings bucket. \<exists>s jobs. reachable_from recycle_commit recycle_starts
      (recycle_initial settings bucket) (s, jobs) \<and> rs_open s \<and> recycle_inv s"
proof (intro allI)
  fix settings bucket
  let ?s0 = "recycle_initial settings bucket"
  let ?t = "Update (recycle_event_step (OpenBin True)) (Return ())"
  have "machine_step recycle_commit recycle_starts (?s0, [])
      (recycle_commit ?s0 (recycle_event_step (OpenBin True) ?s0), [] @ [])"
    by (rule machine_step.start [where t = ?t]) (auto intro: recycle_starts.intros)
  then have r: "reachable_from recycle_commit recycle_starts ?s0
      (recycle_commit ?s0 (recycle_event_step (OpenBin True) ?s0), [])"
    by (auto intro: reachable_from.intros)
  moreover have "rs_open (recycle_commit ?s0 (recycle_event_step (OpenBin True) ?s0))"
    by (simp add: recycle_commit_def handleOpenChange_def recycle_initial_def Let_def)
  ultimately show "\<exists>s jobs. reachable_from recycle_commit recycle_starts ?s0 (s, jobs) \<and>
      rs_open s \<and> recycle_inv s"
    using recycle_reachable_invariant [OF r] by blast
qed

text \<open>
  Going on over any number of pages of the recycle bin and back as many pages returns to
  the page it started from, with the same pages behind it.
\<close>

theorem recycle_paging:
  assumes "[] \<notin> set cs"
  shows "rs_cursor ((handleRecyclePrev ^^ length cs) (fold recycle_forward cs s)) = rs_cursor s \<and>
    rs_history ((handleRecyclePrev ^^ length cs) (fold recycle_forward cs s)) = rs_history s \<and>
    rp_page (recycle_view (fold recycle_forward cs s)) = rp_page (recycle_view s) + length cs"
  using recycle_pager.pages_there_and_back [OF assms, of s] recycle_pager.pages_on_stack [OF assms, of s]
  by (simp add: recycle_pager.pages_on_def recycle_pager.pages_back_def recycle_view_def)

theorem recycle_paging_witness:
  "\<forall>st. rs_cursor ((handleRecyclePrev ^^ 2) (fold recycle_forward [''a'', ''b''] (recycle_initial st ''k''))) = []"
proof
  fix st
  show "rs_cursor ((handleRecyclePrev ^^ 2) (fold recycle_forward [''a'', ''b''] (recycle_initial st ''k''))) = []"
    using recycle_paging [of "[''a'', ''b'']" "recycle_initial st ''k''"]
    by (simp add: recycle_initial_def numeral_2_eq_2)
qed

end
