(* ===== verification/Pins.thy ===== *)
theory Pins
  imports Storage
begin

text \<open>
  Model of \<open>frontend/src/features/buckets/usePinnedBuckets.ts\<close>: the pinned bucket ids of one
  service, kept in \<open>localStorage\<close> under a key made of the API address and mirrored in the
  state of the hook.
\<close>

section \<open>Model\<close>

definition pinned_id :: "json \<Rightarrow> int option" where
  "pinned_id j =
     (case j of
        JNum (Fin q) \<Rightarrow> if is_safe_integer q \<and> 0 < q then Some \<lfloor>q\<rfloor> else None
      | _ \<Rightarrow> None)"

definition parse_pins :: "stored_text option \<Rightarrow> int list" where
  "parse_pins raw =
     (case raw of
        Some (JsonText (JArr js)) \<Rightarrow>
          (if list_all (\<lambda>j. pinned_id j \<noteq> None) js then uniq (map (\<lambda>j. the (pinned_id j)) js) else [])
      | _ \<Rightarrow> [])"

definition readPinnedIds :: "string \<Rightarrow> browser_storage \<Rightarrow> thrown + int list" where
  "readPinnedIds storageKey st =
     (case getItem st storageKey of Inl e \<Rightarrow> Inl e | Inr raw \<Rightarrow> Inr (parse_pins raw))"

definition pins_json :: "int list \<Rightarrow> json" where
  "pins_json ids = JArr (map JInt ids)"

record pins_state =
  ps_key :: string
  ps_ids :: "int list"
  ps_read_failed :: bool

definition loadPins :: "string \<Rightarrow> browser_storage \<Rightarrow> pins_state" where
  "loadPins storageKey st =
     (case readPinnedIds storageKey st of
        Inr ids \<Rightarrow> \<lparr>ps_key = storageKey, ps_ids = ids, ps_read_failed = False\<rparr>
      | Inl _ \<Rightarrow> \<lparr>ps_key = storageKey, ps_ids = [], ps_read_failed = True\<rparr>)"

definition pins_key :: "string \<Rightarrow> string" where
  "pins_key baseUrl = ''light-oss-pinned-buckets:'' @ normalizeBaseUrl baseUrl"

text \<open>The hook in its page: its state, the storage and the number of error toasts shown.\<close>

record pins_page =
  pp_state :: pins_state
  pp_storage :: browser_storage
  pp_toasts :: nat

definition notify_read_failure :: "pins_page \<Rightarrow> pins_page" where
  "notify_read_failure p =
     (if ps_read_failed (pp_state p) then p\<lparr>pp_toasts := Suc (pp_toasts p)\<rparr> else p)"

definition mount_pins :: "string \<Rightarrow> browser_storage \<Rightarrow> pins_page" where
  "mount_pins baseUrl st =
     notify_read_failure \<lparr>pp_state = loadPins (pins_key baseUrl) st, pp_storage = st, pp_toasts = 0\<rparr>"

text \<open>A render with another API address; the effect depends on the key and the flag.\<close>

definition render_pins :: "string \<Rightarrow> pins_page \<Rightarrow> pins_page" where
  "render_pins baseUrl p =
     (if ps_key (pp_state p) \<noteq> pins_key baseUrl
      then notify_read_failure (p\<lparr>pp_state := loadPins (pins_key baseUrl) (pp_storage p)\<rparr>)
      else p)"

text \<open>
  \<open>storageKey\<close> is the key of the render that made the callback, which may be an older one
  than the key of the state.
\<close>

definition updatePins :: "string \<Rightarrow> (int list \<Rightarrow> int list) \<Rightarrow> pins_page \<Rightarrow> pins_page" where
  "updatePins storageKey update p =
     (case readPinnedIds storageKey (pp_storage p) of
        Inl _ \<Rightarrow> p\<lparr>pp_toasts := Suc (pp_toasts p)\<rparr>
      | Inr current \<Rightarrow>
          (let next = update current
           in if next = current then p
              else case setItem storageKey (pins_json next) (pp_storage p) of
                     Inl _ \<Rightarrow> p\<lparr>pp_toasts := Suc (pp_toasts p)\<rparr>
                   | Inr st \<Rightarrow>
                       p\<lparr>pp_storage := st,
                         pp_state :=
                           (if ps_key (pp_state p) = storageKey
                            then \<lparr>ps_key = storageKey, ps_ids = next, ps_read_failed = False\<rparr>
                            else pp_state p)\<rparr>))"

definition toggle_ids :: "int \<Rightarrow> int list \<Rightarrow> int list" where
  "toggle_ids pinId ids = (if pinId \<in> set ids then filter (\<lambda>v. v \<noteq> pinId) ids else ids @ [pinId])"

definition togglePin :: "string \<Rightarrow> int \<Rightarrow> pins_page \<Rightarrow> pins_page" where
  "togglePin storageKey pinId p = updatePins storageKey (toggle_ids pinId) p"

definition removePin :: "string \<Rightarrow> int \<Rightarrow> pins_page \<Rightarrow> pins_page" where
  "removePin storageKey pinId p = updatePins storageKey (filter (\<lambda>v. v \<noteq> pinId)) p"

definition reconcilePins :: "string \<Rightarrow> int list \<Rightarrow> pins_page \<Rightarrow> pins_page" where
  "reconcilePins storageKey existingIds p =
     updatePins storageKey (filter (\<lambda>pinId. pinId \<in> set existingIds)) p"

text \<open>What can happen to the hook, with blocked storage as an event of the browser.\<close>

datatype pin_event =
    TogglePin string int
  | RemovePin string int
  | ReconcilePins string "int list"
  | RenderPins string
  | StorageMode bool bool

primrec pin_step :: "pin_event \<Rightarrow> pins_page \<Rightarrow> pins_page" where
  "pin_step (TogglePin u pinId) p = togglePin (pins_key u) pinId p"
| "pin_step (RemovePin u pinId) p = removePin (pins_key u) pinId p"
| "pin_step (ReconcilePins u ids) p = reconcilePins (pins_key u) ids p"
| "pin_step (RenderPins u) p = render_pins u p"
| "pin_step (StorageMode r w) p = p\<lparr>pp_storage := (pp_storage p)\<lparr>readable := r, writable := w\<rparr>\<rparr>"

section \<open>Lemmas\<close>

definition safe_id :: "int \<Rightarrow> bool" where
  "safe_id i \<longleftrightarrow> 0 < i \<and> i \<le> 2 ^ 53 - 1"

definition valid_pins :: "int list \<Rightarrow> bool" where
  "valid_pins ids \<longleftrightarrow> distinct ids \<and> list_all safe_id ids"

lemma pinned_id_JInt: "pinned_id (JInt i) = (if safe_id i then Some i else None)"
proof -
  have "(rat_of_int i \<le> 2 ^ 53 - 1) = (i \<le> 2 ^ 53 - 1)"
    using of_int_le_iff [where 'a = rat, of i "2 ^ 53 - 1"] by simp
  then show ?thesis by (auto simp: pinned_id_def is_safe_integer_def safe_id_def)
qed

lemma pinned_id_safe: "pinned_id j = Some i \<Longrightarrow> safe_id i"
proof -
  assume a: "pinned_id j = Some i"
  then obtain q where q: "j = JNum (Fin q)" "is_safe_integer q" "0 < q" "i = \<lfloor>q\<rfloor>"
    by (auto simp: pinned_id_def split: json.splits number.splits if_splits)
  have "rat_of_int i = q"
    unfolding q(4) by (rule q(2) [unfolded is_safe_integer_def, THEN conjunct1])
  with a q(1) pinned_id_JInt [of i] show ?thesis by (simp split: if_splits)
qed

lemma pins_json_roundtrip: "valid_pins ids \<Longrightarrow> parse_pins (Some (JsonText (pins_json ids))) = ids"
proof -
  assume v: "valid_pins ids"
  then have "map (\<lambda>i. the (pinned_id (JInt i))) ids = ids"
    by (intro map_idI) (simp add: valid_pins_def pinned_id_JInt list_all_iff)
  with v show ?thesis
    by (simp add: parse_pins_def pins_json_def valid_pins_def pinned_id_JInt list_all_iff o_def)
qed

lemma parse_pins_valid: "valid_pins (parse_pins raw)"
proof -
  have "safe_id (the (pinned_id j))" if "pinned_id j \<noteq> None" for j
    using that pinned_id_safe by fastforce
  then show ?thesis
    by (auto simp: parse_pins_def valid_pins_def list_all_iff
        split: option.splits stored_text.splits json.splits simp del: not_None_eq)
qed

interpretation pins_cell: persisted_cell storageKey pins_json parse_pins valid_pins for storageKey
  by unfold_locales (simp_all add: pins_json_roundtrip parse_pins_valid)

lemma valid_pins_filter: "valid_pins ids \<Longrightarrow> valid_pins (filter f ids)"
  by (auto simp: valid_pins_def list_all_iff)

lemma valid_pins_toggle: "valid_pins ids \<Longrightarrow> safe_id i \<Longrightarrow> valid_pins (toggle_ids i ids)"
  by (auto simp: toggle_ids_def valid_pins_def list_all_iff)

text \<open>
  The invariant: the ids shown are valid, and unless reading failed they are the ids that a
  fresh read of the current key gives.
\<close>

definition stored_pins :: "pins_page \<Rightarrow> string \<Rightarrow> int list" where
  "stored_pins p key = parse_pins (items (pp_storage p) key)"

definition pins_inv :: "pins_page \<Rightarrow> bool" where
  "pins_inv p \<longleftrightarrow> valid_pins (ps_ids (pp_state p)) \<and>
     (ps_read_failed (pp_state p) \<or> ps_ids (pp_state p) = stored_pins p (ps_key (pp_state p)))"

lemma valid_pins_Nil [simp]: "valid_pins []"
  by (simp add: valid_pins_def)

lemma loadPins_inv: "pins_inv (p\<lparr>pp_state := loadPins key (pp_storage p)\<rparr>)"
  using pins_cell.parse_valid
  by (auto simp: loadPins_def readPinnedIds_def getItem_def pins_inv_def stored_pins_def)

lemma notify_inv [simp]: "pins_inv (notify_read_failure p) = pins_inv p"
  by (simp add: notify_read_failure_def pins_inv_def stored_pins_def)

text \<open>One lemma for the three callbacks, which only differ in their update.\<close>

lemma updatePins_cases:
  obtains
    (fails) "updatePins key f p = p\<lparr>pp_toasts := Suc (pp_toasts p)\<rparr>"
      "\<not> readable (pp_storage p) \<or> \<not> writable (pp_storage p)"
  | (same) "updatePins key f p = p" "f (stored_pins p key) = stored_pins p key"
  | (writes) st where "setItem key (pins_json (f (stored_pins p key))) (pp_storage p) = Inr st"
      "pp_storage (updatePins key f p) = st" "pp_toasts (updatePins key f p) = pp_toasts p"
      "pp_state (updatePins key f p) =
         (if ps_key (pp_state p) = key
          then \<lparr>ps_key = key, ps_ids = f (stored_pins p key), ps_read_failed = False\<rparr>
          else pp_state p)"
proof (cases "readable (pp_storage p)")
  case False
  then show thesis
    by (intro fails) (simp_all add: updatePins_def readPinnedIds_def getItem_def)
next
  case True
  then have read: "readPinnedIds key (pp_storage p) = Inr (stored_pins p key)"
    by (simp add: readPinnedIds_def getItem_def stored_pins_def)
  show thesis
  proof (cases "f (stored_pins p key) = stored_pins p key")
    case True
    then show thesis by (intro same) (simp_all add: updatePins_def read)
  next
    case False
    show thesis
    proof (cases "setItem key (pins_json (f (stored_pins p key))) (pp_storage p)")
      case (Inl e)
      with False show thesis
        by (intro fails) (auto simp: updatePins_def read setItem_def Let_def split: if_splits)
    next
      case (Inr st)
      with False show thesis
        by (intro writes) (simp_all add: updatePins_def read Let_def)
    qed
  qed
qed

lemma updatePins_inv:
  assumes "pins_inv p" and "\<And>ids. valid_pins ids \<Longrightarrow> valid_pins (f ids)"
  shows "pins_inv (updatePins key f p)"
proof (cases rule: updatePins_cases [of key f p])
  case fails
  with assms(1) show ?thesis by (simp add: pins_inv_def stored_pins_def)
next
  case same
  with assms(1) show ?thesis by simp
next
  case (writes st)
  have "valid_pins (f (stored_pins p key))"
    using assms(2) pins_cell.parse_valid by (simp add: stored_pins_def)
  moreover from this have "stored_pins (updatePins key f p) key = f (stored_pins p key)"
    using pins_cell.saved_then_loaded writes(1,2) by (simp add: stored_pins_def)
  moreover have "stored_pins (updatePins key f p) k = stored_pins p k" if "k \<noteq> key" for k
    using pins_cell.other_key_kept [OF writes(1) that] writes(2) by (simp add: stored_pins_def)
  ultimately show ?thesis using assms(1) writes(4) by (auto simp: pins_inv_def)
qed

primrec event_ok :: "pin_event \<Rightarrow> bool" where
  "event_ok (TogglePin u pinId) = safe_id pinId"
| "event_ok (RemovePin u pinId) = True"
| "event_ok (ReconcilePins u ids) = True"
| "event_ok (RenderPins u) = True"
| "event_ok (StorageMode r w) = True"

lemma pin_step_inv: "pins_inv p \<Longrightarrow> event_ok e \<Longrightarrow> pins_inv (pin_step e p)"
  by (cases e)
     (auto simp: togglePin_def removePin_def reconcilePins_def render_pins_def loadPins_inv
      intro!: updatePins_inv valid_pins_filter valid_pins_toggle,
      simp add: pins_inv_def stored_pins_def)

lemma pin_steps_inv: "pins_inv p \<Longrightarrow> list_all event_ok es \<Longrightarrow> pins_inv (fold pin_step es p)"
  by (induction es arbitrary: p) (simp_all add: pin_step_inv)

lemma mount_inv: "pins_inv (mount_pins baseUrl st)"
proof -
  have "pins_inv (q\<lparr>pp_state := loadPins k (pp_storage q)\<rparr>)" for q k by (rule loadPins_inv)
  from this [of "pins_key baseUrl" "\<lparr>pp_state = loadPins (pins_key baseUrl) st, pp_storage = st, pp_toasts = 0\<rparr>"]
  show ?thesis by (simp add: mount_pins_def)
qed

section \<open>Properties\<close>

text \<open>
  From any stored text, damaged or not, and through any sequence of pinning, unpinning,
  reconciling, changes of service and storage failures, the ids shown are distinct positive
  safe integers, and unless the last read failed they are exactly what a fresh read of the
  current service's key gives.
\<close>

theorem pins_follow_storage:
  assumes "list_all event_ok es"
  shows "let p = fold pin_step es (mount_pins baseUrl st)
    in valid_pins (ps_ids (pp_state p)) \<and>
       (ps_read_failed (pp_state p) \<or> ps_ids (pp_state p) = stored_pins p (ps_key (pp_state p)))"
  using pin_steps_inv [OF mount_inv assms] by (simp add: pins_inv_def Let_def)

theorem pins_follow_storage_witness:
  "ps_ids (pp_state (fold pin_step [TogglePin ''http://a/'' 3, RenderPins ''http://b'', RenderPins ''http://a'']
     (mount_pins ''http://a'' \<lparr>items = \<lambda>_. None, readable = True, writable = True\<rparr>))) = [3]"
proof -
  let ?es = "[TogglePin ''http://a/'' 3, RenderPins ''http://b'', RenderPins ''http://a'']"
  let ?p = "fold pin_step ?es
     (mount_pins ''http://a'' \<lparr>items = \<lambda>_. None, readable = True, writable = True\<rparr>)"
  have "list_all event_ok ?es" by (simp add: safe_id_def)
  from pins_follow_storage [OF this, of "''http://a''" "\<lparr>items = \<lambda>_. None, readable = True, writable = True\<rparr>"]
  have "ps_read_failed (pp_state ?p) \<or> ps_ids (pp_state ?p) = stored_pins ?p (ps_key (pp_state ?p))"
    by (simp only: Let_def)
  moreover have "\<not> ps_read_failed (pp_state ?p)" "stored_pins ?p (ps_key (pp_state ?p)) = [3]"
    by code_simp+
  ultimately show ?thesis by simp
qed

text \<open>
  Pinning touches one service only: the pins of every other key stay as they are, whatever
  the callback's key and the state's; and toggling an id that is not pinned, twice, restores the
  list.
\<close>

theorem pins_isolated:
  "(pins_key v \<noteq> pins_key u \<longrightarrow>
      stored_pins (togglePin (pins_key u) i p) (pins_key v) = stored_pins p (pins_key v) \<and>
      stored_pins (removePin (pins_key u) i p) (pins_key v) = stored_pins p (pins_key v) \<and>
      stored_pins (reconcilePins (pins_key u) existing p) (pins_key v) = stored_pins p (pins_key v)) \<and>
   (i \<notin> set ids \<longrightarrow> toggle_ids i (toggle_ids i ids) = ids) \<and>
   items (pp_storage (togglePin (pins_key u) i p)) settings_key = items (pp_storage p) settings_key"
proof (intro conjI impI)
  have other: "items (pp_storage (updatePins key f p)) k = items (pp_storage p) k" if "k \<noteq> key" for key f k
    by (cases rule: updatePins_cases [of key f p])
       (use pins_cell.other_key_kept [OF _ that] in auto)
  assume "pins_key v \<noteq> pins_key u"
  then show "stored_pins (togglePin (pins_key u) i p) (pins_key v) = stored_pins p (pins_key v)"
    "stored_pins (removePin (pins_key u) i p) (pins_key v) = stored_pins p (pins_key v)"
    "stored_pins (reconcilePins (pins_key u) existing p) (pins_key v) = stored_pins p (pins_key v)"
    using other by (simp_all add: stored_pins_def togglePin_def removePin_def reconcilePins_def)
next
  assume "i \<notin> set ids"
  then show "toggle_ids i (toggle_ids i ids) = ids"
    by (auto simp: toggle_ids_def filter_id_conv)
next
  have other: "items (pp_storage (updatePins key f p)) k = items (pp_storage p) k" if "k \<noteq> key" for key f k
    by (cases rule: updatePins_cases [of key f p])
       (use pins_cell.other_key_kept [OF _ that] in auto)
  have "settings_key \<noteq> pins_key u" by (simp add: settings_key_def pins_key_def)
  from other [OF this] show "items (pp_storage (togglePin (pins_key u) i p)) settings_key =
      items (pp_storage p) settings_key" by (simp add: togglePin_def)
qed

theorem pins_isolated_witness:
  "\<forall>page. stored_pins (removePin (pins_key ''http://a'') 3 page) (pins_key ''http://b'') =
     stored_pins page (pins_key ''http://b'') \<and> toggle_ids 3 (toggle_ids 3 [1, 2]) = [1, 2]"
proof -
  have "pins_key ''http://b'' \<noteq> pins_key ''http://a''" by code_simp
  then show ?thesis
    using pins_isolated [where u = "''http://a''" and v = "''http://b''" and i = 3 and ids = "[1, 2]"]
    by simp
qed

end
