(* ===== verification/Health.thy ===== *)
theory Health
  imports Storage
begin

text \<open>
  Model of \<open>frontend/src/lib/health.ts\<close>, \<open>lib/connection.ts\<close> and the badges of
  \<open>components/ConnectionHealthStatus.tsx\<close>: what the result of the health query means for the
  two badges, their texts and their colours.
\<close>

section \<open>Model\<close>

datatype badge_state =
    BadgeOk | BadgeError | BadgeTokenError | BadgeChecking | BadgeUnconfigured
  | BadgeUnreachable | BadgeUnknown

record health_badges =
  badge_service :: badge_state
  badge_database :: badge_state

definition badge_of_health :: "health_state \<Rightarrow> badge_state" where
  "badge_of_health h = (case h of HealthOk \<Rightarrow> BadgeOk | HealthError \<Rightarrow> BadgeError)"

definition isUnauthorizedHealthError :: "thrown option \<Rightarrow> bool" where
  "isUnauthorizedHealthError error =
     (case error of
        None \<Rightarrow> False
      | Some e \<Rightarrow> thrown_status e = Some 401 \<or> thrown_code e = Some ''unauthorized'')"

definition resolveConnectionHealthStates ::
  "bool \<Rightarrow> bool \<Rightarrow> thrown option \<Rightarrow> health_status_result option \<Rightarrow> health_badges" where
  "resolveConnectionHealthStates isConfigured isPending error data =
     (if \<not> isConfigured then \<lparr>badge_service = BadgeUnconfigured, badge_database = BadgeUnconfigured\<rparr>
      else if isPending then \<lparr>badge_service = BadgeChecking, badge_database = BadgeChecking\<rparr>
      else if isUnauthorizedHealthError error
        then \<lparr>badge_service = BadgeTokenError, badge_database = BadgeTokenError\<rparr>
      else case (error, data) of
             (None, Some d) \<Rightarrow>
               \<lparr>badge_service = badge_of_health (hs_service d), badge_database = badge_of_health (hs_db d)\<rparr>
           | _ \<Rightarrow> \<lparr>badge_service = BadgeUnreachable, badge_database = BadgeUnknown\<rparr>)"

definition createCheckingConnectionHealthStates :: health_badges where
  "createCheckingConnectionHealthStates =
     \<lparr>badge_service = BadgeChecking, badge_database = BadgeChecking\<rparr>"

text \<open>The query of the component: when it runs, and what is shown.\<close>

definition health_query_enabled :: "app_settings \<Rightarrow> health_badges option \<Rightarrow> bool" where
  "health_query_enabled settings states \<longleftrightarrow> states = None \<and> trim (apiBaseUrl settings) \<noteq> []"

definition shown_badges ::
  "app_settings \<Rightarrow> health_badges option \<Rightarrow> bool \<Rightarrow> thrown option \<Rightarrow> health_status_result option \<Rightarrow> health_badges" where
  "shown_badges settings states isPending error data =
     nullish states
       (resolveConnectionHealthStates (trim (apiBaseUrl settings) \<noteq> []) isPending error data)"

datatype badge_tone = ToneGood | ToneBad | ToneMuted

definition getStatusTextClassName :: "badge_state \<Rightarrow> badge_tone" where
  "getStatusTextClassName state =
     (case state of
        BadgeOk \<Rightarrow> ToneGood
      | BadgeError \<Rightarrow> ToneBad | BadgeTokenError \<Rightarrow> ToneBad
      | BadgeUnreachable \<Rightarrow> ToneBad | BadgeUnknown \<Rightarrow> ToneBad
      | _ \<Rightarrow> ToneMuted)"

definition getDotClassName :: "badge_state \<Rightarrow> badge_tone" where
  "getDotClassName state =
     (case state of
        BadgeOk \<Rightarrow> ToneGood
      | BadgeError \<Rightarrow> ToneBad | BadgeTokenError \<Rightarrow> ToneBad
      | BadgeUnreachable \<Rightarrow> ToneBad | BadgeUnknown \<Rightarrow> ToneBad
      | _ \<Rightarrow> ToneMuted)"

definition getHealthStateLabel :: "badge_state \<Rightarrow> string" where
  "getHealthStateLabel state =
     (case state of
        BadgeOk \<Rightarrow> ''health.state.ok'' | BadgeError \<Rightarrow> ''health.state.error''
      | BadgeTokenError \<Rightarrow> ''health.state.tokenError'' | BadgeChecking \<Rightarrow> ''health.state.checking''
      | BadgeUnconfigured \<Rightarrow> ''health.state.unconfigured''
      | BadgeUnreachable \<Rightarrow> ''health.state.unreachable'' | BadgeUnknown \<Rightarrow> ''health.state.unknown'')"

text \<open>
  \<open>lib/connection.ts\<close>; the URL parser of the browser is a parameter that gives the host, or
  nothing where the constructor throws.
\<close>

definition getApiHostLabel :: "(string \<Rightarrow> string option) \<Rightarrow> string \<Rightarrow> string" where
  "getApiHostLabel url_host baseUrl =
     (if trim baseUrl = [] then ''-'' else nullish (url_host (trim baseUrl)) (trim baseUrl))"

definition hasBearerToken :: "string \<Rightarrow> bool" where
  "hasBearerToken token \<longleftrightarrow> trim token \<noteq> []"

section \<open>Properties\<close>

text \<open>
  A badge is green only for health the server reported: the service badge is \<open>ok\<close> exactly when
  an address is configured, the query is finished, it did not fail and the body says the
  service is up; the database badge likewise. The two badges are never a mix of
  \<open>unconfigured\<close>, \<open>checking\<close> or \<open>token error\<close> with something else, and the dot
  always has the colour of its text.
\<close>

theorem health_badges_sound:
  "let s = resolveConnectionHealthStates cfg pending error data in
   (badge_service s = BadgeOk \<longleftrightarrow> cfg \<and> \<not> pending \<and> error = None \<and> map_option hs_service data = Some HealthOk) \<and>
   (badge_database s = BadgeOk \<longleftrightarrow> cfg \<and> \<not> pending \<and> error = None \<and> map_option hs_db data = Some HealthOk) \<and>
   (\<forall>b. b = BadgeUnconfigured \<or> b = BadgeChecking \<or> b = BadgeTokenError \<longrightarrow>
      (badge_service s = b \<longleftrightarrow> badge_database s = b)) \<and>
   (badge_service s = BadgeTokenError \<longleftrightarrow> cfg \<and> \<not> pending \<and> isUnauthorizedHealthError error) \<and>
   getDotClassName (badge_service s) = getStatusTextClassName (badge_service s) \<and>
   getDotClassName (badge_database s) = getStatusTextClassName (badge_database s)"
  by (cases error; cases data)
     (auto simp: Let_def resolveConnectionHealthStates_def badge_of_health_def isUnauthorizedHealthError_def
        getDotClassName_def getStatusTextClassName_def split: health_state.splits badge_state.splits)

theorem health_badges_sound_witness:
  "badge_database (resolveConnectionHealthStates True False
      (Some (ThrownApi \<lparr>err_message = ''no'', err_status = 401, err_code = None\<rparr>)) None) = BadgeTokenError"
proof -
  let ?e = "Some (ThrownApi \<lparr>err_message = ''no'', err_status = 401, err_code = None\<rparr>)"
  have "isUnauthorizedHealthError ?e" by (simp add: isUnauthorizedHealthError_def thrown_status_def)
  then show ?thesis
    using health_badges_sound [of True False ?e None] unfolding Let_def by blast
qed

end
