(* ===== verification/TextFormat.thy ===== *)
theory TextFormat
  imports Storage
begin

text \<open>
  Model of the texts the pages show: \<open>frontend/src/lib/format.ts\<close> and the lookup functions of
  \<open>lib/i18n.tsx\<close> (the dictionaries are a parameter). Dates are formatted by the browser's \<open>Intl\<close>
  and are not modelled.
\<close>

section \<open>format.ts\<close>

text \<open>
  The sources take the unit from a quotient of logarithms; on integers below \<open>2 ^ 53\<close> its
  integer part is the number of times 1024 divides into the value, which is what is
  computed here.
\<close>

fun log_1024 :: "nat \<Rightarrow> nat" where
  "log_1024 n = (if n < 1024 then 0 else Suc (log_1024 (n div 1024)))"

declare log_1024.simps [simp del]

definition byte_units :: "string list" where
  "byte_units = [''B'', ''KB'', ''MB'', ''GB'']"

definition unit_index :: "nat \<Rightarrow> nat" where
  "unit_index value = min (log_1024 value) (length byte_units - 1)"

definition formatBytes :: "nat \<Rightarrow> string" where
  "formatBytes value =
     (if value = 0 then ''0 B''
      else (let index = unit_index value; quantity = of_nat value / 1024 ^ index :: rat
            in (if index = 0 then nat_digits (nat \<lfloor>quantity + 1 / 2\<rfloor>) else toFixed1 quantity) @
               '' '' @ byte_units ! index))"

definition formatPercent :: "rat \<Rightarrow> string" where
  "formatPercent value = toFixed1 value @ ''%''"

section \<open>i18n.tsx\<close>

text \<open>
  \<open>template.replace(/\{(\w+)\}/g, ...)\<close>: from the left, a brace, a longest run of word
  characters and a closing brace are replaced by the value; any other character is kept.
\<close>

definition is_word_char :: "char \<Rightarrow> bool" where
  "is_word_char c =
     (let n = (of_char c :: nat)
      in (48 \<le> n \<and> n \<le> 57) \<or> (65 \<le> n \<and> n \<le> 90) \<or> (97 \<le> n \<and> n \<le> 122) \<or> n = 95)"

function interpolate :: "(string \<Rightarrow> string option) \<Rightarrow> string \<Rightarrow> string" where
  "interpolate values [] = []"
| "interpolate values (c # s) =
     (let token = takeWhile is_word_char s; rest = dropWhile is_word_char s
      in if c = CHR ''{'' \<and> token \<noteq> [] \<and> rest \<noteq> [] \<and> hd rest = CHR ''}''
         then nullish (values token) [] @ interpolate values (tl rest)
         else c # interpolate values s)"
  by pat_completeness auto
termination
  by (relation "measure (\<lambda>(v, s). length s)")
     (auto simp: less_Suc_eq_le intro: le_trans [OF diff_le_self length_dropWhile_le])

definition translate ::
  "(app_locale \<Rightarrow> string \<Rightarrow> string option) \<Rightarrow> app_locale \<Rightarrow> string \<Rightarrow> (string \<Rightarrow> string option) option \<Rightarrow> string option" where
  "translate dictionaries locale key values =
     (case nullish_opt (dictionaries locale key) (dictionaries EnUS key) of
        None \<Rightarrow> None
      | Some template \<Rightarrow> Some (case values of None \<Rightarrow> template | Some v \<Rightarrow> interpolate v template))"

definition normalizeMessage :: "string \<Rightarrow> string" where
  "normalizeMessage message = to_lower (trim message)"

text \<open>The English column of the two tables of failure reasons; the Chinese one is in \<open>Chinese\<close>.\<close>

datatype failure_reason =
    ObjectExists | BucketNotFound | ItemNotFound | BucketLookupFailed | ObjectLookupFailed | RestoreFailed

definition failure_text :: "failure_reason \<Rightarrow> string" where
  "failure_text r =
     (case r of
        ObjectExists \<Rightarrow> ''Object already exists.''
      | BucketNotFound \<Rightarrow> ''Bucket not found.''
      | ItemNotFound \<Rightarrow> ''Recycle bin item not found.''
      | BucketLookupFailed \<Rightarrow> ''Failed to look up the bucket.''
      | ObjectLookupFailed \<Rightarrow> ''Failed to look up the object.''
      | RestoreFailed \<Rightarrow> ''Failed to restore the recycle bin item.'')"

definition recycleBinFailureReasonsByCode :: "(string \<times> failure_reason) list" where
  "recycleBinFailureReasonsByCode =
     [(''object_exists'', ObjectExists),
      (''bucket_not_found'', BucketNotFound),
      (''recycle_bin_item_not_found'', ItemNotFound),
      (''bucket_lookup_failed'', BucketLookupFailed),
      (''object_lookup_failed'', ObjectLookupFailed),
      (''recycle_bin_restore_failed'', RestoreFailed)]"

definition recycleBinFailureReasonsByMessage :: "(string \<times> failure_reason) list" where
  "recycleBinFailureReasonsByMessage =
     [(''object already exists'', ObjectExists),
      (''bucket not found'', BucketNotFound),
      (''recycle bin item not found'', ItemNotFound),
      (''failed to look up bucket'', BucketLookupFailed),
      (''failed to look up object'', ObjectLookupFailed),
      (''failed to load recycle bin item'', RestoreFailed),
      (''failed to load recycle bin item group'', RestoreFailed),
      (''failed to restore object'', RestoreFailed),
      (''failed to remove recycle bin item'', RestoreFailed)]"

text \<open>
  \<open>translateRecycleBinFailureReason\<close>, with the texts of a locale as a parameter. The tables are object literals, so
  a code that is the name of a member of \<open>Object.prototype\<close> finds that member; such codes are
  not in the domain of the model.
\<close>

definition translateRecycleBinFailureReason ::
  "(failure_reason \<Rightarrow> string) \<Rightarrow> string \<Rightarrow> string \<Rightarrow> string" where
  "translateRecycleBinFailureReason texts code message =
     (case map_of recycleBinFailureReasonsByCode code of
        Some r \<Rightarrow> texts r
      | None \<Rightarrow>
          (case map_of recycleBinFailureReasonsByMessage (normalizeMessage message) of
             Some r \<Rightarrow> texts r
           | None \<Rightarrow> message))"

section \<open>Lemmas\<close>

lemma log_1024_bounds: "0 < n \<Longrightarrow> 1024 ^ log_1024 n \<le> n \<and> n < 1024 ^ Suc (log_1024 n)"
proof (induction n rule: log_1024.induct)
  case (1 n)
  show ?case
  proof (cases "n < 1024")
    case True
    with 1 show ?thesis by (simp add: log_1024.simps [of n])
  next
    case False
    let ?k = "log_1024 (n div 1024)"
    from False have pos: "0 < n div 1024" by (simp add: div_greater_zero_iff)
    with 1 False have "1024 ^ ?k \<le> n div 1024" "n div 1024 < 1024 ^ Suc ?k" by blast+
    then have "1024 * 1024 ^ ?k \<le> n" "n < 1024 * 1024 ^ Suc ?k"
      by (simp_all add: less_eq_div_iff_mult_less_eq div_less_iff_less_mult mult.commute)
    with False show ?thesis by (simp add: log_1024.simps [of n])
  qed
qed

lemma interpolate_plain: "CHR ''{'' \<notin> set s \<Longrightarrow> interpolate v s = s"
  by (induction s) (auto simp: Let_def)

lemma interpolate_prefix: "CHR ''{'' \<notin> set p \<Longrightarrow> interpolate v (p @ s) = p @ interpolate v s"
  by (induction p) (auto simp: Let_def)

lemma interpolate_hole:
  assumes "token \<noteq> []" "\<forall>c \<in> set token. is_word_char c"
  shows "interpolate v (CHR ''{'' # token @ CHR ''}'' # s) = nullish (v token) [] @ interpolate v s"
proof -
  have "\<not> is_word_char (CHR ''}'')" by (simp add: is_word_char_def)
  with assms have "takeWhile is_word_char (token @ CHR ''}'' # s) = token"
    "dropWhile is_word_char (token @ CHR ''}'' # s) = CHR ''}'' # s"
    by (simp_all add: takeWhile_append2 dropWhile_append2)
  with assms(1) show ?thesis by simp
qed

section \<open>Properties\<close>

text \<open>
  Sizes. The unit is the largest of B, KB, MB and GB that the size reaches, so what is
  printed in B, KB or MB never exceeds 1024.0, and the printed number is the size in that unit to the nearest tenth.
\<close>

theorem formatBytes_unit:
  assumes "0 < value"
  shows "1024 ^ unit_index value \<le> value \<and> unit_index value \<le> 3 \<and>
    (unit_index value < 3 \<longrightarrow> value < 1024 ^ Suc (unit_index value)) \<and>
    (\<exists>tenths. (unit_index value < 3 \<longrightarrow> tenths \<le> 10240) \<and>
       \<bar>of_nat tenths - 10 * of_nat value / 1024 ^ unit_index value\<bar> \<le> (1 / 2 :: rat) \<and>
       (unit_index value \<noteq> 0 \<longrightarrow>
          formatBytes value = tenths_string tenths @ '' '' @ byte_units ! unit_index value)) \<and>
    (unit_index value = 0 \<longrightarrow> formatBytes value = nat_digits value @ '' B'')"
proof -
  note b = log_1024_bounds [OF assms]
  have "(1024 :: nat) ^ unit_index value \<le> 1024 ^ log_1024 value"
    by (intro power_increasing) (simp_all add: unit_index_def)
  from order_trans [OF this b [THEN conjunct1]] have low: "1024 ^ unit_index value \<le> value" .
  have high: "value < 1024 ^ Suc (unit_index value)" if "unit_index value < 3"
    using that b by (simp add: unit_index_def byte_units_def min_def split: if_splits)
  define q where "q = (of_nat value / 1024 ^ unit_index value :: rat)"
  define t where "t = nat \<lfloor>10 * q + 1 / 2\<rfloor>"
  have q0: "0 \<le> q" by (simp add: q_def)
  have near: "\<bar>of_nat t - 10 * q\<bar> \<le> 1 / 2"
  proof -
    let ?x = "10 * q + 1 / 2"
    have f1: "of_int \<lfloor>?x\<rfloor> \<le> ?x" by (rule of_int_floor_le)
    have "?x < of_int (\<lfloor>?x\<rfloor> + 1)" by (rule floor_correct [THEN conjunct2])
    then have f2: "?x < of_int \<lfloor>?x\<rfloor> + 1" by (simp only: of_int_add of_int_1)
    have "0 \<le> \<lfloor>10 * q + 1 / 2\<rfloor>" using q0 by simp
    then have "(of_nat t :: rat) = of_int \<lfloor>10 * q + 1 / 2\<rfloor>" by (simp add: t_def of_nat_nat)
    moreover have "\<bar>y - 10 * q\<bar> \<le> 1 / 2" if "y \<le> ?x" "?x < y + 1" for y :: rat
      using that by (intro abs_leI; linarith)
    ultimately show ?thesis using f1 f2 by (simp only:)
  qed
  have le: "t \<le> 10240" if "unit_index value < 3"
  proof -
    have "(of_nat value :: rat) < of_nat (1024 ^ Suc (unit_index value))"
      using high [OF that] by (simp only: of_nat_less_iff)
    then have "q < 1024" by (simp add: q_def divide_less_eq mult.commute)
    then show ?thesis unfolding t_def by linarith
  qed
  have big: "formatBytes value = tenths_string t @ '' '' @ byte_units ! unit_index value"
    if "unit_index value \<noteq> 0"
  proof -
    have "toFixed1 q = tenths_string t" using q0 by (simp add: toFixed1_def t_def)
    then show ?thesis using assms that by (simp add: formatBytes_def Let_def q_def)
  qed
  have small: "formatBytes value = nat_digits value @ '' B''" if "unit_index value = 0"
  proof -
    have "\<lfloor>of_nat value + 1 / 2 :: rat\<rfloor> = int value" by (simp add: floor_eq_iff)
    with assms that show ?thesis by (simp add: formatBytes_def byte_units_def)
  qed
  have three: "unit_index value \<le> 3" by (simp add: unit_index_def byte_units_def)
  have near': "\<exists>tenths. (unit_index value < 3 \<longrightarrow> tenths \<le> 10240) \<and>
       \<bar>of_nat tenths - 10 * of_nat value / 1024 ^ unit_index value\<bar> \<le> (1 / 2 :: rat) \<and>
       (unit_index value \<noteq> 0 \<longrightarrow>
          formatBytes value = tenths_string tenths @ '' '' @ byte_units ! unit_index value)"
    using near le big unfolding q_def by (intro exI [of _ t]) simp
  show ?thesis
    by (intro conjI impI) (rule low, rule three, erule high, rule near', erule small)
qed

theorem formatBytes_unit_witness: "(1024 :: nat) ^ unit_index 1536 \<le> 1536 \<and> formatBytes 1536 = ''1.5 KB''"
proof -
  have u: "unit_index 1536 = 1"
    by (simp add: unit_index_def byte_units_def log_1024.simps)
  have "tenths_string 15 = ''1.5''" by code_simp
  moreover have "\<lfloor>31 / 2 :: rat\<rfloor> = 15" by (simp add: floor_eq_iff)
  ultimately have "formatBytes 1536 = ''1.5 KB''"
    by (simp add: formatBytes_def u toFixed1_def byte_units_def)
  then show ?thesis using formatBytes_unit [of 1536] by simp
qed

text \<open>
  A template with holes: a text without braces is returned as it is, and each
  \<open>{token}\<close> is replaced by its value, or by nothing when there is no such value; the values
  themselves are never searched for holes again.
\<close>

theorem translate_template:
  assumes "\<forall>(p, token) \<in> set parts. CHR ''{'' \<notin> set p \<and> token \<noteq> [] \<and> list_all is_word_char token"
    and "CHR ''{'' \<notin> set tail"
    and "dictionaries locale key =
      Some (concat (map (\<lambda>(p, token). p @ CHR ''{'' # token @ ''}'') parts) @ tail)"
  shows "translate dictionaries locale key (Some v) =
    Some (concat (map (\<lambda>(p, token). p @ nullish (v token) []) parts) @ tail)"
proof -
  have "interpolate v (concat (map (\<lambda>(p, token). p @ CHR ''{'' # token @ ''}'') parts) @ tail) =
      concat (map (\<lambda>(p, token). p @ nullish (v token) []) parts) @ tail"
    using assms(1)
    by (induction parts)
       (auto simp: interpolate_plain [OF assms(2)] interpolate_prefix interpolate_hole list_all_iff
          simp del: interpolate.simps)
  with assms(3) show ?thesis by (simp add: translate_def)
qed

theorem translate_template_witness:
  "translate (\<lambda>_ _. Some ''{count} of {name}.'') EnUS ''k''
     (Some (\<lambda>t. if t = ''count'' then Some ''3'' else None)) = Some ''3 of .''"
proof -
  have w: "list_all is_word_char ''count''" "list_all is_word_char ''name''" by code_simp+
  show ?thesis
    using translate_template [of "[('''', ''count''), ('' of '', ''name'')]" "''.''"
        "\<lambda>_ _. Some ''{count} of {name}.''" EnUS "''k''"
        "\<lambda>t. if t = ''count'' then Some ''3'' else None"] w by simp
qed

end
