(* ===== verification/SubmitDialog.thy ===== *)
theory SubmitDialog
  imports PageTask
begin

text \<open>
  The dialogs with a form. Each keeps its own state next to the state of the page, and its
  submit handler hands a value to the handler that the page passes as \<open>onSubmit\<close>. The contract
  they share is a locale: nothing happens while the form is not ready; the dialog closes and
  forgets exactly when the page's handler resolves; when it rejects, the form is as it was.
\<close>

section \<open>A component inside a page\<close>

text \<open>A task of the page, seen by a dialog whose state lies beside it.\<close>

primrec on_page :: "('s, 'q, 'r, 'e, 'a) task \<Rightarrow> ('d \<times> 's, 'q, 'r, 'e, 'a) task" where
  "on_page (Return a) = Return a"
| "on_page (Raise e) = Raise e"
| "on_page (Update f t) = Update (apsnd f) (on_page t)"
| "on_page (Read g) = Read (\<lambda>z. on_page (g (snd z)))"
| "on_page (Await q g) = Await q (\<lambda>r. on_page (g r))"

lemma exec_on_page:
  "exec (on_page t) reply (\<lambda>k. apsnd (env k)) n (d, s) =
     (case exec t reply env n s of (s', tr, out) \<Rightarrow> ((d, s'), tr, out))"
  by (induction t arbitrary: n s) (auto simp: Let_def split: prod.splits)

lemma undisturbed_apsnd [simp]: "(\<lambda>k. apsnd (undisturbed k)) = undisturbed"
  by (auto simp: undisturbed_def fun_eq_iff)

section \<open>The contract of a form\<close>

text \<open>
  \<open>ready\<close> is the guard of the submit handler, \<open>payload\<close> what it hands on, \<open>accepted\<close> what the
  dialog becomes when the page has accepted it; \<open>swallows\<close> says whether a rejection is caught.
\<close>

locale submit_dialog =
  fixes ready :: "'d \<Rightarrow> bool"
    and payload :: "'d \<Rightarrow> 'v"
    and accepted :: "'d \<Rightarrow> 'd"
    and swallows :: bool
    and submit :: "('v \<Rightarrow> ('d \<times> 's, 'm, unit) page_task) \<Rightarrow> 'd \<Rightarrow> ('d \<times> 's, 'm, unit) page_task"
  assumes not_ready: "\<not> ready d \<Longrightarrow> submit k d = Return ()"
    and accepts: "ready d \<Longrightarrow> exec (k (payload d)) reply env n z = (z', tr, Inr ()) \<Longrightarrow>
      exec (submit k d) reply env n z = (apfst accepted z', tr, Inr ())"
    and rejects: "ready d \<Longrightarrow> exec (k (payload d)) reply env n z = (z', tr, Inl e) \<Longrightarrow>
      exec (submit k d) reply env n z = (z', tr, if swallows then Inr () else Inl e)"
begin

lemma run:
  assumes "ready d"
  shows "exec (submit k d) reply env n z =
    (case exec (k (payload d)) reply env n z of
       (z', tr, Inr u) \<Rightarrow> (apfst accepted z', tr, Inr ())
     | (z', tr, Inl e) \<Rightarrow> (z', tr, if swallows then Inr () else Inl e))"
proof -
  obtain z' tr out where r: "exec (k (payload d)) reply env n z = (z', tr, out)"
    by (metis prod_cases3)
  then show ?thesis using accepts [OF assms] rejects [OF assms] by (cases out) auto
qed

text \<open>The form in a page: it sends what the page's handler sends, and closes if that resolves.\<close>

lemma run_in_page:
  assumes "ready d"
  shows "exec (submit (\<lambda>v. on_page (h v)) d) reply (\<lambda>k. apsnd (env k)) n (d', s) =
    (case exec (h (payload d)) reply env n s of
       (s', tr, Inr u) \<Rightarrow> ((accepted d', s'), tr, Inr ())
     | (s', tr, Inl e) \<Rightarrow> ((d', s'), tr, if swallows then Inr () else Inl e))"
  unfolding run [OF assms] exec_on_page by (auto split: prod.split sum.split)

lemma same_requests:
  assumes "ready d"
  shows "fst (snd (exec (submit (\<lambda>v. on_page (h v)) d) reply (\<lambda>k. apsnd (env k)) n (d', s))) =
    fst (snd (exec (h (payload d)) reply env n s))"
  unfolding run_in_page [OF assms] by (auto split: prod.split sum.split)

lemma closes_iff:
  assumes "ready d" and "accepted d' \<noteq> d'"
  shows "fst (fst (exec (submit (\<lambda>v. on_page (h v)) d) reply (\<lambda>k. apsnd (env k)) n (d', s))) = accepted d'
    \<longleftrightarrow> snd (snd (exec (h (payload d)) reply env n s)) = Inr ()"
  unfolding run_in_page [OF assms(1)] using assms(2) by (auto split: prod.split sum.split)

end

text \<open>The two shapes of a submit handler in the source: with and without a \<open>try\<close>.\<close>

definition try_submit ::
  "('d \<Rightarrow> 'd) \<Rightarrow> ('d \<times> 's, 'm, unit) page_task \<Rightarrow> ('d \<times> 's, 'm, unit) page_task" where
  "try_submit after t =
     catch_task (bind_task t (\<lambda>_. Update (apfst after) (Return ()))) (\<lambda>_. Return ())"

definition plain_submit ::
  "('d \<Rightarrow> 'd) \<Rightarrow> ('d \<times> 's, 'm, unit) page_task \<Rightarrow> ('d \<times> 's, 'm, unit) page_task" where
  "plain_submit after t = bind_task t (\<lambda>_. Update (apfst after) (Return ()))"

lemma exec_try_submit:
  "exec (try_submit after t) reply env n z =
     (case exec t reply env n z of
        (z', tr, Inr u) \<Rightarrow> (apfst after z', tr, Inr ())
      | (z', tr, Inl e) \<Rightarrow> (z', tr, Inr ()))"
  by (auto simp: try_submit_def exec_catch exec_bind split: prod.split sum.split)

lemma exec_plain_submit:
  "exec (plain_submit after t) reply env n z =
     (case exec t reply env n z of
        (z', tr, Inr u) \<Rightarrow> (apfst after z', tr, Inr ())
      | (z', tr, Inl e) \<Rightarrow> (z', tr, Inl e))"
  by (auto simp: plain_submit_def exec_bind split: prod.split sum.split)

section \<open>Forms with one name\<close>

text \<open>The dialogs that create a folder and a bucket.\<close>

record name_dialog =
  nd_open :: bool
  nd_name :: string

definition name_dialog_ready :: "name_dialog \<Rightarrow> bool" where
  "name_dialog_ready d \<longleftrightarrow> trim (nd_name d) \<noteq> []"

definition name_dialog_value :: "name_dialog \<Rightarrow> string" where
  "name_dialog_value d = trim (nd_name d)"

definition reset_name_dialog :: "name_dialog \<Rightarrow> name_dialog" where
  "reset_name_dialog d = d\<lparr>nd_name := [], nd_open := False\<rparr>"

end
