(* ===== verification/UploadDialogs.thy ===== *)
theory UploadDialogs
  imports SubmitDialog ExplorerProps
begin

text \<open>
  Model of \<open>frontend/src/features/explorer/UploadObjectDialog.tsx\<close>, \<open>UploadFolderDialog.tsx\<close> and
  \<open>CreateFolderDialog.tsx\<close>, of the form in \<open>features/objects/UploadPanel.tsx\<close> that no page uses,
  and of how the explorer page composes the dialogs with its handlers: the page passes \<open>handleUpload\<close>, \<open>handleUploadFolder\<close> and \<open>handleCreateFolder\<close> as \<open>onSubmit\<close>, and
  the number that resets the upload dialog after a confirmed overwrite.
\<close>

section \<open>Uploading an object\<close>

record upload_dialog =
  ud_open :: bool
  ud_file :: "upload_file option"
  ud_key :: string
  ud_visibility :: visibility

definition reset_upload_dialog :: "upload_dialog \<Rightarrow> upload_dialog" where
  "reset_upload_dialog d =
     d\<lparr>ud_file := None, ud_key := [], ud_visibility := Private, ud_open := False\<rparr>"

definition upload_dialog_ready :: "upload_dialog \<Rightarrow> bool" where
  "upload_dialog_ready d \<longleftrightarrow> ud_file d \<noteq> None"

definition upload_dialog_value :: "upload_dialog \<Rightarrow> upload_value" where
  "upload_dialog_value d =
     \<lparr>up_object_key = or_else (trim (ud_key d)) (fl_name (the (ud_file d))),
      up_file = the (ud_file d), up_visibility = ud_visibility d\<rparr>"

definition upload_dialog_submit ::
  "(upload_value \<Rightarrow> (upload_dialog \<times> 's, 'm, unit) page_task) \<Rightarrow> upload_dialog
    \<Rightarrow> (upload_dialog \<times> 's, 'm, unit) page_task" where
  "upload_dialog_submit onSubmit d =
     (if \<not> upload_dialog_ready d then Return ()
      else try_submit reset_upload_dialog (onSubmit (upload_dialog_value d)))"

text \<open>The effect on the reset signal, which the page counts up after a confirmed overwrite.\<close>

definition upload_dialog_effect :: "nat option \<Rightarrow> nat option \<Rightarrow> upload_dialog \<Rightarrow> upload_dialog" where
  "upload_dialog_effect before after d =
     (if after \<noteq> before \<and> after \<noteq> None then reset_upload_dialog d else d)"

definition upload_button_disabled :: "bool \<Rightarrow> upload_dialog \<Rightarrow> bool" where
  "upload_button_disabled pending d \<longleftrightarrow> pending \<or> ud_file d = None"

interpretation upload_object_form: submit_dialog upload_dialog_ready upload_dialog_value
    reset_upload_dialog True upload_dialog_submit
  by unfold_locales (simp_all add: upload_dialog_submit_def exec_try_submit)

section \<open>The panel that uploads an object\<close>

text \<open>
  \<open>features/objects/UploadPanel.tsx\<close> has the same form outside a dialog; a rejection of the
  page's handler goes on to the browser. \<open>un_input\<close> is what the native file input holds.
\<close>

record upload_panel =
  un_file :: "upload_file option"
  un_key :: string
  un_visibility :: visibility
  un_input :: "upload_file option"

definition upload_panel_ready :: "upload_panel \<Rightarrow> bool" where
  "upload_panel_ready d \<longleftrightarrow> un_file d \<noteq> None"

definition upload_panel_value :: "upload_panel \<Rightarrow> upload_value" where
  "upload_panel_value d =
     \<lparr>up_object_key = or_else (trim (un_key d)) (fl_name (the (un_file d))),
      up_file = the (un_file d), up_visibility = un_visibility d\<rparr>"

definition reset_upload_panel :: "upload_panel \<Rightarrow> upload_panel" where
  "reset_upload_panel d = d\<lparr>un_file := None, un_key := [], un_visibility := Private, un_input := None\<rparr>"

definition upload_panel_submit ::
  "(upload_value \<Rightarrow> (upload_panel \<times> 's, 'm, unit) page_task) \<Rightarrow> upload_panel
    \<Rightarrow> (upload_panel \<times> 's, 'm, unit) page_task" where
  "upload_panel_submit onSubmit d =
     (if \<not> upload_panel_ready d then Return ()
      else plain_submit reset_upload_panel (onSubmit (upload_panel_value d)))"

interpretation upload_panel_form: submit_dialog upload_panel_ready upload_panel_value
    reset_upload_panel False upload_panel_submit
  by unfold_locales (simp_all add: upload_panel_submit_def exec_plain_submit)

section \<open>Uploading a folder\<close>

text \<open>\<open>fd_input\<close> is what the native file input still holds.\<close>

record folder_dialog =
  fd_open :: bool
  fd_files :: "upload_file list"
  fd_visibility :: visibility
  fd_input :: "upload_file list"

definition choose_folder :: "upload_file list \<Rightarrow> folder_dialog \<Rightarrow> folder_dialog" where
  "choose_folder files d = d\<lparr>fd_files := files, fd_input := files\<rparr>"

definition reset_folder_dialog :: "folder_dialog \<Rightarrow> folder_dialog" where
  "reset_folder_dialog d = d\<lparr>fd_files := [], fd_visibility := Private, fd_open := False\<rparr>"

definition clear_folder_input :: "folder_dialog \<Rightarrow> folder_dialog" where
  "clear_folder_input d = d\<lparr>fd_input := []\<rparr>"

definition folder_dialog_ready :: "folder_dialog \<Rightarrow> bool" where
  "folder_dialog_ready d \<longleftrightarrow> length (fd_files d) \<noteq> 0"

definition folder_dialog_value :: "folder_dialog \<Rightarrow> folder_value" where
  "folder_dialog_value d = \<lparr>fv_files = fd_files d, fv_visibility = fd_visibility d\<rparr>"

definition folder_dialog_submit ::
  "(folder_value \<Rightarrow> (folder_dialog \<times> 's, 'm, unit) page_task) \<Rightarrow> folder_dialog
    \<Rightarrow> (folder_dialog \<times> 's, 'm, unit) page_task" where
  "folder_dialog_submit onSubmit d =
     (if \<not> folder_dialog_ready d then Return ()
      else try_submit (clear_folder_input \<circ> reset_folder_dialog) (onSubmit (folder_dialog_value d)))"

interpretation upload_folder_form: submit_dialog folder_dialog_ready folder_dialog_value
    "clear_folder_input \<circ> reset_folder_dialog" True folder_dialog_submit
  by unfold_locales (simp_all add: folder_dialog_submit_def exec_try_submit)

section \<open>Creating a folder\<close>

definition create_folder_submit ::
  "(string \<Rightarrow> (name_dialog \<times> 's, 'm, unit) page_task) \<Rightarrow> name_dialog
    \<Rightarrow> (name_dialog \<times> 's, 'm, unit) page_task" where
  "create_folder_submit onSubmit d =
     (if \<not> name_dialog_ready d then Return ()
      else plain_submit reset_name_dialog (onSubmit (name_dialog_value d)))"

interpretation create_folder_form: submit_dialog name_dialog_ready name_dialog_value
    reset_name_dialog False create_folder_submit
  by unfold_locales (simp_all add: create_folder_submit_def exec_plain_submit)

section \<open>The dialogs in the explorer page\<close>

definition explorer_upload_submit :: "explorer_page \<Rightarrow> upload_dialog \<Rightarrow>
    (upload_dialog \<times> explorer_page, explorer_mutation, unit) page_task" where
  "explorer_upload_submit s d = upload_dialog_submit (\<lambda>v. on_page (handleUpload s v)) d"

definition explorer_folder_submit :: "folder_dialog \<Rightarrow>
    (folder_dialog \<times> explorer_page, explorer_mutation, unit) page_task" where
  "explorer_folder_submit d = folder_dialog_submit (\<lambda>v. on_page (handleUploadFolder v)) d"

definition explorer_create_folder_submit :: "name_dialog \<Rightarrow>
    (name_dialog \<times> explorer_page, explorer_mutation, unit) page_task" where
  "explorer_create_folder_submit d = create_folder_submit (\<lambda>v. on_page (handleCreateFolder v)) d"

text \<open>Only an accepted overwrite counts the reset signal up.\<close>

lemma confirm_reset_signal:
  assumes "ep_pending_overwrite s = Some p" "\<not> ep_retrying_overwrite s"
  shows "ep_reset_signal (fst (exec (handleConfirmOverwriteUpload s) reply undisturbed n now)) =
    (case upload_outcome as_object (rep_http (reply n)) of
       Inl _ \<Rightarrow> ep_reset_signal now | Inr _ \<Rightarrow> ep_reset_signal now + 1)"
  using assms
  by (auto simp: handleConfirmOverwriteUpload_def exec_bind exec_finally exec_catch exec_upload_request
      exec_await_done toast_then_def show_toast_def split: sum.splits prod.splits)

text \<open>
  C25. The upload dialog and the page together. If the object exists, the dialog stays open
  with its file and the question names the key; if the key is free, the dialog closes and
  forgets exactly when the upload succeeded. But if the existence check itself fails, the page
  reports it and returns normally, so the dialog closes and forgets the chosen file although
  nothing was sent.
\<close>

theorem upload_dialog_outcome:
  assumes "ud_file d = Some f"
    and "key = joinExplorerPath (page_prefix s) (or_else (trim (ud_key d)) (fl_name f))" and "key \<noteq> []"
  shows "case exec (explorer_upload_submit s d) reply (\<lambda>k. apsnd (env k)) n (d, now) of
    ((d', now'), sent, outcome) \<Rightarrow> outcome = Inr () \<and>
    (case rep_http (reply n) of
       Inr _ \<Rightarrow> d' = d \<and> overwrite_target now' = key \<and> length sent = 1
     | Inl e \<Rightarrow>
         (if \<exists>m c p. e = ThrownAxios m c (Some (404, p))
          then sent = [hd sent, MutateAsync (UploadM (upload_dialog_value d))] \<and>
               d' = (case rep_done (reply (Suc n)) of Inl _ \<Rightarrow> d | Inr _ \<Rightarrow> reset_upload_dialog d)
          else length sent = 1 \<and> ud_file d' = None \<and> \<not> ud_open d'))"
proof -
  have ready: "upload_dialog_ready d" using assms(1) by (simp add: upload_dialog_ready_def)
  have key: "joinExplorerPath (page_prefix s) (up_object_key (upload_dialog_value d)) = key"
    using assms(1,2) by (simp add: upload_dialog_value_def)
  show ?thesis
    unfolding explorer_upload_submit_def upload_object_form.run_in_page [OF ready]
      exec_handleUpload [OF key assms(3) refl]
    by (auto simp: Let_def overwrite_target_def ask_overwrite_def reset_upload_dialog_def
        split: sum.splits if_splits)
qed

theorem upload_dialog_outcome_witness:
  "\<exists>now'. exec (explorer_upload_submit (explorer_initial \<lparr>apiBaseUrl = [], bearerToken = []\<rparr> ''b'' [])
      \<lparr>ud_open = True, ud_file = Some \<lparr>fl_name = ''k'', fl_type = [], fl_relative_path = None, fl_content = 0\<rparr>,
       ud_key = [], ud_visibility = Private\<rparr>)
      (\<lambda>_. \<lparr>rep_http = Inl (ThrownError ''Network Error''), rep_done = Inr ()\<rparr>) (\<lambda>k. apsnd (undisturbed k)) 0
      (\<lparr>ud_open = True, ud_file = Some \<lparr>fl_name = ''k'', fl_type = [], fl_relative_path = None, fl_content = 0\<rparr>,
       ud_key = [], ud_visibility = Private\<rparr>, explorer_initial \<lparr>apiBaseUrl = [], bearerToken = []\<rparr> ''b'' []) = now'
    \<and> ud_file (fst (fst now')) = None \<and> length (fst (snd now')) = 1"
proof -
  let ?s = "explorer_initial \<lparr>apiBaseUrl = [], bearerToken = []\<rparr> ''b'' []"
  let ?f = "\<lparr>fl_name = ''k'', fl_type = [], fl_relative_path = None, fl_content = 0\<rparr>"
  let ?d = "\<lparr>ud_open = True, ud_file = Some ?f, ud_key = [], ud_visibility = Private\<rparr>"
  have key: "''k'' = joinExplorerPath (page_prefix ?s) (or_else (trim (ud_key ?d)) (fl_name ?f))"
    by code_simp
  from upload_dialog_outcome [of ?d ?f, OF _ key, where n = 0 and now = ?s and env = undisturbed and
      reply = "\<lambda>_. \<lparr>rep_http = Inl (ThrownError ''Network Error''), rep_done = Inr ()\<rparr>"]
  show ?thesis by (auto split: prod.splits)
qed

text \<open>
  After the question, the dialog still holds the file; confirming resets it, through the
  page's signal, exactly when the server took the overwrite.
\<close>

lemma overwrite_resets_dialog:
  assumes "ep_pending_overwrite s = Some p" and "\<not> ep_retrying_overwrite s" and "ud_open d"
  shows "let after = fst (exec (handleConfirmOverwriteUpload s) reply undisturbed n s);
             d' = upload_dialog_effect (Some (ep_reset_signal s)) (Some (ep_reset_signal after)) d
    in (\<not> ud_open d' \<longleftrightarrow> (\<exists>r. upload_outcome as_object (rep_http (reply n)) = Inr r)) \<and>
       (ud_open d' \<longleftrightarrow> d' = d)"
  using assms(3)
  by (cases d) (auto simp: Let_def confirm_reset_signal [OF assms(1,2)] upload_dialog_effect_def
      reset_upload_dialog_def split: sum.split)

end
