(* ===== verification/TaskFrame.thy ===== *)
theory TaskFrame
  imports PageTask
begin

text \<open>
  Tasks that leave a part of the state alone, wherever they are resumed: the frame that the
  contracts of \<open>LatestWins\<close> and \<open>Progress\<close> ask of what they are not about.
\<close>

text \<open>Every update of the task relates the state before to the state after by \<open>P\<close>.\<close>

primrec keeps :: "('s \<Rightarrow> 's \<Rightarrow> bool) \<Rightarrow> ('s, 'q, 'r, 'e, 'a) task \<Rightarrow> bool" where
  "keeps P (Return a) = True"
| "keeps P (Raise e) = True"
| "keeps P (Update f t) = ((\<forall>s. P s (f s)) \<and> keeps P t)"
| "keeps P (Read g) = (\<forall>s. keeps P (g s))"
| "keeps P (Await q g) = (\<forall>r. keeps P (g r))"

lemma keeps_bind: "keeps P t \<Longrightarrow> (\<And>a. keeps P (k a)) \<Longrightarrow> keeps P (bind_task t k)"
  by (induction t) auto

lemma keeps_catch: "keeps P t \<Longrightarrow> (\<And>e. keeps P (h e)) \<Longrightarrow> keeps P (catch_task t h)"
  by (induction t) auto

lemma keeps_finally: "keeps P t \<Longrightarrow> (\<And>s. P s (fin s)) \<Longrightarrow> keeps P (finally_task t fin)"
  by (induction t) auto

lemma keeps_await_done [simp]: "keeps P (await_done q)"
  by (auto simp: await_done_def split: sum.splits)

lemma keeps_lift: "stateless t \<Longrightarrow> keeps P (lift_task f g t)"
  by (induction t) auto

lemma keeps_api_call [simp]: "stateless t \<Longrightarrow> keeps P (api_call t)"
  unfolding api_call_def by (rule keeps_lift)

lemma keeps_the_result [simp]: "keeps P (the_result x)"
  by (simp add: the_result_def split: option.split)

lemma keeps_advance:
  assumes "\<And>s. P s s" and "\<And>s t u. P s t \<Longrightarrow> P t u \<Longrightarrow> P s u"
  shows "keeps P t \<Longrightarrow> advance t s = (s', js) \<Longrightarrow> P s s' \<and> (\<forall>(q, g) \<in> set js. \<forall>r. keeps P (g r))"
proof (induction t arbitrary: s)
  case (Update f t)
  then have "P s (f s)" "P (f s) s' \<and> (\<forall>(q, g) \<in> set js. \<forall>r. keeps P (g r))" by auto
  with assms(2) show ?case by blast
next
  case (Read g)
  then have "keeps P (g s)" "advance (g s) s = (s', js)" by simp_all
  with Read.IH [OF rangeI] show ?case by blast
qed (auto simp: assms(1))

end
