(* ===== verification/LatestWins.thy ===== *)
theory LatestWins
  imports TaskFrame
begin

text \<open>
  Requests of which only the latest counts. A page that numbers its requests, and compares the
  number when an answer arrives, is not disturbed by answers that come late or out of order.
  The contract is a locale; a page interprets it on its own tasks.
\<close>

section \<open>The contract\<close>

text \<open>
  \<open>current\<close> is the number of the latest request, \<open>busy\<close> whether it is still open. \<open>ask i d\<close> is
  request number \<open>i\<close> and \<open>follow i d\<close> what the page does with its answer. Whatever else the
  page starts either leaves both alone, opens the next request, or drops the open one.
\<close>

locale latest_wins =
  fixes current :: "'s \<Rightarrow> nat"
    and busy :: "'s \<Rightarrow> bool"
    and ask :: "nat \<Rightarrow> 'd \<Rightarrow> 'q"
    and follow :: "nat \<Rightarrow> 'd \<Rightarrow> 'r \<Rightarrow> ('s, 'q, 'r, 'e, 'a) task"
    and commit :: "'s \<Rightarrow> 's \<Rightarrow> 's"
    and starts :: "'s \<Rightarrow> ('s, 'q, 'r, 'e, 'a) task \<Rightarrow> bool"
    and s0 :: 's
  assumes initially: "\<not> busy s0"
    and commit_current: "current (commit s s') = current s'"
    and commit_busy: "busy (commit s s') = busy s'"
    and current_answer: "advance (follow (current s) d r) s = (s', js) \<Longrightarrow>
      js = [] \<and> current s' = current s \<and> \<not> busy s'"
    and stale_answer: "i \<noteq> current s \<Longrightarrow> advance (follow i d r) s = (s, [])"
    and started: "starts s t \<Longrightarrow> keeps (\<lambda>s s'. current s' = current s \<and> busy s' = busy s) t \<or>
      (\<exists>s'. advance t s = (s', []) \<and> current s' = Suc (current s) \<and> \<not> busy s') \<or>
      (\<exists>s' d. advance t s = (s', [(ask (Suc (current s)) d, follow (Suc (current s)) d)]) \<and>
         current s' = Suc (current s) \<and> busy s')"
begin

abbreviation undisturbing :: "('s, 'q, 'r, 'e, 'a) task \<Rightarrow> bool" where
  "undisturbing \<equiv> keeps (\<lambda>s s'. current s' = current s \<and> busy s' = busy s)"

definition labels :: "nat option \<Rightarrow> 'q \<times> ('r \<Rightarrow> ('s, 'q, 'r, 'e, 'a) task) \<Rightarrow> bool" where
  "labels l j \<longleftrightarrow>
     (case l of Some i \<Rightarrow> (\<exists>d. j = (ask i d, follow i d)) | None \<Rightarrow> (\<forall>r. undisturbing (snd j r)))"

text \<open>
  Every open job is one of the numbered requests or does not disturb; the numbers are used once
  and are not above the current one; the page is busy exactly while the current one is open.
\<close>

definition tracked :: "nat option list \<Rightarrow> 's \<Rightarrow> bool" where
  "tracked ls s \<longleftrightarrow> (\<forall>i. Some i \<in> set ls \<longrightarrow> i \<le> current s \<and> length (filter (\<lambda>l. l = Some i) ls) = 1) \<and>
     (busy s \<longleftrightarrow> Some (current s) \<in> set ls)"

lemma undisturbing_jobs:
  assumes "undisturbing t" and "advance t s = (s', js)"
  shows "current s' = current s \<and> busy s' = busy s \<and> list_all2 labels (replicate (length js) None) js"
proof -
  from keeps_advance [OF _ _ assms]
  have k: "current s' = current s \<and> busy s' = busy s" "\<forall>(q, g) \<in> set js. \<forall>r. undisturbing (g r)"
    by auto
  from k(2) have "list_all2 labels (replicate (length js) None) js"
    by (induction js) (auto simp: labels_def)
  with k(1) show ?thesis by blast
qed

lemma tracked_same:
  "tracked ls s \<Longrightarrow> current s' = current s \<Longrightarrow> busy s' = busy s \<Longrightarrow> tracked ls s'"
  by (simp add: tracked_def)

lemma tracked_quiet: "tracked (replicate n None @ ls) s = tracked ls s"
  by (auto simp: tracked_def)

lemma tracked_quiet_in: "tracked (xs @ replicate n None @ ys) s = tracked (xs @ ys) s"
  by (auto simp: tracked_def)

lemma tracked_drop_None: "tracked (xs @ None # ys) s = tracked (xs @ ys) s"
  by (auto simp: tracked_def)

lemma tracked_next:
  assumes "tracked ls s" and "current s' = Suc (current s)"
  shows "\<not> busy s' \<Longrightarrow> tracked ls s'" and "busy s' \<Longrightarrow> tracked (Some (current s') # ls) s'"
proof -
  have new: "Some (Suc (current s)) \<notin> set ls" using assms(1) by (auto simp: tracked_def)
  then have "filter (\<lambda>l. l = Some (Suc (current s))) ls = []" by (auto simp: filter_empty_conv)
  with assms new show "\<not> busy s' \<Longrightarrow> tracked ls s'" and "busy s' \<Longrightarrow> tracked (Some (current s') # ls) s'"
    by (auto simp: tracked_def)
qed

lemma tracked_answer:
  assumes "tracked (xs @ Some i # ys) s"
  shows "i \<noteq> current s \<Longrightarrow> tracked (xs @ ys) s"
    and "i = current s \<Longrightarrow> current s' = current s \<Longrightarrow> \<not> busy s' \<Longrightarrow> tracked (xs @ ys) s'"
proof -
  have once: "filter (\<lambda>l. l = Some i) xs = [] \<and> filter (\<lambda>l. l = Some i) ys = []"
    using assms by (auto simp: tracked_def filter_empty_conv)
  then have no: "Some i \<notin> set (xs @ ys)" by (auto simp: filter_empty_conv)
  have rest: "k \<le> current s \<and> length (filter (\<lambda>l. l = Some k) (xs @ ys)) = 1" if "Some k \<in> set (xs @ ys)" for k
  proof -
    from that no have "k \<noteq> i" by blast
    then have "filter (\<lambda>l. l = Some k) (xs @ Some i # ys) = filter (\<lambda>l. l = Some k) (xs @ ys)" by simp
    moreover from assms that have "k \<le> current s \<and> length (filter (\<lambda>l. l = Some k) (xs @ Some i # ys)) = 1"
      unfolding tracked_def by fastforce
    ultimately show ?thesis by simp
  qed
  have busy: "busy s \<longleftrightarrow> Some (current s) \<in> set (xs @ Some i # ys)"
    using assms by (simp only: tracked_def)
  show "tracked (xs @ ys) s" if "i \<noteq> current s"
    unfolding tracked_def using rest busy that by auto
  show "tracked (xs @ ys) s'" if "i = current s" "current s' = current s" "\<not> busy s'"
    unfolding tracked_def using rest no that by simp
qed

lemma step_tracked:
  assumes "machine_step commit starts (s, js) (s2, js2)" and "list_all2 labels ls js" and "tracked ls s"
  shows "\<exists>ls2. list_all2 labels ls2 js2 \<and> tracked ls2 s2"
  using assms(1)
proof (cases rule: machine_step.cases)
  case (start t s' js')
  then have 1: "s2 = commit s s'" "js2 = js' @ js" "starts s t" "advance t s = (s', js')" by simp_all
  from started [OF 1(3)] show ?thesis
  proof (elim disjE exE conjE)
    assume "undisturbing t"
    from undisturbing_jobs [OF this 1(4)] assms(2,3) 1(1,2) show ?thesis
      by (intro exI [of _ "replicate (length js') None @ ls"])
         (auto simp: tracked_quiet commit_current commit_busy list_all2_appendI
           intro: tracked_same)
  next
    fix s'' assume "advance t s = (s'', [])" "current s'' = Suc (current s)" "\<not> busy s''"
    with tracked_next [OF assms(3)] assms(2) 1 show ?thesis
      by (intro exI [of _ ls]) (auto simp: commit_current commit_busy intro: tracked_same)
  next
    fix s'' d assume a: "advance t s = (s'', [(ask (Suc (current s)) d, follow (Suc (current s)) d)])"
      "current s'' = Suc (current s)" "busy s''"
    with 1(4) have "s' = s''" "js' = [(ask (Suc (current s)) d, follow (Suc (current s)) d)]" by auto
    with a tracked_next(2) [OF assms(3) a(2,3)] assms(2) 1(1,2) show ?thesis
      by (intro exI [of _ "Some (Suc (current s)) # ls"])
         (auto simp: labels_def commit_current commit_busy intro: tracked_same)
  qed
next
  case (resume g r s' js' xs q ys)
  then have 2: "js = xs @ (q, g) # ys" "s2 = commit s s'" "js2 = xs @ js' @ ys"
    "advance (g r) s = (s', js')" by simp_all
  from assms(2) 2(1) obtain lx l ly where ls: "ls = lx @ l # ly" "list_all2 labels lx xs"
      "labels l (q, g)" "list_all2 labels ly ys"
    by (auto simp: list_all2_append2 list_all2_Cons2)
  show ?thesis
  proof (cases l)
    case None
    with ls(3) have "undisturbing (g r)" by (simp add: labels_def)
    from undisturbing_jobs [OF this 2(4)] ls assms(3) 2 None show ?thesis
      by (intro exI [of _ "lx @ replicate (length js') None @ ly"])
         (auto simp: tracked_quiet_in tracked_drop_None commit_current commit_busy list_all2_appendI
           intro: tracked_same)
  next
    case (Some i)
    with ls(3) obtain d where g: "g = follow i d" by (auto simp: labels_def)
    note t = tracked_answer [OF assms(3) [unfolded ls(1) Some]]
    show ?thesis
    proof (cases "i = current s")
      case True
      with current_answer 2(4) g have "js' = []" "current s' = current s" "\<not> busy s'" by auto
      with t(2) [OF True, of s'] ls 2 show ?thesis
        by (intro exI [of _ "lx @ ly"])
           (auto simp: commit_current commit_busy list_all2_appendI intro: tracked_same)
    next
      case False
      with stale_answer 2(4) g have "js' = []" "s' = s" by auto
      with t(1) [OF False] ls 2 show ?thesis
        by (intro exI [of _ "lx @ ly"])
           (auto simp: commit_current commit_busy list_all2_appendI intro: tracked_same)
    qed
  qed
qed

lemma reachable_tracked:
  "reachable_from commit starts s0 c \<Longrightarrow> \<exists>ls. list_all2 labels ls (snd c) \<and> tracked ls (fst c)"
proof (induction rule: reachable_from.induct)
  case initial
  show ?case by (intro exI [of _ "[]"]) (simp add: tracked_def initially)
next
  case (step c c')
  obtain ls where ls: "list_all2 labels ls (snd c)" "tracked ls (fst c)" using step.IH by blast
  have "machine_step commit starts (fst c, snd c) (fst c', snd c')" using step.hyps(2) by simp
  from step_tracked [OF this ls] show ?case by simp
qed

text \<open>The page is busy only while the answer that will end it is outstanding.\<close>

lemma busy_waits:
  assumes "reachable_from commit starts s0 (s, js)" and "busy s"
  shows "\<exists>d. (ask (current s) d, follow (current s) d) \<in> set js"
proof -
  from reachable_tracked [OF assms(1)] obtain ls where
    ls: "list_all2 labels ls js" "tracked ls s" by auto
  with assms(2) have "Some (current s) \<in> set ls" by (simp add: tracked_def)
  then obtain k where "k < length ls" "ls ! k = Some (current s)" by (auto simp: in_set_conv_nth)
  with ls(1) have "k < length js" "labels (Some (current s)) (js ! k)"
    by (auto simp: list_all2_conv_all_nth)
  then obtain d where "js ! k = (ask (current s) d, follow (current s) d)" by (auto simp: labels_def)
  with \<open>k < length js\<close> show ?thesis by (metis nth_mem)
qed

end

end
