(* ===== verification/StorageQuota.thy ===== *)
theory StorageQuota
  imports JsNumber ApiTypes
begin

text \<open>
  The storage limit on \<open>frontend/src/pages/SettingsPage.tsx\<close>: the server's bytes are shown in GiB
  with one digit and what is typed is read back to bytes. The lemmas on doubles at the start
  bound the error of one rounding.
\<close>

section \<open>Error of a rounding\<close>

lemma pow2_monotone: "a \<le> b \<Longrightarrow> pow2 a \<le> pow2 b"
  using pow2_mono [of b a] by (cases "pow2 a \<le> pow2 b") auto

lemma round_to_error: "\<bar>round_to u x - x\<bar> \<le> pow2 u / 2"
proof -
  let ?y = "x / pow2 u"
  have "\<bar>of_int (round_even ?y) - ?y\<bar> \<le> 1 / 2"
    using round_even_bounds [of ?y] by linarith
  then have "\<bar>of_int (round_even ?y) - ?y\<bar> * pow2 u \<le> 1 / 2 * pow2 u"
    by (intro mult_right_mono) (simp_all add: less_imp_le)
  moreover have "\<bar>of_int (round_even ?y) - ?y\<bar> * pow2 u = \<bar>(of_int (round_even ?y) - ?y) * pow2 u\<bar>"
    by (simp add: abs_mult abs_of_pos [OF pow2_pos])
  moreover have "(of_int (round_even ?y) - ?y) * pow2 u = round_to u x - x"
    by (simp add: round_to_def left_diff_distrib)
  ultimately show ?thesis by simp
qed

lemma exponent_le_power:
  assumes "0 < x" "x \<le> 2 ^ k"
  shows "exponent x \<le> int k"
proof -
  have "pow2 (exponent x) \<le> pow2 (int k)" using exponent_le [OF assms(1)] assms(2) by simp
  then show ?thesis by (rule pow2_mono)
qed

lemma round_double_error:
  assumes "0 \<le> x" "x \<le> 2 ^ k" "k \<le> 52"
  shows "\<bar>round_double x - x\<bar> \<le> 1 / 2 ^ (53 - k)"
proof (cases "x = 0")
  case False
  with assms have x: "0 < x" by simp
  let ?u = "max (exponent x - 52) (- 1074)"
  have "?u \<le> - int (52 - k)" using exponent_le_power [OF x assms(2)] assms(3) by simp
  then have "pow2 ?u \<le> 1 / 2 ^ (52 - k)" using pow2_monotone pow2_minus by metis
  moreover have "53 - k = Suc (52 - k)" using assms(3) by simp
  ultimately have "pow2 ?u / 2 \<le> 1 / 2 ^ (53 - k)" by simp
  with round_to_error [of ?u x] x show ?thesis by (simp add: round_double_def)
qed (simp add: round_double_def)

lemma round_to_exact: "u \<le> - int k \<Longrightarrow> round_to u (of_nat n / 2 ^ k) = of_nat n / 2 ^ k"
proof -
  assume "u \<le> - int k"
  then obtain j where j: "u = - int k + - int j" using zle_iff_zadd [of u "- int k"] by force
  have "pow2 u = 1 / (2 ^ k * 2 ^ j)" unfolding j pow2_add pow2_minus by simp
  then have "of_nat n / 2 ^ k / pow2 u = of_int (int (n * 2 ^ j))" by simp
  then show ?thesis unfolding round_to_def by (metis nonzero_eq_divide_eq pow2_nonzero round_even_of_int)
qed

lemma to_double_scaled:
  assumes "n < 2 ^ 53" "k \<le> 53"
  shows "to_double (of_nat n / 2 ^ k) = Fin (of_nat n / 2 ^ k)"
proof -
  let ?x = "of_nat n / 2 ^ k :: rat"
  have n: "(of_nat n :: rat) < 2 ^ 53" using assms(1) by (metis of_nat_less_iff of_nat_numeral of_nat_power)
  have "?x \<le> of_nat n" by (simp add: divide_le_eq mult_le_cancel_left1)
  with assms(1) have td: "to_double ?x = Fin (round_double ?x)"
    by (intro to_double_small) auto
  show ?thesis
  proof (cases "n = 0")
    case False
    then have x: "0 < ?x" by simp
    have "?x < 2 ^ (53 - k)" using n assms(2) by (simp add: divide_less_eq power_add [symmetric])
    with exponent_le [OF x] have "pow2 (exponent ?x) < pow2 (int (53 - k))" by simp
    with pow2_monotone [of "int (53 - k)" "exponent ?x"] have "exponent ?x < int (53 - k)" by linarith
    with assms(2) have "max (exponent ?x - 52) (- 1074) \<le> - int k" by simp
    with x td show ?thesis by (simp add: round_double_def round_to_exact)
  qed (simp add: to_double_def round_double_def)
qed

section \<open>Reading what toFixed prints\<close>

lemma digit_hd: "is_digit (hd (nat_digits n))"
  using nat_digits_all_digits [of "hd (nat_digits n)" n] hd_in_set [OF nat_digits_not_Nil] by blast

lemma takeWhile_digits:
  "takeWhile is_digit (nat_digits n @ s) = nat_digits n @ takeWhile is_digit s"
  "dropWhile is_digit (nat_digits n @ s) = dropWhile is_digit s"
  using nat_digits_all_digits by (auto simp: takeWhile_append dropWhile_append)

lemma tenths_value:
  "decimal_value (nat_digits (n div 10) @ nat_digits (n mod 10)) = n"
  "length (nat_digits (n mod 10)) = 1"
proof -
  have d: "nat_digits (n mod 10) = [char_of (48 + n mod 10)]" by (simp add: nat_digits.simps)
  show "length (nat_digits (n mod 10)) = 1" by (simp add: d)
  show "decimal_value (nat_digits (n div 10) @ nat_digits (n mod 10)) = n"
    by (simp add: decimal_value_def radix_digits_append radix_digits_nat_digits d)
qed

lemma scan_tenths: "scan_unsigned (tenths_string n) = Some (to_double (of_nat n / 10), [])"
proof -
  let ?a = "nat_digits (n div 10)" and ?d = "nat_digits (n mod 10)"
  have dot: "\<not> is_digit CHR ''.''" by code_simp
  have "\<not> starts_with (tenths_string n) ''Infinity''"
  proof
    assume "starts_with (tenths_string n) ''Infinity''"
    then obtain t where "?a @ ''.'' @ ?d = ''Infinity'' @ t" by (auto simp: starts_with_iff tenths_string_def)
    then have "hd ?a = CHR ''I''" by (metis append_Cons hd_append2 list.sel(1) nat_digits_not_Nil)
    with digit_hd [of "n div 10"] have "is_digit CHR ''I''" by simp
    moreover have "\<not> is_digit CHR ''I''" by code_simp
    ultimately show False by simp
  qed
  moreover have "takeWhile is_digit (tenths_string n) = ?a" "dropWhile is_digit (tenths_string n) = CHR ''.'' # ?d"
    using dot by (simp_all add: tenths_string_def takeWhile_digits)
  moreover have "takeWhile is_digit ?d = ?d" "dropWhile is_digit ?d = []"
    using takeWhile_digits [of "n mod 10" "[]"] by simp_all
  ultimately show ?thesis
    by (simp add: scan_unsigned_def scan_exponent_def tenths_value pow10_def
        del: takeWhile_eq_all_conv dropWhile_eq_Nil_conv)
qed

lemma parse_tenths: "js_parseFloat (tenths_string n) = to_double (of_nat n / 10)"
proof -
  let ?a = "nat_digits (n div 10)"
  obtain c t where s: "tenths_string n = c # t" "c = hd ?a"
    by (metis append_is_Nil_conv hd_append2 list.collapse nat_digits_not_Nil tenths_string_def)
  with digit_hd have c: "is_digit c" by simp
  then have "c \<noteq> CHR ''-''" "c \<noteq> CHR ''+''" "\<not> is_space c"
    by (auto simp: is_digit_def digit_value_def Let_def is_space_def split: if_splits)
  with s show ?thesis
    using scan_tenths [of n] by (simp add: js_parseFloat_def trim_start_def scan_signed_def)
qed

section \<open>pages/SettingsPage.tsx\<close>

definition bytesToGiBString :: "nat \<Rightarrow> string" where
  "bytesToGiBString value =
     (case js_div (of_nat value) (1024 ^ 3) of
        Fin q \<Rightarrow> toFixed1 q | Inf neg \<Rightarrow> ''Infinity'' | NaN \<Rightarrow> ''NaN'')"

definition parseGiBToBytes :: "string \<Rightarrow> number option" where
  "parseGiBToBytes value =
     (case js_parseFloat value of
        Fin parsed \<Rightarrow>
          (if parsed \<le> 0 then None else Some (math_round (js_mul (Fin parsed) (Fin (1024 ^ 3)))))
      | _ \<Rightarrow> None)"

definition clampPercent :: "rat \<Rightarrow> rat" where
  "clampPercent value = max 0 (min 100 value)"

text \<open>The tenths of a GiB that are shown for a number of bytes.\<close>

definition tenths_shown :: "nat \<Rightarrow> nat" where
  "tenths_shown b = nat \<lfloor>10 * (of_nat b / 2 ^ 30 :: rat) + 1 / 2\<rfloor>"

lemma tenths_shown_bounds:
  "of_nat (tenths_shown b) \<le> 5 * of_nat b / 536870912 + (1 / 2 :: rat)"
  "5 * of_nat b / 536870912 - (1 / 2 :: rat) \<le> of_nat (tenths_shown b)"
proof -
  let ?y = "5 * of_nat b / 536870912 + (1 / 2 :: rat)"
  have y: "10 * (of_nat b / 2 ^ 30 :: rat) + 1 / 2 = ?y" by simp
  have "0 \<le> ?y" by simp
  then have "0 \<le> \<lfloor>?y\<rfloor>" by (simp only: zero_le_floor)
  then have t: "(of_nat (tenths_shown b) :: rat) = of_int \<lfloor>?y\<rfloor>" by (simp add: tenths_shown_def y)
  show "of_nat (tenths_shown b) \<le> ?y" "5 * of_nat b / 536870912 - (1 / 2 :: rat) \<le> of_nat (tenths_shown b)"
    unfolding t using floor_correct [of ?y] by linarith+
qed

lemma shown_limit: "b < 2 ^ 53 \<Longrightarrow> bytesToGiBString b = tenths_string (tenths_shown b)"
  using to_double_scaled [of b 30]
  by (simp add: bytesToGiBString_def js_div_def toFixed1_def tenths_shown_def)

lemma tenths_shown_pos: "0 < tenths_shown b \<longleftrightarrow> 2 ^ 30 \<le> 20 * b"
proof -
  have "0 < tenths_shown b \<longleftrightarrow> 1 \<le> 10 * (of_nat b / 2 ^ 30 :: rat) + 1 / 2"
    by (simp add: tenths_shown_def zero_less_nat_eq)
  also have "\<dots> \<longleftrightarrow> (2 ^ 30 :: rat) \<le> of_nat (20 * b)" by (auto simp: field_simps)
  also have "\<dots> \<longleftrightarrow> 2 ^ 30 \<le> 20 * b" by (metis of_nat_le_iff of_nat_numeral of_nat_power)
  finally show ?thesis .
qed

text \<open>What is read back from the tenths: the double nearest to them, scaled exactly and rounded.\<close>

lemma read_back:
  assumes "n \<le> 10 * 2 ^ 22"
  shows "\<exists>k. parseGiBToBytes (tenths_string n) = (if n = 0 then None else Some (Fin (of_int k))) \<and>
    of_int k \<le> 536870912 * of_nat n / 5 + (2 :: rat) \<and> 536870912 * of_nat n / 5 - (2 :: rat) \<le> of_int k"
proof -
  let ?t = "of_nat n / 10 :: rat" and ?p = "round_double (of_nat n / 10)"
  have n: "(of_nat n :: rat) \<le> 10 * 2 ^ 22" using assms by (metis of_nat_le_iff of_nat_mult of_nat_numeral of_nat_power)
  then have t: "0 \<le> ?t" "?t \<le> 2 ^ 22" "?t \<le> of_nat (2 ^ 22)" by simp_all
  have p: "js_parseFloat (tenths_string n) = Fin ?p"
    using to_double_small [OF t(1,3)] by (simp add: parse_tenths)
  have p0: "0 \<le> ?p" by (rule round_double_nonneg [OF t(1)])
  have p1: "?p \<le> of_nat (2 ^ 22)" by (rule round_double_le_nat [OF t(1,3)]) simp
  have e1: "\<bar>?p - ?t\<bar> \<le> 1 / 2 ^ 31" using round_double_error [OF t(1,2)] by simp
  have pos: "?p \<le> 0 \<longleftrightarrow> n = 0"
  proof
    assume "?p \<le> 0"
    with e1 have "?t \<le> 1 / 2 ^ 31" by linarith
    then have "(of_nat n :: rat) < of_nat 1" by simp
    then show "n = 0" by (simp only: of_nat_less_iff)
  qed (simp add: round_double_def)
  let ?y = "?p * 2 ^ 30"
  have y: "0 \<le> ?y" "?y \<le> 2 ^ 52" "?y \<le> of_nat (2 ^ 52)" using p0 p1 by simp_all
  have prod: "js_mul (Fin ?p) (Fin (1024 ^ 3)) = Fin (round_double ?y)"
    using to_double_small [OF y(1,3)] by (simp add: js_mul_def)
  have e2: "\<bar>round_double ?y - ?y\<bar> \<le> 1 / 2" using round_double_error [OF y(1,2)] by simp
  let ?k = "js_round (round_double ?y)"
  have e3: "\<bar>of_int ?k - round_double ?y\<bar> \<le> 1 / 2"
    unfolding js_round_def using floor_correct [of "round_double ?y + 1 / 2"] by linarith
  have a: "?p \<le> ?t + 1 / 2147483648" "?t - 1 / 2147483648 \<le> ?p"
  proof -
    have "(1 / 2 ^ 31 :: rat) = 1 / 2147483648" by simp
    with e1 show "?p \<le> ?t + 1 / 2147483648" "?t - 1 / 2147483648 \<le> ?p" by linarith+
  qed
  have b: "of_int ?k \<le> ?p * 1073741824 + 1" "?p * 1073741824 - 1 \<le> of_int ?k"
  proof -
    have "?y = ?p * 1073741824" by simp
    with e2 e3 show "of_int ?k \<le> ?p * 1073741824 + 1" "?p * 1073741824 - 1 \<le> of_int ?k" by linarith+
  qed
  have "of_int ?k \<le> 536870912 * of_nat n / 5 + (2 :: rat) \<and> 536870912 * of_nat n / 5 - (2 :: rat) \<le> of_int ?k"
    using a b by linarith
  moreover have "parseGiBToBytes (tenths_string n) = (if n = 0 then None else Some (Fin (of_int ?k)))"
    using pos prod by (simp add: parseGiBToBytes_def p math_round_def)
  ultimately show ?thesis by blast
qed

lemma tenths_shown_le: "b < 2 ^ 52 \<Longrightarrow> tenths_shown b \<le> 10 * 2 ^ 22"
proof -
  assume "b < 2 ^ 52"
  then have "(of_nat b :: rat) < 2 ^ 52" by (metis of_nat_less_iff of_nat_numeral of_nat_power)
  then have "(of_nat b :: rat) < 4503599627370496" by simp
  then have "(of_nat (tenths_shown b) :: rat) < 41943041"
    using tenths_shown_bounds [of b] by linarith
  then have "(of_nat (tenths_shown b) :: rat) < of_nat (10 * 2 ^ 22 + 1)" by simp
  then have "tenths_shown b < 10 * 2 ^ 22 + 1" by (simp only: of_nat_less_iff)
  then show ?thesis by simp
qed

text \<open>
  C26. The limit that the settings page loads and writes back. Reading back what is shown for a
  quota below 4 PiB is refused exactly for quotas under 0.05 GiB, and otherwise gives a whole
  number of bytes within 0.05 GiB and two bytes of the quota, through every rounding of the
  doubles; a quota of whole GiB comes back as it is.
\<close>

theorem storage_limit_roundtrip:
  assumes "b < 2 ^ 52"
  shows "(parseGiBToBytes (bytesToGiBString b) = None \<longleftrightarrow> 20 * b < 2 ^ 30) \<and>
    (\<forall>m. parseGiBToBytes (bytesToGiBString b) = Some m \<longrightarrow>
       (\<exists>k. m = Fin (of_int k) \<and> \<bar>k - int b\<bar> \<le> 53687093)) \<and>
    (\<forall>j. b = j * 2 ^ 30 \<longrightarrow> 0 < j \<longrightarrow> parseGiBToBytes (bytesToGiBString b) = Some (Fin (of_nat b)))"
proof -
  obtain k where k: "parseGiBToBytes (tenths_string (tenths_shown b)) =
      (if tenths_shown b = 0 then None else Some (Fin (of_int k)))"
    and near: "of_int k \<le> 536870912 * of_nat (tenths_shown b) / 5 + (2 :: rat)"
      "536870912 * of_nat (tenths_shown b) / 5 - (2 :: rat) \<le> of_int k"
    using read_back [OF tenths_shown_le [OF assms]] by blast
  have shown: "bytesToGiBString b = tenths_string (tenths_shown b)" using assms by (simp add: shown_limit)
  have "of_int k < of_nat b + (53687094 :: rat)" "of_nat b < of_int k + (53687094 :: rat)"
    using near tenths_shown_bounds [of b] by linarith+
  then have "(of_int k :: rat) < of_int (int b + 53687094)" "(of_int (int b) :: rat) < of_int (k + 53687094)"
    by simp_all
  then have close: "\<bar>k - int b\<bar> \<le> 53687093" unfolding of_int_less_iff by linarith
  have whole: "parseGiBToBytes (bytesToGiBString b) = Some (Fin (of_nat b))" if "b = j * 2 ^ 30" "0 < j" for j
  proof -
    have "\<lfloor>rat_of_nat (10 * j) + 1 / 2\<rfloor> = int (10 * j)" by (intro floor_unique) simp_all
    moreover have "10 * (of_nat b / 2 ^ 30) = rat_of_nat (10 * j)" by (simp add: that(1))
    ultimately have t: "tenths_shown b = 10 * j" by (simp only: tenths_shown_def nat_int)
    have j: "j < 2 ^ 53" "b < 2 ^ 53" using assms that by simp_all
    have "js_parseFloat (bytesToGiBString b) = Fin (of_nat j)"
      using to_double_of_nat [OF j(1)] by (simp add: shown parse_tenths t)
    moreover have "js_mul (Fin (of_nat j)) (Fin (1024 ^ 3)) = Fin (of_nat b)"
      using to_double_of_nat [OF j(2)] by (simp add: js_mul_def that(1))
    moreover have "js_round (rat_of_nat b) = int b" unfolding js_round_def by (intro floor_unique) simp_all
    ultimately show ?thesis using that(2) by (simp add: parseGiBToBytes_def math_round_def)
  qed
  show ?thesis
    using k close whole tenths_shown_pos [of b] unfolding shown by (auto simp: shown split: if_splits)
qed

theorem storage_limit_roundtrip_witness:
  "parseGiBToBytes (bytesToGiBString 10737418240) = Some (Fin 10737418240) \<and>
   parseGiBToBytes (bytesToGiBString 1000000) = None"
  using storage_limit_roundtrip [of 10737418240] storage_limit_roundtrip [of 1000000] by simp

end
