(* ===== verification/SettingsPage.thy ===== *)
theory SettingsPage
  imports LatestWins StorageQuota Health TextFormat
begin

text \<open>
  Model of \<open>frontend/src/pages/SettingsPage.tsx\<close>: the draft of the connection, the test of a
  connection with its request numbers, the storage limit, and what is shown. The number of the
  latest test is a ref of the page; the contract of \<open>LatestWins\<close> is interpreted on it.
\<close>

section \<open>State\<close>

record settings_page =
  sp_settings :: app_settings
  sp_token_visible :: bool
  sp_draft :: app_settings
  sp_limit_input :: string
  sp_manual :: "health_badges option"
  sp_testing :: bool
  sp_test_request :: nat
  sp_stats :: "system_stats_result option"
  sp_stats_version :: nat
  sp_stats_pending :: bool
  sp_stats_error :: "thrown option"
  sp_quota_pending :: bool
  sp_toasts :: "toast list"

text \<open>The one mutation of the page carries the number of bytes.\<close>

type_synonym 'a settings_task = "(settings_page, number, 'a) page_task"

definition settings_page_initial :: "app_settings \<Rightarrow> settings_page" where
  "settings_page_initial settings =
     \<lparr>sp_settings = settings, sp_token_visible = False, sp_draft = settings, sp_limit_input = [],
      sp_manual = None, sp_testing = False, sp_test_request = 0, sp_stats = None, sp_stats_version = 0,
      sp_stats_pending = False, sp_stats_error = None, sp_quota_pending = False, sp_toasts = []\<rparr>"

definition storageQuotaEnabled :: "settings_page \<Rightarrow> bool" where
  "storageQuotaEnabled s \<longleftrightarrow>
     trim (apiBaseUrl (sp_settings s)) \<noteq> [] \<and> hasBearerToken (bearerToken (sp_settings s))"

definition system_stats_key :: "settings_page \<Rightarrow> string list" where
  "system_stats_key s =
     [''system-stats'', apiBaseUrl (sp_settings s), bearerToken (sp_settings s)]"

definition storage_stats :: "settings_page \<Rightarrow> system_storage_stats option" where
  "storage_stats s = map_option ss_storage (sp_stats s)"

definition readDraftSettings :: "settings_page \<Rightarrow> app_settings" where
  "readDraftSettings s =
     \<lparr>apiBaseUrl = trim (apiBaseUrl (sp_draft s)), bearerToken = trim (bearerToken (sp_draft s))\<rparr>"

section \<open>Effects\<close>

definition settings_page_commit :: "settings_page \<Rightarrow> settings_page \<Rightarrow> settings_page" where
  "settings_page_commit old s =
     (let s1 = (if sp_settings s \<noteq> sp_settings old then s\<lparr>sp_draft := sp_settings s\<rparr> else s)
      in if sp_stats_version s \<noteq> sp_stats_version old
         then (case storage_stats s of
                 None \<Rightarrow> s1
               | Some st \<Rightarrow> s1\<lparr>sp_limit_input := bytesToGiBString (st_max_bytes st)\<rparr>)
         else s1)"

section \<open>Handlers\<close>

definition settings_toast :: "toast \<Rightarrow> settings_page \<Rightarrow> settings_page" where
  "settings_toast m s = s\<lparr>sp_toasts := sp_toasts s @ [m]\<rparr>"

definition clearManualHealthStates :: "settings_page \<Rightarrow> settings_page" where
  "clearManualHealthStates s =
     s\<lparr>sp_test_request := sp_test_request s + 1, sp_manual := None, sp_testing := False\<rparr>"

definition updateDraftSettings :: "(app_settings \<Rightarrow> app_settings) \<Rightarrow> settings_page \<Rightarrow> settings_page" where
  "updateDraftSettings change s =
     (let s1 = clearManualHealthStates s in s1\<lparr>sp_draft := change (sp_draft s1)\<rparr>)"

definition handleSaveSettings :: "settings_page \<Rightarrow> settings_page" where
  "handleSaveSettings s =
     settings_toast (ToastSuccess (Key ''toast.settingsSaved'' []))
       ((clearManualHealthStates s)\<lparr>sp_settings := readDraftSettings s\<rparr>)"

text \<open>What the page does with the answer to test number \<open>requestId\<close>.\<close>

definition show_test :: "nat \<Rightarrow> health_badges \<Rightarrow> settings_page \<Rightarrow> settings_page" where
  "show_test requestId badges s =
     (if sp_test_request s \<noteq> requestId then s else s\<lparr>sp_manual := Some badges\<rparr>)"

definition end_test :: "nat \<Rightarrow> settings_page \<Rightarrow> settings_page" where
  "end_test requestId s = (if sp_test_request s = requestId then s\<lparr>sp_testing := False\<rparr> else s)"

definition run_test :: "nat \<Rightarrow> app_settings \<Rightarrow> unit settings_task" where
  "run_test requestId draft =
     finally_task
       (catch_task
          (bind_task (api_call (getHealthStatus draft))
             (\<lambda>result. Update (show_test requestId (resolveConnectionHealthStates True False None result))
                (Return ())))
          (\<lambda>error. Update (show_test requestId (resolveConnectionHealthStates True False (Some error) None))
             (Return ())))
       (end_test requestId)"

definition open_test :: "nat \<Rightarrow> settings_page \<Rightarrow> settings_page" where
  "open_test requestId s =
     s\<lparr>sp_test_request := requestId, sp_testing := True,
       sp_manual := Some createCheckingConnectionHealthStates\<rparr>"

definition handleTestConnection :: "settings_page \<Rightarrow> unit settings_task" where
  "handleTestConnection s =
     (let draft = readDraftSettings s
      in if apiBaseUrl draft = [] then Return ()
         else Read (\<lambda>now. let requestId = sp_test_request now + 1
                          in Update (open_test requestId) (run_test requestId draft)))"

text \<open>\<open>mutate\<close> starts the mutation and does not wait for it.\<close>

definition handleSaveStorageLimit :: "settings_page \<Rightarrow> unit settings_task" where
  "handleSaveStorageLimit s =
     (let invalid = Update (settings_toast (ToastError (Key ''settings.storage.invalidLimit'' []))) (Return ())
      in case parseGiBToBytes (sp_limit_input s) of
           None \<Rightarrow> invalid
         | Some (Fin maxBytes) \<Rightarrow>
             (if maxBytes \<le> 0 then invalid else Await (MutateAsync (Fin maxBytes)) (\<lambda>_. Return ()))
         | Some maxBytes \<Rightarrow> Await (MutateAsync maxBytes) (\<lambda>_. Return ()))"

definition storageQuotaMutation ::
  "settings_page \<Rightarrow> (settings_page, number, number, system_storage_stats option) mutation_options" where
  "storageQuotaMutation s =
     \<lparr>mutationFn = (\<lambda>maxBytes. api_call (updateStorageQuota (sp_settings s) maxBytes)),
      onSuccess = (\<lambda>_ answer. bind_task (the_result answer) (\<lambda>storageStats.
        Update (\<lambda>now. settings_toast (ToastSuccess (Key ''toast.storageQuotaSaved'' []))
                  (now\<lparr>sp_limit_input := bytesToGiBString (st_max_bytes storageStats)\<rparr>))
          (invalidateQueries [system_stats_key s]))),
      onError = (\<lambda>error _.
        Update (settings_toast (ToastError (error_text error ''errors.updateStorageQuota''))) (Return ())),
      onSettled = Return ()\<rparr>"

section \<open>Rendering decisions\<close>

definition getStorageStatusLabel :: "storage_limit_status \<Rightarrow> string" where
  "getStorageStatusLabel status =
     (case status of
        LimitWarning \<Rightarrow> ''settings.storage.status.warning''
      | LimitExceeded \<Rightarrow> ''settings.storage.status.exceeded''
      | LimitOk \<Rightarrow> ''settings.storage.status.ok'')"

datatype badge_variant = Secondary | Destructive | Outline | DefaultVariant

definition getStorageStatusBadgeVariant :: "storage_limit_status \<Rightarrow> badge_variant" where
  "getStorageStatusBadgeVariant status =
     (case status of LimitWarning \<Rightarrow> Secondary | LimitExceeded \<Rightarrow> Destructive | LimitOk \<Rightarrow> Outline)"

definition getStorageAlertTitle :: "storage_limit_status \<Rightarrow> string" where
  "getStorageAlertTitle status =
     (case status of
        LimitWarning \<Rightarrow> ''dashboard.system.storageAlertWarningTitle''
      | LimitExceeded \<Rightarrow> ''dashboard.system.storageAlertExceededTitle''
      | LimitOk \<Rightarrow> [])"

text \<open>The key of the description with its two values, or no text.\<close>

definition getStorageAlertDescription ::
  "system_storage_stats \<Rightarrow> (string \<times> (string \<times> string) list) option" where
  "getStorageAlertDescription st =
     (let values = [(''used'', formatBytes (st_used_bytes st)), (''max'', formatBytes (st_max_bytes st))]
      in case st_limit_status st of
           LimitWarning \<Rightarrow> Some (''dashboard.system.storageAlertWarningDescription'', values)
         | LimitExceeded \<Rightarrow> Some (''dashboard.system.storageAlertExceededDescription'', values)
         | LimitOk \<Rightarrow> None)"

datatype storage_panel =
    StorageUnavailable | StorageLoading
  | StorageShown "(string \<times> string) list" rat "(badge_variant \<times> string) option"
  | StorageNoData

definition storage_metrics :: "system_storage_stats \<Rightarrow> (string \<times> string) list" where
  "storage_metrics st =
     [(''settings.storage.currentUsage'', formatBytes (st_used_bytes st)),
      (''settings.storage.currentLimit'', formatBytes (st_max_bytes st)),
      (''settings.storage.remaining'', formatBytes (st_remaining_bytes st)),
      (''settings.storage.usagePercent'', formatPercent (st_used_percent st)),
      (''settings.storage.status'', getStorageStatusLabel (st_limit_status st)),
      (''settings.storage.rootPath'', st_root_path st)]"

definition storage_alert :: "system_storage_stats \<Rightarrow> (badge_variant \<times> string) option" where
  "storage_alert st =
     (if st_limit_status st = LimitOk then None
      else Some (if st_limit_status st = LimitExceeded then Destructive else DefaultVariant,
                 getStorageAlertTitle (st_limit_status st)))"

definition storage_section :: "settings_page \<Rightarrow> storage_panel" where
  "storage_section s =
     (if \<not> storageQuotaEnabled s then StorageUnavailable
      else if sp_stats_pending s then StorageLoading
      else case storage_stats s of
             None \<Rightarrow> StorageNoData
           | Some st \<Rightarrow>
               StorageShown (storage_metrics st) (clampPercent (st_used_percent st)) (storage_alert st))"

definition test_button_disabled :: "settings_page \<Rightarrow> bool" where
  "test_button_disabled s \<longleftrightarrow> sp_testing s \<or> apiBaseUrl (readDraftSettings s) = []"

definition save_limit_disabled :: "settings_page \<Rightarrow> bool" where
  "save_limit_disabled s \<longleftrightarrow>
     storage_stats s = None \<or> \<not> storageQuotaEnabled s \<or> sp_quota_pending s"

end
