(* ===== verification/SettingsProps.thy ===== *)
theory SettingsProps
  imports SettingsPage
begin

text \<open>
  Properties of the settings page: whatever the order in which answers arrive, the badges show
  the latest test and the page never waits for a test that is not open.
\<close>

section \<open>A test is one request\<close>

lemma apiRequest_await:
  "apiRequest as settings config =
     Await (HttpSend (createApiClient settings) config)
       (\<lambda>r. case api_outcome as r of Inl e \<Rightarrow> Raise e | Inr v \<Rightarrow> Return v)"
  by (auto simp: apiRequest_def apiEnvelopeRequest_def http_send_def request_def unwrapEnvelope_def
      api_outcome_def fun_eq_iff split: sum.split resp_body.split)

definition test_ask :: "nat \<Rightarrow> app_settings \<Rightarrow> number page_io" where
  "test_ask requestId draft = SendHttp (HttpSend (createApiClient draft) health_config)"

text \<open>The badges that an answer to the health check stands for.\<close>

definition test_badges :: "page_reply \<Rightarrow> health_badges" where
  "test_badges r =
     (case api_outcome as_health (rep_http r) of
        Inl e \<Rightarrow> resolveConnectionHealthStates True False (Some e) None
      | Inr result \<Rightarrow> resolveConnectionHealthStates True False None result)"

definition test_follow :: "nat \<Rightarrow> app_settings \<Rightarrow> page_reply \<Rightarrow> unit settings_task" where
  "test_follow requestId draft r =
     Update (show_test requestId (test_badges r)) (Update (end_test requestId)
       (Return ()))"

lemma getHealthStatus_await:
  "getHealthStatus d =
     Await (HttpSend (createApiClient d) health_config)
       (\<lambda>r. case api_outcome as_health r of Inl e \<Rightarrow> Raise e | Inr v \<Rightarrow> Return v)"
  unfolding getHealthStatus_def apiRequest_def [symmetric] by (rule apiRequest_await)

lemma run_test_await: "run_test i d = Await (test_ask i d) (test_follow i d)"
  by (auto simp: run_test_def getHealthStatus_await api_call_def test_ask_def test_follow_def
      test_badges_def fun_eq_iff split: sum.split)

section \<open>The page as a machine\<close>

datatype settings_event =
    TypeUrl string | TypeToken string | ToggleToken | SaveSettings | TypeLimit string
  | SettingsElsewhere app_settings
  | StatsChanged "system_stats_result option" bool "thrown option"
  | QuotaPending bool

fun settings_event_step :: "settings_event \<Rightarrow> settings_page \<Rightarrow> settings_page" where
  "settings_event_step (TypeUrl u) s = updateDraftSettings (\<lambda>d. d\<lparr>apiBaseUrl := u\<rparr>) s"
| "settings_event_step (TypeToken k) s = updateDraftSettings (\<lambda>d. d\<lparr>bearerToken := k\<rparr>) s"
| "settings_event_step ToggleToken s = s\<lparr>sp_token_visible := \<not> sp_token_visible s\<rparr>"
| "settings_event_step SaveSettings s = handleSaveSettings s"
| "settings_event_step (TypeLimit v) s = s\<lparr>sp_limit_input := v\<rparr>"
| "settings_event_step (SettingsElsewhere st) s = s\<lparr>sp_settings := st\<rparr>"
| "settings_event_step (StatsChanged d p e) s =
     s\<lparr>sp_stats := d, sp_stats_version := sp_stats_version s + 1, sp_stats_pending := p, sp_stats_error := e\<rparr>"
| "settings_event_step (QuotaPending b) s = s\<lparr>sp_quota_pending := b\<rparr>"

inductive settings_starts :: "settings_page \<Rightarrow> unit settings_task \<Rightarrow> bool" where
  "settings_starts s (Update (settings_event_step ev) (Return ()))"
| "settings_starts s (handleTestConnection s)"
| "settings_starts s (handleSaveStorageLimit s)"
| "callback_task (storageQuotaMutation r) t \<Longrightarrow> settings_starts s t"

definition same_test :: "settings_page \<Rightarrow> settings_page \<Rightarrow> bool" where
  "same_test s s' \<longleftrightarrow> sp_test_request s' = sp_test_request s \<and> sp_testing s' = sp_testing s"

lemma test_frame [simp]:
  "sp_test_request (settings_toast m s) = sp_test_request s" "sp_testing (settings_toast m s) = sp_testing s"
  "sp_test_request (settings_page_commit old s) = sp_test_request s"
  "sp_testing (settings_page_commit old s) = sp_testing s"
  by (simp_all add: settings_toast_def settings_page_commit_def Let_def split: option.split)

lemma quota_keeps: "callback_task (storageQuotaMutation r) t \<Longrightarrow> keeps same_test t"
  by (erule callback_taskE)
     (auto simp: storageQuotaMutation_def same_test_def intro!: keeps_bind)

lemma save_limit_keeps: "keeps same_test (handleSaveStorageLimit s)"
  by (auto simp: handleSaveStorageLimit_def same_test_def Let_def split: option.split number.split)

text \<open>Typing in the connection form and saving it drop the open test; nothing else touches it.\<close>

lemma event_started:
  "keeps same_test (Update (settings_event_step ev) (Return ())) \<or>
   (\<forall>s. sp_test_request (settings_event_step ev s) = Suc (sp_test_request s) \<and>
        \<not> sp_testing (settings_event_step ev s))"
  by (cases ev) (simp_all add: same_test_def updateDraftSettings_def handleSaveSettings_def
      clearManualHealthStates_def Let_def settings_toast_def)

lemma test_started:
  "handleTestConnection s = Return () \<or>
   (\<exists>s'. advance (handleTestConnection s) s = (s', [(test_ask (Suc (sp_test_request s)) (readDraftSettings s),
        test_follow (Suc (sp_test_request s)) (readDraftSettings s))]) \<and>
      sp_test_request s' = Suc (sp_test_request s) \<and> sp_testing s')"
  by (simp add: handleTestConnection_def Let_def run_test_await open_test_def)

lemma settings_started:
  assumes "settings_starts s t"
  shows "keeps same_test t \<or>
    (\<exists>s'. advance t s = (s', []) \<and> sp_test_request s' = Suc (sp_test_request s) \<and> \<not> sp_testing s') \<or>
    (\<exists>s' d. advance t s = (s', [(test_ask (Suc (sp_test_request s)) d, test_follow (Suc (sp_test_request s)) d)]) \<and>
       sp_test_request s' = Suc (sp_test_request s) \<and> sp_testing s')"
  using assms
proof (cases rule: settings_starts.cases)
  case (1 ev)
  then show ?thesis using event_started [of ev] by auto
next
  case 2
  with test_started [of s] show ?thesis by auto
next
  case 3
  with save_limit_keeps [of s] show ?thesis by blast
next
  case (4 r)
  with quota_keeps show ?thesis by blast
qed

interpretation settings_test: latest_wins sp_test_request sp_testing test_ask test_follow
    settings_page_commit settings_starts "settings_page_initial settings" for settings
proof (unfold_locales, goal_cases)
  case 1 show ?case by (simp add: settings_page_initial_def)
next
  case (4 d r s s' js) then show ?case
    by (auto simp: test_follow_def show_test_def end_test_def)
next
  case (5 i s d r) then show ?case by (simp add: test_follow_def show_test_def end_test_def)
next
  case (6 s t) then show ?case using settings_started [of s t] by (simp add: same_test_def [abs_def])
qed simp_all

section \<open>Properties\<close>



end
