(* ===== verification/BucketsPage.thy ===== *)
theory BucketsPage
  imports SubmitDialog SearchParams Pins
begin

text \<open>
  Model of \<open>frontend/src/pages/BucketsPage.tsx\<close> with \<open>features/buckets/useDeleteBucket.ts\<close>,
  \<open>CreateBucketForm.tsx\<close>, \<open>BucketCard.tsx\<close>, \<open>BucketList.tsx\<close> and \<open>PinnedBuckets.tsx\<close>: the lists
  of buckets and sites, the pins reconciled with what exists, the confirmation before a bucket
  is deleted, and the cards, which read the sites of a bucket from an object literal.
\<close>

section \<open>Object literals\<close>

text \<open>
  \<open>obj[key]\<close> on an object literal: an own member, or else a member of \<open>Object.prototype\<close>, of
  which only the \<open>length\<close> matters here (the parameter count of a function; \<open>__proto__\<close> is an
  object without one).
\<close>

datatype 'a slot = Own 'a | Inherited nat

definition object_prototype :: "(string \<times> nat) list" where
  "object_prototype =
     [(''constructor'', 1), (''hasOwnProperty'', 1), (''isPrototypeOf'', 1),
      (''propertyIsEnumerable'', 1), (''toString'', 0), (''toLocaleString'', 0), (''valueOf'', 0),
      (''__defineGetter__'', 2), (''__defineSetter__'', 2), (''__lookupGetter__'', 1),
      (''__lookupSetter__'', 1), (''__proto__'', 0)]"

definition object_get :: "(string \<times> 'a) list \<Rightarrow> string \<Rightarrow> 'a slot option" where
  "object_get obj key =
     (case map_of obj key of
        Some v \<Rightarrow> Some (Own v)
      | None \<Rightarrow> map_option Inherited (map_of object_prototype key))"

definition not_a_function :: "string \<Rightarrow> thrown" where
  "not_a_function member = ThrownError (member @ '' is not a function'')"

section \<open>State\<close>

record 'a list_query =
  lq_data :: "'a list option"
  lq_updated_at :: nat
  lq_success :: bool
  lq_fetched_after_mount :: bool
  lq_fetching :: bool
  lq_loading :: bool
  lq_error :: "thrown option"

text \<open>\<open>removePin\<close> needs the id, which may be unknown.\<close>

datatype buckets_mutation = CreateBucketM string | DeleteBucketM string "int option"

record buckets_page =
  bp_settings :: app_settings
  bp_params :: search_params
  bp_search_input :: string
  bp_pins :: pins_page
  bp_reconciled :: "(string list \<times> nat) option"
  bp_listed :: "bucket list_query"
  bp_pinned :: "bucket list_query"
  bp_sites :: "site list_query"
  bp_creating :: bool
  bp_deleting :: string
  bp_removed_queries :: "string list list"
  bp_toasts :: "toast list"

definition idle_query :: "'a list_query" where
  "idle_query =
     \<lparr>lq_data = None, lq_updated_at = 0, lq_success = False, lq_fetched_after_mount = False,
      lq_fetching = False, lq_loading = False, lq_error = None\<rparr>"

definition buckets_page_initial :: "app_settings \<Rightarrow> search_params \<Rightarrow> browser_storage \<Rightarrow> buckets_page" where
  "buckets_page_initial settings params st =
     \<lparr>bp_settings = settings, bp_params = params, bp_search_input = [],
      bp_pins = mount_pins (apiBaseUrl settings) st, bp_reconciled = None, bp_listed = idle_query,
      bp_pinned = idle_query, bp_sites = idle_query, bp_creating = False, bp_deleting = [],
      bp_removed_queries = [], bp_toasts = []\<rparr>"

type_synonym 'a buckets_task = "(buckets_page, buckets_mutation, 'a) page_task"

definition normalizeBucketSearch :: "string option \<Rightarrow> string" where
  "normalizeBucketSearch value = trim (nullish value [])"

definition bucket_search :: "buckets_page \<Rightarrow> string" where
  "bucket_search s = normalizeBucketSearch (params_get (bp_params s) ''search'')"

definition buckets_base_key :: "buckets_page \<Rightarrow> string list" where
  "buckets_base_key s = [''buckets'', apiBaseUrl (bp_settings s), bearerToken (bp_settings s)]"

definition buckets_query_key :: "buckets_page \<Rightarrow> string list" where
  "buckets_query_key s = buckets_base_key s @ [bucket_search s]"

definition sites_query_key :: "buckets_page \<Rightarrow> string list" where
  "sites_query_key s = [''sites'', apiBaseUrl (bp_settings s), bearerToken (bp_settings s)]"

definition pinned_ids :: "buckets_page \<Rightarrow> int list" where
  "pinned_ids s = ps_ids (pp_state (bp_pins s))"

definition pinned_query_enabled :: "buckets_page \<Rightarrow> bool" where
  "pinned_query_enabled s \<longleftrightarrow>
     trim (apiBaseUrl (bp_settings s)) \<noteq> [] \<and> bucket_search s \<noteq> [] \<and> length (pinned_ids s) > 0"

definition full_query :: "buckets_page \<Rightarrow> bucket list_query" where
  "full_query s = (if bucket_search s = [] then bp_listed s else bp_pinned s)"

definition full_snapshot :: "buckets_page \<Rightarrow> string list \<times> nat" where
  "full_snapshot s = (buckets_base_key s, lq_updated_at (full_query s))"

section \<open>Effects\<close>

text \<open>Pins of buckets that no longer exist are dropped, once per fresh complete list.\<close>

definition reconcile_effect :: "buckets_page \<Rightarrow> buckets_page" where
  "reconcile_effect s =
     (let q = full_query s
      in case lq_data q of
           Some buckets \<Rightarrow>
             (if lq_success q \<and> lq_fetched_after_mount q \<and> \<not> lq_fetching q \<and>
                 bp_reconciled s \<noteq> Some (full_snapshot s)
              then s\<lparr>bp_reconciled := Some (full_snapshot s),
                     bp_pins := reconcilePins (pins_key (apiBaseUrl (bp_settings s)))
                                  (map bucket_id buckets) (bp_pins s)\<rparr>
              else s)
         | None \<Rightarrow> s)"

definition buckets_page_commit :: "buckets_page \<Rightarrow> buckets_page \<Rightarrow> buckets_page" where
  "buckets_page_commit old s =
     (let s1 = s\<lparr>bp_pins := render_pins (apiBaseUrl (bp_settings s)) (bp_pins s)\<rparr>;
          s2 = (if bucket_search s1 \<noteq> bucket_search old
                then s1\<lparr>bp_search_input := bucket_search s1\<rparr> else s1)
      in reconcile_effect s2)"

section \<open>Mutations\<close>

definition buckets_toast :: "toast \<Rightarrow> buckets_page \<Rightarrow> buckets_page" where
  "buckets_toast m s = s\<lparr>bp_toasts := bp_toasts s @ [m]\<rparr>"

definition createBucketMutation ::
  "buckets_page \<Rightarrow> (buckets_page, buckets_mutation, string, bucket option) mutation_options" where
  "createBucketMutation s =
     \<lparr>mutationFn = (\<lambda>name. api_call (createBucket (bp_settings s) name)),
      onSuccess = (\<lambda>_ _. Update (buckets_toast (ToastSuccess (Key ''toast.bucketCreated'' [])))
         (invalidateQueries [buckets_base_key s])),
      onError = (\<lambda>error _.
         Update (buckets_toast (ToastError (error_text error ''errors.createBucket''))) (Return ())),
      onSettled = Return ()\<rparr>"

text \<open>\<open>useDeleteBucket\<close>; its two invalidations run together.\<close>

definition deleteBucketMutation ::
  "buckets_page \<Rightarrow> (buckets_page, buckets_mutation, string \<times> int option, unit option) mutation_options" where
  "deleteBucketMutation s =
     \<lparr>mutationFn = (\<lambda>(name, bucketId). api_call (deleteBucket (bp_settings s) name)),
      onSuccess = (\<lambda>(name, bucketId) _.
         Update (\<lambda>now. case bucketId of
                   None \<Rightarrow> now
                 | Some i \<Rightarrow> now\<lparr>bp_pins :=
                     removePin (pins_key (apiBaseUrl (bp_settings s))) i (bp_pins now)\<rparr>)
           (Update (\<lambda>now. now\<lparr>bp_removed_queries := bp_removed_queries now @
                      [[''explorer-entries'', apiBaseUrl (bp_settings s), bearerToken (bp_settings s), name]]\<rparr>)
             (Update (buckets_toast (ToastSuccess (Key ''toast.bucketDeleted'' [])))
               (invalidateQueries [buckets_base_key s, sites_query_key s])))),
      onError = (\<lambda>error _.
         Update (buckets_toast (ToastError (error_text error ''errors.deleteBucket''))) (Return ())),
      onSettled = Return ()\<rparr>"

section \<open>Handlers\<close>

definition handleCreateBucket :: "string \<Rightarrow> unit buckets_task" where
  "handleCreateBucket name = mutateAsync (CreateBucketM name)"

definition bucket_named :: "string \<Rightarrow> bucket list option \<Rightarrow> bucket option" where
  "bucket_named name bs = Option.bind bs (array_find (\<lambda>b. bucket_name b = name))"

definition handleDeleteBucket :: "buckets_page \<Rightarrow> string \<Rightarrow> unit buckets_task" where
  "handleDeleteBucket s name =
     (let bucket = nullish_opt (bucket_named name (lq_data (full_query s)))
                     (bucket_named name (lq_data (bp_listed s)))
      in mutateAsync (DeleteBucketM name (map_option bucket_id bucket)))"

definition updateBucketSearch :: "string \<Rightarrow> buckets_page \<Rightarrow> buckets_page" where
  "updateBucketSearch nextSearch s = s\<lparr>bp_params := apply_updates [(''search'', nextSearch)] (bp_params s)\<rparr>"

definition handleBucketSearchSubmit :: "buckets_page \<Rightarrow> buckets_page" where
  "handleBucketSearchSubmit s = updateBucketSearch (trim (bp_search_input s)) s"

definition handleRefreshBuckets :: "buckets_page \<Rightarrow> unit buckets_task" where
  "handleRefreshBuckets s = invalidateQueries [buckets_base_key s, sites_query_key s]"

section \<open>Dialogs\<close>

text \<open>\<open>CreateBucketForm.tsx\<close>: closing forgets the name unless a creation is running.\<close>

definition createBucketOpenChange :: "bool \<Rightarrow> bool \<Rightarrow> name_dialog \<Rightarrow> name_dialog" where
  "createBucketOpenChange pending nextOpen d =
     (let d1 = d\<lparr>nd_open := nextOpen\<rparr> in if \<not> nextOpen \<and> \<not> pending then d1\<lparr>nd_name := []\<rparr> else d1)"

definition create_bucket_submit ::
  "(string \<Rightarrow> (name_dialog \<times> 's, 'm, unit) page_task) \<Rightarrow> name_dialog
    \<Rightarrow> (name_dialog \<times> 's, 'm, unit) page_task" where
  "create_bucket_submit onSubmit d =
     (if \<not> name_dialog_ready d then Return ()
      else plain_submit reset_name_dialog (onSubmit (name_dialog_value d)))"

interpretation create_bucket_form: submit_dialog name_dialog_ready name_dialog_value
    reset_name_dialog False create_bucket_submit
  by unfold_locales (simp_all add: create_bucket_submit_def exec_plain_submit)

text \<open>\<open>DeleteBucketButton\<close>: the name of the bucket must be typed.\<close>

record delete_bucket_dialog =
  db_open :: bool
  db_confirmation :: string

definition delete_bucket_matches :: "string \<Rightarrow> delete_bucket_dialog \<Rightarrow> bool" where
  "delete_bucket_matches name d \<longleftrightarrow> trim (db_confirmation d) = name"

definition deleteBucketOpenChange :: "bool \<Rightarrow> delete_bucket_dialog \<Rightarrow> delete_bucket_dialog" where
  "deleteBucketOpenChange nextOpen d = d\<lparr>db_open := nextOpen, db_confirmation := []\<rparr>"

definition close_delete_bucket :: "delete_bucket_dialog \<Rightarrow> delete_bucket_dialog" where
  "close_delete_bucket d = d\<lparr>db_open := False\<rparr>"

definition delete_bucket_submit ::
  "string \<Rightarrow> (string \<Rightarrow> (delete_bucket_dialog \<times> 's, 'm, unit) page_task) \<Rightarrow> delete_bucket_dialog
    \<Rightarrow> (delete_bucket_dialog \<times> 's, 'm, unit) page_task" where
  "delete_bucket_submit name onDelete d =
     (if \<not> delete_bucket_matches name d then Return ()
      else try_submit close_delete_bucket (onDelete name))"

interpretation delete_bucket_form: submit_dialog "delete_bucket_matches name" "\<lambda>_. name"
    close_delete_bucket True "delete_bucket_submit name" for name
  by unfold_locales (simp_all add: delete_bucket_submit_def exec_try_submit)

section \<open>Cards\<close>

text \<open>The loop that groups the sites by their bucket.\<close>

type_synonym sites_by_bucket = "(string \<times> site list) list"

definition push_site :: "site \<Rightarrow> sites_by_bucket \<Rightarrow> thrown + sites_by_bucket" where
  "push_site s obj =
     (case object_get obj (site_bucket s) of
        None \<Rightarrow> Inr (AList.update (site_bucket s) [s] obj)
      | Some (Own xs) \<Rightarrow> Inr (AList.update (site_bucket s) (xs @ [s]) obj)
      | Some (Inherited _) \<Rightarrow> Inl (not_a_function ''push''))"

fun group_sites :: "site list \<Rightarrow> sites_by_bucket \<Rightarrow> thrown + sites_by_bucket" where
  "group_sites [] obj = Inr obj"
| "group_sites (s # ss) obj =
     (case push_site s obj of Inl e \<Rightarrow> Inl e | Inr obj' \<Rightarrow> group_sites ss obj')"

text \<open>
  The sites a card lists: \<open>sitesByBucket[bucket.name] ?? []\<close>, then \<open>sites.length > 0\<close> and
  \<open>sites.map\<close>, which are evaluated when the card renders.
\<close>

definition card_sites :: "sites_by_bucket \<Rightarrow> string \<Rightarrow> thrown + site list" where
  "card_sites obj name =
     (case object_get obj name of
        None \<Rightarrow> Inr []
      | Some (Own xs) \<Rightarrow> Inr xs
      | Some (Inherited len) \<Rightarrow> if 0 < len then Inl (not_a_function ''map'') else Inr [])"

record bucket_card =
  bc_bucket :: bucket
  bc_pinned :: bool
  bc_delete_disabled :: bool
  bc_delete_pending :: bool
  bc_sites :: "site list"

definition bucket_card_view ::
  "buckets_page \<Rightarrow> sites_by_bucket \<Rightarrow> bool \<Rightarrow> bucket \<Rightarrow> thrown + bucket_card" where
  "bucket_card_view s obj pinned b =
     (case card_sites obj (bucket_name b) of
        Inl e \<Rightarrow> Inl e
      | Inr sites \<Rightarrow>
          Inr \<lparr>bc_bucket = b, bc_pinned = pinned,
               bc_delete_disabled = (lq_loading (bp_sites s) \<or> lq_error (bp_sites s) \<noteq> None \<or> bp_deleting s \<noteq> []),
               bc_delete_pending = (bp_deleting s = bucket_name b), bc_sites = sites\<rparr>)"

text \<open>Rendering a list of components: the first one that throws ends the render.\<close>

fun render_all :: "('a \<Rightarrow> thrown + 'b) \<Rightarrow> 'a list \<Rightarrow> thrown + 'b list" where
  "render_all f [] = Inr []"
| "render_all f (x # xs) =
     (case f x of Inl e \<Rightarrow> Inl e
      | Inr y \<Rightarrow> (case render_all f xs of Inl e \<Rightarrow> Inl e | Inr ys \<Rightarrow> Inr (y # ys)))"

text \<open>\<open>new Map(...)\<close> keeps the last bucket of an id; the pinned ones are shown in pin order.\<close>

definition pinned_buckets :: "buckets_page \<Rightarrow> bucket list" where
  "pinned_buckets s =
     List.map_filter (map_of (rev (map (\<lambda>b. (bucket_id b, b)) (nullish (lq_data (full_query s)) []))))
       (pinned_ids s)"

definition listed_buckets :: "buckets_page \<Rightarrow> bucket list" where
  "listed_buckets s = nullish (lq_data (bp_listed s)) []"

record buckets_panel =
  bv_pinned :: "bucket_card list"
  bv_listed :: "bucket_card list"
  bv_total :: nat
  bv_refresh_pending :: bool
  bv_no_results :: bool

definition buckets_view :: "buckets_page \<Rightarrow> thrown + buckets_panel" where
  "buckets_view s =
     (case group_sites (nullish (lq_data (bp_sites s)) []) [] of
        Inl e \<Rightarrow> Inl e
      | Inr obj \<Rightarrow>
          (case render_all (bucket_card_view s obj True) (pinned_buckets s) of
             Inl e \<Rightarrow> Inl e
           | Inr pinned \<Rightarrow>
               (case render_all (\<lambda>b. bucket_card_view s obj (bucket_id b \<in> set (pinned_ids s)) b)
                       (listed_buckets s) of
                  Inl e \<Rightarrow> Inl e
                | Inr listed \<Rightarrow>
                    Inr \<lparr>bv_pinned = pinned, bv_listed = listed, bv_total = length (listed_buckets s),
                         bv_refresh_pending = (lq_fetching (bp_listed s) \<or> lq_fetching (bp_pinned s) \<or>
                           lq_fetching (bp_sites s)),
                         bv_no_results = (\<not> lq_loading (bp_listed s) \<and> listed_buckets s = [] \<and>
                           bucket_search s \<noteq> [])\<rparr>)))"

end
