(* ===== verification/BucketsProps.thy ===== *)
theory BucketsProps
  imports BucketsPage
begin

text \<open>
  Properties of the page of buckets: which cards are shown with which sites and when the render
  throws, the pins after a complete list has arrived, and the confirmation of a deletion.
\<close>

section \<open>Grouping\<close>

definition inherited :: "string \<Rightarrow> bool" where
  "inherited name \<longleftrightarrow> map_of object_prototype name \<noteq> None"

definition sites_of :: "string \<Rightarrow> site list \<Rightarrow> site list" where
  "sites_of name ss = filter (\<lambda>x. site_bucket x = name) ss"

definition own_only :: "sites_by_bucket \<Rightarrow> bool" where
  "own_only obj \<longleftrightarrow> (\<forall>k. inherited k \<longrightarrow> map_of obj k = None)"

lemma push_site_own:
  assumes "own_only obj" "\<not> inherited (site_bucket x)"
  shows "\<exists>obj'. push_site x obj = Inr obj' \<and> own_only obj' \<and>
    (\<forall>k. map_of obj' k =
       (if k = site_bucket x then Some (nullish (map_of obj k) [] @ [x]) else map_of obj k))"
  using assms
  by (cases "map_of obj (site_bucket x)")
     (auto simp: push_site_def object_get_def own_only_def inherited_def update_conv')

lemma push_site_inherited:
  "own_only obj \<Longrightarrow> inherited (site_bucket x) \<Longrightarrow> push_site x obj = Inl (not_a_function ''push'')"
  by (auto simp: push_site_def object_get_def own_only_def inherited_def)

lemma group_sites_throws:
  "own_only obj \<Longrightarrow> (\<exists>e. group_sites ss obj = Inl e) \<longleftrightarrow> (\<exists>x \<in> set ss. inherited (site_bucket x))"
proof (induction ss arbitrary: obj)
  case (Cons x ss)
  show ?case
  proof (cases "inherited (site_bucket x)")
    case True
    with Cons.prems push_site_inherited show ?thesis by simp
  next
    case False
    with push_site_own [OF Cons.prems] obtain obj' where "push_site x obj = Inr obj'" "own_only obj'" by blast
    with Cons.IH [of obj'] False show ?thesis by simp
  qed
qed simp

lemma group_sites_content:
  "own_only obj \<Longrightarrow> group_sites ss obj = Inr obj' \<Longrightarrow>
     own_only obj' \<and> nullish (map_of obj' k) [] = nullish (map_of obj k) [] @ sites_of k ss"
proof (induction ss arbitrary: obj)
  case (Cons x ss)
  then have "\<not> inherited (site_bucket x)" using push_site_inherited by (cases "inherited (site_bucket x)") auto
  with push_site_own [OF Cons.prems(1)] Cons.prems(2) Cons.IH show ?case
    by (fastforce simp: sites_of_def)
qed (simp add: sites_of_def)

lemma card_sites_own:
  "own_only obj \<Longrightarrow> \<not> inherited name \<Longrightarrow> card_sites obj name = Inr (nullish (map_of obj name) [])"
  by (auto simp: card_sites_def object_get_def inherited_def split: option.split)

lemma card_sites_throws:
  "own_only obj \<Longrightarrow> (\<exists>e. card_sites obj name = Inl e) \<longleftrightarrow> (\<exists>len > 0. map_of object_prototype name = Some len)"
  by (auto simp: card_sites_def object_get_def own_only_def inherited_def split: option.splits if_splits)

lemma card_sites_content:
  assumes "own_only obj" "card_sites obj name = Inr xs"
  shows "xs = nullish (map_of obj name) []"
  using assms
  by (auto simp: card_sites_def object_get_def own_only_def inherited_def split: option.splits if_splits)

section \<open>Rendering\<close>

lemma render_all_throws: "(\<exists>e. render_all f xs = Inl e) \<longleftrightarrow> (\<exists>x \<in> set xs. \<exists>e. f x = Inl e)"
  by (induction xs) (auto split: sum.splits)

lemma render_all_map: "render_all f xs = Inr ys \<Longrightarrow> list_all2 (\<lambda>x y. f x = Inr y) xs ys"
  by (induction xs arbitrary: ys) (auto split: sum.splits)

lemma card_throws:
  "(\<exists>e. bucket_card_view s obj p b = Inl e) \<longleftrightarrow> (\<exists>e. card_sites obj (bucket_name b) = Inl e)"
  by (auto simp: bucket_card_view_def split: sum.splits)

lemma card_content:
  "bucket_card_view s obj p b = Inr c \<Longrightarrow> bc_bucket c = b \<and> card_sites obj (bucket_name b) = Inr (bc_sites c)"
  by (auto simp: bucket_card_view_def split: sum.splits)

lemma cards_content:
  assumes "own_only obj" "render_all (\<lambda>b. bucket_card_view s obj (p b) b) bs = Inr cs"
  shows "map bc_bucket cs = bs \<and>
    list_all (\<lambda>c. bc_sites c = nullish (map_of obj (bucket_name (bc_bucket c))) []) cs"
  using render_all_map [OF assms(2)]
  by (induction rule: list_all2_induct) (auto dest!: card_content card_sites_content [OF assms(1)])

lemma cards_throw:
  assumes "own_only obj"
  shows "(\<exists>e. render_all (\<lambda>b. bucket_card_view s obj (p b) b) bs = Inl e) \<longleftrightarrow>
    (\<exists>b \<in> set bs. \<exists>len > 0. map_of object_prototype (bucket_name b) = Some len)"
  unfolding render_all_throws card_throws using card_sites_throws [OF assms] by blast

lemma own_only_Nil [simp]: "own_only []"
  by (simp add: own_only_def)

definition page_sites :: "buckets_page \<Rightarrow> site list" where
  "page_sites s = nullish (lq_data (bp_sites s)) []"

text \<open>
  C27. The cards. The page renders unless a site belongs to a bucket that is named like a member
  of \<open>Object.prototype\<close>, or a bucket on the page is named like one that has a length (a bucket
  \<open>constructor\<close> does): then the render throws and there is no page. Otherwise every bucket of
  the list has one card, in order, and every card shows exactly the sites of its bucket.
\<close>

theorem buckets_page_renders:
  "((\<exists>v. buckets_view s = Inr v) \<longleftrightarrow>
      \<not> ((\<exists>x \<in> set (page_sites s). inherited (site_bucket x)) \<or>
         (\<exists>b \<in> set (pinned_buckets s @ listed_buckets s).
            \<exists>len > 0. map_of object_prototype (bucket_name b) = Some len))) \<and>
   (\<forall>v. buckets_view s = Inr v \<longrightarrow>
      map bc_bucket (bv_pinned v) = pinned_buckets s \<and> map bc_bucket (bv_listed v) = listed_buckets s \<and>
      list_all (\<lambda>c. bc_sites c = sites_of (bucket_name (bc_bucket c)) (page_sites s)) (bv_pinned v @ bv_listed v))"
proof (cases "group_sites (page_sites s) []")
  case (Inl e)
  with group_sites_throws [of "[]" "page_sites s"] show ?thesis
    by (auto simp: buckets_view_def page_sites_def [symmetric])
next
  case (Inr obj)
  from group_sites_content [OF own_only_Nil Inr] have own: "own_only obj"
    and content: "nullish (map_of obj k) [] = sites_of k (page_sites s)" for k by auto
  have none: "\<not> (\<exists>x \<in> set (page_sites s). inherited (site_bucket x))"
    using group_sites_throws [OF own_only_Nil, of "page_sites s"] Inr by auto
  let ?pinned = "render_all (bucket_card_view s obj True) (pinned_buckets s)"
  let ?listed = "render_all (\<lambda>b. bucket_card_view s obj (bucket_id b \<in> set (pinned_ids s)) b) (listed_buckets s)"
  note throws = cards_throw [OF own, of s "\<lambda>_. True" "pinned_buckets s"]
    cards_throw [OF own, of s "\<lambda>b. bucket_id b \<in> set (pinned_ids s)" "listed_buckets s"]
  define bad where "bad \<longleftrightarrow> (\<exists>b \<in> set (pinned_buckets s @ listed_buckets s).
      \<exists>len > 0. map_of object_prototype (bucket_name b) = Some len)"
  have bad: "bad \<longleftrightarrow> (\<exists>e. ?pinned = Inl e) \<or> (\<exists>e. ?listed = Inl e)"
    unfolding throws bad_def by auto
  show ?thesis
  proof (cases "(\<exists>e. ?pinned = Inl e) \<or> (\<exists>e. ?listed = Inl e)")
    case True
    then have "\<not> (\<exists>v. buckets_view s = Inr v)"
      using Inr by (auto simp: buckets_view_def page_sites_def split: sum.splits)
    with True show ?thesis unfolding bad_def [symmetric] bad by blast
  next
    case False
    then obtain ps ls where cs: "?pinned = Inr ps" "?listed = Inr ls"
      by (metis obj_sumE)
    then obtain v where v: "buckets_view s = Inr v" "bv_pinned v = ps" "bv_listed v = ls"
      using Inr by (auto simp: buckets_view_def page_sites_def)
    from cards_content [OF own, of s "\<lambda>_. True", OF cs(1)] cards_content [OF own cs(2)] content
    have "map bc_bucket ps = pinned_buckets s \<and> map bc_bucket ls = listed_buckets s \<and>
      list_all (\<lambda>c. bc_sites c = sites_of (bucket_name (bc_bucket c)) (page_sites s)) (ps @ ls)" by simp
    then show ?thesis using none v False unfolding bad_def [symmetric] bad by auto
  qed
qed

text \<open>A page whose list is one bucket and whose browser has nothing stored.\<close>

definition one_bucket_page :: "string \<Rightarrow> buckets_page" where
  "one_bucket_page name =
     (buckets_page_initial \<lparr>apiBaseUrl = [], bearerToken = []\<rparr> []
        \<lparr>items = (\<lambda>_. None), readable = True, writable = True\<rparr>)
       \<lparr>bp_listed := idle_query\<lparr>lq_data := Some [\<lparr>bucket_id = 1, bucket_name = name, bucket_created_at = [],
          bucket_updated_at = []\<rparr>]\<rparr>\<rparr>"

lemma one_bucket_page_parts:
  "page_sites (one_bucket_page name) = []" "pinned_buckets (one_bucket_page name) = []"
  "map bucket_name (listed_buckets (one_bucket_page name)) = [name]"
  by (simp_all add: one_bucket_page_def buckets_page_initial_def page_sites_def idle_query_def
      pinned_buckets_def pinned_ids_def mount_pins_def notify_read_failure_def loadPins_def
      readPinnedIds_def getItem_def parse_pins_def listed_buckets_def map_filter_simps)

theorem buckets_page_renders_witness:
  "(\<exists>v. buckets_view (one_bucket_page ''media'') = Inr v \<and> length (bv_listed v) = 1) \<and>
   \<not> (\<exists>v. buckets_view (one_bucket_page ''constructor'') = Inr v)"
proof -
  have parts: "listed_buckets (one_bucket_page name) =
      [\<lparr>bucket_id = 1, bucket_name = name, bucket_created_at = [], bucket_updated_at = []\<rparr>]" for name
    by (simp add: one_bucket_page_def listed_buckets_def idle_query_def)
  have "map_of object_prototype ''media'' = None" "map_of object_prototype ''constructor'' = Some 1"
    by code_simp+
  then have renders: "\<exists>v. buckets_view (one_bucket_page ''media'') = Inr v"
    and "\<not> (\<exists>v. buckets_view (one_bucket_page ''constructor'') = Inr v)"
    using buckets_page_renders [of "one_bucket_page ''media''"]
      buckets_page_renders [of "one_bucket_page ''constructor''"]
    by (simp_all add: one_bucket_page_parts parts)
  moreover from renders obtain v where v: "buckets_view (one_bucket_page ''media'') = Inr v" by blast
  moreover from v buckets_page_renders [of "one_bucket_page ''media''"]
  have "map bc_bucket (bv_listed v) = listed_buckets (one_bucket_page ''media'')" by blast
  from arg_cong [OF this, of length] have "length (bv_listed v) = 1" by (simp add: parts)
  ultimately show ?thesis by blast
qed

section \<open>Pins of buckets that exist\<close>

lemma updatePins_available:
  assumes "pins_inv p" "ps_key (pp_state p) = key" "\<not> ps_read_failed (pp_state p)"
    and "readable (pp_storage p)" "writable (pp_storage p)" and "\<And>ids. valid_pins ids \<Longrightarrow> valid_pins (f ids)"
  shows "ps_ids (pp_state (updatePins key f p)) = f (ps_ids (pp_state p)) \<and>
    stored_pins (updatePins key f p) key = f (ps_ids (pp_state p))"
proof -
  have stored: "ps_ids (pp_state p) = stored_pins p key" using assms(1-3) by (auto simp: pins_inv_def)
  have inv: "pins_inv (updatePins key f p)" using updatePins_inv [OF assms(1,6)] .
  show ?thesis
  proof (cases rule: updatePins_cases [of key f p])
    case fails
    with assms(4,5) show ?thesis by simp
  next
    case same
    with stored show ?thesis by simp
  next
    case (writes st)
    with assms(2) have s: "pp_state (updatePins key f p) =
        \<lparr>ps_key = key, ps_ids = f (stored_pins p key), ps_read_failed = False\<rparr>" by simp
    with inv have "f (stored_pins p key) = stored_pins (updatePins key f p) key" by (simp add: pins_inv_def)
    with s stored show ?thesis by simp
  qed
qed

lemma map_filter_ids:
  assumes "\<And>i b. f i = Some b \<Longrightarrow> bucket_id b = i"
  shows "map bucket_id (List.map_filter f is) = filter (\<lambda>i. f i \<noteq> None) is"
  using assms by (induction "is") (auto simp: map_filter_simps split: option.split)

lemma reconcile_frame:
  "full_query (s\<lparr>bp_reconciled := r, bp_pins := p\<rparr>) = full_query s"
  "full_snapshot (s\<lparr>bp_reconciled := r, bp_pins := p\<rparr>) = full_snapshot s"
  by (simp_all add: full_query_def full_snapshot_def bucket_search_def buckets_base_key_def)

text \<open>
  C28. When a fresh complete list of buckets has arrived, and the storage works, the pins that
  remain are exactly those of buckets on that list, in their order, on the screen and in the
  storage; each of them is shown as its bucket; and the effect does this once per list.
\<close>

theorem bucket_pins_reconciled:
  assumes "pins_inv (bp_pins s)"
    and "ps_key (pp_state (bp_pins s)) = pins_key (apiBaseUrl (bp_settings s))"
    and "\<not> ps_read_failed (pp_state (bp_pins s))"
    and "readable (pp_storage (bp_pins s))" and "writable (pp_storage (bp_pins s))"
    and "lq_data (full_query s) = Some bs" and "lq_success (full_query s)"
    and "lq_fetched_after_mount (full_query s)" and "\<not> lq_fetching (full_query s)"
    and "bp_reconciled s \<noteq> Some (full_snapshot s)"
  shows "let s' = reconcile_effect s; left = filter (\<lambda>i. i \<in> bucket_id ` set bs) (pinned_ids s)
    in pinned_ids s' = left \<and> stored_pins (bp_pins s') (pins_key (apiBaseUrl (bp_settings s))) = left \<and>
       map bucket_id (pinned_buckets s') = left \<and> reconcile_effect s' = s'"
proof -
  let ?key = "pins_key (apiBaseUrl (bp_settings s))" and ?ids = "map bucket_id bs"
  let ?s' = "s\<lparr>bp_reconciled := Some (full_snapshot s), bp_pins := reconcilePins ?key ?ids (bp_pins s)\<rparr>"
  let ?left = "filter (\<lambda>i. i \<in> bucket_id ` set bs) (pinned_ids s)"
  have s': "reconcile_effect s = ?s'" using assms(6-10) by (simp add: reconcile_effect_def Let_def)
  have "ps_ids (pp_state (reconcilePins ?key ?ids (bp_pins s))) = ?left \<and>
      stored_pins (reconcilePins ?key ?ids (bp_pins s)) ?key = ?left"
    unfolding reconcilePins_def pinned_ids_def set_map
    by (rule updatePins_available [OF assms(1-5)]) (rule valid_pins_filter)
  then have ids: "pinned_ids ?s' = ?left" "stored_pins (bp_pins ?s') ?key = ?left"
    by (simp_all add: pinned_ids_def)
  let ?look = "map_of (rev (map (\<lambda>b. (bucket_id b, b)) bs))"
  have look: "bucket_id b = i" if "?look i = Some b" for i b using map_of_SomeD [OF that] by auto
  have known: "(?look i \<noteq> None) = (i \<in> bucket_id ` set bs)" for i
    by (simp add: map_of_eq_None_iff image_image)
  have "pinned_buckets ?s' = List.map_filter ?look (pinned_ids ?s')"
    unfolding pinned_buckets_def reconcile_frame assms(6) nullish_simps by (rule refl)
  then have "map bucket_id (pinned_buckets ?s') = filter (\<lambda>i. ?look i \<noteq> None) (pinned_ids ?s')"
    using map_filter_ids [of ?look, OF look] by (simp only:)
  then have "map bucket_id (pinned_buckets ?s') = ?left" unfolding ids(1) known by simp
  moreover have "reconcile_effect ?s' = ?s'"
    using assms(6) by (simp add: reconcile_effect_def Let_def reconcile_frame)
  ultimately show ?thesis using ids unfolding Let_def s' by simp
qed

theorem bucket_pins_reconciled_witness:
  "\<exists>s. pinned_ids s = [1, 2] \<and> pinned_ids (reconcile_effect s) = [2]"
proof -
  let ?st = "\<lparr>items = (\<lambda>_. Some (JsonText (pins_json [1, 2]))), readable = True, writable = True\<rparr>"
  let ?b = "\<lparr>bucket_id = 2, bucket_name = ''b'', bucket_created_at = [], bucket_updated_at = []\<rparr>"
  let ?q = "idle_query\<lparr>lq_data := Some [?b], lq_success := True, lq_fetched_after_mount := True\<rparr>"
  let ?s = "(buckets_page_initial \<lparr>apiBaseUrl = [], bearerToken = []\<rparr> [] ?st)\<lparr>bp_listed := ?q\<rparr>"
  have parsed: "parse_pins (Some (JsonText (pins_json [1, 2]))) = [1, 2]"
    by (simp add: parse_pins_def pins_json_def pinned_id_JInt safe_id_def uniq_def
        del: of_int_numeral of_int_1)
  have pins: "bp_pins ?s = mount_pins [] ?st" by (simp add: buckets_page_initial_def)
  then have state: "pp_state (bp_pins ?s) = \<lparr>ps_key = pins_key [], ps_ids = [1, 2], ps_read_failed = False\<rparr>"
    "pp_storage (bp_pins ?s) = ?st"
    by (simp_all add: mount_pins_def loadPins_def readPinnedIds_def getItem_def parsed notify_read_failure_def)
  have full: "full_query ?s = ?q"
    by (simp add: full_query_def bucket_search_def buckets_page_initial_def normalizeBucketSearch_def params_get_def)
  have rest: "pins_inv (bp_pins ?s)" "bp_reconciled ?s = None" "bp_settings ?s = \<lparr>apiBaseUrl = [], bearerToken = []\<rparr>"
    using mount_inv by (simp_all add: pins buckets_page_initial_def)
  have "pinned_ids ?s = [1, 2]" unfolding pinned_ids_def state by simp
  moreover have "pinned_ids (reconcile_effect ?s) = [2]"
    using bucket_pins_reconciled [of ?s "[?b]"] rest full state calculation by (simp add: idle_query_def Let_def)
  ultimately show ?thesis by blast
qed

section \<open>Deleting a bucket\<close>

text \<open>
  C29. A bucket is deleted only after its name has been typed: with another text nothing is
  sent. With the name, one mutation is started, for that bucket and, where names are unique,
  with the id under which it is pinned; the confirmation closes exactly when it resolves. When
  the deletion has succeeded, the pin of that bucket is gone, its cached listing is dropped,
  and the lists of buckets and sites are refetched.
\<close>

theorem delete_bucket_flow:
  assumes "lq_data (full_query s) = Some bs" and "b \<in> set bs" and "bucket_name b = name"
    and "distinct (map bucket_name bs)"
  shows "(case exec (delete_bucket_submit name (\<lambda>v. on_page (handleDeleteBucket s v)) d) reply
        (\<lambda>k. apsnd (env k)) n (d, now) of
      ((d', now'), sent, outcome) \<Rightarrow>
        (if trim (db_confirmation d) \<noteq> name then sent = [] \<and> d' = d \<and> now' = now
         else sent = [MutateAsync (DeleteBucketM name (Some (bucket_id b)))] \<and>
           d' = (case rep_done (reply n) of Inl _ \<Rightarrow> d | Inr _ \<Rightarrow> close_delete_bucket d))) \<and>
    (case exec (onSuccess (deleteBucketMutation s) (name, Some i) r) reply undisturbed n now of
      (now', sent, outcome) \<Rightarrow>
        bp_pins now' = removePin (pins_key (apiBaseUrl (bp_settings s))) i (bp_pins now) \<and>
        bp_removed_queries now' = bp_removed_queries now @
          [[''explorer-entries'', apiBaseUrl (bp_settings s), bearerToken (bp_settings s), name]] \<and>
        sent = [InvalidateQueries [buckets_base_key s, sites_query_key s]])"
proof -
  have "array_find (\<lambda>x. bucket_name x = name) bs = Some b"
    using assms(2-4) by (intro array_find_unique) (auto simp: distinct_map inj_on_def)
  then have handler: "handleDeleteBucket s name = mutateAsync (DeleteBucketM name (Some (bucket_id b)))"
    using assms(1) by (simp add: handleDeleteBucket_def bucket_named_def Let_def)
  have "case exec (delete_bucket_submit name (\<lambda>v. on_page (handleDeleteBucket s v)) d) reply
        (\<lambda>k. apsnd (env k)) n (d, now) of
      ((d', now'), sent, outcome) \<Rightarrow>
        (if trim (db_confirmation d) \<noteq> name then sent = [] \<and> d' = d \<and> now' = now
         else sent = [MutateAsync (DeleteBucketM name (Some (bucket_id b)))] \<and>
           d' = (case rep_done (reply n) of Inl _ \<Rightarrow> d | Inr _ \<Rightarrow> close_delete_bucket d))"
  proof (cases "delete_bucket_matches name d")
    case False
    then show ?thesis
      by (simp add: delete_bucket_form.not_ready) (simp add: delete_bucket_matches_def)
  next
    case True
    then show ?thesis
      unfolding delete_bucket_form.run_in_page [OF True] handler exec_await_done
      by (auto simp: delete_bucket_matches_def split: sum.split)
  qed
  then show ?thesis
    by (simp add: deleteBucketMutation_def exec_await_done buckets_toast_def split: prod.splits)
qed

theorem delete_bucket_flow_witness:
  "case exec (delete_bucket_submit ''media'' (\<lambda>v. on_page (handleDeleteBucket (one_bucket_page ''media'') v))
        \<lparr>db_open = True, db_confirmation = ''medi''\<rparr>)
      (\<lambda>_. \<lparr>rep_http = Inl (ThrownOther None), rep_done = Inr ()\<rparr>) (\<lambda>k. apsnd (undisturbed k)) 0
      (\<lparr>db_open = True, db_confirmation = ''medi''\<rparr>, one_bucket_page ''media'') of
    ((d', now'), sent, outcome) \<Rightarrow> sent = [] \<and> db_open d'"
proof -
  let ?b = "\<lparr>bucket_id = 1, bucket_name = ''media'', bucket_created_at = [], bucket_updated_at = []\<rparr>"
  have full: "lq_data (full_query (one_bucket_page ''media'')) = Some [?b]"
    by (simp add: one_bucket_page_def full_query_def bucket_search_def buckets_page_initial_def
        normalizeBucketSearch_def params_get_def)
  have "trim ''medi'' \<noteq> ''media''" by code_simp
  with delete_bucket_flow [OF full, where b = ?b and name = "''media''" and
      d = "\<lparr>db_open = True, db_confirmation = ''medi''\<rparr>" and env = undisturbed and n = 0 and
      reply = "\<lambda>_. \<lparr>rep_http = Inl (ThrownOther None), rep_done = Inr ()\<rparr>" and
      now = "one_bucket_page ''media''"]
  show ?thesis by (auto split: prod.splits)
qed

end
