(* ===== verification/SiteForms.thy ===== *)
theory SiteForms
  imports SubmitDialog ExplorerModel
begin

text \<open>
  Model of \<open>frontend/src/features/sites/SiteFormDialog.tsx\<close>, of the two dialogs of the explorer
  that use it (\<open>PublishSiteDialog.tsx\<close>, \<open>PublishObjectSiteDialog.tsx\<close>), and of
  \<open>UploadAndPublishSiteDialog.tsx\<close>. Both are interpretations of the contract of a form
  (\<open>SubmitDialog\<close>). The lemmas say which texts survive the way through the domains field and
  which values an unchanged form sends.
\<close>

section \<open>Lists of domains\<close>

text \<open>\<open>domainsInput.split(",").map(trim).filter(Boolean)\<close> and \<open>domains.join(", ")\<close>.\<close>

definition comma :: char where
  "comma = CHR '',''"

definition parse_domains :: "string \<Rightarrow> string list" where
  "parse_domains s = filter_truthy (map trim (split_on comma s))"

definition show_domains :: "string list \<Rightarrow> string" where
  "show_domains ds = join '', '' ds"

section \<open>SiteFormDialog\<close>

record site_form_value =
  sf_bucket :: string
  sf_root_prefix :: string
  sf_domains :: "string list"
  sf_enabled :: bool
  sf_index_document :: string
  sf_error_document :: string
  sf_spa_fallback :: bool

text \<open>\<open>Partial<SiteFormValue>\<close>: every member may be absent.\<close>

record site_form_partial =
  sx_bucket :: "string option"
  sx_root_prefix :: "string option"
  sx_domains :: "string list option"
  sx_enabled :: "bool option"
  sx_index_document :: "string option"
  sx_error_document :: "string option"
  sx_spa_fallback :: "bool option"

definition no_site_form :: site_form_partial where
  "no_site_form =
     \<lparr>sx_bucket = None, sx_root_prefix = None, sx_domains = None, sx_enabled = None,
      sx_index_document = None, sx_error_document = None, sx_spa_fallback = None\<rparr>"

definition buildSiteFormValue :: "site_form_partial \<Rightarrow> site_form_value" where
  "buildSiteFormValue v =
     \<lparr>sf_bucket = nullish (sx_bucket v) [], sf_root_prefix = nullish (sx_root_prefix v) [],
      sf_domains = nullish (sx_domains v) [], sf_enabled = nullish (sx_enabled v) True,
      sf_index_document = nullish (sx_index_document v) ''index.html'',
      sf_error_document = nullish (sx_error_document v) [],
      sf_spa_fallback = nullish (sx_spa_fallback v) True\<rparr>"

definition partial_of :: "site_form_value \<Rightarrow> site_form_partial" where
  "partial_of v =
     \<lparr>sx_bucket = Some (sf_bucket v), sx_root_prefix = Some (sf_root_prefix v),
      sx_domains = Some (sf_domains v), sx_enabled = Some (sf_enabled v),
      sx_index_document = Some (sf_index_document v), sx_error_document = Some (sf_error_document v),
      sx_spa_fallback = Some (sf_spa_fallback v)\<rparr>"

definition siteToSiteFormValue :: "site \<Rightarrow> site_form_value" where
  "siteToSiteFormValue x =
     buildSiteFormValue
       \<lparr>sx_bucket = Some (site_bucket x), sx_root_prefix = Some (site_root_prefix x),
        sx_domains = Some (site_domains x), sx_enabled = Some (site_enabled x),
        sx_index_document = Some (site_index_document x),
        sx_error_document = Some (site_error_document x),
        sx_spa_fallback = Some (site_spa_fallback x)\<rparr>"

text \<open>The members that the form shows as text and does not let the user edit.\<close>

record locked_fields =
  lk_bucket :: bool
  lk_root_prefix :: bool
  lk_index_document :: bool

text \<open>
  What the parent passes; the initial value through its JSON text, that is by content.
  \<open>sfp_told\<close>: the parent passes \<open>onOpenChange\<close>.
\<close>

record site_form_props =
  sfp_buckets :: "string list"
  sfp_initial :: site_form_partial
  sfp_locked :: locked_fields
  sfp_open :: "bool option"
  sfp_told :: bool
  sfp_pending :: bool

text \<open>\<open>sd_told\<close> is what the parent was told last.\<close>

record site_form =
  sd_open :: bool
  sd_told :: "bool option"
  sd_value :: site_form_value
  sd_domains_input :: string

definition site_form_initial :: "site_form_props \<Rightarrow> site_form" where
  "site_form_initial p =
     \<lparr>sd_open = False, sd_told = None, sd_value = buildSiteFormValue (sfp_initial p),
      sd_domains_input = []\<rparr>"

definition default_bucket :: "site_form_props \<Rightarrow> string" where
  "default_bucket p = nullish (array_first (sfp_buckets p)) []"

definition site_dialog_open :: "site_form_props \<Rightarrow> site_form \<Rightarrow> bool" where
  "site_dialog_open p d = nullish (sfp_open p) (sd_open d)"

definition site_open_change :: "site_form_props \<Rightarrow> bool \<Rightarrow> site_form \<Rightarrow> site_form" where
  "site_open_change p nextOpen d =
     (if sfp_told p then d\<lparr>sd_told := Some nextOpen\<rparr> else d\<lparr>sd_open := nextOpen\<rparr>)"

text \<open>The effect that fills the form, and the values it depends on.\<close>

definition site_form_deps :: "site_form_props \<Rightarrow> site_form \<Rightarrow> bool \<times> string \<times> bool \<times> site_form_value" where
  "site_form_deps p d =
     (lk_bucket (sfp_locked p), default_bucket p, site_dialog_open p d, buildSiteFormValue (sfp_initial p))"

definition fill_site_form :: "site_form_props \<Rightarrow> site_form \<Rightarrow> site_form" where
  "fill_site_form p d =
     (if \<not> site_dialog_open p d then d
      else (let nextValue = buildSiteFormValue (partial_of (buildSiteFormValue (sfp_initial p)));
                value = (if \<not> lk_bucket (sfp_locked p) \<and> sf_bucket nextValue = [] \<and> default_bucket p \<noteq> []
                         then nextValue\<lparr>sf_bucket := default_bucket p\<rparr> else nextValue)
            in d\<lparr>sd_value := value, sd_domains_input := show_domains (sf_domains value)\<rparr>))"

definition site_form_commit ::
  "site_form_props \<Rightarrow> site_form \<Rightarrow> site_form_props \<Rightarrow> site_form \<Rightarrow> site_form" where
  "site_form_commit p0 d0 p d =
     (if site_form_deps p d \<noteq> site_form_deps p0 d0 then fill_site_form p d else d)"

definition site_form_ready :: "site_form \<Rightarrow> bool" where
  "site_form_ready d \<longleftrightarrow>
     trim (sf_bucket (sd_value d)) \<noteq> [] \<and> length (parse_domains (sd_domains_input d)) > 0"

definition site_form_payload :: "site_form \<Rightarrow> site_form_value" where
  "site_form_payload d =
     (let v = sd_value d
      in v\<lparr>sf_bucket := trim (sf_bucket v), sf_root_prefix := trim (sf_root_prefix v),
           sf_domains := parse_domains (sd_domains_input d),
           sf_index_document := or_else (trim (sf_index_document v)) ''index.html'',
           sf_error_document := trim (sf_error_document v)\<rparr>)"

definition site_form_submit ::
  "site_form_props \<Rightarrow> (site_form_value \<Rightarrow> (site_form \<times> 's, 'm, unit) page_task) \<Rightarrow> site_form
    \<Rightarrow> (site_form \<times> 's, 'm, unit) page_task" where
  "site_form_submit p onSubmit d =
     (if \<not> site_form_ready d then Return ()
      else try_submit (site_open_change p False) (onSubmit (site_form_payload d)))"

interpretation site_form: submit_dialog site_form_ready site_form_payload
    "site_open_change p False" True "site_form_submit p" for p
  by unfold_locales (simp_all add: site_form_submit_def exec_try_submit)

section \<open>Publishing from the explorer\<close>

definition publish_site_props ::
  "string \<Rightarrow> string \<Rightarrow> bool option \<Rightarrow> bool \<Rightarrow> bool \<Rightarrow> site_form_props" where
  "publish_site_props bucket folder openProp told pending =
     \<lparr>sfp_buckets = [],
      sfp_initial = \<lparr>sx_bucket = Some bucket, sx_root_prefix = Some folder, sx_domains = Some [],
        sx_enabled = Some True, sx_index_document = Some ''index.html'', sx_error_document = Some [],
        sx_spa_fallback = Some True\<rparr>,
      sfp_locked = \<lparr>lk_bucket = True, lk_root_prefix = True, lk_index_document = False\<rparr>,
      sfp_open = openProp, sfp_told = told, sfp_pending = pending\<rparr>"

definition publish_site_value :: "site_form_value \<Rightarrow> publish_value" where
  "publish_site_value v =
     \<lparr>pv_domains = sf_domains v, pv_enabled = sf_enabled v, pv_index_document = sf_index_document v,
      pv_error_document = sf_error_document v, pv_spa_fallback = sf_spa_fallback v\<rparr>"

definition resolveSiteLocation :: "string \<Rightarrow> string \<times> string" where
  "resolveSiteLocation objectKey =
     (case last_index_of slash objectKey of
        None \<Rightarrow> ([], objectKey)
      | Some lastSlashIndex \<Rightarrow>
          (take (lastSlashIndex + 1) objectKey, drop (lastSlashIndex + 1) objectKey))"

definition publish_object_props ::
  "string \<Rightarrow> string \<Rightarrow> bool option \<Rightarrow> bool \<Rightarrow> bool \<Rightarrow> site_form_props" where
  "publish_object_props bucket objectKey openProp told pending =
     (let (rootPrefix, indexDocument) = resolveSiteLocation objectKey
      in \<lparr>sfp_buckets = [],
          sfp_initial = \<lparr>sx_bucket = Some bucket, sx_root_prefix = Some rootPrefix, sx_domains = Some [],
            sx_enabled = Some True, sx_index_document = Some indexDocument,
            sx_error_document = Some [], sx_spa_fallback = Some True\<rparr>,
          sfp_locked = \<lparr>lk_bucket = True, lk_root_prefix = True, lk_index_document = True\<rparr>,
          sfp_open = openProp, sfp_told = told, sfp_pending = pending\<rparr>)"

section \<open>UploadAndPublishSiteDialog\<close>

datatype publish_mode = FolderMode | FileMode

text \<open>
  What the parent passes. The list of buckets counts by its identity. That is its content: the
  explorer passes none and gets a constant, and the list of the sites page is the data of a
  query, whose identity TanStack Query keeps exactly while a refetch brings the same content.
\<close>

record publish_props =
  pp_buckets :: "bucket list"
  pp_bucket :: "string option"
  pp_parent_prefix :: "string option"
  pp_bucket_locked :: bool
  pp_parent_locked :: bool
  pp_pending :: bool

record publish_dialog =
  pd_open :: bool
  pd_mode :: publish_mode
  pd_bucket :: string
  pd_folder_files :: "upload_file list"
  pd_file :: "upload_file option"
  pd_parent_prefix :: string
  pd_domains_input :: string
  pd_enabled :: bool
  pd_index_document :: string
  pd_error_document :: string
  pd_spa_fallback :: bool

definition publish_dialog_initial :: "publish_props \<Rightarrow> publish_dialog" where
  "publish_dialog_initial p =
     \<lparr>pd_open = False, pd_mode = FolderMode, pd_bucket = nullish (pp_bucket p) [],
      pd_folder_files = [], pd_file = None, pd_parent_prefix = nullish (pp_parent_prefix p) [],
      pd_domains_input = [], pd_enabled = True, pd_index_document = ''index.html'',
      pd_error_document = [], pd_spa_fallback = True\<rparr>"

definition publish_next_bucket :: "publish_props \<Rightarrow> string" where
  "publish_next_bucket p =
     or_else (trim (nullish (pp_bucket p) []))
       (if length (pp_buckets p) > 0 then bucket_name (hd (pp_buckets p)) else [])"

definition reset_publish_dialog :: "publish_props \<Rightarrow> publish_dialog \<Rightarrow> publish_dialog" where
  "reset_publish_dialog p d =
     (if \<not> pd_open d then d
      else d\<lparr>pd_mode := FolderMode, pd_bucket := publish_next_bucket p, pd_folder_files := [],
             pd_file := None, pd_parent_prefix := nullish (pp_parent_prefix p) [],
             pd_domains_input := [], pd_enabled := True, pd_index_document := ''index.html'',
             pd_error_document := [], pd_spa_fallback := True\<rparr>)"

definition publish_dialog_commit ::
  "publish_props \<Rightarrow> publish_dialog \<Rightarrow> publish_props \<Rightarrow> publish_dialog \<Rightarrow> publish_dialog" where
  "publish_dialog_commit p0 d0 p d =
     (if (pp_bucket p, pd_open d, pp_parent_prefix p, pp_buckets p) \<noteq>
         (pp_bucket p0, pd_open d0, pp_parent_prefix p0, pp_buckets p0)
      then reset_publish_dialog p d else d)"

definition getSafeFolderUploadTopLevelName :: "upload_file list \<Rightarrow> string" where
  "getSafeFolderUploadTopLevelName files =
     (case getFolderUploadTopLevelName files of Inl _ \<Rightarrow> [] | Inr folder \<Rightarrow> folder)"

definition getUploadFileName :: "upload_file option \<Rightarrow> string" where
  "getUploadFileName file =
     (case file of
        None \<Rightarrow> []
      | Some f \<Rightarrow> trim (last (split_on slash (backslash_to_slash (fl_name f)))))"

definition folder_root_preview :: "publish_dialog \<Rightarrow> string" where
  "folder_root_preview d =
     (let topLevelFolderName = getSafeFolderUploadTopLevelName (pd_folder_files d)
      in if topLevelFolderName \<noteq> []
         then normalizeFolderUploadParentPrefix (pd_parent_prefix d) @ topLevelFolderName @ [slash]
         else [])"

definition publish_dialog_ready :: "publish_dialog \<Rightarrow> bool" where
  "publish_dialog_ready d \<longleftrightarrow>
     trim (pd_bucket d) \<noteq> [] \<and> length (parse_domains (pd_domains_input d)) > 0 \<and>
     (case pd_mode d of
        FolderMode \<Rightarrow> length (pd_folder_files d) > 0 \<and>
          getSafeFolderUploadTopLevelName (pd_folder_files d) \<noteq> []
      | FileMode \<Rightarrow> pd_file d \<noteq> None \<and> getUploadFileName (pd_file d) \<noteq> [])"

definition publish_dialog_value :: "publish_dialog \<Rightarrow> publish_upload" where
  "publish_dialog_value d =
     (case pd_mode d of
        FolderMode \<Rightarrow> PublishFolder
          \<lparr>pf_bucket = trim (pd_bucket d),
           pf_parent_prefix = normalizeFolderUploadParentPrefix (pd_parent_prefix d),
           pf_files = pd_folder_files d, pf_domains = parse_domains (pd_domains_input d),
           pf_enabled = pd_enabled d,
           pf_index_document = or_else (trim (pd_index_document d)) ''index.html'',
           pf_error_document = trim (pd_error_document d), pf_spa_fallback = pd_spa_fallback d\<rparr>
      | FileMode \<Rightarrow> PublishFile
          \<lparr>pl_bucket = trim (pd_bucket d),
           pl_parent_prefix = normalizeFolderUploadParentPrefix (pd_parent_prefix d),
           pl_file = the (pd_file d), pl_domains = parse_domains (pd_domains_input d),
           pl_enabled = pd_enabled d, pl_error_document = trim (pd_error_document d),
           pl_spa_fallback = pd_spa_fallback d\<rparr>)"

definition close_publish_dialog :: "publish_dialog \<Rightarrow> publish_dialog" where
  "close_publish_dialog d = d\<lparr>pd_open := False\<rparr>"

definition publish_dialog_submit ::
  "(publish_upload \<Rightarrow> (publish_dialog \<times> 's, 'm, unit) page_task) \<Rightarrow> publish_dialog
    \<Rightarrow> (publish_dialog \<times> 's, 'm, unit) page_task" where
  "publish_dialog_submit onSubmit d =
     (if \<not> publish_dialog_ready d then Return ()
      else try_submit close_publish_dialog (onSubmit (publish_dialog_value d)))"

interpretation publish_form: submit_dialog publish_dialog_ready publish_dialog_value
    close_publish_dialog True publish_dialog_submit
  by unfold_locales (simp_all add: publish_dialog_submit_def exec_try_submit)

text \<open>The dialog in the explorer, which fixes the bucket and the folder.\<close>

definition explorer_publish_props :: "explorer_page \<Rightarrow> bool \<Rightarrow> publish_props" where
  "explorer_publish_props s pending =
     \<lparr>pp_buckets = [], pp_bucket = Some (ep_bucket s), pp_parent_prefix = Some (page_prefix s),
      pp_bucket_locked = True, pp_parent_locked = True, pp_pending = pending\<rparr>"

section \<open>What the domains field keeps\<close>

definition clean_domain :: "string \<Rightarrow> bool" where
  "clean_domain x \<longleftrightarrow> x \<noteq> [] \<and> trimmed x \<and> comma \<notin> set x"

lemma set_trim: "set (trim s) \<subseteq> set s"
proof -
  have "set (drop_end is_space (dropWhile is_space s)) \<subseteq> set (dropWhile is_space s)"
    by (rule set_drop_end)
  also have "\<dots> \<subseteq> set s" using set_dropWhileD by fastforce
  finally show ?thesis by (simp add: trim_def trim_start_def trim_end_def)
qed

lemma parse_domains_clean: "x \<in> set (parse_domains s) \<Longrightarrow> clean_domain x"
  using set_trim split_on_segments [of _ comma s]
  by (fastforce simp: parse_domains_def filter_truthy_def clean_domain_def)

lemma comma_not_space [simp]: "\<not> is_space comma"
  by (simp add: comma_def is_space_def)

lemma trim_space [simp]: "trim (CHR '' '' # x) = trim x"
  by (simp add: trim_def trim_start_def is_space_def)

lemma split_show_domains:
  "\<forall>x \<in> set (d # ds). comma \<notin> set x \<Longrightarrow>
     split_on comma (show_domains (d # ds)) = d # map (\<lambda>x. CHR '' '' # x) ds"
proof (induction ds arbitrary: d)
  case Nil
  then show ?case by (simp add: show_domains_def split_on_no_sep)
next
  case (Cons e es)
  have eq: "show_domains (d # e # es) = d @ comma # (CHR '' '' # show_domains (e # es))"
    by (simp add: show_domains_def comma_def)
  have sp: "split_on comma (CHR '' '' # s) = (CHR '' '' # hd (split_on comma s)) # tl (split_on comma s)" for s
    by (cases "split_on comma s") (auto simp: comma_def)
  have "CHR '' '' \<noteq> comma" by (simp add: comma_def)
  with Cons show ?case unfolding eq by (simp add: split_on_append_sep sp)
qed

lemma parse_show_domains_iff:
  "parse_domains (show_domains ds) = ds \<longleftrightarrow> (\<forall>x \<in> set ds. clean_domain x)"
proof
  assume "parse_domains (show_domains ds) = ds"
  then show "\<forall>x \<in> set ds. clean_domain x" using parse_domains_clean [of _ "show_domains ds"] by simp
next
  assume clean: "\<forall>x \<in> set ds. clean_domain x"
  then have *: "map trim ds = ds" "[] \<notin> set ds" "\<forall>x \<in> set ds. comma \<notin> set x"
    by (auto simp: clean_domain_def trim_id intro: map_idI)
  show "parse_domains (show_domains ds) = ds"
  proof (cases ds)
    case Nil
    then show ?thesis by (simp add: parse_domains_def show_domains_def filter_truthy_def)
  next
    case (Cons e es)
    with * have "map trim (split_on comma (show_domains ds)) = ds"
      by (simp add: split_show_domains o_def)
    with *(2) show ?thesis by (simp add: parse_domains_def filter_truthy_id)
  qed
qed

text \<open>The values a form can send for a site without changing them.\<close>

definition form_value_kept :: "site_form_value \<Rightarrow> bool" where
  "form_value_kept v \<longleftrightarrow>
     trimmed (sf_bucket v) \<and> trimmed (sf_root_prefix v) \<and> (\<forall>x \<in> set (sf_domains v). clean_domain x) \<and>
     trimmed (sf_index_document v) \<and> sf_index_document v \<noteq> [] \<and> trimmed (sf_error_document v)"

lemma trim_eq_iff: "trim s = s \<longleftrightarrow> trimmed s"
  by (metis trim_id trimmed_trim)

lemma site_form_payload_iff:
  assumes "sd_domains_input d = show_domains (sf_domains (sd_value d))"
  shows "site_form_payload d = sd_value d \<longleftrightarrow> form_value_kept (sd_value d)"
proof -
  have index: "or_else (trim i) ''index.html'' = i \<longleftrightarrow> trimmed i \<and> i \<noteq> []" for i
    using trim_eq_iff [of i] by (auto simp: or_else_def trimmed_def is_space_def)
  show ?thesis
    using assms
    by (cases "sd_value d")
       (simp add: site_form_payload_def form_value_kept_def trim_eq_iff parse_show_domains_iff index conj_ac)
qed

lemma build_partial [simp]: "buildSiteFormValue (partial_of v) = v"
  by (simp add: buildSiteFormValue_def partial_of_def)

lemma siteToSiteFormValue_simps [simp]:
  "sf_bucket (siteToSiteFormValue x) = site_bucket x"
  "sf_root_prefix (siteToSiteFormValue x) = site_root_prefix x"
  "sf_domains (siteToSiteFormValue x) = site_domains x"
  "sf_enabled (siteToSiteFormValue x) = site_enabled x"
  "sf_index_document (siteToSiteFormValue x) = site_index_document x"
  "sf_error_document (siteToSiteFormValue x) = site_error_document x"
  "sf_spa_fallback (siteToSiteFormValue x) = site_spa_fallback x"
  by (simp_all add: siteToSiteFormValue_def buildSiteFormValue_def)

end
