(* ===== verification/SitesPage.thy ===== *)
theory SitesPage
  imports SiteForms BucketsPage
begin

text \<open>
  Model of \<open>frontend/src/pages/SitesPage.tsx\<close>: the list of published sites, the four mutations,
  and the forms of \<open>SiteForms\<close> with the handlers the page passes them. The properties follow a
  form from the site it was opened for to the body of the request.
\<close>

section \<open>State\<close>

datatype sites_mutation =
    CreateSiteM site_form_value
  | UpdateSiteM int site_form_value
  | PublishSiteUploadM publish_upload
  | DeleteSiteM int

record sites_page =
  sp_settings :: app_settings
  sp_progress :: number
  sp_sites :: "site list_query"
  sp_buckets :: "bucket list_query"
  sp_toasts :: "toast list"

type_synonym 'a sites_task = "(sites_page, sites_mutation, 'a) page_task"

type_synonym ('v, 'r) sites_callbacks = "(sites_page, sites_mutation, 'v, 'r) mutation_options"

definition sitesQueryKey :: "sites_page \<Rightarrow> string list" where
  "sitesQueryKey s = [''sites'', apiBaseUrl (sp_settings s), bearerToken (sp_settings s)]"

definition sites_query_enabled :: "sites_page \<Rightarrow> bool" where
  "sites_query_enabled s \<longleftrightarrow> trim (apiBaseUrl (sp_settings s)) \<noteq> []"

definition toSiteRequest :: "site_form_value \<Rightarrow> create_site_request" where
  "toSiteRequest v =
     \<lparr>cs_bucket = sf_bucket v, cs_root_prefix = sf_root_prefix v, cs_enabled = sf_enabled v,
      cs_index_document = sf_index_document v, cs_error_document = sf_error_document v,
      cs_spa_fallback = sf_spa_fallback v, cs_domains = sf_domains v\<rparr>"

section \<open>Mutations\<close>

definition sites_toast :: "toast \<Rightarrow> sites_page \<Rightarrow> sites_page" where
  "sites_toast m s = s\<lparr>sp_toasts := sp_toasts s @ [m]\<rparr>"

definition set_sites_progress :: "number \<Rightarrow> sites_page \<Rightarrow> sites_page" where
  "set_sites_progress x s = s\<lparr>sp_progress := x\<rparr>"

definition site_saved :: "sites_page \<Rightarrow> string \<Rightarrow> unit sites_task" where
  "site_saved s key =
     Update (sites_toast (ToastSuccess (Key key []))) (invalidateQueries [sitesQueryKey s])"

definition site_failed :: "thrown \<Rightarrow> string \<Rightarrow> unit sites_task" where
  "site_failed error key = Update (sites_toast (ToastError (error_text error key))) (Return ())"

definition createSiteMutation :: "sites_page \<Rightarrow> (site_form_value, site option) sites_callbacks" where
  "createSiteMutation s =
     \<lparr>mutationFn = (\<lambda>value. api_call (createSite (sp_settings s) (toSiteRequest value))),
      onSuccess = (\<lambda>_ _. site_saved s ''toast.siteCreated''),
      onError = (\<lambda>error _. site_failed error ''errors.createSite''),
      onSettled = Return ()\<rparr>"

definition updateSiteMutation :: "sites_page \<Rightarrow> (int \<times> site_form_value, site option) sites_callbacks" where
  "updateSiteMutation s =
     \<lparr>mutationFn = (\<lambda>(siteId, value).
         api_call (updateSite (sp_settings s) siteId (toSiteRequest value))),
      onSuccess = (\<lambda>_ _. site_saved s ''toast.siteUpdated''),
      onError = (\<lambda>error _. site_failed error ''errors.updateSite''),
      onSettled = Return ()\<rparr>"

text \<open>The single-file mode wraps its site as a result with one upload.\<close>

definition uploadAndPublishMutation ::
  "sites_page \<Rightarrow> (publish_upload, (int \<times> site option) option) sites_callbacks" where
  "uploadAndPublishMutation s =
     \<lparr>mutationFn = (\<lambda>value.
         case value of
           PublishFolder p \<Rightarrow>
             bind_task (api_call (uploadAndPublishSite (sp_settings s) p))
               (\<lambda>r. Return (map_option (\<lambda>x. (ps_uploaded_count x, Some (ps_site x))) r))
         | PublishFile p \<Rightarrow>
             bind_task (api_call (uploadFileAndPublishSite (sp_settings s) p))
               (\<lambda>site. Return (Some (1, site)))),
      onSuccess = (\<lambda>_ _. Update (set_sites_progress (Fin 0)) (site_saved s ''toast.sitePublished'')),
      onError = (\<lambda>error _.
         Update (set_sites_progress (Fin 0)) (site_failed error ''errors.publishSite'')),
      onSettled = Return ()\<rparr>"

definition deleteSiteMutation :: "sites_page \<Rightarrow> (int, unit option) sites_callbacks" where
  "deleteSiteMutation s =
     \<lparr>mutationFn = (\<lambda>siteId. api_call (deleteSite (sp_settings s) siteId)),
      onSuccess = (\<lambda>_ _. site_saved s ''toast.siteDeleted''),
      onError = (\<lambda>error _. site_failed error ''errors.deleteSite''),
      onSettled = Return ()\<rparr>"

section \<open>Handlers\<close>

definition handleCreateSite :: "site_form_value \<Rightarrow> unit sites_task" where
  "handleCreateSite value = mutateAsync (CreateSiteM value)"

definition handleUpdateSite :: "int \<Rightarrow> site_form_value \<Rightarrow> unit sites_task" where
  "handleUpdateSite siteId value = mutateAsync (UpdateSiteM siteId value)"

definition handleDeleteSite :: "int \<Rightarrow> unit sites_task" where
  "handleDeleteSite siteId = mutateAsync (DeleteSiteM siteId)"

definition handleSitesUpload :: "publish_upload \<Rightarrow> unit sites_task" where
  "handleSitesUpload value = mutateAsync (PublishSiteUploadM value)"

section \<open>The page\<close>

definition page_buckets :: "sites_page \<Rightarrow> bucket list" where
  "page_buckets s = nullish (lq_data (sp_buckets s)) []"

definition listed_sites :: "sites_page \<Rightarrow> site list" where
  "listed_sites s = nullish (lq_data (sp_sites s)) []"

text \<open>The props of the three forms; the pending flags are those of their mutations.\<close>

definition create_site_props :: "sites_page \<Rightarrow> bool \<Rightarrow> site_form_props" where
  "create_site_props s pending =
     \<lparr>sfp_buckets = map bucket_name (page_buckets s), sfp_initial = no_site_form,
      sfp_locked = \<lparr>lk_bucket = False, lk_root_prefix = False, lk_index_document = False\<rparr>,
      sfp_open = None, sfp_told = False, sfp_pending = pending\<rparr>"

definition edit_site_props :: "sites_page \<Rightarrow> bool \<Rightarrow> site \<Rightarrow> site_form_props" where
  "edit_site_props s pending x =
     (create_site_props s pending)\<lparr>sfp_initial := partial_of (siteToSiteFormValue x)\<rparr>"

definition sites_publish_props :: "sites_page \<Rightarrow> bool \<Rightarrow> publish_props" where
  "sites_publish_props s pending =
     \<lparr>pp_buckets = page_buckets s, pp_bucket = None, pp_parent_prefix = None, pp_bucket_locked = False, pp_parent_locked = False,
      pp_pending = pending\<rparr>"

text \<open>The rows of the table: what the cells say and whether the two switches are on.\<close>

record site_row =
  sr_domains :: string
  sr_bucket :: string
  sr_root :: message_text
  sr_enabled :: bool
  sr_index :: string
  sr_fallback :: bool
  sr_delete_domain :: string

definition site_row_view :: "site \<Rightarrow> site_row" where
  "site_row_view x =
     \<lparr>sr_domains = show_domains (site_domains x), sr_bucket = site_bucket x,
      sr_root = (if site_root_prefix x = [] then Key ''explorer.rootFolder'' [] else Raw (site_root_prefix x)),
      sr_enabled = site_enabled x, sr_index = site_index_document x, sr_fallback = site_spa_fallback x,
      sr_delete_domain = nullish (array_first (site_domains x)) (site_bucket x)\<rparr>"

datatype sites_body = SitesLoading | SitesEmpty | SitesTable "site_row list"

record sites_panel =
  sv_buttons_disabled :: bool
  sv_sites_error :: bool
  sv_buckets_error :: bool
  sv_total :: nat
  sv_body :: sites_body

definition sites_view :: "sites_page \<Rightarrow> sites_panel" where
  "sites_view s =
     \<lparr>sv_buttons_disabled = (lq_loading (sp_buckets s) \<or> length (page_buckets s) = 0),
      sv_sites_error = (lq_error (sp_sites s) \<noteq> None),
      sv_buckets_error = (lq_error (sp_buckets s) \<noteq> None), sv_total = length (listed_sites s),
      sv_body =
        (if lq_loading (sp_sites s) \<or> lq_loading (sp_buckets s) then SitesLoading
         else if length (listed_sites s) = 0 then SitesEmpty
         else SitesTable (map site_row_view (listed_sites s)))\<rparr>"

section \<open>Editing a site\<close>

text \<open>The site in the words of a request.\<close>

definition request_of_site :: "site \<Rightarrow> create_site_request" where
  "request_of_site x =
     \<lparr>cs_bucket = site_bucket x, cs_root_prefix = site_root_prefix x, cs_enabled = site_enabled x,
      cs_index_document = site_index_document x, cs_error_document = site_error_document x,
      cs_spa_fallback = site_spa_fallback x, cs_domains = site_domains x\<rparr>"

lemma toSiteRequest_inject [simp]: "toSiteRequest v = toSiteRequest w \<longleftrightarrow> v = w"
  by (cases v; cases w) (auto simp: toSiteRequest_def)

lemma toSiteRequest_site [simp]: "toSiteRequest (siteToSiteFormValue x) = request_of_site x"
  by (simp add: toSiteRequest_def request_of_site_def)

text \<open>Opening the dialog of a row: the trigger sets the own state and the effect fills the form.\<close>

definition open_edit_form :: "sites_page \<Rightarrow> bool \<Rightarrow> site \<Rightarrow> site_form \<Rightarrow> site_form" where
  "open_edit_form s pending x d =
     site_form_commit (edit_site_props s pending x) d (edit_site_props s pending x)
       (site_open_change (edit_site_props s pending x) True d)"

lemma open_edit_form:
  assumes "\<not> sd_open d" and "site_bucket x \<noteq> []"
  shows "sd_value (open_edit_form s pending x d) = siteToSiteFormValue x"
    and "sd_domains_input (open_edit_form s pending x d) = show_domains (site_domains x)"
    and "sd_open (open_edit_form s pending x d)"
  using assms
  by (simp_all add: open_edit_form_def site_form_commit_def site_form_deps_def site_dialog_open_def
      site_open_change_def edit_site_props_def create_site_props_def fill_site_form_def Let_def)

text \<open>
  C30. Editing a site. Opening the dialog of a row and submitting it as it is sends one update,
  for that site; the values are the site's own exactly when they have no white space at their
  ends, the index document is not empty, and the domains are not empty and without commas. The
  dialog closes exactly when the update was accepted.
\<close>

theorem site_edit_roundtrip:
  assumes "\<not> sd_open d0" and "trim (site_bucket x) \<noteq> []"
    and "parse_domains (show_domains (site_domains x)) \<noteq> []"
  shows "let d = open_edit_form s pending x d0 in
    \<exists>v. (toSiteRequest v = request_of_site x \<longleftrightarrow> form_value_kept (siteToSiteFormValue x)) \<and>
      (case exec (site_form_submit (edit_site_props s pending x)
            (\<lambda>v. on_page (handleUpdateSite (site_id x) v)) d) reply (\<lambda>k. apsnd (env k)) n (d, now) of
         ((d', now'), sent, outcome) \<Rightarrow>
           sent = [MutateAsync (UpdateSiteM (site_id x) v)] \<and> outcome = Inr () \<and>
           sd_open d' = (rep_done (reply n) \<noteq> Inr ()))"
proof -
  let ?d = "open_edit_form s pending x d0"
  from assms(2) have "site_bucket x \<noteq> []" by auto
  note filled = open_edit_form [OF assms(1) this, of s pending]
  from assms(2,3) have ready: "site_form_ready ?d" by (simp add: site_form_ready_def filled)
  have "site_form_payload ?d = siteToSiteFormValue x \<longleftrightarrow> form_value_kept (siteToSiteFormValue x)"
    using site_form_payload_iff [of ?d] by (simp add: filled)
  then have "toSiteRequest (site_form_payload ?d) = request_of_site x \<longleftrightarrow>
      form_value_kept (siteToSiteFormValue x)"
    using toSiteRequest_inject [of "site_form_payload ?d" "siteToSiteFormValue x"] by simp
  moreover have told: "\<not> sfp_told (edit_site_props s pending x)"
    by (simp add: edit_site_props_def create_site_props_def)
  ultimately show ?thesis
    unfolding Let_def site_form.run_in_page [OF ready]
    by (intro exI [of _ "site_form_payload ?d"])
       (auto simp: handleUpdateSite_def exec_await_done site_open_change_def filled split: sum.split)
qed

text \<open>A site, and the page that lists it.\<close>

definition blog_site :: site where
  "blog_site =
     \<lparr>site_id = 7, site_bucket = ''media'', site_root_prefix = ''blog/'', site_enabled = True,
      site_index_document = ''index.html'', site_error_document = [], site_spa_fallback = False,
      site_domains = [''a.example'', ''b.example''], site_created_at = [], site_updated_at = []\<rparr>"

definition sites_page_initial :: "app_settings \<Rightarrow> sites_page" where
  "sites_page_initial settings =
     \<lparr>sp_settings = settings, sp_progress = Fin 0, sp_sites = idle_query, sp_buckets = idle_query,
      sp_toasts = []\<rparr>"

lemma blog_site_kept: "form_value_kept (siteToSiteFormValue blog_site)"
  by (simp add: form_value_kept_def) (simp add: blog_site_def clean_domain_def trimmed_def is_space_def comma_def)

theorem site_edit_roundtrip_witness:
  "\<exists>p v. let d = open_edit_form (sites_page_initial \<lparr>apiBaseUrl = [], bearerToken = []\<rparr>) False blog_site
             (site_form_initial p) in
     fst (snd (exec (site_form_submit p (\<lambda>v. on_page (handleUpdateSite 7 v)) d)
       (\<lambda>_. \<lparr>rep_http = Inl (ThrownOther None), rep_done = Inr ()\<rparr>) (\<lambda>k. apsnd (undisturbed k)) 0
       (d, sites_page_initial \<lparr>apiBaseUrl = [], bearerToken = []\<rparr>))) = [MutateAsync (UpdateSiteM 7 v)] \<and>
     toSiteRequest v = request_of_site blog_site"
proof -
  let ?s = "sites_page_initial \<lparr>apiBaseUrl = [], bearerToken = []\<rparr>"
  let ?p = "edit_site_props ?s False blog_site"
  have id: "site_id blog_site = 7" by (simp add: blog_site_def)
  have "parse_domains (show_domains (site_domains blog_site)) = site_domains blog_site"
    using blog_site_kept by (simp add: parse_show_domains_iff form_value_kept_def)
  moreover have "trim (site_bucket blog_site) = site_bucket blog_site"
    using blog_site_kept by (simp add: trim_id form_value_kept_def)
  ultimately have "trim (site_bucket blog_site) \<noteq> []"
    "parse_domains (show_domains (site_domains blog_site)) \<noteq> []" by (simp_all add: blog_site_def)
  note edited = site_edit_roundtrip [OF _ this, where ?d0.0 = "site_form_initial ?p" and s = ?s and
      pending = False and reply = "\<lambda>_. \<lparr>rep_http = Inl (ThrownOther None), rep_done = Inr ()\<rparr>" and
      env = undisturbed and n = 0 and now = ?s, unfolded id Let_def]
  let ?run = "exec (site_form_submit ?p (\<lambda>v. on_page (handleUpdateSite 7 v))
        (open_edit_form ?s False blog_site (site_form_initial ?p)))
       (\<lambda>_. \<lparr>rep_http = Inl (ThrownOther None), rep_done = Inr ()\<rparr>) (\<lambda>k. apsnd (undisturbed k)) 0
       (open_edit_form ?s False blog_site (site_form_initial ?p), ?s)"
  obtain z sent out where "?run = (z, sent, out)" by (rule prod_cases3)
  then obtain d' now' where run: "?run = ((d', now'), sent, out)" by (cases z) blast
  have "\<not> sd_open (site_form_initial ?p)" by (simp add: site_form_initial_def)
  from edited [OF this] obtain v where
    "toSiteRequest v = request_of_site blog_site \<longleftrightarrow> form_value_kept (siteToSiteFormValue blog_site)"
    "sent = [MutateAsync (UpdateSiteM 7 v)]"
    unfolding run prod.case by blast
  then show ?thesis
    unfolding Let_def
    by (intro exI [of _ ?p] exI [of _ v]) (simp only: run fst_conv snd_conv simp_thms blog_site_kept)
qed

section \<open>What an open upload form survives\<close>

lemma reset_not_ready: "pd_open d \<Longrightarrow> \<not> publish_dialog_ready (reset_publish_dialog p d)"
  by (simp add: publish_dialog_ready_def reset_publish_dialog_def parse_domains_def filter_truthy_def)

text \<open>
  C31. While the form that uploads and publishes is open, renders of the page around it leave
  alone what has been entered as long as the lists of buckets they
  bring are the same. In the explorer that holds while the folder stays; on the page of sites a
  refetch that brings another list of buckets empties the form, the chosen files included, so
  that it can no longer be submitted.
\<close>

theorem publish_form_survives:
  assumes "pd_open d"
  shows "(let d' = publish_dialog_commit (sites_publish_props s0 busy0) d (sites_publish_props s busy) d
    in if page_buckets s = page_buckets s0 then d' = d
       else pd_folder_files d' = [] \<and> pd_file d' = None \<and> pd_domains_input d' = [] \<and> \<not> publish_dialog_ready d') \<and>
    (let d' = publish_dialog_commit (explorer_publish_props e0 busy0) d (explorer_publish_props e busy) d
    in if ep_bucket e = ep_bucket e0 \<and> page_prefix e = page_prefix e0 then d' = d
       else pd_bucket d' = trim (ep_bucket e) \<and> pd_parent_prefix d' = page_prefix e \<and> \<not> publish_dialog_ready d')"
  using assms reset_not_ready [OF assms, of "sites_publish_props s busy"]
    reset_not_ready [OF assms, of "explorer_publish_props e busy"]
  by (auto simp: publish_dialog_commit_def sites_publish_props_def explorer_publish_props_def
      reset_publish_dialog_def publish_next_bucket_def or_else_def)

text \<open>A form that is ready, and a page to which a bucket is added while it is open.\<close>

definition ready_publish_dialog :: publish_dialog where
  "ready_publish_dialog =
     (publish_dialog_initial (sites_publish_props (sites_page_initial \<lparr>apiBaseUrl = [], bearerToken = []\<rparr>) False))
       \<lparr>pd_open := True, pd_mode := FileMode, pd_bucket := ''media'', pd_domains_input := ''a.example'',
        pd_file := Some \<lparr>fl_name = ''index.html'', fl_type = [], fl_relative_path = None, fl_content = 0\<rparr>\<rparr>"

theorem publish_form_survives_witness:
  "publish_dialog_ready ready_publish_dialog \<and>
   (\<exists>s0 s. \<not> publish_dialog_ready
      (publish_dialog_commit (sites_publish_props s0 False) ready_publish_dialog
         (sites_publish_props s False) ready_publish_dialog))"
proof -
  let ?old = "sites_page_initial \<lparr>apiBaseUrl = [], bearerToken = []\<rparr>"
  let ?new = "?old\<lparr>sp_buckets := idle_query\<lparr>lq_data := Some [\<lparr>bucket_id = 1, bucket_name = ''new'',
    bucket_created_at = [], bucket_updated_at = []\<rparr>]\<rparr>\<rparr>"
  have "pd_open ready_publish_dialog" by (simp add: ready_publish_dialog_def)
  from publish_form_survives [OF this, where ?s0.0 = ?old and s = ?new and ?busy0.0 = False and busy = False,
      THEN conjunct1]
  have "\<not> publish_dialog_ready (publish_dialog_commit (sites_publish_props ?old False) ready_publish_dialog
         (sites_publish_props ?new False) ready_publish_dialog)"
    by (simp add: Let_def page_buckets_def sites_page_initial_def idle_query_def)
  moreover have "parse_domains ''a.example'' = [''a.example'']" "trim ''media'' = ''media''"
    "getUploadFileName (Some \<lparr>fl_name = ''index.html'', fl_type = [], fl_relative_path = None, fl_content = 0\<rparr>) =
      ''index.html''" by code_simp+
  then have "publish_dialog_ready ready_publish_dialog"
    by (simp add: ready_publish_dialog_def publish_dialog_ready_def publish_dialog_initial_def)
  ultimately show ?thesis by blast
qed

end
