(* ===== verification/ExplorerTable.thy ===== *)
theory ExplorerTable
  imports SiteForms UploadDialogs TextFormat
begin

text \<open>
  Model of \<open>frontend/src/features/explorer/ExplorerTable.tsx\<close> without the preview of a file
  (\<open>FilePreview\<close>): the rows that are in the document, the dialogs a row opens, the headers that
  sort, and what a row shows and offers. The table is composed with the explorer page, whose
  handlers it is given. Lengths in pixels are rational numbers. Not modelled: the measured width
  of the scroll bar, and the markup.
\<close>

section \<open>State\<close>

record table_state =
  tb_scroll :: rat
  tb_open_sort :: "sort_by option"
  tb_details :: "string option"
  tb_delete_file :: "string option"
  tb_delete_folder :: "string option"
  tb_publish_file :: "string option"
  tb_publish_folder :: "string option"

definition table_initial :: table_state where
  "table_initial =
     \<lparr>tb_scroll = 0, tb_open_sort = None, tb_details = None, tb_delete_file = None,
      tb_delete_folder = None, tb_publish_file = None, tb_publish_folder = None\<rparr>"

definition findFileEntry :: "explorer_entry list \<Rightarrow> string option \<Rightarrow> explorer_entry option" where
  "findFileEntry entries entryPath =
     (case Option.bind entryPath truthy of
        None \<Rightarrow> None
      | Some p \<Rightarrow> array_find (\<lambda>candidate. is_file candidate \<and> entry_path candidate = p) entries)"

definition findDirectoryEntry :: "explorer_entry list \<Rightarrow> string option \<Rightarrow> explorer_entry option" where
  "findDirectoryEntry entries entryPath =
     (case Option.bind entryPath truthy of
        None \<Rightarrow> None
      | Some p \<Rightarrow> array_find (\<lambda>candidate. is_directory candidate \<and> entry_path candidate = p) entries)"

text \<open>The effect that closes the dialogs of entries that are no longer listed.\<close>

definition close_gone ::
  "(string option \<Rightarrow> explorer_entry option) \<Rightarrow> string option \<Rightarrow> string option" where
  "close_gone lookup path = (if Option.bind path truthy \<noteq> None \<and> lookup path = None then None else path)"

definition table_effect :: "explorer_entry list \<Rightarrow> table_state \<Rightarrow> table_state" where
  "table_effect entries s =
     s\<lparr>tb_details := close_gone (findFileEntry entries) (tb_details s),
       tb_delete_file := close_gone (findFileEntry entries) (tb_delete_file s),
       tb_delete_folder := close_gone (findDirectoryEntry entries) (tb_delete_folder s),
       tb_publish_file := close_gone (findFileEntry entries) (tb_publish_file s),
       tb_publish_folder := close_gone (findDirectoryEntry entries) (tb_publish_folder s)\<rparr>"

section \<open>The rows in the document\<close>

definition row_estimate :: nat where
  "row_estimate = 49"

definition row_overscan :: nat where
  "row_overscan = 10"

text \<open>A row that the virtualiser of TanStack asks for.\<close>

record virtual_row =
  vr_index :: int
  vr_start :: rat
  vr_end :: rat

definition fallback_count :: "nat \<Rightarrow> int" where
  "fallback_count n = int (min n (row_overscan * 2 + 1))"

definition fallback_start :: "rat \<Rightarrow> nat \<Rightarrow> int" where
  "fallback_start offset n =
     min \<lfloor>offset / of_nat row_estimate\<rfloor> (max (int n - fallback_count n) 0)"

definition fallback_end :: "rat \<Rightarrow> nat \<Rightarrow> int" where
  "fallback_end offset n = min (fallback_start offset n + fallback_count n) (int n)"

definition visible_indexes :: "virtual_row list \<Rightarrow> rat \<Rightarrow> nat \<Rightarrow> int list" where
  "visible_indexes vrows offset n =
     (if length vrows > 0 then map vr_index vrows
      else map (\<lambda>k. fallback_start offset n + int k)
             [0..<nat (fallback_end offset n - fallback_start offset n)])"

definition top_spacer :: "virtual_row list \<Rightarrow> rat \<Rightarrow> nat \<Rightarrow> rat" where
  "top_spacer vrows offset n =
     (case vrows of
        v # _ \<Rightarrow> vr_start v
      | [] \<Rightarrow> of_int (fallback_start offset n * int row_estimate))"

definition bottom_spacer :: "virtual_row list \<Rightarrow> rat \<Rightarrow> rat \<Rightarrow> nat \<Rightarrow> rat" where
  "bottom_spacer vrows totalSize offset n =
     (if length vrows > 0 then max (totalSize - vr_end (last vrows)) 0
      else of_int (max (int n - fallback_end offset n) 0 * int row_estimate))"

definition entry_at :: "explorer_entry list \<Rightarrow> int \<Rightarrow> explorer_entry option" where
  "entry_at entries i = (if 0 \<le> i \<and> i < int (length entries) then Some (entries ! nat i) else None)"

definition rendered_rows :: "explorer_entry list \<Rightarrow> virtual_row list \<Rightarrow> rat \<Rightarrow> explorer_entry list" where
  "rendered_rows entries vrows offset =
     List.map_filter (entry_at entries) (visible_indexes vrows offset (length entries))"

text \<open>The list scrolls: the offset is kept while the virtualiser has no rows.\<close>

definition handleTableScroll :: "virtual_row list \<Rightarrow> rat \<Rightarrow> table_state \<Rightarrow> table_state" where
  "handleTableScroll vrows scrollTop s = (if length vrows = 0 then s\<lparr>tb_scroll := scrollTop\<rparr> else s)"

section \<open>A row\<close>

text \<open>What the page tells the table about its actions.\<close>

record table_props =
  tp_url :: "string \<Rightarrow> string"
  tp_deleting :: string
  tp_downloading_file :: string
  tp_downloading_folder :: string
  tp_publishing :: string
  tp_selected :: "string list"
  tp_selection_disabled :: bool

definition table_props_of :: "explorer_page \<Rightarrow> table_props" where
  "table_props_of s =
     \<lparr>tp_url = (\<lambda>objectKey. buildPublicObjectURL (apiBaseUrl (ep_settings s)) (ep_bucket s) objectKey False),
      tp_deleting = ep_deleting_path s, tp_downloading_file = ep_downloading_file s,
      tp_downloading_folder = ep_downloading_folder s, tp_publishing = ep_publishing_path s,
      tp_selected = ep_selected s, tp_selection_disabled = bulk_actions_pending s\<rparr>"

definition entry_url :: "table_props \<Rightarrow> explorer_entry \<Rightarrow> string option" where
  "entry_url p entry =
     (if \<not> is_file entry \<or> file_visibility entry \<noteq> Public then None
      else Some (tp_url p (file_object_key entry)))"

record entry_row =
  er_selected :: bool
  er_select_disabled :: bool
  er_url :: "string option"
  er_size :: string
  er_visibility :: "visibility option"
  er_created :: "string option"

definition entry_row_view :: "table_props \<Rightarrow> explorer_entry \<Rightarrow> entry_row" where
  "entry_row_view p entry =
     \<lparr>er_selected = (entry_path entry \<in> set (tp_selected p)),
      er_select_disabled = tp_selection_disabled p, er_url = entry_url p entry,
      er_size = (if is_directory entry then ''-'' else formatBytes (file_size entry)),
      er_visibility = (if is_directory entry then None else Some (file_visibility entry)),
      er_created = (if is_directory entry then None else Some (file_created_at entry))\<rparr>"

text \<open>The buttons of a row: whether each waits, and the label of the download.\<close>

record entry_actions =
  ea_download_pending :: bool
  ea_download_label :: string
  ea_publish_pending :: bool
  ea_delete_disabled :: bool

definition directory_actions :: "table_props \<Rightarrow> explorer_entry \<Rightarrow> entry_actions" where
  "directory_actions p entry =
     (let pending = (tp_downloading_folder p = entry_path entry)
      in \<lparr>ea_download_pending = pending,
          ea_download_label = (if pending then ''explorer.actions.downloadingFolderZip''
            else ''explorer.actions.downloadFolderZip''),
          ea_publish_pending = (tp_publishing p = entry_path entry),
          ea_delete_disabled = (tp_deleting p = entry_path entry)\<rparr>)"

definition file_actions :: "table_props \<Rightarrow> explorer_entry \<Rightarrow> entry_actions" where
  "file_actions p entry =
     (let downloading = (tp_downloading_file p = entry_path entry)
      in \<lparr>ea_download_pending = downloading,
          ea_download_label =
            (if downloading then ''explorer.actions.downloadingFile''
             else if file_visibility entry = Public then ''explorer.actions.directDownload''
             else ''explorer.actions.signedDownload''),
          ea_publish_pending = (tp_publishing p = entry_path entry),
          ea_delete_disabled = (tp_deleting p = file_object_key entry)\<rparr>)"

text \<open>Copying the address; the clipboard may be missing, or may refuse.\<close>

definition handleCopyUrl :: "bool \<Rightarrow> string \<Rightarrow> (toast list, string, thrown + unit, thrown, unit) task" where
  "handleCopyUrl clipboardAvailable url =
     catch_task
       (if \<not> clipboardAvailable then Raise (ThrownError ''clipboard_unavailable'')
        else bind_task (request url)
               (\<lambda>_. Update (\<lambda>ts. ts @ [ToastSuccess (Key ''toast.urlCopied'' [])]) (Return ())))
       (\<lambda>_. Update (\<lambda>ts. ts @ [ToastError (Key ''errors.copyUrl'' [])]) (Return ()))"

text \<open>The box in the header.\<close>

definition header_box :: "explorer_entry list \<Rightarrow> string list \<Rightarrow> bool option" where
  "header_box entries selectedPaths =
     (let selectedCount = length (filter (\<lambda>e. entry_path e \<in> set selectedPaths) entries);
          allSelected = (length entries > 0 \<and> selectedCount = length entries)
      in if allSelected then Some True else if selectedCount > 0 then None else Some False)"

section \<open>Sorting from a header\<close>

text \<open>The page always passes the sort that applies; the draft is what the popover shows.\<close>

definition applied_order :: "sort_by option \<Rightarrow> sort_order option \<Rightarrow> sort_by \<Rightarrow> sort_order" where
  "applied_order activeSortBy sortOrder sortBy =
     (if activeSortBy = Some sortBy then nullish sortOrder Asc else Asc)"

definition header_draft :: "sort_by option \<Rightarrow> sort_order option \<Rightarrow> sort_by \<Rightarrow> sort_order option" where
  "header_draft activeSortBy sortOrder sortBy =
     (if activeSortBy = Some sortBy then Some (applied_order activeSortBy sortOrder sortBy) else None)"

definition header_trigger :: "sort_by option \<Rightarrow> sort_order option \<Rightarrow> sort_by \<Rightarrow> string" where
  "header_trigger activeSortBy sortOrder sortBy =
     (if activeSortBy = Some sortBy
      then if applied_order activeSortBy sortOrder sortBy = Asc then ''explorer.sort.state.asc''
           else ''explorer.sort.state.desc''
      else ''explorer.sort.state.none'')"

text \<open>The state of one header is its draft; the table knows which popover is open.\<close>

record sort_view =
  so_draft :: "sort_order option"
  so_table :: table_state
  so_page :: explorer_page

definition header_open :: "sort_by \<Rightarrow> sort_view \<Rightarrow> bool" where
  "header_open sortBy v \<longleftrightarrow> tb_open_sort (so_table v) = Some sortBy"

definition headerOpenChange :: "sort_by \<Rightarrow> bool \<Rightarrow> sort_view \<Rightarrow> sort_view" where
  "headerOpenChange sortBy nextOpen v =
     v\<lparr>so_table := (so_table v)\<lparr>tb_open_sort := (if nextOpen then Some sortBy else None)\<rparr>\<rparr>"

definition header_effect :: "sort_by \<Rightarrow> sort_view \<Rightarrow> sort_view \<Rightarrow> sort_view" where
  "header_effect sortBy old v =
     (let active = (\<lambda>x. page_sort_by (so_page x) = sortBy);
          applied = (\<lambda>x. applied_order (Some (page_sort_by (so_page x))) (Some (page_sort_order (so_page x))) sortBy)
      in if (active v, applied v, header_open sortBy v) \<noteq> (active old, applied old, header_open sortBy old) \<and>
            header_open sortBy v
         then v\<lparr>so_draft := header_draft (Some (page_sort_by (so_page v)))
                  (Some (page_sort_order (so_page v))) sortBy\<rparr>
         else v)"

text \<open>The toggle group reports an empty value when the pressed item is pressed again.\<close>

definition headerToggle :: "string \<Rightarrow> sort_view \<Rightarrow> sort_view" where
  "headerToggle value v =
     (if value = ''asc'' then v\<lparr>so_draft := Some Asc\<rparr>
      else if value = ''desc'' then v\<lparr>so_draft := Some Desc\<rparr> else v)"

definition headerConfirm :: "sort_by \<Rightarrow> sort_view \<Rightarrow> sort_view" where
  "headerConfirm sortBy v =
     (case so_draft v of
        None \<Rightarrow> v\<lparr>so_page := show_toast (ToastError (Key ''explorer.sort.validation.required'' [])) (so_page v)\<rparr>
      | Some draftSortOrder \<Rightarrow>
          headerOpenChange sortBy False (v\<lparr>so_page := handleSortApply sortBy draftSortOrder (so_page v)\<rparr>))"

definition headerClear :: "sort_by option \<Rightarrow> sort_by \<Rightarrow> sort_view \<Rightarrow> sort_view" where
  "headerClear activeSortBy sortBy v =
     (if activeSortBy = None then headerOpenChange sortBy False v
      else headerOpenChange sortBy False (v\<lparr>so_page := handleSortClear (so_page v)\<rparr>))"

section \<open>Dialogs of a row\<close>

text \<open>The confirmations close before the page is asked to delete.\<close>

definition confirm_delete_file ::
  "string \<Rightarrow> (table_state \<times> explorer_page, explorer_mutation, unit) page_task" where
  "confirm_delete_file objectKey =
     Update (apfst (tb_delete_file_update (\<lambda>_. None))) (on_page (handleDeleteFile objectKey))"

definition confirm_delete_folder ::
  "string \<Rightarrow> (table_state \<times> explorer_page, explorer_mutation, unit) page_task" where
  "confirm_delete_folder folderPath =
     Update (apfst (tb_delete_folder_update (\<lambda>_. None))) (on_page (handleDeleteFolder folderPath))"

text \<open>The two publishing forms, shown while their entry is listed.\<close>

definition folder_publish_form :: "explorer_page \<Rightarrow> table_state \<Rightarrow> site_form_props option" where
  "folder_publish_form s tb =
     map_option (\<lambda>e. publish_site_props (ep_bucket s) (entry_path e) (Some True) True
         (ep_publishing_path s = entry_path e))
       (findDirectoryEntry (page_entries s) (tb_publish_folder tb))"

definition file_publish_form :: "explorer_page \<Rightarrow> table_state \<Rightarrow> site_form_props option" where
  "file_publish_form s tb =
     map_option (\<lambda>e. publish_object_props (ep_bucket s) (file_object_key e) (Some True) True
         (ep_publishing_path s = entry_path e))
       (findFileEntry (page_entries s) (tb_publish_file tb))"

definition publish_folder_told :: "bool \<Rightarrow> table_state \<Rightarrow> table_state" where
  "publish_folder_told open_now tb = (if \<not> open_now then tb\<lparr>tb_publish_folder := None\<rparr> else tb)"

definition publish_file_told :: "bool \<Rightarrow> table_state \<Rightarrow> table_state" where
  "publish_file_told open_now tb = (if \<not> open_now then tb\<lparr>tb_publish_file := None\<rparr> else tb)"

section \<open>The window of rows\<close>

lemma entry_at_range:
  "a + m \<le> length entries \<Longrightarrow>
     List.map_filter (entry_at entries) (map (\<lambda>k. int a + int k) [0..<m]) = take m (drop a entries)"
proof (induction m)
  case (Suc m)
  then have "entry_at entries (int a + int m) = Some (entries ! (a + m))"
    by (simp add: entry_at_def nat_int_add)
  moreover from Suc.prems have "take (Suc m) (drop a entries) = take m (drop a entries) @ [entries ! (a + m)]"
    by (simp add: take_Suc_conv_app_nth)
  ultimately show ?case using Suc by (simp add: map_filter_def)
qed (simp add: map_filter_def)

lemma fallback_range:
  assumes "0 \<le> offset"
  shows "0 \<le> fallback_start offset n" and "fallback_end offset n = fallback_start offset n + fallback_count n"
    and "fallback_end offset n \<le> int n" and "0 \<le> fallback_count n"
  using assms by (auto simp: fallback_start_def fallback_end_def fallback_count_def)



section \<open>Sorting from a header\<close>

lemma page_params_headerOpenChange [simp]:
  "so_page (headerOpenChange k b v) = so_page v" "so_draft (headerOpenChange k b v) = so_draft v"
  "header_open k (headerOpenChange k b v) = b"
  by (simp_all add: headerOpenChange_def header_open_def)

text \<open>
  Sorting from a header. Opening it shows the order that applies, or none if the list is
  sorted by another column. Choosing an order and confirming sorts the list by this column in
  that order and closes the popover, and opening it again shows the chosen order. Confirming
  without an order asks for one and changes nothing else.
\<close>

theorem sort_header_flow:
  assumes "\<not> header_open k v"
  shows "let opened = header_effect k v (headerOpenChange k True v);
      sorted = headerConfirm k (headerToggle (sort_order_value d) opened);
      page = explorer_commit (so_page v) (so_page sorted)
    in header_open k opened \<and>
       so_draft opened = (if page_sort_by (so_page v) = k then Some (page_sort_order (so_page v)) else None) \<and>
       \<not> header_open k sorted \<and> page_sort_by page = k \<and> page_sort_order page = d \<and> page_cursor page = [] \<and>
       so_draft (header_effect k (sorted\<lparr>so_page := page\<rparr>) (headerOpenChange k True (sorted\<lparr>so_page := page\<rparr>))) = Some d \<and>
       (page_sort_by (so_page v) \<noteq> k \<longrightarrow>
          headerConfirm k opened = opened\<lparr>so_page := show_toast
            (ToastError (Key ''explorer.sort.validation.required'' [])) (so_page v)\<rparr>)"
proof -
  let ?opened = "header_effect k v (headerOpenChange k True v)"
  let ?done = "headerConfirm k (headerToggle (sort_order_value d) ?opened)"
  let ?page = "explorer_commit (so_page v) (so_page ?done)"
  have opened: "?opened = (headerOpenChange k True v)
      \<lparr>so_draft := header_draft (Some (page_sort_by (so_page v))) (Some (page_sort_order (so_page v))) k\<rparr>"
    using assms by (simp add: header_effect_def Let_def)
  have toggled: "headerToggle (sort_order_value d) x = x\<lparr>so_draft := Some d\<rparr>" for x
    by (cases d) (simp_all add: headerToggle_def sort_order_value_def)
  have confirmed: "?done = headerOpenChange k False ((headerOpenChange k True v)
      \<lparr>so_draft := Some d, so_page := handleSortApply k d (so_page v)\<rparr>)"
    unfolding opened toggled by (simp add: headerConfirm_def)
  have page: "?page = settle (handleSortApply k d) (so_page v)"
    unfolding confirmed by (simp add: settle_def)
  have sort: "page_sort_by ?page = k \<and> page_sort_order ?page = d \<and> page_cursor ?page = []"
    unfolding page settle_def page_params_commit
    by (simp add: handleSortApply_def page_cursor_def page_sort_by_def page_sort_order_def
        params_after_updates get_apply_updates)
  let ?again = "?done\<lparr>so_page := ?page\<rparr>"
  have closed: "\<not> header_open k ?done" unfolding confirmed by simp
  then have "\<not> header_open k ?again" by (simp add: header_open_def)
  then have again: "so_draft (header_effect k ?again (headerOpenChange k True ?again)) = Some d"
    using sort by (simp add: header_effect_def header_draft_def applied_order_def Let_def)
  have "header_open k ?opened" unfolding opened by (simp add: header_open_def headerOpenChange_def)
  moreover have "so_draft ?opened =
      (if page_sort_by (so_page v) = k then Some (page_sort_order (so_page v)) else None)"
    unfolding opened by (simp add: header_draft_def applied_order_def)
  moreover have "headerConfirm k ?opened = ?opened\<lparr>so_page := show_toast
      (ToastError (Key ''explorer.sort.validation.required'' [])) (so_page v)\<rparr>" if "page_sort_by (so_page v) \<noteq> k"
    using that unfolding opened by (simp add: header_draft_def headerConfirm_def)
  ultimately show ?thesis using closed sort again unfolding Let_def by blast
qed

definition fresh_sort_view :: sort_view where
  "fresh_sort_view =
     \<lparr>so_draft = None, so_table = table_initial,
      so_page = explorer_initial \<lparr>apiBaseUrl = [], bearerToken = []\<rparr> ''b'' []\<rparr>"

theorem sort_header_flow_witness:
  "let opened = header_effect ByName fresh_sort_view (headerOpenChange ByName True fresh_sort_view);
     page = explorer_commit (so_page fresh_sort_view) (so_page (headerConfirm ByName (headerToggle ''desc'' opened)))
   in page_sort_by page = ByName \<and> page_sort_order page = Desc"
proof -
  have "\<not> header_open ByName fresh_sort_view"
    by (simp add: header_open_def fresh_sort_view_def table_initial_def)
  from sort_header_flow [OF this, of Desc] show ?thesis by (simp add: Let_def sort_order_value_def)
qed

end
