(* ===== verification/FilePreview.thy ===== *)
theory FilePreview
  imports ExplorerTable LatestWins
begin

text \<open>
  The details of a file in \<open>frontend/src/features/explorer/ExplorerTable.tsx\<close>: which preview a
  file gets, the preview of remote text with its aborted requests, and the dialog that changes
  the visibility. The preview of text is an interpretation of \<open>latest_wins\<close>: here an old request
  does no harm because its signal was aborted.
\<close>

section \<open>Kinds of preview\<close>

datatype preview_type = ImagePreview | VideoPreview | AudioPreview | PdfPreview | MarkdownPreview | TextPreview

definition max_preview_bytes :: nat where
  "max_preview_bytes = 100 * 1024"

definition openXmlOfficeExtensions :: "string list" where
  "openXmlOfficeExtensions =
     [''.docx'', ''.dotx'', ''.docm'', ''.dotm'', ''.xlsx'', ''.xltx'', ''.xlsm'', ''.xltm'',
      ''.pptx'', ''.potx'', ''.ppsx'', ''.pptm'', ''.potm'', ''.ppsm'', ''.ppam'']"

definition isOpenXmlOfficeExtension :: "string \<Rightarrow> bool" where
  "isOpenXmlOfficeExtension fileName \<longleftrightarrow>
     list_ex (\<lambda>extension. ends_with fileName extension) openXmlOfficeExtensions"

definition entry_mime :: "explorer_entry \<Rightarrow> string" where
  "entry_mime entry =
     trim (nullish (array_first (split_on (CHR '';'') (to_lower (file_content_type entry)))) [])"

definition getPreviewType :: "explorer_entry \<Rightarrow> preview_type option" where
  "getPreviewType entry =
     (let mimeType = entry_mime entry; fileName = to_lower (file_original_filename entry)
      in if starts_with mimeType ''image/'' then Some ImagePreview
         else if starts_with mimeType ''video/'' then Some VideoPreview
         else if starts_with mimeType ''audio/'' then Some AudioPreview
         else if mimeType = ''application/pdf'' \<or> ends_with fileName ''.pdf'' then Some PdfPreview
         else if str_includes mimeType ''markdown'' \<or> ends_with fileName ''.md'' \<or>
                 ends_with fileName ''.markdown'' then Some MarkdownPreview
         else if starts_with mimeType ''application/vnd.openxmlformats-officedocument.'' \<or>
                 isOpenXmlOfficeExtension fileName then None
         else if starts_with mimeType ''text/'' \<or> str_includes mimeType ''json'' \<or>
                 mimeType = ''application/xml'' \<or> ends_with mimeType ''+xml'' \<or>
                 str_includes mimeType ''javascript'' \<or> str_includes mimeType ''sql'' \<or>
                 ends_with fileName ''.log'' then Some TextPreview
         else None)"

definition buildPdfPreviewUrl :: "string \<Rightarrow> bool \<Rightarrow> string" where
  "buildPdfPreviewUrl publicUrl fullscreen =
     publicUrl @ (if str_includes publicUrl ''#'' then ''&'' else ''#'') @
     (if fullscreen then ''toolbar=0&navpanes=0&pagemode=none&zoom=page-width''
      else ''toolbar=0&navpanes=0&pagemode=none&view=Fit&zoom=page-fit'')"

text \<open>What \<open>FilePreview\<close> puts on the screen; the flag says whether a button enlarges it.\<close>

datatype preview_view =
    NoPreview
  | MediaView preview_type string bool
  | RemoteText bool string bool
  | FrameView string bool

definition file_preview ::
  "bool \<Rightarrow> bool \<Rightarrow> bool \<Rightarrow> preview_type option \<Rightarrow> string \<Rightarrow> preview_view" where
  "file_preview fullscreen markdownTooLarge textTooLarge previewType publicUrl =
     (let action = (\<not> fullscreen \<and> previewType \<noteq> Some AudioPreview \<and>
            \<not> (previewType = Some MarkdownPreview \<and> markdownTooLarge) \<and>
            \<not> (previewType = Some TextPreview \<and> textTooLarge))
      in if publicUrl = [] then NoPreview
         else case previewType of
                None \<Rightarrow> NoPreview
              | Some MarkdownPreview \<Rightarrow> RemoteText True publicUrl action
              | Some TextPreview \<Rightarrow> RemoteText False publicUrl action
              | Some PdfPreview \<Rightarrow> FrameView (buildPdfPreviewUrl publicUrl fullscreen) action
              | Some media \<Rightarrow> MediaView media publicUrl action)"

section \<open>Remote text\<close>

datatype preview_status = PreviewLoading | PreviewReady | PreviewError

text \<open>
  \<open>rt_signal\<close> numbers the abort controllers: the one with this number is live, the earlier ones
  were aborted. \<open>rt_url\<close> is the address of the last run of the effect.
\<close>

record remote_text =
  rt_text :: string
  rt_status :: preview_status
  rt_signal :: nat
  rt_url :: string

definition remote_text_initial :: remote_text where
  "remote_text_initial = \<lparr>rt_text = [], rt_status = PreviewLoading, rt_signal = 0, rt_url = []\<rparr>"

record preview_props =
  pr_markdown :: bool
  pr_url :: string
  pr_markdown_too_large :: bool
  pr_text_too_large :: bool

definition preview_too_large :: "preview_props \<Rightarrow> bool" where
  "preview_too_large p \<longleftrightarrow>
     (pr_markdown p \<and> pr_markdown_too_large p) \<or> (\<not> pr_markdown p \<and> pr_text_too_large p)"

text \<open>
  A request of the browser with its signal, answered by a status and the text of the body, which
  may fail to arrive, or by nothing. Once the signal is aborted, either promise rejects with an
  error named \<open>AbortError\<close>, whatever the server answered.
\<close>

datatype fetch_reply = FetchFailed | FetchResponse int "string option"

datatype fetch_error = AbortError | OtherError string

definition fetch_outcome :: "nat \<Rightarrow> fetch_reply \<Rightarrow> remote_text \<Rightarrow> fetch_error + string" where
  "fetch_outcome i r s =
     (if rt_signal s \<noteq> i then Inl AbortError
      else case r of
             FetchFailed \<Rightarrow> Inl (OtherError ''TypeError'')
           | FetchResponse status body \<Rightarrow>
               if \<not> (200 \<le> status \<and> status \<le> 299)
               then Inl (OtherError (''preview_request_failed_'' @ int_string status))
               else (case body of None \<Rightarrow> Inl (OtherError ''TypeError'') | Some text \<Rightarrow> Inr text))"

type_synonym remote_task =
  "(remote_text, nat \<times> string, fetch_reply, fetch_error, unit) task"

definition fetch_text ::
  "nat \<Rightarrow> string \<Rightarrow> (remote_text, nat \<times> string, fetch_reply, fetch_error, string) task" where
  "fetch_text i url =
     Await (i, url)
       (\<lambda>r. Read (\<lambda>s. case fetch_outcome i r s of Inl e \<Rightarrow> Raise e | Inr text \<Rightarrow> Return text))"

definition load_preview :: "nat \<Rightarrow> string \<Rightarrow> remote_task" where
  "load_preview i url =
     catch_task
       (bind_task (fetch_text i url)
          (\<lambda>text. Update (\<lambda>s. s\<lparr>rt_text := text, rt_status := PreviewReady\<rparr>) (Return ())))
       (\<lambda>error. if error = AbortError then Return ()
          else Update (\<lambda>s. s\<lparr>rt_status := PreviewError\<rparr>) (Return ()))"

text \<open>A run of the effect, after the cleanup of the run before has aborted its request.\<close>

definition preview_effect :: "preview_props \<Rightarrow> remote_task" where
  "preview_effect p =
     Read (\<lambda>s. let i = Suc (rt_signal s)
       in if preview_too_large p
          then Update (\<lambda>s. s\<lparr>rt_text := [], rt_status := PreviewReady, rt_signal := i, rt_url := pr_url p\<rparr>)
                 (Return ())
          else Update (\<lambda>s. s\<lparr>rt_text := [], rt_status := PreviewLoading, rt_signal := i, rt_url := pr_url p\<rparr>)
                 (load_preview i (pr_url p)))"

datatype text_view = TextTooLarge | TextLoading | TextUnavailable | TextShown bool string

definition remote_text_view :: "preview_props \<Rightarrow> remote_text \<Rightarrow> text_view" where
  "remote_text_view p s =
     (if preview_too_large p then TextTooLarge
      else if rt_status s = PreviewLoading then TextLoading
      else if rt_status s = PreviewError then TextUnavailable
      else TextShown (pr_markdown p) (rt_text s))"

section \<open>The details of a file\<close>

record file_details =
  dt_entry :: "explorer_entry option"
  dt_selected :: visibility
  dt_current :: visibility
  dt_saving :: bool

definition file_details_initial :: file_details where
  "file_details_initial = \<lparr>dt_entry = None, dt_selected = Private, dt_current = Private, dt_saving = False\<rparr>"

text \<open>
  A render with another entry and the effect on its identity. Identity is content: the entries
  are the data of a query, and TanStack Query keeps what a refetch brings unchanged.
\<close>

definition show_details :: "explorer_entry option \<Rightarrow> file_details \<Rightarrow> file_details" where
  "show_details entry d =
     (if entry = dt_entry d then d
      else case entry of
             None \<Rightarrow> d\<lparr>dt_entry := None\<rparr>
           | Some e \<Rightarrow> d\<lparr>dt_entry := Some e, dt_selected := file_visibility e, dt_current := file_visibility e\<rparr>)"

definition details_url :: "(string \<Rightarrow> string) \<Rightarrow> file_details \<Rightarrow> string" where
  "details_url buildPublicUrl d =
     (case dt_entry d of
        None \<Rightarrow> []
      | Some e \<Rightarrow> if dt_current d = Public then buildPublicUrl (file_object_key e) else [])"

definition details_preview :: "(string \<Rightarrow> string) \<Rightarrow> file_details \<Rightarrow> preview_view" where
  "details_preview buildPublicUrl d =
     (case dt_entry d of
        None \<Rightarrow> NoPreview
      | Some e \<Rightarrow>
          (let previewType = getPreviewType e
           in file_preview False
                (previewType = Some MarkdownPreview \<and> file_size e > max_preview_bytes)
                (previewType = Some TextPreview \<and> file_size e > max_preview_bytes)
                previewType (details_url buildPublicUrl d)))"

definition save_disabled :: "file_details \<Rightarrow> bool" where
  "save_disabled d \<longleftrightarrow> dt_saving d \<or> dt_selected d = dt_current d"

text \<open>The handler of the render \<open>d\<close>, over the dialog and the page.\<close>

definition handleSaveVisibility ::
  "file_details \<Rightarrow> (file_details \<times> explorer_page, explorer_mutation, unit) page_task" where
  "handleSaveVisibility d =
     (case dt_entry d of
        None \<Rightarrow> Return ()
      | Some entry \<Rightarrow>
          if dt_selected d = dt_current d \<or> dt_saving d then Return ()
          else Update (apfst (dt_saving_update (\<lambda>_. True)))
            (finally_task
              (catch_task
                (bind_task (on_page (handleUpdateVisibility (file_object_key entry) (dt_selected d)))
                  (\<lambda>_. Update (apfst (dt_current_update (\<lambda>_. dt_selected d)))
                    (Update (apsnd (show_toast (success_key ''toast.objectVisibilityUpdated''))) (Return ()))))
                (\<lambda>error. Update (apsnd (show_toast
                   (ToastError (error_text error ''errors.updateObjectVisibility'')))) (Return ())))
              (apfst (dt_saving_update (\<lambda>_. False)))))"

section \<open>What is requested\<close>

definition preview_props_of :: "bool \<Rightarrow> string \<Rightarrow> explorer_entry \<Rightarrow> preview_props" where
  "preview_props_of markdown url e =
     \<lparr>pr_markdown = markdown, pr_url = url,
      pr_markdown_too_large = (markdown \<and> getPreviewType e = Some MarkdownPreview \<and> file_size e > max_preview_bytes),
      pr_text_too_large = (getPreviewType e = Some TextPreview \<and> file_size e > max_preview_bytes)\<rparr>"

lemma office_no_text:
  assumes "isOpenXmlOfficeExtension (to_lower (file_original_filename e))"
  shows "getPreviewType e \<noteq> Some TextPreview"
  using assms by (simp add: getPreviewType_def Let_def)

text \<open>
  The text of a file is requested only for a public file whose preview is Markdown or text,
  at the file's own public address, and only up to 100 KiB; a file with an extension of an
  Office document is never read as plain text.
\<close>

theorem preview_fetch_bounded:
  assumes "details_preview buildPublicUrl d = RemoteText markdown url action"
    and "dt_entry d = Some e"
    and "snd (advance (preview_effect (preview_props_of markdown url e)) s) \<noteq> []"
  shows "file_size e \<le> 102400 \<and> dt_current d = Public \<and> url = buildPublicUrl (file_object_key e) \<and>
    getPreviewType e = Some (if markdown then MarkdownPreview else TextPreview) \<and>
    \<not> (\<not> markdown \<and> isOpenXmlOfficeExtension (to_lower (file_original_filename e)))"
proof -
  have kind: "getPreviewType e = Some (if markdown then MarkdownPreview else TextPreview) \<and>
      dt_current d = Public \<and> url = buildPublicUrl (file_object_key e)"
    using assms(1,2)
    by (auto simp: details_preview_def file_preview_def details_url_def Let_def
        split: option.splits preview_type.splits if_splits)
  have "\<not> preview_too_large (preview_props_of markdown url e)"
    using assms(3) by (auto simp: preview_effect_def Let_def)
  then have "file_size e \<le> 102400"
    using kind by (auto simp: preview_too_large_def preview_props_of_def max_preview_bytes_def split: if_splits)
  with kind office_no_text [of e] show ?thesis by auto
qed

definition readme_entry :: "visibility \<Rightarrow> explorer_entry" where
  "readme_entry v = FileEntry ''a/readme.md'' ''readme.md'' ''a/readme.md'' ''readme.md'' 10 ''text/plain'' [] v [] []"

lemma readme_preview: "getPreviewType (readme_entry v) = Some MarkdownPreview"
  by (cases v; code_simp)

lemma load_preview_await:
  "load_preview i url = Await (i, url) (\<lambda>r. Read (\<lambda>s. case fetch_outcome i r s of
     Inl AbortError \<Rightarrow> Return ()
   | Inl (OtherError _) \<Rightarrow> Update (\<lambda>s. s\<lparr>rt_status := PreviewError\<rparr>) (Return ())
   | Inr text \<Rightarrow> Update (\<lambda>s. s\<lparr>rt_text := text, rt_status := PreviewReady\<rparr>) (Return ())))"
  by (auto simp: load_preview_def fetch_text_def fun_eq_iff split: sum.split fetch_error.split)

theorem preview_fetch_bounded_witness:
  "\<exists>d url. details_preview (\<lambda>k. ''/p/'' @ k) d = RemoteText True url True \<and>
     snd (advance (preview_effect (preview_props_of True url (readme_entry Public))) remote_text_initial) \<noteq> [] \<and>
     url = ''/p/a/readme.md''"
proof -
  let ?d = "show_details (Some (readme_entry Public)) file_details_initial"
  have d: "dt_entry ?d = Some (readme_entry Public)" "dt_current ?d = Public"
    by (simp_all add: show_details_def file_details_initial_def readme_entry_def)
  have key: "file_object_key (readme_entry Public) = ''a/readme.md''" "file_size (readme_entry Public) = 10"
    by (simp_all add: readme_entry_def)
  have url: "details_url (\<lambda>k. ''/p/'' @ k) ?d = ''/p/a/readme.md''" using d by (simp add: details_url_def key)
  have shown: "details_preview (\<lambda>k. ''/p/'' @ k) ?d = RemoteText True ''/p/a/readme.md'' True"
    using d url by (simp add: details_preview_def readme_preview file_preview_def key max_preview_bytes_def Let_def)
  have asked: "snd (advance (preview_effect (preview_props_of True ''/p/a/readme.md'' (readme_entry Public)))
      remote_text_initial) \<noteq> []"
    by (simp add: preview_effect_def preview_too_large_def preview_props_of_def readme_preview key
        max_preview_bytes_def load_preview_await Let_def)
  from preview_fetch_bounded [OF shown d(1) asked] shown asked show ?thesis by blast
qed

section \<open>Only the current request shows\<close>

definition preview_follow :: "nat \<Rightarrow> string \<Rightarrow> fetch_reply \<Rightarrow> remote_task" where
  "preview_follow i url r = Read (\<lambda>s. case fetch_outcome i r s of
     Inl AbortError \<Rightarrow> Return ()
   | Inl (OtherError _) \<Rightarrow> Update (\<lambda>s. s\<lparr>rt_status := PreviewError\<rparr>) (Return ())
   | Inr text \<Rightarrow> Update (\<lambda>s. s\<lparr>rt_text := text, rt_status := PreviewReady\<rparr>) (Return ()))"

lemma load_preview_follow: "load_preview i url = Await (i, url) (preview_follow i url)"
  unfolding load_preview_await by (simp add: preview_follow_def fun_eq_iff)

inductive preview_starts :: "remote_text \<Rightarrow> remote_task \<Rightarrow> bool" where
  "preview_starts s (preview_effect p)"

definition preview_busy :: "remote_text \<Rightarrow> bool" where
  "preview_busy s \<longleftrightarrow> rt_status s = PreviewLoading \<and> rt_signal s > 0"

text \<open>The state after an answer to the live request.\<close>

definition preview_answered :: "fetch_reply \<Rightarrow> remote_text \<Rightarrow> remote_text" where
  "preview_answered r s =
     (case fetch_outcome (rt_signal s) r s of
        Inl _ \<Rightarrow> s\<lparr>rt_status := PreviewError\<rparr>
      | Inr text \<Rightarrow> s\<lparr>rt_text := text, rt_status := PreviewReady\<rparr>)"

lemma advance_follow:
  "advance (preview_follow i url r) s = (if rt_signal s = i then preview_answered r s else s, [])"
  by (auto simp: preview_follow_def preview_answered_def fetch_outcome_def
      split: fetch_reply.split option.split)

lemma answered_frame [simp]:
  "rt_signal (preview_answered r s) = rt_signal s" "rt_url (preview_answered r s) = rt_url s"
  "rt_status (preview_answered r s) \<noteq> PreviewLoading"
  by (auto simp: preview_answered_def split: sum.split)

lemma advance_effect:
  "advance (preview_effect p) s =
     (if preview_too_large p
      then (s\<lparr>rt_text := [], rt_status := PreviewReady, rt_signal := Suc (rt_signal s), rt_url := pr_url p\<rparr>, [])
      else (s\<lparr>rt_text := [], rt_status := PreviewLoading, rt_signal := Suc (rt_signal s), rt_url := pr_url p\<rparr>,
        [((Suc (rt_signal s), pr_url p), preview_follow (Suc (rt_signal s)) (pr_url p))]))"
  by (simp add: preview_effect_def Let_def load_preview_follow)

interpretation remote_preview: latest_wins rt_signal preview_busy Pair preview_follow "\<lambda>s s'. s'"
    preview_starts remote_text_initial
proof unfold_locales
  show "\<not> preview_busy remote_text_initial" by (simp add: preview_busy_def remote_text_initial_def)
next
  fix d r s s' js
  assume "advance (preview_follow (rt_signal s) d r) s = (s', js)"
  then show "js = [] \<and> rt_signal s' = rt_signal s \<and> \<not> preview_busy s'"
    by (auto simp: advance_follow preview_busy_def)
next
  fix s t assume "preview_starts s t"
  then show "keeps (\<lambda>s s'. rt_signal s' = rt_signal s \<and> preview_busy s' = preview_busy s) t \<or>
      (\<exists>s'. advance t s = (s', []) \<and> rt_signal s' = Suc (rt_signal s) \<and> \<not> preview_busy s') \<or>
      (\<exists>s' d. advance t s = (s', [((Suc (rt_signal s), d), preview_follow (Suc (rt_signal s)) d)]) \<and>
         rt_signal s' = Suc (rt_signal s) \<and> preview_busy s')"
    by (cases rule: preview_starts.cases) (simp add: advance_effect preview_busy_def)
qed (simp_all add: advance_follow)

text \<open>Every open request is one of this component's, and the live one is for the address shown.\<close>

definition preview_job :: "remote_text \<Rightarrow> (nat \<times> string) \<times> (fetch_reply \<Rightarrow> remote_task) \<Rightarrow> bool" where
  "preview_job s j \<longleftrightarrow>
     (\<exists>i url. j = ((i, url), preview_follow i url) \<and> i \<le> rt_signal s \<and> (i = rt_signal s \<longrightarrow> url = rt_url s))"

lemma older_jobs:
  assumes "list_all (preview_job s) js"
    and "rt_signal s' = rt_signal s \<and> rt_url s' = rt_url s \<or> rt_signal s' = Suc (rt_signal s)"
  shows "list_all (preview_job s') js"
  using assms by (auto simp: list_all_iff preview_job_def)

lemma preview_jobs:
  "reachable_from (\<lambda>s s'. s') preview_starts remote_text_initial c \<Longrightarrow> list_all (preview_job (fst c)) (snd c)"
proof (induction rule: reachable_from.induct)
  case (step c c')
  from step.hyps(2) step.IH show ?case
  proof (induction rule: machine_step.induct)
    case (start s t s' js' js)
    then obtain p where "advance (preview_effect p) s = (s', js')" by (auto elim: preview_starts.cases)
    moreover from this have "list_all (preview_job s') js"
      using older_jobs [of s js s'] start.prems by (auto simp: advance_effect split: if_splits)
    moreover have "list_all (preview_job s') js'"
      using calculation(1) by (auto simp: advance_effect preview_job_def split: if_splits)
    ultimately show ?case by simp
  next
    case (resume g r s s' js' xs q ys)
    then obtain i url where "g = preview_follow i url" by (auto simp: preview_job_def)
    with resume have "js' = []" "rt_signal s' = rt_signal s \<and> rt_url s' = rt_url s"
      by (auto simp: advance_follow split: if_splits)
    with resume.prems older_jobs [of s "xs @ ys" s'] show ?case by simp
  qed
qed simp

text \<open>
  C34. However the file shown changes and in whatever order the answers come: while the preview
  loads, the request for the address shown is open; any other open request is aborted, and its
  answer, whatever it is, changes nothing; the answer to the live one ends the loading, with
  its text if it is a success and as unavailable otherwise.
\<close>

theorem remote_text_current:
  assumes "reachable_from (\<lambda>s s'. s') preview_starts remote_text_initial (s, js)"
  shows "(preview_busy s \<longrightarrow> (\<exists>g. ((rt_signal s, rt_url s), g) \<in> set js)) \<and>
    list_all (\<lambda>((i, url), g). \<forall>r. advance (g r) s =
      (if i \<noteq> rt_signal s then (s, []) else (preview_answered r s, [])) \<and>
      (i = rt_signal s \<longrightarrow> url = rt_url s)) js"
proof -
  from preview_jobs [OF assms] have jobs: "list_all (preview_job s) js" by simp
  have "\<exists>g. ((rt_signal s, rt_url s), g) \<in> set js" if "preview_busy s"
  proof -
    from remote_preview.busy_waits [OF assms that] obtain d where
      "((rt_signal s, d), preview_follow (rt_signal s) d) \<in> set js" by blast
    moreover from this jobs have "d = rt_url s" by (fastforce simp: list_all_iff preview_job_def)
    ultimately show ?thesis by blast
  qed
  moreover from jobs have "list_all (\<lambda>((i, url), g). \<forall>r. advance (g r) s =
      (if i \<noteq> rt_signal s then (s, []) else (preview_answered r s, [])) \<and>
      (i = rt_signal s \<longrightarrow> url = rt_url s)) js"
    by (auto simp: list_all_iff preview_job_def advance_follow)
  ultimately show ?thesis by blast
qed

theorem remote_text_current_witness:
  "\<exists>s js. reachable_from (\<lambda>s s'. s') preview_starts remote_text_initial (s, js) \<and> preview_busy s \<and>
     (\<exists>g. ((1, ''/p''), g) \<in> set js)"
proof -
  let ?p = "\<lparr>pr_markdown = True, pr_url = ''/p'', pr_markdown_too_large = False, pr_text_too_large = False\<rparr>"
  obtain s js where a: "advance (preview_effect ?p) remote_text_initial = (s, js)" by fastforce
  then have s: "preview_busy s" "rt_signal s = 1" "rt_url s = ''/p''"
    by (auto simp: advance_effect preview_too_large_def preview_busy_def remote_text_initial_def)
  have "machine_step (\<lambda>s s'. s') preview_starts (remote_text_initial, []) (s, js @ [])"
    by (rule machine_step.start [where commit = "\<lambda>s s'. s'" and t = "preview_effect ?p" and s' = s])
       (auto intro: preview_starts.intros simp: a)
  then have r: "reachable_from (\<lambda>s s'. s') preview_starts remote_text_initial (s, js)"
    using reachable_from.step [OF reachable_from.initial] by fastforce
  from remote_text_current [OF r] s have "\<exists>g. ((1, ''/p''), g) \<in> set js" by simp
  with r s show ?thesis by blast
qed

section \<open>Changing the visibility\<close>

lemma show_details_saving [simp]:
  "dt_saving (show_details e d) = dt_saving d" "dt_entry (show_details e d) = e"
  by (auto simp: show_details_def split: option.split)

text \<open>
  C35. Saving a visibility sends one update, for the file the dialog showed; whether it succeeds
  or not, the dialog can save again. On success the dialog takes over the new visibility, on
  failure it keeps the old one. But it takes it over for whatever file it shows by then: if the
  dialog has moved on to a private file while another one was made public, it shows that file
  as public, with a public address that does not work.
\<close>

theorem visibility_save_outcome:
  assumes "dt_entry d = Some e" and "dt_selected d \<noteq> dt_current d" and "\<not> dt_saving d"
  shows "case exec (handleSaveVisibility d) reply (\<lambda>_. apfst (show_details shown)) n (d, s) of
    ((d', s'), sent, outcome) \<Rightarrow>
      sent = [MutateAsync (VisibilityM (file_object_key e) (dt_selected d))] \<and> outcome = Inr () \<and>
      dt_entry d' = shown \<and> \<not> dt_saving d' \<and>
      dt_current d' = (case rep_done (reply n) of
          Inr _ \<Rightarrow> dt_selected d
        | Inl _ \<Rightarrow> dt_current (show_details shown d)) \<and>
      (\<forall>other. shown = Some other \<and> rep_done (reply n) = Inr () \<and> dt_selected d = Public \<longrightarrow>
         details_url url d' = url (file_object_key other))"
proof -
  have while_saving: "show_details shown (d\<lparr>dt_saving := True\<rparr>) = (show_details shown d)\<lparr>dt_saving := True\<rparr>"
    by (auto simp: show_details_def split: option.split)
  show ?thesis
    using assms
    by (cases "rep_done (reply n)")
       (auto simp: handleSaveVisibility_def handleUpdateVisibility_def exec_finally exec_catch exec_bind
         exec_await_done await_done_def details_url_def while_saving split: prod.splits)
qed

text \<open>A public file is saved while the dialog turns to a private one.\<close>

theorem visibility_save_outcome_witness:
  "\<exists>d'. fst (exec (handleSaveVisibility
        ((show_details (Some (readme_entry Private)) file_details_initial)\<lparr>dt_selected := Public\<rparr>))
      (\<lambda>_. \<lparr>rep_http = Inl (ThrownOther None), rep_done = Inr ()\<rparr>)
      (\<lambda>_. apfst (show_details (Some (FileEntry ''b'' ''b'' ''b'' ''b'' 1 [] [] Private [] []))))
      0 ((show_details (Some (readme_entry Private)) file_details_initial)\<lparr>dt_selected := Public\<rparr>,
         explorer_initial \<lparr>apiBaseUrl = [], bearerToken = []\<rparr> ''b'' [])) = d' \<and>
     details_url (\<lambda>k. ''/p/'' @ k) (fst d') = ''/p/b''"
proof -
  let ?d = "(show_details (Some (readme_entry Private)) file_details_initial)\<lparr>dt_selected := Public\<rparr>"
  have "dt_entry ?d = Some (readme_entry Private)" "dt_selected ?d \<noteq> dt_current ?d" "\<not> dt_saving ?d"
    by (simp_all add: show_details_def file_details_initial_def readme_entry_def)
  from visibility_save_outcome [OF this, where url = "\<lambda>k. ''/p/'' @ k" and
      shown = "Some (FileEntry ''b'' ''b'' ''b'' ''b'' 1 [] [] Private [] [])" and n = 0 and
      reply = "\<lambda>_. \<lparr>rep_http = Inl (ThrownOther None), rep_done = Inr ()\<rparr>" and
      s = "explorer_initial \<lparr>apiBaseUrl = [], bearerToken = []\<rparr> ''b'' []"]
  show ?thesis by (auto split: prod.splits)
qed

end
