(* ===== verification/Dashboard.thy ===== *)
theory Dashboard
  imports BucketsProps Health TextFormat StorageQuota
begin

text \<open>
  Model of \<open>frontend/src/pages/DashboardPage.tsx\<close>: the pinned buckets with their sites, the
  latest bucket, and the statistics of the host with their fallbacks. The time of a date text is
  the parameter \<open>time\<close> (\<open>Date.parse\<close>, whose answer for other texts than its own format depends
  on the browser), the host of a URL the parameter \<open>url_host\<close>. Dates are shown by the browser
  and kept as they are.
\<close>

section \<open>State\<close>

text \<open>The statistics query; \<open>sq_pending\<close> is true while there is neither data nor an error.\<close>

record stats_query =
  sq_data :: "system_stats_result option"
  sq_pending :: bool
  sq_error :: "thrown option"

record dashboard_page =
  da_settings :: app_settings
  da_pins :: pins_page
  da_reconciled :: "(string list \<times> nat) option"
  da_buckets :: "bucket list_query"
  da_sites :: "site list_query"
  da_stats :: stats_query
  da_deleting :: string

definition dashboard_initial :: "app_settings \<Rightarrow> browser_storage \<Rightarrow> dashboard_page" where
  "dashboard_initial settings st =
     \<lparr>da_settings = settings, da_pins = mount_pins (apiBaseUrl settings) st, da_reconciled = None,
      da_buckets = idle_query, da_sites = idle_query,
      da_stats = \<lparr>sq_data = None, sq_pending = True, sq_error = None\<rparr>, da_deleting = []\<rparr>"

definition dashboard_pinned_ids :: "dashboard_page \<Rightarrow> int list" where
  "dashboard_pinned_ids s = ps_ids (pp_state (da_pins s))"

definition system_stats_enabled :: "dashboard_page \<Rightarrow> bool" where
  "system_stats_enabled s \<longleftrightarrow>
     trim (apiBaseUrl (da_settings s)) \<noteq> [] \<and> hasBearerToken (bearerToken (da_settings s))"

definition dashboard_sites_enabled :: "dashboard_page \<Rightarrow> bool" where
  "dashboard_sites_enabled s \<longleftrightarrow>
     trim (apiBaseUrl (da_settings s)) \<noteq> [] \<and> length (dashboard_pinned_ids s) > 0"

definition dashboard_buckets_key :: "dashboard_page \<Rightarrow> string list" where
  "dashboard_buckets_key s = [''buckets'', apiBaseUrl (da_settings s), bearerToken (da_settings s), []]"

definition dashboard_snapshot :: "dashboard_page \<Rightarrow> string list \<times> nat" where
  "dashboard_snapshot s =
     ([apiBaseUrl (da_settings s), bearerToken (da_settings s)], lq_updated_at (da_buckets s))"

definition dashboard_reconcile :: "dashboard_page \<Rightarrow> dashboard_page" where
  "dashboard_reconcile s =
     (case lq_data (da_buckets s) of
        Some fullBuckets \<Rightarrow>
          (if lq_success (da_buckets s) \<and> lq_fetched_after_mount (da_buckets s) \<and>
              \<not> lq_fetching (da_buckets s) \<and> da_reconciled s \<noteq> Some (dashboard_snapshot s)
           then s\<lparr>da_reconciled := Some (dashboard_snapshot s),
                  da_pins := reconcilePins (pins_key (apiBaseUrl (da_settings s)))
                               (map bucket_id fullBuckets) (da_pins s)\<rparr>
           else s)
      | None \<Rightarrow> s)"

section \<open>Severity\<close>

text \<open>The states of the storage limit in the order of their severity.\<close>

instantiation storage_limit_status :: linorder
begin

definition less_eq_storage_limit_status :: "storage_limit_status \<Rightarrow> storage_limit_status \<Rightarrow> bool" where
  "less_eq_storage_limit_status a b \<longleftrightarrow> a = LimitOk \<or> b = LimitExceeded \<or> a = b"

definition less_storage_limit_status :: "storage_limit_status \<Rightarrow> storage_limit_status \<Rightarrow> bool" where
  "less_storage_limit_status a b \<longleftrightarrow> a \<le> b \<and> \<not> b \<le> (a :: storage_limit_status)"

instance
  by standard (auto simp: less_eq_storage_limit_status_def less_storage_limit_status_def
      intro: storage_limit_status.exhaust)

end

section \<open>Buckets\<close>

definition dashboard_buckets :: "dashboard_page \<Rightarrow> bucket list" where
  "dashboard_buckets s = nullish (lq_data (da_buckets s)) []"

definition dashboard_pinned :: "dashboard_page \<Rightarrow> bucket list" where
  "dashboard_pinned s =
     List.map_filter (map_of (rev (map (\<lambda>b. (bucket_id b, b)) (dashboard_buckets s)))) (dashboard_pinned_ids s)"

definition handleDashboardDelete ::
  "dashboard_page \<Rightarrow> string \<Rightarrow> (dashboard_page, buckets_mutation, unit) page_task" where
  "handleDashboardDelete s bname =
     mutateAsync (DeleteBucketM bname
       (map_option bucket_id (array_find (\<lambda>b. bucket_name b = bname) (dashboard_buckets s))))"

text \<open>Comparison of numbers, false if one of them is not a number.\<close>

fun js_greater :: "number \<Rightarrow> number \<Rightarrow> bool" where
  "js_greater NaN y = False"
| "js_greater x NaN = False"
| "js_greater (Inf False) y = False"
| "js_greater x (Inf True) = False"
| "js_greater (Inf True) y = True"
| "js_greater x (Inf False) = True"
| "js_greater (Fin a) (Fin b) = (b < a)"

definition later_bucket :: "(string \<Rightarrow> number) \<Rightarrow> bucket option \<Rightarrow> bucket \<Rightarrow> bucket option" where
  "later_bucket time latest current =
     (case latest of
        None \<Rightarrow> Some current
      | Some l \<Rightarrow>
          if js_greater (time (bucket_updated_at current)) (time (bucket_updated_at l))
          then Some current else Some l)"

definition latest_bucket :: "(string \<Rightarrow> number) \<Rightarrow> bucket list \<Rightarrow> bucket option" where
  "latest_bucket time bs = foldl (later_bucket time) None bs"

text \<open>The cards of the pinned buckets.\<close>

definition dashboard_card :: "dashboard_page \<Rightarrow> sites_by_bucket \<Rightarrow> bucket \<Rightarrow> thrown + bucket_card" where
  "dashboard_card s obj b =
     (case card_sites obj (bucket_name b) of
        Inl e \<Rightarrow> Inl e
      | Inr sites \<Rightarrow>
          Inr \<lparr>bc_bucket = b, bc_pinned = True,
               bc_delete_disabled = ((lq_data (da_sites s) = None \<and> lq_error (da_sites s) = None) \<or>
                 lq_error (da_sites s) \<noteq> None \<or> da_deleting s \<noteq> []),
               bc_delete_pending = (da_deleting s = bucket_name b), bc_sites = sites\<rparr>)"

definition dashboard_cards :: "dashboard_page \<Rightarrow> thrown + bucket_card list" where
  "dashboard_cards s =
     (case group_sites (nullish (lq_data (da_sites s)) []) [] of
        Inl e \<Rightarrow> Inl e
      | Inr obj \<Rightarrow> render_all (dashboard_card s obj) (dashboard_pinned s))"

section \<open>Statistics\<close>

datatype card_text = TextKey string "(string \<times> string) list" | TextRaw string

definition getSystemFallbackText :: "bool \<Rightarrow> bool \<Rightarrow> bool \<Rightarrow> bool \<Rightarrow> card_text" where
  "getSystemFallbackText tokenConfigured enabled isPending isError =
     (if \<not> enabled then TextKey (if tokenConfigured then ''common.notAvailable'' else ''common.missing'') []
      else if isPending then TextKey ''common.loading'' []
      else if isError then TextKey ''common.notAvailable'' []
      else TextKey ''common.noData'' [])"

definition system_fallback :: "dashboard_page \<Rightarrow> card_text" where
  "system_fallback s =
     getSystemFallbackText (hasBearerToken (bearerToken (da_settings s))) (system_stats_enabled s)
       (sq_pending (da_stats s)) (sq_error (da_stats s) \<noteq> None)"

definition getOSLabel :: "api_host_os \<Rightarrow> card_text" where
  "getOSLabel v =
     TextKey (case v of
         Windows \<Rightarrow> ''dashboard.system.os.windows''
       | Linux \<Rightarrow> ''dashboard.system.os.linux''
       | Macos \<Rightarrow> ''dashboard.system.os.macos''
       | OtherOs \<Rightarrow> ''dashboard.system.os.other'') []"

definition dashboard_alert_title :: "storage_limit_status \<Rightarrow> card_text" where
  "dashboard_alert_title status =
     (case status of
        LimitWarning \<Rightarrow> TextKey ''dashboard.system.storageAlertWarningTitle'' []
      | LimitExceeded \<Rightarrow> TextKey ''dashboard.system.storageAlertExceededTitle'' []
      | LimitOk \<Rightarrow> TextRaw [])"

definition dashboard_alert_text :: "system_storage_stats \<Rightarrow> card_text" where
  "dashboard_alert_text st =
     (let sizes = [(''used'', formatBytes (st_used_bytes st)), (''max'', formatBytes (st_max_bytes st))]
      in case st_limit_status st of
           LimitWarning \<Rightarrow> TextKey ''dashboard.system.storageAlertWarningDescription'' sizes
         | LimitExceeded \<Rightarrow> TextKey ''dashboard.system.storageAlertExceededDescription'' sizes
         | LimitOk \<Rightarrow> TextRaw [])"

record storage_card =
  sc_path :: string
  sc_usage :: string
  sc_percent :: string
  sc_progress :: rat
  sc_alert :: "(bool \<times> card_text \<times> card_text) option"

definition usage_text :: "nat \<Rightarrow> nat \<Rightarrow> string" where
  "usage_text used available = formatBytes used @ '' / '' @ formatBytes available"

text \<open>The alert of the storage says whether it is destructive, its title and its text.\<close>

definition storage_card_view :: "system_storage_stats \<Rightarrow> storage_card" where
  "storage_card_view st =
     \<lparr>sc_path = st_root_path st, sc_usage = usage_text (st_used_bytes st) (st_max_bytes st),
      sc_percent = formatPercent (st_used_percent st), sc_progress = clampPercent (st_used_percent st),
      sc_alert = (if st_limit_status st = LimitOk then None
        else Some (st_limit_status st = LimitExceeded, dashboard_alert_title (st_limit_status st),
               dashboard_alert_text st))\<rparr>"

record disk_row =
  dr_key :: string
  dr_label :: string
  dr_filesystem :: string
  dr_usage :: string
  dr_percent :: string
  dr_progress :: rat
  dr_storage_root :: bool

definition disk_row_view :: "system_disk_stats \<Rightarrow> disk_row" where
  "disk_row_view d =
     \<lparr>dr_key = disk_mount_point d @ '':'' @ disk_label d, dr_label = disk_label d,
      dr_filesystem = or_else (disk_filesystem d) ''-'',
      dr_usage = usage_text (disk_used_bytes d) (disk_total_bytes d),
      dr_percent = formatPercent (disk_used_percent d), dr_progress = clampPercent (disk_used_percent d),
      dr_storage_root = disk_contains_storage_root d\<rparr>"

datatype disks_body = DisksLoading | DisksTable "disk_row list" | DisksText card_text

definition disks_view :: "dashboard_page \<Rightarrow> disks_body" where
  "disks_view s =
     (let disks = (case sq_data (da_stats s) of None \<Rightarrow> [] | Some r \<Rightarrow> ss_disks r)
      in if system_stats_enabled s \<and> sq_pending (da_stats s) then DisksLoading
         else if length disks > 0 then DisksTable (map disk_row_view disks)
         else DisksText (if system_stats_enabled s then TextKey ''dashboard.system.disksEmpty'' []
                         else system_fallback s))"

record stat_values =
  sv_os :: card_text
  sv_cpu :: card_text
  sv_memory :: card_text
  sv_memory_text :: card_text
  sv_storage :: card_text
  sv_storage_path :: card_text

definition stat_values_view :: "dashboard_page \<Rightarrow> stat_values" where
  "stat_values_view s =
     (let fallback = system_fallback s
      in case sq_data (da_stats s) of
           None \<Rightarrow> \<lparr>sv_os = fallback, sv_cpu = fallback, sv_memory = fallback, sv_memory_text = fallback,
                    sv_storage = fallback, sv_storage_path = fallback\<rparr>
         | Some r \<Rightarrow>
             \<lparr>sv_os = getOSLabel (ss_os r), sv_cpu = TextRaw (formatPercent (ss_cpu_used_percent r)),
              sv_memory = TextRaw (formatPercent (mem_used_percent (ss_memory r))),
              sv_memory_text = TextKey ''dashboard.system.memoryDescription''
                [(''available'', formatBytes (mem_available_bytes (ss_memory r)))],
              sv_storage = TextRaw (usage_text (st_used_bytes (ss_storage r)) (st_max_bytes (ss_storage r))),
              sv_storage_path = TextRaw (st_root_path (ss_storage r))\<rparr>)"

record overview_values =
  ov_total :: nat
  ov_host :: string
  ov_url :: card_text
  ov_token :: card_text
  ov_latest_name :: card_text
  ov_latest_time :: card_text

definition overview_view :: "(string \<Rightarrow> string option) \<Rightarrow> (string \<Rightarrow> number) \<Rightarrow> dashboard_page \<Rightarrow> overview_values" where
  "overview_view url_host time s =
     (let base = apiBaseUrl (da_settings s); latest = latest_bucket time (dashboard_buckets s)
      in \<lparr>ov_total = length (dashboard_buckets s), ov_host = getApiHostLabel url_host base,
          ov_url = (if trim base = [] then TextKey ''common.notAvailable'' [] else TextRaw (trim base)),
          ov_token = TextKey (if hasBearerToken (bearerToken (da_settings s)) then ''common.configured''
            else ''common.missing'') [],
          ov_latest_name = (case latest of None \<Rightarrow> TextKey ''buckets.overview.emptyTimestamp'' []
            | Some b \<Rightarrow> TextRaw (bucket_name b)),
          ov_latest_time = (case latest of None \<Rightarrow> TextKey ''common.noData'' []
            | Some b \<Rightarrow> TextRaw (bucket_updated_at b))\<rparr>)"

section \<open>Properties\<close>

text \<open>The alert of the storage appears from a warning on and is destructive only at the top.\<close>

lemma storage_alert_severity:
  "(sc_alert (storage_card_view st) \<noteq> None \<longleftrightarrow> LimitWarning \<le> st_limit_status st) \<and>
   (\<forall>d title body. sc_alert (storage_card_view st) = Some (d, title, body) \<longrightarrow>
      (d \<longleftrightarrow> LimitWarning < st_limit_status st) \<and> title \<noteq> TextRaw [] \<and> body \<noteq> TextRaw [])"
  by (cases "st_limit_status st")
     (simp_all add: storage_card_view_def less_eq_storage_limit_status_def less_storage_limit_status_def
       dashboard_alert_title_def dashboard_alert_text_def Let_def)

lemma later_finite:
  assumes "time (bucket_updated_at l) = Fin a" "time (bucket_updated_at b) = Fin c"
  shows "later_bucket time (Some l) b = Some (if a < c then b else l)"
  using assms by (simp add: later_bucket_def)

text \<open>
  The latest bucket. There is one exactly when there are buckets; if the server's times are
  dates, it is the first of those with the latest time.
\<close>

theorem latest_bucket_first_maximal:
  assumes "\<And>b. b \<in> set bs \<Longrightarrow> time (bucket_updated_at b) = Fin (upd b)"
  shows "case latest_bucket time bs of
      None \<Rightarrow> bs = []
    | Some l \<Rightarrow> (\<exists>xs ys. bs = xs @ l # ys \<and> (\<forall>x \<in> set xs. upd x < upd l) \<and> (\<forall>y \<in> set ys. upd y \<le> upd l))"
  using assms
proof (induction bs rule: rev_induct)
  case (snoc b bs)
  show ?case
  proof (cases "latest_bucket time bs")
    case None
    with snoc have "bs = []" by simp
    moreover from this have "bs @ [b] = [] @ b # []" by simp
    ultimately show ?thesis by (fastforce simp: latest_bucket_def later_bucket_def)
  next
    case (Some l)
    with snoc obtain xs ys where bs: "bs = xs @ l # ys" "\<forall>x \<in> set xs. upd x < upd l" "\<forall>y \<in> set ys. upd y \<le> upd l"
      by auto
    have times: "time (bucket_updated_at l) = Fin (upd l)" "time (bucket_updated_at b) = Fin (upd b)"
      using snoc.prems bs(1) by simp_all
    from later_finite [of time, OF times] Some
    have step: "latest_bucket time (bs @ [b]) = Some (if upd l < upd b then b else l)"
      by (simp add: latest_bucket_def)
    show ?thesis
    proof (cases "upd l < upd b")
      case True
      then have "\<forall>x \<in> set bs. upd x < upd b" using bs by fastforce
      moreover have "latest_bucket time (bs @ [b]) = Some b" using True step by simp
      ultimately show ?thesis by (simp, intro exI [of _ bs] exI [of _ "[]"]) simp
    next
      case False
      then have "bs @ [b] = xs @ l # (ys @ [b])" "\<forall>y \<in> set (ys @ [b]). upd y \<le> upd l" using bs by auto
      moreover have "latest_bucket time (bs @ [b]) = Some l" using False step by simp
      ultimately show ?thesis
        using bs(2) by (simp only: option.case) (intro exI [of _ xs] exI [of _ "ys @ [b]"], simp)
    qed
  qed
qed (simp add: latest_bucket_def)

theorem latest_bucket_first_maximal_witness:
  "latest_bucket (\<lambda>_. Fin 0) [\<lparr>bucket_id = 1, bucket_name = ''a'', bucket_created_at = [], bucket_updated_at = []\<rparr>,
      \<lparr>bucket_id = 2, bucket_name = ''b'', bucket_created_at = [], bucket_updated_at = []\<rparr>] =
   Some \<lparr>bucket_id = 1, bucket_name = ''a'', bucket_created_at = [], bucket_updated_at = []\<rparr>"
proof -
  let ?a = "\<lparr>bucket_id = 1, bucket_name = ''a'', bucket_created_at = [], bucket_updated_at = []\<rparr>"
  let ?b = "\<lparr>bucket_id = 2, bucket_name = ''b'', bucket_created_at = [], bucket_updated_at = []\<rparr>"
  have "case latest_bucket (\<lambda>_. Fin 0) [?a, ?b] of None \<Rightarrow> [?a, ?b] = []
    | Some l \<Rightarrow> (\<exists>xs ys. [?a, ?b] = xs @ l # ys \<and> (\<forall>x \<in> set xs. (0 :: rat) < 0) \<and> (\<forall>y \<in> set ys. (0 :: rat) \<le> 0))"
    using latest_bucket_first_maximal [where time = "\<lambda>_. Fin 0" and upd = "\<lambda>_. 0"] by simp
  then show ?thesis by (auto simp: Cons_eq_append_conv split: option.splits)
qed

text \<open>The dashboard in the words of the page of buckets, which is without a search.\<close>

definition as_buckets_page :: "dashboard_page \<Rightarrow> buckets_page" where
  "as_buckets_page s =
     \<lparr>bp_settings = da_settings s, bp_params = [], bp_search_input = [], bp_pins = da_pins s,
      bp_reconciled = map_option (apfst (\<lambda>k. ''buckets'' # k)) (da_reconciled s),
      bp_listed = da_buckets s, bp_pinned = idle_query, bp_sites = da_sites s, bp_creating = False,
      bp_deleting = da_deleting s, bp_removed_queries = [], bp_toasts = []\<rparr>"

lemma as_buckets_page_listed [simp]: "bp_listed (as_buckets_page s) = da_buckets s"
  by (simp add: as_buckets_page_def)

lemma as_buckets_page_query [simp]:
  "bucket_search (as_buckets_page s) = []" "full_query (as_buckets_page s) = da_buckets s"
  by (simp_all add: bucket_search_def as_buckets_page_def normalizeBucketSearch_def params_get_def full_query_def)

lemma as_buckets_page_snapshot:
  "bp_reconciled (as_buckets_page s) = Some (full_snapshot (as_buckets_page s)) \<longleftrightarrow>
     da_reconciled s = Some (dashboard_snapshot s)"
  unfolding full_snapshot_def as_buckets_page_query
  by (cases "da_reconciled s") (auto simp: as_buckets_page_def buckets_base_key_def dashboard_snapshot_def)

text \<open>
  C38. The dashboard and the page of buckets agree: the dashboard forgets the same pins, on the
  screen and in the storage, shows the same pinned buckets, deletes by the same request, and its
  cards show the same sites and throw in the same cases.
\<close>

theorem dashboard_agrees_with_buckets_page:
  "as_buckets_page (dashboard_reconcile s) = reconcile_effect (as_buckets_page s) \<and>
   dashboard_pinned s = pinned_buckets (as_buckets_page s) \<and>
   fst (snd (exec (handleDashboardDelete s bname) reply undisturbed n s)) =
     fst (snd (exec (handleDeleteBucket (as_buckets_page s) bname) reply undisturbed n (as_buckets_page s))) \<and>
   map_sum (\<lambda>e. e) (map (\<lambda>c. (bc_bucket c, bc_sites c))) (dashboard_cards s) =
     (case group_sites (page_sites (as_buckets_page s)) [] of
        Inl e \<Rightarrow> Inl e
      | Inr obj \<Rightarrow> map_sum (\<lambda>e. e) (map (\<lambda>c. (bc_bucket c, bc_sites c)))
          (render_all (bucket_card_view (as_buckets_page s) obj True) (pinned_buckets (as_buckets_page s))))"
proof (intro conjI)
  show "as_buckets_page (dashboard_reconcile s) = reconcile_effect (as_buckets_page s)"
    using as_buckets_page_snapshot [of s]
    by (auto simp: reconcile_effect_def dashboard_reconcile_def Let_def full_snapshot_def buckets_base_key_def
        dashboard_snapshot_def split: option.split) (auto simp: as_buckets_page_def)
  show pinned: "dashboard_pinned s = pinned_buckets (as_buckets_page s)"
    by (simp add: dashboard_pinned_def pinned_buckets_def dashboard_buckets_def dashboard_pinned_ids_def
        pinned_ids_def) (simp add: as_buckets_page_def)
  show "fst (snd (exec (handleDashboardDelete s bname) reply undisturbed n s)) =
     fst (snd (exec (handleDeleteBucket (as_buckets_page s) bname) reply undisturbed n (as_buckets_page s)))"
    by (cases "lq_data (da_buckets s)")
       (auto simp: handleDashboardDelete_def handleDeleteBucket_def exec_await_done bucket_named_def
         dashboard_buckets_def Let_def nullish_opt_def split: option.split)
  have card: "map_sum (\<lambda>e. e) (\<lambda>c. (bc_bucket c, bc_sites c)) (dashboard_card s obj b) =
      map_sum (\<lambda>e. e) (\<lambda>c. (bc_bucket c, bc_sites c)) (bucket_card_view (as_buckets_page s) obj True b)" for obj b
    by (simp add: dashboard_card_def bucket_card_view_def split: sum.split)
  have "map_sum (\<lambda>e. e) (map g) (render_all f1 bs) = map_sum (\<lambda>e. e) (map g) (render_all f2 bs)"
    if "\<And>b. map_sum (\<lambda>e. e) g (f1 b) = map_sum (\<lambda>e. e) g (f2 b)"
    for f1 f2 :: "bucket \<Rightarrow> thrown + bucket_card" and g :: "bucket_card \<Rightarrow> bucket \<times> site list" and bs
  proof (induction bs)
    case (Cons b bs)
    with that [of b] show ?case by (auto split: sum.splits) 
  qed simp
  from this [OF card] pinned
  show "map_sum (\<lambda>e. e) (map (\<lambda>c. (bc_bucket c, bc_sites c))) (dashboard_cards s) =
     (case group_sites (page_sites (as_buckets_page s)) [] of
        Inl e \<Rightarrow> Inl e
      | Inr obj \<Rightarrow> map_sum (\<lambda>e. e) (map (\<lambda>c. (bc_bucket c, bc_sites c)))
          (render_all (bucket_card_view (as_buckets_page s) obj True) (pinned_buckets (as_buckets_page s))))"
    by (simp add: dashboard_cards_def page_sites_def as_buckets_page_def split: sum.split)
qed

end
