(* ===== verification/Shell.thy ===== *)
theory Shell
  imports Health
begin

text \<open>
  Model of what surrounds the pages: \<open>frontend/src/components/app-sidebar.tsx\<close>, which remembers
  the last place among the buckets in \<open>localStorage\<close>, the breadcrumbs of \<open>Layout.tsx\<close>, and the
  state of the side bar in \<open>components/ui/sidebar.tsx\<close> with \<open>hooks/use-mobile.ts\<close>. A location is
  its path and its query text.
\<close>

section \<open>The route of the buckets\<close>

definition isBucketRoute :: "string \<Rightarrow> bool" where
  "isBucketRoute route \<longleftrightarrow>
     route = ''/buckets'' \<or> starts_with route ''/buckets/'' \<or> starts_with route ''/buckets?''"

text \<open>The stored text under the key of the route; storage may be blocked or full.\<close>

record route_storage =
  rs_item :: "string option"
  rs_readable :: bool
  rs_writable :: bool

record app_sidebar =
  as_pathname :: string
  as_search :: string
  as_last :: string
  as_storage :: route_storage

definition current_bucket_route :: "app_sidebar \<Rightarrow> string option" where
  "current_bucket_route s = (if isBucketRoute (as_pathname s) then Some (as_pathname s @ as_search s) else None)"

definition mount_sidebar :: "string \<Rightarrow> string \<Rightarrow> route_storage \<Rightarrow> thrown + app_sidebar" where
  "mount_sidebar pathname search st =
     (if \<not> rs_readable st then Inl (ThrownError ''SecurityError'')
      else let storedRoute = nullish (rs_item st) []
           in Inr \<lparr>as_pathname = pathname, as_search = search,
                   as_last = (if isBucketRoute storedRoute then storedRoute else []), as_storage = st\<rparr>)"

definition route_effect :: "app_sidebar \<Rightarrow> thrown + app_sidebar" where
  "route_effect s =
     (case Option.bind (current_bucket_route s) truthy of
        None \<Rightarrow> Inr s
      | Some route \<Rightarrow>
          if rs_writable (as_storage s)
          then Inr (s\<lparr>as_last := route, as_storage := (as_storage s)\<lparr>rs_item := Some route\<rparr>\<rparr>)
          else Inl (ThrownError ''QuotaExceededError''))"

definition bucketNavUrl :: "app_sidebar \<Rightarrow> string" where
  "bucketNavUrl s = nullish (current_bucket_route s) (or_else (as_last s) ''/buckets'')"

record nav_item =
  ni_title :: string
  ni_url :: string
  ni_active :: bool

definition nav_main :: "app_sidebar \<Rightarrow> nav_item list" where
  "nav_main s =
     [\<lparr>ni_title = ''nav.dashboard'', ni_url = ''/dashboard'',
       ni_active = (as_pathname s = ''/'' \<or> starts_with (as_pathname s) ''/dashboard'')\<rparr>,
      \<lparr>ni_title = ''nav.buckets'', ni_url = bucketNavUrl s,
       ni_active = starts_with (as_pathname s) ''/buckets''\<rparr>,
      \<lparr>ni_title = ''nav.sites'', ni_url = ''/sites'', ni_active = starts_with (as_pathname s) ''/sites''\<rparr>,
      \<lparr>ni_title = ''nav.settings'', ni_url = ''/settings'',
       ni_active = starts_with (as_pathname s) ''/settings''\<rparr>]"

text \<open>Going to a location: the render there, and its effect.\<close>

definition go_to :: "string \<times> string \<Rightarrow> app_sidebar \<Rightarrow> thrown + app_sidebar" where
  "go_to l s = route_effect (s\<lparr>as_pathname := fst l, as_search := snd l\<rparr>)"

fun go_along :: "(string \<times> string) list \<Rightarrow> app_sidebar \<Rightarrow> thrown + app_sidebar" where
  "go_along [] s = Inr s"
| "go_along (l # ls) s = (case go_to l s of Inl e \<Rightarrow> Inl e | Inr s' \<Rightarrow> go_along ls s')"

section \<open>Breadcrumbs\<close>

record route_crumb =
  cr_label :: string
  cr_href :: "string option"

text \<open>Labels are translation keys, or the name of the bucket.\<close>

definition buildBreadcrumbs :: "string \<Rightarrow> string option \<Rightarrow> route_crumb list" where
  "buildBreadcrumbs pathname bucket =
     (let crumb = (\<lambda>label. [\<lparr>cr_label = label, cr_href = None\<rparr>])
      in if pathname = ''/'' \<or> starts_with pathname ''/dashboard'' then crumb ''nav.dashboard''
         else if starts_with pathname ''/settings'' then crumb ''nav.settings''
         else if starts_with pathname ''/docs'' then crumb ''nav.docs''
         else if starts_with pathname ''/sites'' then crumb ''nav.sites''
         else \<lparr>cr_label = ''nav.buckets'', cr_href = Some ''/buckets''\<rparr> #
              (case Option.bind bucket truthy of None \<Rightarrow> [] | Some b \<Rightarrow> crumb b))"

text \<open>A crumb is a link if it has an address and is not the last one.\<close>

definition crumb_links :: "route_crumb list \<Rightarrow> bool list" where
  "crumb_links cs = map (\<lambda>i. cr_href (cs ! i) \<noteq> None \<and> i \<noteq> length cs - 1) [0..<length cs]"

section \<open>The side bar\<close>

text \<open>\<open>sb_cookie\<close> is the value last written to the cookie, \<open>sb_told\<close> what a parent was told.\<close>

record side_bar =
  sb_open :: bool
  sb_open_mobile :: bool
  sb_is_mobile :: bool
  sb_cookie :: "bool option"
  sb_told :: "bool list"

record side_bar_props =
  sbp_open :: "bool option"
  sbp_controlled :: bool

definition side_bar_initial :: "bool \<Rightarrow> side_bar" where
  "side_bar_initial defaultOpen =
     \<lparr>sb_open = defaultOpen, sb_open_mobile = False, sb_is_mobile = False, sb_cookie = None, sb_told = []\<rparr>"

definition side_bar_open :: "side_bar_props \<Rightarrow> side_bar \<Rightarrow> bool" where
  "side_bar_open p s = nullish (sbp_open p) (sb_open s)"

definition setSideBarOpen :: "side_bar_props \<Rightarrow> bool \<Rightarrow> side_bar \<Rightarrow> side_bar" where
  "setSideBarOpen p openState s =
     (let s1 = (if sbp_controlled p then s\<lparr>sb_told := sb_told s @ [openState]\<rparr> else s\<lparr>sb_open := openState\<rparr>)
      in s1\<lparr>sb_cookie := Some openState\<rparr>)"

definition toggleSidebar :: "side_bar_props \<Rightarrow> side_bar \<Rightarrow> side_bar" where
  "toggleSidebar p s =
     (if sb_is_mobile s then s\<lparr>sb_open_mobile := \<not> sb_open_mobile s\<rparr>
      else setSideBarOpen p (\<not> side_bar_open p s) s)"

definition handleKeyDown :: "side_bar_props \<Rightarrow> string \<Rightarrow> bool \<Rightarrow> bool \<Rightarrow> side_bar \<Rightarrow> side_bar" where
  "handleKeyDown p key metaKey ctrlKey s =
     (if key = ''b'' \<and> (metaKey \<or> ctrlKey) then toggleSidebar p s else s)"

definition mobile_breakpoint :: nat where
  "mobile_breakpoint = 768"

definition width_effect :: "nat \<Rightarrow> side_bar \<Rightarrow> side_bar" where
  "width_effect innerWidth s = s\<lparr>sb_is_mobile := (innerWidth < mobile_breakpoint)\<rparr>"

section \<open>Properties\<close>

lemma starts_with_buckets: "isBucketRoute p \<Longrightarrow> isBucketRoute (p @ q) \<or> (p = ''/buckets'' \<and> q \<noteq> [] \<and> hd q \<noteq> CHR ''?'')"
  by (cases q) (auto simp: isBucketRoute_def starts_with_iff)

text \<open>A query text is empty or begins with a question mark.\<close>

definition query_text :: "string \<Rightarrow> bool" where
  "query_text q \<longleftrightarrow> q = [] \<or> hd q = CHR ''?''"

definition bucket_places :: "(string \<times> string) list \<Rightarrow> string list" where
  "bucket_places ls = map (\<lambda>(p, q). p @ q) (filter (\<lambda>(p, q). isBucketRoute p) ls)"

lemma bucket_route_not_Nil: "isBucketRoute p \<Longrightarrow> p \<noteq> []"
  by (auto simp: isBucketRoute_def starts_with_def)

lemma go_along_state:
  assumes "rs_writable (as_storage s)" and "rs_item (as_storage s) = truthy (as_last s)"
  shows "\<exists>s'. go_along ls s = Inr s' \<and> rs_writable (as_storage s') \<and>
    rs_readable (as_storage s') = rs_readable (as_storage s) \<and>
    rs_item (as_storage s') = truthy (as_last s') \<and>
    as_last s' = last (as_last s # bucket_places ls) \<and>
    (ls \<noteq> [] \<longrightarrow> (as_pathname s', as_search s') = last ls)"
  using assms
proof (induction ls arbitrary: s)
  case (Cons l ls)
  obtain p q where l: "l = (p, q)" by (cases l)
  show ?case
  proof (cases "isBucketRoute p")
    case True
    let ?s = "s\<lparr>as_pathname := p, as_search := q, as_last := p @ q,
      as_storage := (as_storage s)\<lparr>rs_item := Some (p @ q)\<rparr>\<rparr>"
    have "p \<noteq> []" using True by (rule bucket_route_not_Nil)
    then have step: "go_to l s = Inr ?s"
      using True Cons.prems(1) by (simp add: go_to_def route_effect_def current_bucket_route_def l truthy_def)
    have "rs_item (as_storage ?s) = truthy (as_last ?s)" using \<open>p \<noteq> []\<close> by (simp add: truthy_def)
    from Cons.IH [OF _ this] Cons.prems(1) step True show ?thesis
      by (auto simp: bucket_places_def l)
  next
    case False
    let ?s = "s\<lparr>as_pathname := p, as_search := q\<rparr>"
    have step: "go_to l s = Inr ?s"
      using False by (simp add: go_to_def route_effect_def current_bucket_route_def l)
    from Cons.IH [of ?s] Cons.prems step False show ?thesis by (auto simp: bucket_places_def l)
  qed
qed (simp add: bucket_places_def)



end
