(* ===== verification/RootEnv.thy ===== *)
theory RootEnv
  imports ApiTypes "HOL-Library.AList"
begin

text \<open>
  Model of \<open>frontend/root-env.ts\<close>, which the build runs: it reads the defaults of the connection
  form from \<open>.env.personal\<close> or \<open>.env\<close> in the root directory and adds them to the environment of
  the process. Files are named relative to that directory. The line pattern and the comment
  scanner are written out; the properties say which lines give back the value that was meant.
\<close>

section \<open>Files\<close>

datatype root_file = NoFile | UnreadableFile | TextFile string

definition rootEnvFilenames :: "string list" where
  "rootEnvFilenames = [''.env.personal'', ''.env'']"

definition defaultFrontendEnvKeys :: "string list" where
  "defaultFrontendEnvKeys = [''VITE_DEFAULT_API_BASE_URL'', ''VITE_DEFAULT_BEARER_TOKEN'']"

definition resolveRootEnvFile :: "(string \<Rightarrow> root_file) \<Rightarrow> string option" where
  "resolveRootEnvFile dir = array_find (\<lambda>filename. dir filename \<noteq> NoFile) rootEnvFilenames"

section \<open>Values\<close>

definition is_quote :: "char \<Rightarrow> bool" where
  "is_quote c \<longleftrightarrow> c = CHR 0x22 \<or> c = CHR 0x27"

text \<open>The position of the first number sign outside quotes.\<close>

fun find_comment :: "char option \<Rightarrow> string \<Rightarrow> nat option" where
  "find_comment q [] = None"
| "find_comment (Some q) (c # s) =
     map_option Suc (find_comment (if c = q then None else Some q) s)"
| "find_comment None (c # s) =
     (if is_quote c then map_option Suc (find_comment (Some c) s)
      else if c = CHR ''#'' then Some 0
      else map_option Suc (find_comment None s))"

definition stripInlineComment :: "string \<Rightarrow> string" where
  "stripInlineComment value =
     (case find_comment None value of None \<Rightarrow> value | Some i \<Rightarrow> trim_end (take i value))"

definition parseRootEnvValue :: "string \<Rightarrow> string" where
  "parseRootEnvValue value =
     (let normalizedValue = trim (stripInlineComment value)
      in if length normalizedValue \<ge> 2 \<and>
            ((hd normalizedValue = CHR 0x22 \<and> last normalizedValue = CHR 0x22) \<or>
             (hd normalizedValue = CHR 0x27 \<and> last normalizedValue = CHR 0x27))
         then butlast (tl normalizedValue)
         else normalizedValue)"

section \<open>Lines\<close>

definition newline :: char where
  "newline = CHR 0x0A"

definition carriage_return :: char where
  "carriage_return = CHR 0x0D"

text \<open>\<open>content.split(/\r?\n/)\<close>: a carriage return goes with the line feed after it.\<close>

definition drop_cr :: "string \<Rightarrow> string" where
  "drop_cr s = (if s \<noteq> [] \<and> last s = carriage_return then butlast s else s)"

definition split_lines :: "string \<Rightarrow> string list" where
  "split_lines content =
     (let pieces = split_on newline content in map drop_cr (butlast pieces) @ [last pieces])"

text \<open>
  The pattern of a line: white space, \<open>export\<close> with white space if that leaves a name, the name,
  an equals sign, and what the dot matches after the white space, which stops at a line
  terminator; after it only white space may follow.
\<close>

definition name_start :: "char \<Rightarrow> bool" where
  "name_start c \<longleftrightarrow> (let n = (of_char c :: nat)
     in (65 \<le> n \<and> n \<le> 90) \<or> (97 \<le> n \<and> n \<le> 122) \<or> n = 95)"

definition name_char :: "char \<Rightarrow> bool" where
  "name_char c \<longleftrightarrow> name_start c \<or> (let n = (of_char c :: nat) in 48 \<le> n \<and> n \<le> 57)"

definition match_name :: "string \<Rightarrow> (string \<times> string) option" where
  "match_name s =
     (let key = takeWhile name_char s; rest = trim_start (dropWhile name_char s)
      in if key \<noteq> [] \<and> name_start (hd key) \<and> rest \<noteq> [] \<and> hd rest = CHR ''=''
         then Some (key, tl rest) else None)"

definition match_value :: "string \<Rightarrow> string option" where
  "match_value s =
     (let r = trim_start s; ends = (\<lambda>c. c = newline \<or> c = carriage_return);
          v = takeWhile (\<lambda>c. \<not> ends c) r; after = dropWhile (\<lambda>c. \<not> ends c) r
      in if list_all is_space after then Some v else None)"

definition match_export :: "string \<Rightarrow> string option" where
  "match_export s =
     (let rest = drop 6 s
      in if starts_with s ''export'' \<and> rest \<noteq> [] \<and> is_space (hd rest) then Some (trim_start rest) else None)"

definition match_line :: "string \<Rightarrow> (string \<times> string) option" where
  "match_line line =
     (let s = trim_start line;
          named = nullish_opt (Option.bind (match_export s) match_name) (match_name s)
      in case named of
           None \<Rightarrow> None
         | Some (key, rest) \<Rightarrow> map_option (\<lambda>v. (key, v)) (match_value rest))"

section \<open>The file\<close>

definition isDefaultFrontendEnvKey :: "string \<Rightarrow> bool" where
  "isDefaultFrontendEnvKey value \<longleftrightarrow> value \<in> set defaultFrontendEnvKeys"

type_synonym env_defaults = "(string \<times> string) list"

definition parse_line :: "string \<Rightarrow> env_defaults \<Rightarrow> env_defaults" where
  "parse_line line found =
     (case match_line line of
        None \<Rightarrow> found
      | Some (key, v) \<Rightarrow>
          if \<not> isDefaultFrontendEnvKey key then found else AList.update key (parseRootEnvValue v) found)"

definition parseRootEnv :: "string \<Rightarrow> env_defaults" where
  "parseRootEnv content = fold parse_line (split_lines content) []"

definition loadRootDefaultEnv :: "(string \<Rightarrow> root_file) \<Rightarrow> thrown + env_defaults" where
  "loadRootDefaultEnv dir =
     (case resolveRootEnvFile dir of
        None \<Rightarrow> Inr []
      | Some rootEnvFile \<Rightarrow>
          (case dir rootEnvFile of
             TextFile content \<Rightarrow> Inr (parseRootEnv content)
           | _ \<Rightarrow> Inl (ThrownError ''EISDIR'')))"

definition apply_default :: "env_defaults \<Rightarrow> string \<Rightarrow> (string \<rightharpoonup> string) \<Rightarrow> (string \<rightharpoonup> string)" where
  "apply_default defaults key env =
     (case map_of defaults key of
        Some value \<Rightarrow> if env key = None then env(key \<mapsto> value) else env
      | None \<Rightarrow> env)"

definition applyRootDefaultEnv ::
  "(string \<Rightarrow> root_file) \<Rightarrow> (string \<rightharpoonup> string) \<Rightarrow> thrown + (string \<rightharpoonup> string)" where
  "applyRootDefaultEnv dir env =
     (case loadRootDefaultEnv dir of
        Inl e \<Rightarrow> Inl e
      | Inr defaults \<Rightarrow> Inr (fold (apply_default defaults) defaultFrontendEnvKeys env))"

section \<open>Lines that are read back\<close>

definition one_line :: "string \<Rightarrow> bool" where
  "one_line s \<longleftrightarrow> newline \<notin> set s \<and> carriage_return \<notin> set s"

lemma drop_cr_id [simp]: "one_line s \<Longrightarrow> drop_cr s = s"
  by (auto simp: drop_cr_def one_line_def) (metis last_in_set)

lemma split_lines_joined:
  assumes "lines \<noteq> []" and "list_all one_line lines" and "sep \<in> {[newline], [carriage_return, newline]}"
  shows "split_lines (join sep lines) = lines"
proof -
  obtain cr where cr: "sep = cr @ [newline]" "cr = [] \<or> cr = [carriage_return]" using assms(3) by auto
  have drops: "drop_cr (l @ cr) = l" if "one_line l" for l
    using cr(2) drop_cr_id [OF that] by (auto simp: drop_cr_def [of "l @ [carriage_return]"])
  have pieces: "split_on newline (join sep lines) = map (\<lambda>l. l @ cr) (butlast lines) @ [last lines]"
    using assms(1,2)
  proof (induction lines)
    case (Cons l ls)
    then have l: "newline \<notin> set (l @ cr)" using cr(2)
      by (auto simp: one_line_def newline_def carriage_return_def)
    show ?case
    proof (cases ls)
      case Nil
      with Cons.prems show ?thesis by (simp add: split_on_no_sep one_line_def)
    next
      case (Cons e es)
      have "join sep (l # ls) = (l @ cr) @ newline # join sep ls" using Cons cr(1) by simp
      with split_on_append_sep [OF l] Cons.IH Cons.prems Cons show ?thesis by simp
    qed
  qed simp
  have "list_all one_line (butlast lines)"
    using assms(2) in_set_butlastD [of _ lines] by (auto simp: list_all_iff)
  then have "map (\<lambda>l. drop_cr (l @ cr)) (butlast lines) = butlast lines"
    using drops by (auto simp: list_all_iff intro: map_idI)
  then show ?thesis using assms(1) by (simp add: split_lines_def Let_def pieces o_def)
qed

lemma find_comment_quoted:
  "q \<notin> set v \<Longrightarrow> find_comment (Some q) (v @ q # s) =
     (case find_comment None s of None \<Rightarrow> None | Some i \<Rightarrow> Some (Suc (length v) + i))"
  by (induction v) (auto split: option.splits)

lemma find_comment_plain:
  "\<forall>c \<in> set v. \<not> is_quote c \<and> c \<noteq> CHR ''#'' \<Longrightarrow>
     find_comment None (v @ s) = (case find_comment None s of None \<Rightarrow> None | Some i \<Rightarrow> Some (length v + i))"
  by (induction v) (auto split: option.splits)

lemma space_plain: "is_space c \<Longrightarrow> \<not> is_quote c \<and> c \<noteq> CHR ''#''"
  by (auto simp: is_space_def is_quote_def)

lemma dropWhile_all: "list_all p w \<Longrightarrow> dropWhile p (w @ s) = dropWhile p s"
  by (induction w) auto

lemma trim_quoted:
  assumes "\<not> is_space a" and "\<not> is_space b" and "list_all is_space w"
  shows "trim (a # v @ b # w) = a # v @ [b]"
proof -
  have "dropWhile is_space (rev w @ b # rev v @ [a]) = b # rev v @ [a]"
    using assms(2) dropWhile_all [of is_space "rev w"] assms(3) by simp
  then show ?thesis using assms(1) by (simp add: trim_def trim_start_def trim_end_def drop_end_def)
qed

lemma trim_trim_end:
  assumes "s = [] \<or> \<not> is_space (hd s)"
  shows "trim (trim_end s) = trim s"
proof -
  have "trim_end s = [] \<or> \<not> is_space (hd (trim_end s))"
    using assms hd_drop_end [of is_space s] by (cases s) (auto simp: trim_end_def)
  then show ?thesis using assms by (simp add: trim_def trim_start_def dropWhile_id) (simp add: trim_end_def)
qed

text \<open>A value in quotes, and whatever comment follows it; a plain value.\<close>

lemma parse_quoted_value:
  assumes "is_quote q" and "q \<notin> set v" and "list_all is_space w"
  shows "parseRootEnvValue (q # v @ q # w @ (if commented then CHR ''#'' # comment else [])) = v"
proof -
  have no: "\<not> is_space q" "q \<noteq> CHR ''#''" using assms(1) by (auto simp: is_quote_def is_space_def)
  have w: "find_comment None (w @ s) = (case find_comment None s of None \<Rightarrow> None | Some i \<Rightarrow> Some (length w + i))" for s
    using assms(3) space_plain by (intro find_comment_plain) (simp add: list_all_iff)
  let ?tail = "if commented then CHR ''#'' # comment else []"
  have "find_comment (Some q) (v @ q # w @ ?tail) = (if commented then Some (Suc (length v) + length w) else None)"
    unfolding find_comment_quoted [OF assms(2)] w by (simp add: is_quote_def)
  then have "find_comment None (q # v @ q # w @ ?tail) = (if commented then Some (length (q # v @ q # w)) else None)"
    using assms(1) by simp
  then have "stripInlineComment (q # v @ q # w @ ?tail) =
      (if commented then trim_end (q # v @ q # w) else q # v @ q # w)"
    by (simp add: stripInlineComment_def)
  moreover have "trim (q # v @ q # w) = q # v @ [q]" by (rule trim_quoted [OF no(1) no(1) assms(3)])
  moreover have "trim (trim_end (q # v @ q # w)) = trim (q # v @ q # w)"
    using no(1) by (intro trim_trim_end) simp
  ultimately have "trim (stripInlineComment (q # v @ q # w @ ?tail)) = q # v @ [q]"
    by (simp split: if_split)
  then show ?thesis using assms(1) by (auto simp: parseRootEnvValue_def is_quote_def)
qed

lemma parse_plain_value:
  assumes "trimmed v" and "\<forall>c \<in> set v. \<not> is_quote c \<and> c \<noteq> CHR ''#''"
  shows "parseRootEnvValue v = v"
proof -
  have "find_comment None v = None" using find_comment_plain [OF assms(2), of "[]"] by simp
  then have n: "trim (stripInlineComment v) = v" by (simp add: stripInlineComment_def trim_id assms(1))
  have "v \<noteq> [] \<Longrightarrow> \<not> is_quote (hd v)" using assms(2) by simp
  then show ?thesis unfolding parseRootEnvValue_def n by (cases v) (auto simp: is_quote_def Let_def)
qed

lemma default_key_name:
  assumes "isDefaultFrontendEnvKey key"
  shows "list_all name_char key" and "key \<noteq> []" and "name_start (hd key)"
    and "hd key = CHR ''V''"
proof -
  have "list_all (\<lambda>k. list_all name_char k \<and> k \<noteq> [] \<and> name_start (hd k) \<and> hd k = CHR ''V'') defaultFrontendEnvKeys"
    by code_simp
  with assms show "list_all name_char key" "key \<noteq> []" "name_start (hd key)" "hd key = CHR ''V''"
    by (auto simp: isDefaultFrontendEnvKey_def list_all_iff)
qed

lemma name_not_end: "\<not> name_char newline" "\<not> name_char carriage_return"
  by code_simp+

lemma match_assignment:
  assumes "isDefaultFrontendEnvKey key" and "one_line v"
  shows "match_line (key @ CHR ''='' # v) = Some (key, trim_start v)"
proof -
  note k = default_key_name [OF assms(1)]
  have eq: "\<not> name_char (CHR ''='')" "\<not> is_space (CHR ''='')" "\<not> is_space (CHR ''V'')" by code_simp+
  have start: "trim_start (key @ CHR ''='' # v) = key @ CHR ''='' # v"
    using k(2,4) eq(3) by (cases key) (auto simp: trim_start_def)
  have no_export: "match_export (key @ CHR ''='' # v) = None"
    using k(2,4) by (cases key) (auto simp: match_export_def starts_with_def)
  have run: "takeWhile name_char (key @ CHR ''='' # v) = key" "dropWhile name_char (key @ CHR ''='' # v) = CHR ''='' # v"
    using k(1) eq(1) by (simp_all add: list_all_iff)
  have named: "match_name (key @ CHR ''='' # v) = Some (key, v)"
    unfolding match_name_def Let_def run using k(2,3) eq(2) by (simp add: trim_start_def)
  have "\<forall>c \<in> set (trim_start v). c \<noteq> newline \<and> c \<noteq> carriage_return"
    using assms(2) set_dropWhileD [of _ is_space v] by (auto simp: one_line_def trim_start_def)
  then have "takeWhile (\<lambda>c. \<not> (c = newline \<or> c = carriage_return)) (trim_start v) = trim_start v"
    "dropWhile (\<lambda>c. \<not> (c = newline \<or> c = carriage_return)) (trim_start v) = []"
    unfolding takeWhile_eq_all_conv dropWhile_eq_Nil_conv by simp_all
  then have "match_value v = Some (trim_start v)" unfolding match_value_def Let_def by (simp only: list.pred_inject if_True simp_thms)
  with named no_export start show ?thesis by (simp add: match_line_def)
qed

text \<open>An assignment written as a person would, with or without quotes and a comment.\<close>

datatype env_text = PlainText string | QuotedText string | CommentedText string string

fun env_value :: "env_text \<Rightarrow> string" where
  "env_value (PlainText v) = v"
| "env_value (QuotedText v) = v"
| "env_value (CommentedText v comment) = v"

fun env_source :: "env_text \<Rightarrow> string" where
  "env_source (PlainText v) = v"
| "env_source (QuotedText v) = CHR 0x22 # v @ [CHR 0x22]"
| "env_source (CommentedText v comment) = CHR 0x22 # v @ CHR 0x22 # CHR '' '' # CHR ''#'' # comment"

fun env_clean :: "env_text \<Rightarrow> bool" where
  "env_clean (PlainText v) = (one_line v \<and> trimmed v \<and> (\<forall>c \<in> set v. \<not> is_quote c \<and> c \<noteq> CHR ''#''))"
| "env_clean (QuotedText v) = (one_line v \<and> CHR 0x22 \<notin> set v)"
| "env_clean (CommentedText v comment) = (one_line v \<and> CHR 0x22 \<notin> set v \<and> one_line comment)"

definition env_line :: "string \<Rightarrow> env_text \<Rightarrow> string" where
  "env_line key t = key @ CHR ''='' # env_source t"

lemma env_source_clean:
  assumes "env_clean t"
  shows "one_line (env_source t)" and "trim_start (env_source t) = env_source t"
    and "parseRootEnvValue (env_source t) = env_value t"
proof -
  have q: "is_quote (CHR 0x22)" "\<not> is_space (CHR 0x22)" "list_all is_space [CHR '' '']" "list_all is_space []"
    "one_line [CHR 0x22, CHR '' '', CHR ''#'']" by code_simp+
  show "one_line (env_source t)" using assms q(5) by (cases t) (auto simp: one_line_def)
  have "env_source t = [] \<or> \<not> is_space (hd (env_source t))"
    using assms q(2) by (cases t) (simp_all add: trimmed_def, blast)
  then show "trim_start (env_source t) = env_source t"
    unfolding trim_start_def by (rule dropWhile_id)
  show "parseRootEnvValue (env_source t) = env_value t"
    using assms parse_plain_value parse_quoted_value [OF q(1) _ q(4), where commented = False]
      parse_quoted_value [OF q(1) _ q(3), where commented = True] by (cases t) auto
qed

lemma parse_env_line:
  assumes "isDefaultFrontendEnvKey key" and "env_clean t"
  shows "parse_line (env_line key t) found = AList.update key (env_value t) found"
  using match_assignment [OF assms(1) env_source_clean(1) [OF assms(2)]] env_source_clean [OF assms(2)] assms(1)
  by (simp add: parse_line_def env_line_def)

lemma parse_other_lines:
  "\<forall>l \<in> set lines. \<forall>v. match_line l \<noteq> Some (key, v) \<Longrightarrow>
     map_of (fold parse_line lines found) key = map_of found key"
proof (induction lines arbitrary: found)
  case (Cons l ls)
  then have "map_of (parse_line l found) key = map_of found key"
    by (auto simp: parse_line_def update_conv' split: option.split)
  with Cons show ?case by simp
qed simp



section \<open>Which file counts, and what it may change\<close>

text \<open>
  The environment of the process. What is already set stays as it is; nothing but the two
  keys is added; the values come from \<open>.env.personal\<close> alone if that file exists, else from
  \<open>.env\<close>; without either the environment is unchanged, and a file that cannot be read throws.
\<close>

theorem root_env_precedence:
  "applyRootDefaultEnv dir env =
     (case (dir ''.env.personal'', dir ''.env'') of
        (TextFile c, _) \<Rightarrow>
          Inr (\<lambda>k. if isDefaultFrontendEnvKey k \<and> env k = None then map_of (parseRootEnv c) k else env k)
      | (NoFile, TextFile c) \<Rightarrow>
          Inr (\<lambda>k. if isDefaultFrontendEnvKey k \<and> env k = None then map_of (parseRootEnv c) k else env k)
      | (NoFile, NoFile) \<Rightarrow> Inr env
      | _ \<Rightarrow> Inl (ThrownError ''EISDIR''))"
proof -
  have applied: "fold (apply_default d) defaultFrontendEnvKeys env =
      (\<lambda>k. if isDefaultFrontendEnvKey k \<and> env k = None then map_of d k else env k)" for d
    by (rule ext) (auto simp: defaultFrontendEnvKeys_def isDefaultFrontendEnvKey_def apply_default_def
        split: option.split)
  have "(\<lambda>k. if isDefaultFrontendEnvKey k \<and> env k = None then map_of [] k else env k) = env" by auto
  then show ?thesis
    by (auto simp: applyRootDefaultEnv_def loadRootDefaultEnv_def resolveRootEnvFile_def rootEnvFilenames_def
        applied split: root_file.split)
qed

end
