(* ===== verification/Dictionary.thy ===== *)
theory Dictionary
  imports TextFormat PageTask
begin

text \<open>
  The English dictionary of \<open>frontend/src/lib/i18n.tsx\<close>, in the order of the source, and the
  holes of a template. A message with a key is complete when the key has a text and the text has
  exactly the holes for which the message brings values. The Chinese dictionary, whose characters
  are not in the strings of the model, is in \<open>Chinese\<close>.
\<close>

section \<open>The texts\<close>

definition enUS_shell :: "(string \<times> string) list" where
  "enUS_shell =
     [(''app.name'', ''Light OSS Dashboard''),
      (''app.tagline'', ''Object storage admin dashboard''),
      (''nav.dashboard'', ''Dashboard''),
      (''nav.buckets'', ''bucket''),
      (''nav.sites'', ''Site management''),
      (''nav.settings'', ''Settings''),
      (''sidebar.section.platform'', ''Platform''),
      (''sidebar.section.explorer'', ''Explorer''),
      (''sidebar.action.localOnly'', ''Local mode''),
      (''breadcrumbs.dashboard'', ''Dashboard''),
      (''header.connection'', ''Connection''),
      (''header.apiHost'', ''API host''),
      (''header.authConfigured'', ''Token configured''),
      (''header.authMissing'', ''Token missing''),
      (''health.service'', ''Service''),
      (''health.database'', ''Database''),
      (''health.state.ok'', ''OK''),
      (''health.state.error'', ''Error''),
      (''health.state.tokenError'', ''Token error''),
      (''health.state.checking'', ''Checking''),
      (''health.state.unconfigured'', ''Unconfigured''),
      (''health.state.unreachable'', ''Unreachable''),
      (''health.state.unknown'', ''Unknown''),
      (''header.language'', ''Language''),
      (''header.theme'', ''Theme''),
      (''header.compactLanguageSwitch'', ''Change language''),
      (''header.compactThemeSwitch'', ''Change theme''),
      (''header.docs'', ''API Docs''),
      (''nav.docs'', ''Docs''),
      (''theme.light'', ''Light''),
      (''theme.dark'', ''Dark''),
      (''locale.en'', ''English''),
      (''locale.zh'', ''Chinese''),
      (''common.save'', ''Save changes''),
      (''common.cancel'', ''Cancel''),
      (''common.create'', ''Create''),
      (''common.edit'', ''Edit''),
      (''common.apply'', ''Apply''),
      (''common.refresh'', ''Refresh''),
      (''common.open'', ''Open''),
      (''common.close'', ''Close''),
      (''common.delete'', ''Delete''),
      (''common.enabled'', ''Enabled''),
      (''common.disabled'', ''Disabled''),
      (''common.configure'', ''Configure''),
      (''common.loading'', ''Loading...''),
      (''common.noData'', ''No data''),
      (''common.configured'', ''Configured''),
      (''common.missing'', ''Missing''),
      (''common.current'', ''Current''),
      (''common.ready'', ''Ready''),
      (''common.notAvailable'', ''Not available''),
      (''dashboard.title'', ''Dashboard''),
      (''dashboard.description'', ''Monitor bucket activity, connection health, and manage storage from one place.''),
      (''dashboard.system.title'', ''API host overview''),
      (''dashboard.system.description'', ''Review the current API host OS, live resource usage, and OSS storage footprint.''),
      (''dashboard.system.hostOS'', ''Host OS''),
      (''dashboard.system.hostOSDescription'', ''{host}''),
      (''dashboard.system.cpuUsage'', ''CPU usage''),
      (''dashboard.system.cpuDescription'', ''Refreshed every 10 seconds.''),
      (''dashboard.system.memoryUsage'', ''Memory usage''),
      (''dashboard.system.memoryDescription'', ''{available} available''),
      (''dashboard.system.storageUsed'', ''OSS storage used''),
      (''dashboard.system.storageDescription'', ''{path}''),
      (''dashboard.system.storageAlertWarningTitle'', ''Storage limit warning''),
      (''dashboard.system.storageAlertWarningDescription'', ''OSS storage is using {used} of {max}. Increase the limit before uploads start failing.''),
      (''dashboard.system.storageAlertExceededTitle'', ''Storage limit exceeded''),
      (''dashboard.system.storageAlertExceededDescription'', ''OSS storage is using {used} of {max}. New writes are blocked until you raise the limit or free space.''),
      (''dashboard.system.disksTitle'', ''Disk usage''),
      (''dashboard.system.disksDescription'', ''Usage is grouped by the disks or mount points visible to the API host.''),
      (''dashboard.system.diskLabel'', ''Disk''),
      (''dashboard.system.mountPoint'', ''Mount point''),
      (''dashboard.system.filesystem'', ''Filesystem''),
      (''dashboard.system.usage'', ''Usage''),
      (''dashboard.system.storageRoot'', ''Storage root''),
      (''dashboard.system.storageRootBadge'', ''Storage root''),
      (''dashboard.system.disksEmpty'', ''No disk data available.''),
      (''dashboard.system.os.windows'', ''Windows''),
      (''dashboard.system.os.linux'', ''Linux''),
      (''dashboard.system.os.macos'', ''macOS''),
      (''dashboard.system.os.other'', ''Other''),
      (''buckets.title'', ''bucket''),
      (''buckets.description'', ''Browse available bucket and open a bucket to manage its files.''),
      (''sites.title'', ''Site management''),
      (''sites.description'', ''Manage bucket-backed websites, bind domains, and update routing behavior from one place.''),
      (''sites.actions.create'', ''Create site''),
      (''sites.actions.uploadAndPublish'', ''Upload and publish''),
      (''sites.list.title'', ''Site list''),
      (''sites.list.description'', ''Review configured websites and adjust their bucket, prefix, and domain settings.''),
      (''sites.list.total'', ''{count} total''),
      (''sites.list.empty'', ''Create a site to start serving bucket prefixes as websites.''),
      (''sites.table.domains'', ''Domains''),
      (''sites.table.bucket'', ''Bucket''),
      (''sites.table.rootPrefix'', ''Root prefix''),
      (''sites.table.enabled'', ''Enabled''),
      (''sites.table.indexDocument'', ''Index document''),
      (''sites.table.spaFallback'', ''SPA fallback''),
      (''sites.table.updatedAt'', ''Updated''),
      (''sites.table.actions'', ''Actions''),
      (''sites.form.createTitle'', ''Create site''),
      (''sites.form.editTitle'', ''Edit site''),
      (''sites.form.createDescription'', ''Connect a bucket prefix to one or more domains and control how the website resolves requests.''),
      (''sites.form.editDescription'', ''Update the bucket, prefix, domains, and routing behavior for this website.''),
      (''sites.form.bucket'', ''Bucket''),
      (''sites.form.rootPrefix'', ''Root prefix''),
      (''sites.form.domains'', ''Domains''),
      (''sites.form.domainsDescription'', ''Use full custom domains, separated by commas.''),
      (''sites.form.enabled'', ''Enabled''),
      (''sites.form.indexDocument'', ''Index document''),
      (''sites.form.errorDocument'', ''Error document''),
      (''sites.form.spaFallback'', ''SPA fallback''),
      (''sites.form.submitCreate'', ''Create site''),
      (''sites.form.submitUpdate'', ''Save changes''),
      (''sites.uploadPublish.title'', ''Upload and publish''),
      (''sites.uploadPublish.description'', ''Upload one folder or one file and publish it as a site in one request.''),
      (''sites.uploadPublish.folderTab'', ''Upload folder and publish''),
      (''sites.uploadPublish.fileTab'', ''Upload file and publish''),
      (''sites.uploadPublish.parentPrefix'', ''Parent prefix''),
      (''sites.uploadPublish.parentPrefixDescription'', ''Optional upload parent folder. The selected folder name is appended automatically.''),
      (''sites.uploadPublish.folderLabel'', ''Folder''),
      (''sites.uploadPublish.folderDescription'', ''Choose one folder per request. Empty folders are not uploaded.''),
      (''sites.uploadPublish.fileLabel'', ''File''),
      (''sites.uploadPublish.fileDescription'', ''Choose one file to upload and publish as the site homepage.''),
      (''sites.uploadPublish.rootPreview'', ''Final root prefix''),
      (''sites.uploadPublish.rootPreviewPlaceholder'', ''Choose a folder to preview the final site root.''),
      (''sites.uploadPublish.indexDocumentPreviewPlaceholder'', ''Choose a file to preview the site index document.''),
      (''sites.uploadPublish.submit'', ''Upload and publish''),
      (''sites.delete.title'', ''Delete site?''),
      (''sites.delete.description'', ''This removes the website bound to {domain}. This action cannot be undone.'')]"

definition enUS_buckets :: "(string \<times> string) list" where
  "enUS_buckets =
     [(''buckets.overview.totalBuckets'', ''Total bucket''),
      (''buckets.overview.apiHost'', ''API host''),
      (''buckets.overview.authStatus'', ''Auth status''),
      (''buckets.overview.latestBucket'', ''Latest bucket activity''),
      (''buckets.overview.emptyTimestamp'', ''No bucket activity yet''),
      (''buckets.create.title'', ''Create a new bucket''),
      (''buckets.create.description'', ''bucket is available immediately after the API confirms creation.''),
      (''buckets.form.name.label'', ''bucket name''),
      (''buckets.form.name.description'', ''Lowercase, URL-safe names work best for object paths.''),
      (''buckets.form.name.placeholder'', ''example-bucket''),
      (''buckets.form.submit'', ''Create bucket''),
      (''buckets.form.submitting'', ''Creating...''),
      (''buckets.pin.title'', ''Pinned buckets''),
      (''buckets.pin.add'', ''Pin''),
      (''buckets.pin.remove'', ''Unpin''),
      (''buckets.pin.addLabel'', ''Pin bucket {bucket}''),
      (''buckets.pin.removeLabel'', ''Unpin bucket {bucket}''),
      (''buckets.pin.localHint'', ''Saved only in this browser''),
      (''buckets.pin.storageError'', ''Could not access local bucket pins. Check your browser storage settings.''),
      (''buckets.pin.loadError'', ''Failed to load pinned buckets''),
      (''buckets.list.title'', ''bucket list''),
      (''buckets.list.description'', ''{count} bucket available in the current connection.''),
      (''buckets.list.total'', ''{count} total''),
      (''buckets.search.label'', ''Search bucket''),
      (''buckets.search.placeholder'', ''Search by bucket name''),
      (''buckets.search.emptyTitle'', ''No matching bucket''),
      (''buckets.search.emptyDescription'', ''Try another keyword or create a new bucket.''),
      (''buckets.recycleBin.open'', ''Recycle bin''),
      (''buckets.recycleBin.title'', ''Recycle bin''),
      (''buckets.recycleBin.description'', ''Review deleted objects in the current bucket, restore them, or delete them permanently.''),
      (''buckets.recycleBin.emptyTitle'', ''Recycle bin is empty''),
      (''buckets.recycleBin.emptyDescription'', ''Deleted objects will appear here until they are restored or permanently deleted.''),
      (''buckets.recycleBin.refresh'', ''Refresh''),
      (''buckets.recycleBin.selectedCount'', ''{count} items selected''),
      (''buckets.recycleBin.restore'', ''Restore''),
      (''buckets.recycleBin.delete'', ''Delete permanently''),
      (''buckets.recycleBin.restoreSelected'', ''Restore selected''),
      (''buckets.recycleBin.deleteSelected'', ''Delete selected''),
      (''buckets.recycleBin.clearSelection'', ''Clear selection''),
      (''buckets.recycleBin.pagination'', ''Page {page}''),
      (''buckets.recycleBin.restoreConfirmTitle'', ''Restore recycle bin items?''),
      (''buckets.recycleBin.restoreConfirmDescription'', ''This will restore {count} recycle bin items to their original paths.''),
      (''buckets.recycleBin.restoreFailedTitle'', ''Restore failed''),
      (''buckets.recycleBin.restoreFailedDescription'', ''{count} recycle bin items could not be restored. Review the returned reason below.''),
      (''buckets.recycleBin.restoreFailedUnknownMessage'', ''No reason returned.''),
      (''buckets.recycleBin.deleteConfirmTitle'', ''Delete permanently?''),
      (''buckets.recycleBin.deleteConfirmDescription'', ''This will permanently delete {count} recycle bin items. This action cannot be undone.''),
      (''buckets.recycleBin.table.type'', ''Type''),
      (''buckets.recycleBin.table.path'', ''Name / path''),
      (''buckets.recycleBin.table.bucket'', ''Bucket''),
      (''buckets.recycleBin.table.size'', ''Size''),
      (''buckets.recycleBin.table.deletedAt'', ''Deleted''),
      (''buckets.recycleBin.table.actions'', ''Actions''),
      (''buckets.recycleBin.type.file'', ''File''),
      (''buckets.recycleBin.type.directory'', ''Directory''),
      (''buckets.list.openHint'', ''Open bucket''),
      (''buckets.delete.title'', ''Delete bucket?''),
      (''buckets.delete.description'', ''This removes {bucket} together with all files and linked sites. This action cannot be undone.''),
      (''buckets.delete.sitesTitle'', ''The following sites will also be deleted:''),
      (''buckets.delete.confirmLabel'', ''Type the bucket name to confirm''),
      (''buckets.delete.confirmPlaceholder'', ''Enter bucket name''),
      (''buckets.delete.confirmDescription'', ''Enter {bucket} exactly to enable deletion.''),
      (''buckets.delete.submit'', ''Delete bucket''),
      (''buckets.delete.submitting'', ''Deleting...''),
      (''buckets.table.name'', ''Name''),
      (''buckets.table.createdAt'', ''Created''),
      (''buckets.table.updatedAt'', ''Updated''),
      (''buckets.table.actions'', ''Actions''),
      (''buckets.empty.title'', ''No bucket yet''),
      (''buckets.empty.description'', ''Create your first bucket to start uploading and organizing objects.''),
      (''objects.title'', ''Object explorer''),
      (''objects.description'', ''Manage uploads, visibility, and downloads for this bucket.''),
      (''objects.filter.title'', ''Prefix filter''),
      (''objects.filter.description'', ''Narrow results by prefix and browse with cursor pagination.''),
      (''objects.filter.label'', ''Prefix''),
      (''objects.filter.placeholder'', ''prefix, for example docs/''),
      (''objects.filter.submit'', ''Apply filter''),
      (''objects.filter.currentPrefix'', ''Current prefix''),
      (''objects.filter.noPrefix'', ''No prefix filter''),
      (''objects.upload.title'', ''Upload object''),
      (''objects.upload.description'', ''Stream files directly into the selected bucket.''),
      (''objects.form.file.label'', ''File''),
      (''objects.form.file.description'', ''Choose one file per upload request.''),
      (''objects.form.objectKey.label'', ''Object key''),
      (''objects.form.objectKey.description'', ''Leave blank to reuse the uploaded file name.''),
      (''objects.form.objectKey.placeholder'', ''folder/demo.txt''),
      (''objects.form.visibility.label'', ''Visibility''),
      (''objects.form.visibility.description'', ''Control whether the object can be downloaded publicly.''),
      (''objects.visibility.private'', ''Private''),
      (''objects.visibility.public'', ''Public''),
      (''objects.form.submit'', ''Upload object''),
      (''objects.form.submitting'', ''Uploading...''),
      (''objects.progress.label'', ''Upload progress''),
      (''objects.table.title'', ''Objects''),
      (''objects.table.description'', ''Browse objects stored in this bucket.''),
      (''objects.table.total'', ''{count} total''),
      (''objects.table.key'', ''Object key''),
      (''objects.table.size'', ''Size''),
      (''objects.table.etag'', ''ETag''),
      (''objects.table.visibility'', ''Visibility''),
      (''objects.table.createdAt'', ''Created''),
      (''objects.table.actions'', ''Actions''),
      (''objects.actions.directDownload'', ''Direct download''),
      (''objects.actions.signedDownload'', ''Signed download''),
      (''objects.actions.signing'', ''Signing...''),
      (''objects.actions.deleting'', ''Deleting...''),
      (''objects.delete.title'', ''Delete object?''),
      (''objects.delete.description'', ''This removes {objectKey} from {bucket}. This action cannot be undone.''),
      (''objects.pagination.previous'', ''Previous page''),
      (''objects.pagination.next'', ''Next page''),
      (''objects.pagination.label'', ''Page {page}''),
      (''objects.pagination.description'', ''Cursor-based pagination''),
      (''objects.empty.title'', ''No objects in this bucket''),
      (''objects.empty.description'', ''Upload a file or adjust the prefix filter to see more results.''),
      (''objects.loading.title'', ''Loading objects''),
      (''objects.loading.description'', ''Fetching object metadata from the API.'')]"

definition enUS_explorer :: "(string \<times> string) list" where
  "enUS_explorer =
     [(''explorer.title'', ''bucket explorer''),
      (''explorer.rootFolder'', ''/''),
      (''explorer.currentFolder'', ''Current folder''),
      (''explorer.toolbar.upload'', ''Upload''),
      (''explorer.toolbar.uploadFolder'', ''Upload folder''),
      (''explorer.toolbar.newFolder'', ''New folder''),
      (''explorer.toolbar.refresh'', ''Refresh''),
      (''explorer.toolbar.tree'', ''Folder tree''),
      (''explorer.toolbar.search'', ''Search files''),
      (''explorer.toolbar.searchPlaceholder'', ''Search in current folder''),
      (''explorer.toolbar.limit'', ''Items per page''),
      (''explorer.tree.title'', ''Folder tree''),
      (''explorer.tree.count'', ''{count} folders''),
      (''explorer.tree.empty'', ''No folders available yet.''),
      (''explorer.tree.mobileDescription'', ''Browse the full folder hierarchy in this bucket.''),
      (''explorer.table.name'', ''Name''),
      (''explorer.table.size'', ''Size''),
      (''explorer.table.updatedAt'', ''Latest modified''),
      (''explorer.table.url'', ''URL''),
      (''explorer.table.actions'', ''Actions''),
      (''explorer.selection.selectAll'', ''Select all items''),
      (''explorer.selection.selectRow'', ''Select {name}''),
      (''explorer.sort.ascending'', ''Sort {label} ascending''),
      (''explorer.sort.descending'', ''Sort {label} descending''),
      (''explorer.sort.clear'', ''Clear sorting''),
      (''explorer.sort.confirm'', ''Apply''),
      (''explorer.sort.cancel'', ''Cancel''),
      (''explorer.sort.option.asc'', ''Ascending''),
      (''explorer.sort.option.desc'', ''Descending''),
      (''explorer.sort.validation.required'', ''Select a sort order before applying.''),
      (''explorer.sort.popover.title'', ''Sort by {label}''),
      (''explorer.sort.popover.description'', ''Choose an order and confirm to apply it.''),
      (''explorer.sort.state.none'', ''not sorted''),
      (''explorer.sort.state.asc'', ''ascending''),
      (''explorer.sort.state.desc'', ''descending''),
      (''explorer.sort.trigger'', ''Sort {label}: {state}''),
      (''explorer.actions.goBack'', ''Go back''),
      (''explorer.actions.goForward'', ''Go forward''),
      (''explorer.actions.openFolder'', ''Open folder''),
      (''explorer.actions.downloadFolderZip'', ''Download ZIP''),
      (''explorer.actions.downloadingFolderZip'', ''Downloading ZIP...''),
      (''explorer.actions.downloadingFile'', ''Downloading...''),
      (''explorer.actions.publishSite'', ''Publish site''),
      (''explorer.actions.directDownload'', ''Direct download''),
      (''explorer.actions.signedDownload'', ''Signed download''),
      (''explorer.actions.copyUrl'', ''Copy URL''),
      (''explorer.actions.viewDetails'', ''View details''),
      (''explorer.actions.more'', ''More actions''),
      (''explorer.actions.fullscreenPreview'', ''Fullscreen preview''),
      (''explorer.actions.deleteFolder'', ''Delete folder''),
      (''explorer.bulk.selectedCount'', ''{count} items selected''),
      (''explorer.bulk.download'', ''Download selected''),
      (''explorer.bulk.downloading'', ''Downloading selected...''),
      (''explorer.bulk.delete'', ''Delete selected''),
      (''explorer.bulk.deleting'', ''Deleting selected...''),
      (''explorer.bulk.clearSelection'', ''Clear selection''),
      (''explorer.bulk.deleteConfirmTitle'', ''Delete selected items?''),
      (''explorer.bulk.deleteConfirmDescription'', ''This will delete {count} selected files or folders from the current page.''),
      (''sites.publish.title'', ''Publish folder as a site''),
      (''sites.publish.description'', ''Bind one or more domains to this folder prefix and serve its public objects as a website.''),
      (''sites.publishObject.title'', ''Publish file as a site''),
      (''sites.publishObject.description'', ''Bind one or more domains to this file and serve it as the site root document.''),
      (''sites.publish.bucket'', ''Bucket''),
      (''sites.publish.rootPrefix'', ''Root prefix''),
      (''sites.publish.domains'', ''Domains''),
      (''sites.publish.domainsDescription'', ''Use full custom domains, separated by commas.''),
      (''sites.publish.indexDocument'', ''Index document''),
      (''sites.publish.errorDocument'', ''Error document''),
      (''sites.publish.spaFallback'', ''SPA fallback''),
      (''explorer.details.title'', ''File details''),
      (''explorer.details.description'', ''Review metadata for {name}.''),
      (''explorer.details.originalFilename'', ''Original file name''),
      (''explorer.details.contentType'', ''Content type''),
      (''explorer.details.preview'', ''Preview''),
      (''explorer.preview.markdownTooLarge'', ''This file is too large to preview. Markdown preview is not supported above 100 KB.''),
      (''explorer.preview.textTooLarge'', ''This file is too large to preview. Text preview is not supported above 100 KB.''),
      (''explorer.upload.title'', ''Upload file''),
      (''explorer.upload.description'', ''Files are uploaded into the currently selected folder.''),
      (''explorer.upload.objectNameLabel'', ''Object name''),
      (''explorer.upload.objectNamePlaceholder'', ''file.txt''),
      (''explorer.upload.submit'', ''Start upload''),
      (''explorer.overwrite.title'', ''Overwrite existing files?''),
      (''explorer.overwrite.description'', ''This upload will overwrite existing files in {target}. Continue?''),
      (''explorer.overwrite.confirm'', ''Overwrite and upload''),
      (''explorer.folderUpload.title'', ''Upload folder''),
      (''explorer.folderUpload.description'', ''All files in the selected folder are uploaded in one request.''),
      (''explorer.folderUpload.folderLabel'', ''Folder''),
      (''explorer.folderUpload.folderDescription'', ''Choose one folder per request. Empty folders are not uploaded.''),
      (''explorer.folderUpload.submit'', ''Start folder upload''),
      (''explorer.createFolder.title'', ''Create folder''),
      (''explorer.createFolder.description'', ''Create an empty folder marker in the current location.''),
      (''explorer.createFolder.nameLabel'', ''Folder name''),
      (''explorer.createFolder.namePlaceholder'', ''new-folder''),
      (''explorer.createFolder.nameDescription'', ''Use a single folder name without slashes.''),
      (''explorer.createFolder.submit'', ''Create folder''),
      (''explorer.createFolder.submitting'', ''Creating...''),
      (''explorer.deleteFolder.title'', ''Delete folder?''),
      (''explorer.deleteFolder.description'', ''This removes the folder {name} from {bucket} together with all nested files and folders.''),
      (''explorer.empty.title'', ''This folder is empty''),
      (''explorer.empty.description'', ''Upload a file or create a folder to populate this location.''),
      (''explorer.limit.option'', ''{count} / page''),
      (''explorer.pagination.summary'', ''Showing {count} items / Page {page}'')]"

definition enUS_settings :: "(string \<times> string) list" where
  "enUS_settings =
     [(''settings.title'', ''Settings''),
      (''settings.description'', ''Manage API connection details, the global storage limit, language, and theme preferences.''),
      (''settings.connection.title'', ''Connection settings''),
      (''settings.connection.description'', ''These values are stored in localStorage for this browser only.''),
      (''settings.connection.apiBaseUrl'', ''API base URL''),
      (''settings.connection.apiBaseUrlDescription'', ''Example: http://localhost:8080''),
      (''settings.connection.bearerToken'', ''Bearer token''),
      (''settings.connection.bearerTokenDescription'', ''Used for authenticated API requests.''),
      (''settings.connection.showToken'', ''Show''),
      (''settings.connection.hideToken'', ''Hide''),
      (''settings.connection.testConnection'', ''Test connection''),
      (''settings.connection.testingConnection'', ''Testing''),
      (''settings.storage.title'', ''Storage limit''),
      (''settings.storage.description'', ''Review current OSS usage and update the persisted global hard limit.''),
      (''settings.storage.currentUsage'', ''Current usage''),
      (''settings.storage.currentLimit'', ''Current limit''),
      (''settings.storage.remaining'', ''Remaining capacity''),
      (''settings.storage.usagePercent'', ''Usage percent''),
      (''settings.storage.status'', ''Status''),
      (''settings.storage.rootPath'', ''Storage root path''),
      (''settings.storage.limitGiB'', ''Storage limit (GiB)''),
      (''settings.storage.limitGiBDescription'', ''The value is saved on the backend and applied to all new writes.''),
      (''settings.storage.saveLimit'', ''Save storage limit''),
      (''settings.storage.savingLimit'', ''Saving limit''),
      (''settings.storage.unavailable'', ''Save the connection settings with a valid bearer token before changing the storage limit.''),
      (''settings.storage.invalidLimit'', ''Storage limit must be greater than 0 GiB.''),
      (''settings.storage.status.ok'', ''OK''),
      (''settings.storage.status.warning'', ''Warning''),
      (''settings.storage.status.exceeded'', ''Exceeded''),
      (''settings.preferences.title'', ''Interface preferences''),
      (''settings.preferences.description'', ''Quick controls for locale and light/dark appearance.''),
      (''settings.preferences.localeLabel'', ''Interface language''),
      (''settings.preferences.localeDescription'', ''Used for labels, dates, and status text.''),
      (''settings.preferences.themeLabel'', ''Color theme''),
      (''settings.preferences.themeDescription'', ''Switch between light and dark dashboard surfaces.''),
      (''settings.security.title'', ''Security notice''),
      (''settings.security.description'', ''Token storage in localStorage is acceptable for local demos only. Move credentials to a safer model before production use.'')]"

definition enUS_toasts :: "(string \<times> string) list" where
  "enUS_toasts =
     [(''toast.bucketCreated'', ''bucket created''),
      (''toast.bucketDeleted'', ''bucket deleted''),
      (''toast.folderCreated'', ''Folder created''),
      (''toast.folderDeleted'', ''Folder deleted''),
      (''toast.folderUploaded'', ''Folder uploaded''),
      (''toast.objectUploaded'', ''Object uploaded''),
      (''toast.objectDeleted'', ''Object deleted''),
      (''toast.recycleBin.restored'', ''{count} items restored''),
      (''toast.recycleBin.restorePartial'', ''{successCount} items restored, {failedCount} failed''),
      (''toast.recycleBin.deleted'', ''{count} items permanently deleted''),
      (''toast.recycleBin.deletePartial'', ''{successCount} items permanently deleted, {failedCount} failed''),
      (''toast.objectVisibilityUpdated'', ''Object visibility updated''),
      (''toast.bulkDownloadCompleted'', ''{count} items downloaded''),
      (''toast.bulkDownloadPartial'', ''Downloaded {successCount} items, {failedCount} failed''),
      (''toast.bulkDeleteCompleted'', ''{count} items deleted''),
      (''toast.bulkDeletePartial'', ''Deleted {successCount} items, {failedCount} failed''),
      (''toast.signedDownloadReady'', ''Signed download URL created''),
      (''toast.sitePublished'', ''Site published''),
      (''toast.siteCreated'', ''Site created''),
      (''toast.siteUpdated'', ''Site updated''),
      (''toast.siteDeleted'', ''Site deleted''),
      (''toast.urlCopied'', ''URL copied''),
      (''toast.settingsSaved'', ''Settings saved''),
      (''toast.storageQuotaSaved'', ''Storage limit saved'')]"

definition enUS_errors :: "(string \<times> string) list" where
  "enUS_errors =
     [(''errors.loadBuckets'', ''Failed to load bucket''),
      (''errors.loadSystemStats'', ''Failed to load system stats''),
      (''errors.deleteBucket'', ''Failed to delete bucket''),
      (''errors.loadObjects'', ''Failed to load objects''),
      (''errors.loadFolders'', ''Failed to load folder tree''),
      (''errors.loadEntries'', ''Failed to load folder entries''),
      (''errors.loadSites'', ''Failed to load sites''),
      (''errors.createBucket'', ''Failed to create bucket''),
      (''errors.createFolder'', ''Failed to create folder''),
      (''errors.createSite'', ''Failed to create site''),
      (''errors.uploadFolder'', ''Folder upload failed''),
      (''errors.uploadObject'', ''Upload failed''),
      (''errors.deleteObject'', ''Delete failed''),
      (''errors.deleteFolder'', ''Failed to delete folder''),
      (''errors.bulkDeleteEntries'', ''Failed to delete selected items''),
      (''errors.recycleBin.restore'', ''Failed to restore recycle bin items''),
      (''errors.recycleBin.delete'', ''Failed to delete recycle bin items''),
      (''errors.downloadObject'', ''Failed to download file''),
      (''errors.downloadFolderZip'', ''Failed to download folder ZIP''),
      (''errors.updateSite'', ''Failed to update site''),
      (''errors.deleteSite'', ''Failed to delete site''),
      (''errors.updateObjectVisibility'', ''Failed to update object visibility''),
      (''errors.signObject'', ''Failed to create a signed download URL''),
      (''errors.publishSite'', ''Failed to publish site''),
      (''errors.copyUrl'', ''Failed to copy URL''),
      (''errors.updateStorageQuota'', ''Failed to update storage limit''),
      (''errors.bucketNotFound'', ''Open this page again from the bucket list.'')]"

definition enUS :: "(string \<times> string) list" where
  "enUS = enUS_shell @ enUS_buckets @ enUS_explorer @ enUS_settings @ enUS_toasts @ enUS_errors"

section \<open>Holes\<close>

text \<open>The tokens that \<open>interpolate\<close> replaces, in their order.\<close>

function template_holes :: "string \<Rightarrow> string list" where
  "template_holes [] = []"
| "template_holes (c # s) =
     (let token = takeWhile is_word_char s; rest = dropWhile is_word_char s
      in if c = CHR ''{'' \<and> token \<noteq> [] \<and> rest \<noteq> [] \<and> hd rest = CHR ''}''
         then token # template_holes (tl rest)
         else template_holes s)"
  by pat_completeness auto
termination
  by (relation "measure length")
     (auto simp: less_Suc_eq_le intro: le_trans [OF diff_le_self length_dropWhile_le])

definition says :: "string \<Rightarrow> string list \<Rightarrow> bool" where
  "says key names =
     (case map_of enUS key of
        None \<Rightarrow> False
      | Some template \<Rightarrow> set (template_holes template) = set names)"

fun message_complete :: "message_text \<Rightarrow> bool" where
  "message_complete (Raw _) = True"
| "message_complete (Key key values) = says key (map fst values)"

fun toast_complete :: "toast \<Rightarrow> bool" where
  "toast_complete (ToastSuccess m) = message_complete m"
| "toast_complete (ToastError m) = message_complete m"

text \<open>The text depends on the values of its holes only.\<close>

lemma interpolate_cong:
  "(\<And>h. h \<in> set (template_holes t) \<Longrightarrow> v h = w h) \<Longrightarrow> interpolate v t = interpolate w t"
proof (induction t rule: template_holes.induct)
  case (2 c s)
  let ?token = "takeWhile is_word_char s" and ?rest = "dropWhile is_word_char s"
  show ?case
  proof (cases "c = CHR ''{'' \<and> ?token \<noteq> [] \<and> ?rest \<noteq> [] \<and> hd ?rest = CHR ''}''")
    case True
    with 2 show ?thesis by (simp add: Let_def)
  next
    case False
    have "template_holes (c # s) = template_holes s"
      by (simp only: template_holes.simps Let_def if_not_P [OF False])
    with 2(2) [OF refl refl False] 2(3) have "interpolate v s = interpolate w s" by simp
    then show ?thesis by (simp only: interpolate.simps Let_def if_not_P [OF False])
  qed
qed simp

lemma template_holes_hole:
  assumes "token \<noteq> []" "list_all is_word_char token"
  shows "template_holes (CHR ''{'' # token @ CHR ''}'' # s) = token # template_holes s"
proof -
  have "\<not> is_word_char (CHR ''}'')" by (simp add: is_word_char_def)
  with assms have "takeWhile is_word_char (token @ CHR ''}'' # s) = token"
    "dropWhile is_word_char (token @ CHR ''}'' # s) = CHR ''}'' # s"
    by (simp_all add: takeWhile_append2 dropWhile_append2 list_all_iff)
  with assms(1) show ?thesis by simp
qed

lemma template_holes_other [simp]: "c \<noteq> CHR ''{'' \<Longrightarrow> template_holes (c # s) = template_holes s"
  by (simp add: Let_def)

declare template_holes.simps(2) [simp del]

text \<open>The holes of the messages, spelled out for rewriting.\<close>

lemma hole_words:
  "list_all is_word_char ''count''" "list_all is_word_char ''successCount''"
  "list_all is_word_char ''failedCount''"
  by code_simp+

lemmas hole_rules =
  template_holes_hole [OF _ hole_words(1), simplified]
  template_holes_hole [OF _ hole_words(2), simplified]
  template_holes_hole [OF _ hole_words(3), simplified]

section \<open>The messages of the toasts\<close>

text \<open>The keys of toasts and of errors begin with a word that no key of another part begins with.\<close>

lemma other_parts:
  "list_all (\<lambda>e. take 6 (fst e) \<noteq> ''toast.'' \<and> take 7 (fst e) \<noteq> ''errors.'' \<and> take 9 (fst e) \<noteq> ''settings.'')
     (enUS_shell @ enUS_buckets @ enUS_explorer)"
  "list_all (\<lambda>e. take 6 (fst e) \<noteq> ''toast.'' \<and> take 7 (fst e) \<noteq> ''errors.'') enUS_settings"
  "list_all (\<lambda>e. take 7 (fst e) \<noteq> ''errors.'' \<and> take 9 (fst e) \<noteq> ''settings.'') enUS_toasts"
  "list_all (\<lambda>e. take 6 (fst e) \<noteq> ''toast.'' \<and> take 9 (fst e) \<noteq> ''settings.'') enUS_errors"
  by (simp_all add: enUS_shell_def enUS_buckets_def enUS_explorer_def enUS_settings_def enUS_toasts_def
      enUS_errors_def)

lemma lookup_in_part:
  assumes "enUS = xs @ ys @ zs" "list_all (\<lambda>e. take n (fst e) \<noteq> w) (xs @ zs)" "take n key = w"
  shows "map_of enUS key = map_of ys key"
proof -
  have "map_of xs key = None" "map_of zs key = None"
    using assms(2,3) by (auto simp: map_of_eq_None_iff list_all_iff)
  then show ?thesis by (simp add: assms(1) map_add_def split: option.split)
qed

lemma toast_lookup: "take 6 key = ''toast.'' \<Longrightarrow> map_of enUS key = map_of enUS_toasts key"
  by (rule lookup_in_part [where n = 6 and w = "''toast.''" and xs = "enUS_shell @ enUS_buckets @ enUS_explorer @ enUS_settings"
        and zs = enUS_errors])
     (use other_parts in \<open>auto simp: enUS_def list_all_iff\<close>)

lemma error_lookup: "take 7 key = ''errors.'' \<Longrightarrow> map_of enUS key = map_of enUS_errors key"
  by (rule lookup_in_part [where n = 7 and w = "''errors.''" and zs = "[]"
        and xs = "enUS_shell @ enUS_buckets @ enUS_explorer @ enUS_settings @ enUS_toasts"])
     (use other_parts in \<open>auto simp: enUS_def list_all_iff\<close>)

lemma settings_lookup: "take 9 key = ''settings.'' \<Longrightarrow> map_of enUS key = map_of enUS_settings key"
  by (rule lookup_in_part [where n = 9 and w = "''settings.''" and xs = "enUS_shell @ enUS_buckets @ enUS_explorer"
        and zs = "enUS_toasts @ enUS_errors"])
     (use other_parts in \<open>auto simp: enUS_def list_all_iff\<close>)

lemma says_toasts [simp]:
  "says ''toast.objectUploaded'' []" "says ''toast.folderUploaded'' []" "says ''toast.folderCreated'' []"
  "says ''toast.sitePublished'' []" "says ''toast.objectDeleted'' []" "says ''toast.folderDeleted'' []"
  "says ''toast.settingsSaved'' []" "says ''toast.storageQuotaSaved'' []"
  "says ''toast.recycleBin.restored'' [''count'']"
  "says ''toast.recycleBin.restorePartial'' [''successCount'', ''failedCount'']"
  "says ''toast.recycleBin.deleted'' [''count'']"
  "says ''toast.recycleBin.deletePartial'' [''successCount'', ''failedCount'']"
  "says ''toast.bulkDownloadCompleted'' [''count'']"
  "says ''toast.bulkDownloadPartial'' [''successCount'', ''failedCount'']"
  "says ''toast.bulkDeleteCompleted'' [''count'']"
  "says ''toast.bulkDeletePartial'' [''successCount'', ''failedCount'']"
  by (simp_all add: says_def toast_lookup enUS_toasts_def hole_rules)

lemma says_errors [simp]:
  "says ''errors.uploadObject'' []" "says ''errors.uploadFolder'' []" "says ''errors.createFolder'' []"
  "says ''errors.publishSite'' []" "says ''errors.deleteObject'' []" "says ''errors.deleteFolder'' []"
  "says ''errors.downloadObject'' []" "says ''errors.downloadFolderZip'' []"
  "says ''errors.bulkDeleteEntries'' []" "says ''errors.recycleBin.restore'' []"
  "says ''errors.recycleBin.delete'' []" "says ''errors.updateStorageQuota'' []"
  by (simp_all add: says_def error_lookup enUS_errors_def)

lemma says_invalid_limit [simp]: "says ''settings.storage.invalidLimit'' []"
  by (simp add: says_def settings_lookup enUS_settings_def)

lemma complete_error_text [simp]: "says key [] \<Longrightarrow> message_complete (error_text e key)"
  by (simp add: error_text_def split: thrown.split)

end
