(* ===== verification/Chinese.thy ===== *)
theory Chinese
  imports Dictionary "HOL-Library.Word"
begin

text \<open>
  The Chinese dictionary of \<open>frontend/src/lib/i18n.tsx\<close>. Its characters are beyond the Latin ones of
  the model's strings, so a text is a list of pieces: Latin text, and runs of UTF-16 code units as
  a JavaScript string holds them. The definitions follow the source piece by piece; the dictionary
  lists them in the order of the English one, which makes no difference to an object literal. The
  theory shows that both dictionaries have the same keys and that the two texts of a key have
  the same holes, which the types of the source do not say.
\<close>

section \<open>Texts\<close>

datatype text_piece = Lat string | Uni "16 word list"

type_synonym wide_text = "text_piece list"

text \<open>The code units of a text.\<close>

fun piece_units :: "text_piece \<Rightarrow> 16 word list" where
  "piece_units (Lat s) = map (\<lambda>c. word_of_nat (of_char c)) s"
| "piece_units (Uni us) = us"

definition text_units :: "wide_text \<Rightarrow> 16 word list" where
  "text_units t = concat (map piece_units t)"

text \<open>No hole of a template spans two pieces: its braces and its word are Latin.\<close>

fun piece_holes :: "text_piece \<Rightarrow> string list" where
  "piece_holes (Lat s) = template_holes s"
| "piece_holes (Uni us) = []"

definition wide_holes :: "wide_text \<Rightarrow> string list" where
  "wide_holes t = concat (map piece_holes t)"

section \<open>The dictionary\<close>

definition zhCN_app :: "(string \<times> wide_text) list" where
  "zhCN_app =
     [(''app.name'', [Lat ''Light OSS '', Uni [0x4EEA, 0x8868, 0x76D8]]),
      (''app.tagline'', [Uni [0x5BF9, 0x8C61, 0x5B58, 0x50A8, 0x7BA1, 0x7406, 0x9762, 0x677F]]),
      (''nav.dashboard'', [Uni [0x4EEA, 0x8868, 0x76D8]]),
      (''nav.buckets'', [Lat ''bucket''])]"

definition zhCN_shell :: "(string \<times> wide_text) list" where
  "zhCN_shell =
     [(''nav.settings'', [Uni [0x8BBE, 0x7F6E]]),
      (''sidebar.section.platform'', [Uni [0x5E73, 0x53F0]]),
      (''sidebar.section.explorer'', [Uni [0x6D4F, 0x89C8, 0x5668]]),
      (''sidebar.action.localOnly'', [Uni [0x672C, 0x5730, 0x6A21, 0x5F0F]]),
      (''breadcrumbs.dashboard'', [Uni [0x4EEA, 0x8868, 0x76D8]]),
      (''header.connection'', [Uni [0x8FDE, 0x63A5]]),
      (''header.apiHost'', [Lat ''API '', Uni [0x5730, 0x5740]]),
      (''header.authConfigured'', [Uni [0x4EE4, 0x724C, 0x5DF2, 0x914D, 0x7F6E]]),
      (''header.authMissing'', [Uni [0x7F3A, 0x5C11, 0x4EE4, 0x724C]]),
      (''health.service'', [Uni [0x670D, 0x52A1]]),
      (''health.database'', [Uni [0x6570, 0x636E, 0x5E93]]),
      (''health.state.ok'', [Uni [0x6B63, 0x5E38]]),
      (''health.state.error'', [Uni [0x5F02, 0x5E38]]),
      (''health.state.tokenError'', [Uni [0x4EE4, 0x724C, 0x9519, 0x8BEF]]),
      (''health.state.checking'', [Uni [0x68C0, 0x67E5, 0x4E2D]]),
      (''health.state.unconfigured'', [Uni [0x672A, 0x914D, 0x7F6E]]),
      (''health.state.unreachable'', [Uni [0x4E0D, 0x53EF, 0x8FBE]]),
      (''health.state.unknown'', [Uni [0x672A, 0x77E5]]),
      (''header.language'', [Uni [0x8BED, 0x8A00]]),
      (''header.theme'', [Uni [0x4E3B, 0x9898]]),
      (''header.compactLanguageSwitch'', [Uni [0x5207, 0x6362, 0x8BED, 0x8A00]]),
      (''header.compactThemeSwitch'', [Uni [0x5207, 0x6362, 0x4E3B, 0x9898]]),
      (''header.docs'', [Lat ''API'', Uni [0x6587, 0x6863]]),
      (''nav.docs'', [Uni [0x6587, 0x6863]]),
      (''theme.light'', [Uni [0x6D45, 0x8272]]),
      (''theme.dark'', [Uni [0x6DF1, 0x8272]]),
      (''locale.en'', [Lat ''English'']),
      (''locale.zh'', [Uni [0x4E2D, 0x6587]]),
      (''common.save'', [Uni [0x4FDD, 0x5B58, 0x66F4, 0x6539]]),
      (''common.cancel'', [Uni [0x53D6, 0x6D88]])]"

definition zhCN_common :: "(string \<times> wide_text) list" where
  "zhCN_common =
     [(''common.apply'', [Uni [0x5E94, 0x7528]]),
      (''common.refresh'', [Uni [0x5237, 0x65B0]]),
      (''common.open'', [Uni [0x6253, 0x5F00]]),
      (''common.close'', [Uni [0x5173, 0x95ED]]),
      (''common.delete'', [Uni [0x5220, 0x9664]])]"

definition zhCN_dashboard :: "(string \<times> wide_text) list" where
  "zhCN_dashboard =
     [(''common.configure'', [Uni [0x914D, 0x7F6E]]),
      (''common.loading'', [Uni [0x52A0, 0x8F7D, 0x4E2D], Lat ''...'']),
      (''common.noData'', [Uni [0x6682, 0x65E0, 0x6570, 0x636E]]),
      (''common.configured'', [Uni [0x5DF2, 0x914D, 0x7F6E]]),
      (''common.missing'', [Uni [0x672A, 0x914D, 0x7F6E]]),
      (''common.current'', [Uni [0x5F53, 0x524D]]),
      (''common.ready'', [Uni [0x5C31, 0x7EEA]]),
      (''common.notAvailable'', [Uni [0x4E0D, 0x53EF, 0x7528]]),
      (''dashboard.title'', [Uni [0x4EEA, 0x8868, 0x76D8]]),
      (''dashboard.description'', [Uni [0x5728, 0x4E00, 0x4E2A, 0x9875, 0x9762, 0x4E2D, 0x76D1, 0x63A7],
         Lat '' bucket '', Uni [0x6D3B, 0x52A8, 0x3001, 0x8FDE, 0x63A5, 0x72B6, 0x6001, 0xFF0C, 0x5E76, 0x7BA1,
         0x7406, 0x5B58, 0x50A8, 0x8D44, 0x6E90, 0x3002]]),
      (''dashboard.system.title'', [Lat ''API '', Uni [0x4E3B, 0x673A, 0x6982, 0x89C8]]),
      (''dashboard.system.description'', [Uni [0x67E5, 0x770B, 0x5F53, 0x524D], Lat '' API '', Uni [0x4E3B,
         0x673A, 0x7684, 0x7CFB, 0x7EDF, 0x7C7B, 0x578B, 0x3001, 0x5B9E, 0x65F6, 0x8D44, 0x6E90, 0x5360, 0x7528,
         0xFF0C, 0x4EE5, 0x53CA], Lat '' OSS '', Uni [0x5B58, 0x50A8, 0x5B9E, 0x9645, 0x5360, 0x7528, 0x3002]]),
      (''dashboard.system.hostOS'', [Uni [0x4E3B, 0x673A, 0x7CFB, 0x7EDF]]),
      (''dashboard.system.hostOSDescription'', [Lat ''{host}'']),
      (''dashboard.system.cpuUsage'', [Lat ''CPU '', Uni [0x5360, 0x7528]]),
      (''dashboard.system.cpuDescription'', [Uni [0x6BCF], Lat '' 10 '', Uni [0x79D2, 0x81EA, 0x52A8, 0x5237,
         0x65B0, 0x4E00, 0x6B21, 0x3002]]),
      (''dashboard.system.memoryUsage'', [Uni [0x5185, 0x5B58, 0x5360, 0x7528]]),
      (''dashboard.system.memoryDescription'', [Uni [0x53EF, 0x7528], Lat '' {available}'']),
      (''dashboard.system.storageUsed'', [Lat ''OSS '', Uni [0x5B58, 0x50A8, 0x5360, 0x7528]]),
      (''dashboard.system.storageDescription'', [Lat ''{path}'']),
      (''dashboard.system.storageAlertWarningTitle'', [Uni [0x5B58, 0x50A8, 0x4E0A, 0x9650, 0x9884, 0x8B66]]),
      (''dashboard.system.storageAlertWarningDescription'', [Lat ''OSS '', Uni [0x5B58, 0x50A8, 0x5DF2, 0x4F7F,
         0x7528], Lat '' {used} / {max}'', Uni [0xFF0C, 0x5EFA, 0x8BAE, 0x5728, 0x4E0A, 0x4F20, 0x5931, 0x8D25,
         0x524D, 0x5C3D, 0x5FEB, 0x63D0, 0x9AD8, 0x4E0A, 0x9650, 0x3002]]),
      (''dashboard.system.storageAlertExceededTitle'', [Uni [0x5B58, 0x50A8, 0x4E0A, 0x9650, 0x5DF2, 0x8D85,
         0x51FA]]),
      (''dashboard.system.storageAlertExceededDescription'', [Lat ''OSS '', Uni [0x5B58, 0x50A8, 0x5DF2, 0x4F7F,
         0x7528], Lat '' {used} / {max}'', Uni [0x3002, 0x5728, 0x63D0, 0x9AD8, 0x4E0A, 0x9650, 0x6216, 0x91CA,
         0x653E, 0x7A7A, 0x95F4, 0x524D, 0xFF0C, 0x65B0, 0x7684, 0x5199, 0x5165, 0x4F1A, 0x88AB, 0x963B, 0x6B62,
         0x3002]]),
      (''dashboard.system.disksTitle'', [Uni [0x78C1, 0x76D8, 0x5360, 0x7528]]),
      (''dashboard.system.disksDescription'', [Uni [0x6309], Lat '' API '', Uni [0x4E3B, 0x673A, 0x5F53, 0x524D,
         0x53EF, 0x89C1, 0x7684, 0x76D8, 0x7B26, 0x6216, 0x6302, 0x8F7D, 0x70B9, 0x663E, 0x793A, 0x4F7F, 0x7528,
         0x60C5, 0x51B5, 0x3002]]),
      (''dashboard.system.diskLabel'', [Uni [0x78C1, 0x76D8]]),
      (''dashboard.system.mountPoint'', [Uni [0x6302, 0x8F7D, 0x70B9]]),
      (''dashboard.system.filesystem'', [Uni [0x6587, 0x4EF6, 0x7CFB, 0x7EDF]]),
      (''dashboard.system.usage'', [Uni [0x4F7F, 0x7528, 0x60C5, 0x51B5]]),
      (''dashboard.system.storageRoot'', [Uni [0x5B58, 0x50A8, 0x6839, 0x76EE, 0x5F55]]),
      (''dashboard.system.storageRootBadge'', [Uni [0x5B58, 0x50A8, 0x6839, 0x76EE, 0x5F55]]),
      (''dashboard.system.disksEmpty'', [Uni [0x6682, 0x65E0, 0x78C1, 0x76D8, 0x6570, 0x636E, 0x3002]]),
      (''dashboard.system.os.windows'', [Lat ''Windows'']),
      (''dashboard.system.os.linux'', [Lat ''Linux'']),
      (''dashboard.system.os.macos'', [Lat ''macOS'']),
      (''dashboard.system.os.other'', [Uni [0x5176, 0x4ED6]]),
      (''buckets.title'', [Lat ''bucket'']),
      (''buckets.description'', [Uni [0x67E5, 0x770B, 0x5F53, 0x524D, 0x53EF, 0x7528, 0x7684], Lat '' bucket'',
         Uni [0xFF0C, 0x5E76, 0x8FDB, 0x5165, 0x5BF9, 0x5E94], Lat '' bucket '', Uni [0x7BA1, 0x7406, 0x6587,
         0x4EF6, 0x3002]])]"

definition zhCN_buckets :: "(string \<times> wide_text) list" where
  "zhCN_buckets =
     [(''buckets.overview.totalBuckets'', [Lat ''bucket '', Uni [0x603B, 0x6570]]),
      (''buckets.overview.apiHost'', [Lat ''API '', Uni [0x4E3B, 0x673A]]),
      (''buckets.overview.authStatus'', [Uni [0x9274, 0x6743, 0x72B6, 0x6001]]),
      (''buckets.overview.latestBucket'', [Uni [0x6700, 0x8FD1, 0x7684], Lat '' bucket '', Uni [0x6D3B, 0x52A8]]),
      (''buckets.overview.emptyTimestamp'', [Uni [0x8FD8, 0x6CA1, 0x6709], Lat '' bucket '', Uni [0x6D3B, 0x52A8]]),
      (''buckets.create.title'', [Uni [0x521B, 0x5EFA, 0x65B0], Lat '' bucket'']),
      (''buckets.create.description'', [Lat ''API '', Uni [0x786E, 0x8BA4, 0x521B, 0x5EFA, 0x540E, 0xFF0C],
         Lat ''bucket '', Uni [0x4F1A, 0x7ACB, 0x5373, 0x51FA, 0x73B0, 0x5728, 0x5217, 0x8868, 0x4E2D, 0x3002]]),
      (''buckets.form.name.label'', [Lat ''bucket '', Uni [0x540D, 0x79F0]]),
      (''buckets.form.name.description'', [Uni [0x5EFA, 0x8BAE, 0x4F7F, 0x7528, 0x5C0F, 0x5199, 0x4E14],
         Lat '' URL '', Uni [0x5B89, 0x5168, 0x7684, 0x540D, 0x79F0, 0xFF0C, 0x4FBF, 0x4E8E, 0x7BA1, 0x7406,
         0x5BF9, 0x8C61, 0x8DEF, 0x5F84, 0x3002]]),
      (''buckets.form.name.placeholder'', [Lat ''example-bucket'']),
      (''buckets.form.submit'', [Uni [0x521B, 0x5EFA], Lat '' bucket'']),
      (''buckets.form.submitting'', [Uni [0x521B, 0x5EFA, 0x4E2D], Lat ''...'']),
      (''buckets.pin.title'', [Uni [0x7F6E, 0x9876], Lat '' bucket'']),
      (''buckets.pin.add'', [Uni [0x7F6E, 0x9876]]),
      (''buckets.pin.remove'', [Uni [0x53D6, 0x6D88, 0x7F6E, 0x9876]]),
      (''buckets.pin.addLabel'', [Uni [0x7F6E, 0x9876], Lat '' bucket {bucket}'']),
      (''buckets.pin.removeLabel'', [Uni [0x53D6, 0x6D88, 0x7F6E, 0x9876], Lat '' bucket {bucket}'']),
      (''buckets.pin.localHint'', [Uni [0x4EC5, 0x4FDD, 0x5B58, 0x5728, 0x5F53, 0x524D, 0x6D4F, 0x89C8, 0x5668]]),
      (''buckets.pin.storageError'', [Uni [0x65E0, 0x6CD5, 0x8BBF, 0x95EE, 0x672C, 0x5730], Lat '' bucket '',
         Uni [0x7F6E, 0x9876, 0x8BB0, 0x5F55, 0xFF0C, 0x8BF7, 0x68C0, 0x67E5, 0x6D4F, 0x89C8, 0x5668, 0x5B58,
         0x50A8, 0x8BBE, 0x7F6E, 0x3002]]),
      (''buckets.pin.loadError'', [Uni [0x52A0, 0x8F7D, 0x7F6E, 0x9876], Lat '' bucket '', Uni [0x5931, 0x8D25]]),
      (''buckets.list.title'', [Lat ''bucket '', Uni [0x5217, 0x8868]]),
      (''buckets.list.description'', [Uni [0x5F53, 0x524D, 0x8FDE, 0x63A5, 0x4E0B, 0x5171, 0x6709],
         Lat '' {count} '', Uni [0x4E2A], Lat '' bucket'', Uni [0x3002]]),
      (''buckets.list.total'', [Uni [0x5171], Lat '' {count} '', Uni [0x4E2A]]),
      (''buckets.search.label'', [Uni [0x641C, 0x7D22], Lat '' bucket'']),
      (''buckets.search.placeholder'', [Uni [0x6309], Lat '' bucket '', Uni [0x540D, 0x79F0, 0x641C, 0x7D22]]),
      (''buckets.search.emptyTitle'', [Uni [0x6CA1, 0x6709, 0x5339, 0x914D, 0x7684], Lat '' bucket'']),
      (''buckets.search.emptyDescription'', [Uni [0x6362, 0x4E2A, 0x5173, 0x952E, 0x8BCD, 0xFF0C, 0x6216, 0x76F4,
         0x63A5, 0x521B, 0x5EFA, 0x4E00, 0x4E2A, 0x65B0, 0x7684], Lat '' bucket'', Uni [0x3002]]),
      (''buckets.recycleBin.open'', [Uni [0x56DE, 0x6536, 0x7AD9]]),
      (''buckets.recycleBin.title'', [Uni [0x56DE, 0x6536, 0x7AD9]]),
      (''buckets.recycleBin.description'', [Uni [0x67E5, 0x770B, 0x5F53, 0x524D], Lat '' bucket '', Uni [0x4E2D,
         0x5DF2, 0x5220, 0x9664, 0x7684, 0x5BF9, 0x8C61, 0xFF0C, 0x5E76, 0x652F, 0x6301, 0x8FD8, 0x539F, 0x6216,
         0x6C38, 0x4E45, 0x5220, 0x9664, 0x3002]]),
      (''buckets.recycleBin.emptyTitle'', [Uni [0x56DE, 0x6536, 0x7AD9, 0x4E3A, 0x7A7A]]),
      (''buckets.recycleBin.emptyDescription'', [Uni [0x5220, 0x9664, 0x540E, 0x7684, 0x5BF9, 0x8C61, 0x4F1A,
         0x51FA, 0x73B0, 0x5728, 0x8FD9, 0x91CC, 0xFF0C, 0x76F4, 0x5230, 0x88AB, 0x8FD8, 0x539F, 0x6216, 0x6C38,
         0x4E45, 0x5220, 0x9664, 0x3002]]),
      (''buckets.recycleBin.refresh'', [Uni [0x5237, 0x65B0]]),
      (''buckets.recycleBin.selectedCount'', [Uni [0x5DF2, 0x9009, 0x62E9], Lat '' {count} '', Uni [0x9879]]),
      (''buckets.recycleBin.restore'', [Uni [0x8FD8, 0x539F]]),
      (''buckets.recycleBin.delete'', [Uni [0x6C38, 0x4E45, 0x5220, 0x9664]]),
      (''buckets.recycleBin.restoreSelected'', [Uni [0x8FD8, 0x539F, 0x6240, 0x9009]]),
      (''buckets.recycleBin.deleteSelected'', [Uni [0x5220, 0x9664, 0x6240, 0x9009]]),
      (''buckets.recycleBin.clearSelection'', [Uni [0x6E05, 0x7A7A, 0x9009, 0x62E9]]),
      (''buckets.recycleBin.pagination'', [Uni [0x7B2C], Lat '' {page} '', Uni [0x9875]]),
      (''buckets.recycleBin.restoreConfirmTitle'', [Uni [0x8FD8, 0x539F, 0x8FD9, 0x4E9B, 0x9879, 0x76EE, 0xFF1F]]),
      (''buckets.recycleBin.restoreConfirmDescription'', [Uni [0x8FD9, 0x4F1A, 0x5C06], Lat '' {count} '',
         Uni [0x4E2A, 0x56DE, 0x6536, 0x7AD9, 0x9879, 0x76EE, 0x8FD8, 0x539F, 0x5230, 0x539F, 0x8DEF, 0x5F84,
         0x3002]]),
      (''buckets.recycleBin.restoreFailedTitle'', [Uni [0x8FD8, 0x539F, 0x5931, 0x8D25]]),
      (''buckets.recycleBin.restoreFailedDescription'', [Lat ''{count} '', Uni [0x4E2A, 0x56DE, 0x6536, 0x7AD9,
         0x9879, 0x76EE, 0x672A, 0x80FD, 0x8FD8, 0x539F, 0xFF0C, 0x8BF7, 0x67E5, 0x770B, 0x8FD4, 0x56DE, 0x539F,
         0x56E0, 0x3002]]),
      (''buckets.recycleBin.restoreFailedUnknownMessage'', [Uni [0x540E, 0x7AEF, 0x672A, 0x8FD4, 0x56DE, 0x5177,
         0x4F53, 0x539F, 0x56E0, 0x3002]]),
      (''buckets.recycleBin.deleteConfirmTitle'', [Uni [0x6C38, 0x4E45, 0x5220, 0x9664, 0x8FD9, 0x4E9B, 0x9879,
         0x76EE, 0xFF1F]]),
      (''buckets.recycleBin.deleteConfirmDescription'', [Uni [0x8FD9, 0x4F1A, 0x6C38, 0x4E45, 0x5220, 0x9664],
         Lat '' {count} '', Uni [0x4E2A, 0x56DE, 0x6536, 0x7AD9, 0x9879, 0x76EE, 0xFF0C, 0x4E14, 0x65E0, 0x6CD5,
         0x6062, 0x590D, 0x3002]]),
      (''buckets.recycleBin.table.type'', [Uni [0x7C7B, 0x578B]]),
      (''buckets.recycleBin.table.path'', [Uni [0x540D, 0x79F0], Lat '' / '', Uni [0x8DEF, 0x5F84]]),
      (''buckets.recycleBin.table.bucket'', [Lat ''Bucket'']),
      (''buckets.recycleBin.table.size'', [Uni [0x5927, 0x5C0F]]),
      (''buckets.recycleBin.table.deletedAt'', [Uni [0x5220, 0x9664, 0x65F6, 0x95F4]]),
      (''buckets.recycleBin.table.actions'', [Uni [0x64CD, 0x4F5C]]),
      (''buckets.recycleBin.type.file'', [Uni [0x6587, 0x4EF6]]),
      (''buckets.recycleBin.type.directory'', [Uni [0x6587, 0x4EF6, 0x5939]]),
      (''buckets.list.openHint'', [Uni [0x6253, 0x5F00], Lat '' bucket'']),
      (''buckets.delete.title'', [Uni [0x5220, 0x9664], Lat '' bucket'', Uni [0xFF1F]]),
      (''buckets.delete.description'', [Uni [0x8FD9, 0x4F1A, 0x5220, 0x9664], Lat '' {bucket} '', Uni [0x4EE5,
         0x53CA, 0x5176, 0x4E2D, 0x6240, 0x6709, 0x6587, 0x4EF6, 0x548C, 0x5173, 0x8054, 0x7AD9, 0x70B9, 0xFF0C,
         0x4E14, 0x65E0, 0x6CD5, 0x64A4, 0x9500, 0x3002]]),
      (''buckets.delete.sitesTitle'', [Uni [0x4EE5, 0x4E0B, 0x7AD9, 0x70B9, 0x4E5F, 0x4F1A, 0x88AB, 0x4E00,
         0x5E76, 0x5220, 0x9664, 0xFF1A]]),
      (''buckets.delete.confirmLabel'', [Uni [0x8F93, 0x5165], Lat '' bucket '', Uni [0x540D, 0x79F0, 0x4EE5,
         0x786E, 0x8BA4]]),
      (''buckets.delete.confirmPlaceholder'', [Uni [0x8BF7, 0x8F93, 0x5165], Lat '' bucket '', Uni [0x540D,
         0x79F0]]),
      (''buckets.delete.confirmDescription'', [Uni [0x8BF7, 0x51C6, 0x786E, 0x8F93, 0x5165], Lat '' {bucket} '',
         Uni [0x540E, 0x518D, 0x6267, 0x884C, 0x5220, 0x9664, 0x3002]]),
      (''buckets.delete.submit'', [Uni [0x5220, 0x9664], Lat '' bucket'']),
      (''buckets.delete.submitting'', [Uni [0x5220, 0x9664, 0x4E2D], Lat ''...'']),
      (''buckets.table.name'', [Uni [0x540D, 0x79F0]]),
      (''buckets.table.createdAt'', [Uni [0x521B, 0x5EFA, 0x65F6, 0x95F4]]),
      (''buckets.table.updatedAt'', [Uni [0x66F4, 0x65B0, 0x65F6, 0x95F4]]),
      (''buckets.table.actions'', [Uni [0x64CD, 0x4F5C]]),
      (''buckets.empty.title'', [Uni [0x8FD8, 0x6CA1, 0x6709], Lat '' bucket'']),
      (''buckets.empty.description'', [Uni [0x5148, 0x521B, 0x5EFA, 0x4E00, 0x4E2A], Lat '' bucket'',
         Uni [0xFF0C, 0x518D, 0x5F00, 0x59CB, 0x4E0A, 0x4F20, 0x548C, 0x7EC4, 0x7EC7, 0x5BF9, 0x8C61, 0x3002]]),
      (''objects.title'', [Uni [0x5BF9, 0x8C61, 0x6D4F, 0x89C8, 0x5668]]),
      (''objects.description'', [Uni [0x7BA1, 0x7406, 0x5F53, 0x524D], Lat '' bucket '', Uni [0x4E2D, 0x7684,
         0x4E0A, 0x4F20, 0x3001, 0x53EF, 0x89C1, 0x6027, 0x548C, 0x4E0B, 0x8F7D, 0x65B9, 0x5F0F, 0x3002]]),
      (''objects.filter.title'', [Uni [0x524D, 0x7F00, 0x7B5B, 0x9009]]),
      (''objects.filter.description'', [Uni [0x6309, 0x524D, 0x7F00, 0x7F29, 0x5C0F, 0x7ED3, 0x679C, 0x8303,
         0x56F4, 0xFF0C, 0x5E76, 0x4F7F, 0x7528], Lat '' cursor '', Uni [0x5206, 0x9875, 0x6D4F, 0x89C8,
         0x3002]]),
      (''objects.filter.label'', [Uni [0x524D, 0x7F00]]),
      (''objects.filter.placeholder'', [Uni [0x4F8B, 0x5982], Lat '' docs/'']),
      (''objects.filter.submit'', [Uni [0x5E94, 0x7528, 0x7B5B, 0x9009]]),
      (''objects.filter.currentPrefix'', [Uni [0x5F53, 0x524D, 0x524D, 0x7F00]]),
      (''objects.filter.noPrefix'', [Uni [0x672A, 0x8BBE, 0x7F6E, 0x524D, 0x7F00, 0x7B5B, 0x9009]]),
      (''objects.upload.title'', [Uni [0x4E0A, 0x4F20, 0x5BF9, 0x8C61]]),
      (''objects.upload.description'', [Uni [0x5C06, 0x6587, 0x4EF6, 0x76F4, 0x63A5, 0x6D41, 0x5F0F, 0x4E0A,
         0x4F20, 0x5230, 0x5F53, 0x524D], Lat '' bucket'', Uni [0x3002]]),
      (''objects.form.file.label'', [Uni [0x6587, 0x4EF6]]),
      (''objects.form.file.description'', [Uni [0x6BCF, 0x4E2A, 0x4E0A, 0x4F20, 0x8BF7, 0x6C42, 0x53EA, 0x80FD,
         0x9009, 0x62E9, 0x4E00, 0x4E2A, 0x6587, 0x4EF6, 0x3002]]),
      (''objects.form.objectKey.label'', [Uni [0x5BF9, 0x8C61, 0x952E]]),
      (''objects.form.objectKey.description'', [Uni [0x7559, 0x7A7A, 0x65F6, 0x4F1A, 0x81EA, 0x52A8, 0x4F7F,
         0x7528, 0x4E0A, 0x4F20, 0x6587, 0x4EF6, 0x540D, 0x3002]]),
      (''objects.form.objectKey.placeholder'', [Lat ''folder/demo.txt'']),
      (''objects.form.visibility.label'', [Uni [0x53EF, 0x89C1, 0x6027]]),
      (''objects.form.visibility.description'', [Uni [0x63A7, 0x5236, 0x5BF9, 0x8C61, 0x662F, 0x5426, 0x53EF,
         0x88AB, 0x516C, 0x5F00, 0x4E0B, 0x8F7D, 0x3002]]),
      (''objects.visibility.private'', [Uni [0x79C1, 0x6709]]),
      (''objects.visibility.public'', [Uni [0x516C, 0x5F00]]),
      (''objects.form.submit'', [Uni [0x4E0A, 0x4F20, 0x5BF9, 0x8C61]]),
      (''objects.form.submitting'', [Uni [0x4E0A, 0x4F20, 0x4E2D], Lat ''...'']),
      (''objects.progress.label'', [Uni [0x4E0A, 0x4F20, 0x8FDB, 0x5EA6]]),
      (''objects.table.title'', [Uni [0x5BF9, 0x8C61, 0x5217, 0x8868]]),
      (''objects.table.description'', [Uni [0x67E5, 0x770B, 0x5F53, 0x524D], Lat '' bucket '', Uni [0x4E2D,
         0x7684, 0x5BF9, 0x8C61, 0x3002]]),
      (''objects.table.total'', [Uni [0x5171], Lat '' {count} '', Uni [0x4E2A]]),
      (''objects.table.key'', [Uni [0x5BF9, 0x8C61, 0x952E]]),
      (''objects.table.size'', [Uni [0x5927, 0x5C0F]]),
      (''objects.table.etag'', [Lat ''ETag'']),
      (''objects.table.visibility'', [Uni [0x53EF, 0x89C1, 0x6027]]),
      (''objects.table.createdAt'', [Uni [0x521B, 0x5EFA, 0x65F6, 0x95F4]]),
      (''objects.table.actions'', [Uni [0x64CD, 0x4F5C]]),
      (''objects.actions.directDownload'', [Uni [0x76F4, 0x63A5, 0x4E0B, 0x8F7D]]),
      (''objects.actions.signedDownload'', [Uni [0x7B7E, 0x540D, 0x4E0B, 0x8F7D]]),
      (''objects.actions.signing'', [Uni [0x751F, 0x6210, 0x4E2D], Lat ''...'']),
      (''objects.actions.deleting'', [Uni [0x5220, 0x9664, 0x4E2D], Lat ''...'']),
      (''objects.delete.title'', [Uni [0x5220, 0x9664, 0x8FD9, 0x4E2A, 0x5BF9, 0x8C61, 0xFF1F]]),
      (''objects.delete.description'', [Uni [0x8FD9, 0x4F1A, 0x4ECE], Lat '' {bucket} '', Uni [0x4E2D, 0x5220,
         0x9664], Lat '' {objectKey}'', Uni [0xFF0C, 0x4E14, 0x65E0, 0x6CD5, 0x64A4, 0x9500, 0x3002]]),
      (''objects.pagination.previous'', [Uni [0x4E0A, 0x4E00, 0x9875]]),
      (''objects.pagination.next'', [Uni [0x4E0B, 0x4E00, 0x9875]]),
      (''objects.pagination.label'', [Uni [0x7B2C], Lat '' {page} '', Uni [0x9875]]),
      (''objects.pagination.description'', [Uni [0x57FA, 0x4E8E], Lat '' cursor '', Uni [0x7684, 0x5206, 0x9875]]),
      (''objects.empty.title'', [Uni [0x8FD9, 0x4E2A], Lat '' bucket '', Uni [0x4E2D, 0x8FD8, 0x6CA1, 0x6709,
         0x5BF9, 0x8C61]]),
      (''objects.empty.description'', [Uni [0x4E0A, 0x4F20, 0x6587, 0x4EF6, 0xFF0C, 0x6216, 0x8C03, 0x6574,
         0x524D, 0x7F00, 0x7B5B, 0x9009, 0x540E, 0x518D, 0x67E5, 0x770B, 0x7ED3, 0x679C, 0x3002]]),
      (''objects.loading.title'', [Uni [0x6B63, 0x5728, 0x52A0, 0x8F7D, 0x5BF9, 0x8C61]]),
      (''objects.loading.description'', [Uni [0x6B63, 0x5728, 0x4ECE], Lat '' API '', Uni [0x83B7, 0x53D6,
         0x5BF9, 0x8C61, 0x5143, 0x6570, 0x636E, 0x3002]])]"

definition zhCN_explorer :: "(string \<times> wide_text) list" where
  "zhCN_explorer =
     [(''explorer.title'', [Lat ''bucket '', Uni [0x6D4F, 0x89C8, 0x5668]]),
      (''explorer.rootFolder'', [Lat ''/'']),
      (''explorer.currentFolder'', [Uni [0x5F53, 0x524D, 0x76EE, 0x5F55]]),
      (''explorer.toolbar.upload'', [Uni [0x4E0A, 0x4F20, 0x6587, 0x4EF6]]),
      (''explorer.toolbar.uploadFolder'', [Uni [0x4E0A, 0x4F20, 0x6587, 0x4EF6, 0x5939]]),
      (''explorer.toolbar.newFolder'', [Uni [0x65B0, 0x5EFA, 0x6587, 0x4EF6, 0x5939]]),
      (''explorer.toolbar.refresh'', [Uni [0x5237, 0x65B0]]),
      (''explorer.toolbar.tree'', [Uni [0x6587, 0x4EF6, 0x5939, 0x6811]]),
      (''explorer.toolbar.search'', [Uni [0x641C, 0x7D22, 0x6587, 0x4EF6]]),
      (''explorer.toolbar.searchPlaceholder'', [Uni [0x641C, 0x7D22, 0x5F53, 0x524D, 0x76EE, 0x5F55]]),
      (''explorer.toolbar.limit'', [Uni [0x6BCF, 0x9875, 0x6570, 0x91CF]]),
      (''explorer.tree.title'', [Uni [0x6587, 0x4EF6, 0x5939, 0x6811]]),
      (''explorer.tree.count'', [Lat ''{count} '', Uni [0x4E2A, 0x6587, 0x4EF6, 0x5939]]),
      (''explorer.tree.empty'', [Uni [0x5F53, 0x524D, 0x8FD8, 0x6CA1, 0x6709, 0x6587, 0x4EF6, 0x5939, 0x3002]]),
      (''explorer.tree.mobileDescription'', [Uni [0x6D4F, 0x89C8, 0x8FD9, 0x4E2A], Lat '' bucket '', Uni [0x7684,
         0x5B8C, 0x6574, 0x6587, 0x4EF6, 0x5939, 0x5C42, 0x7EA7, 0x3002]]),
      (''explorer.table.name'', [Uni [0x540D, 0x79F0]]),
      (''explorer.table.size'', [Uni [0x5927, 0x5C0F]]),
      (''explorer.table.updatedAt'', [Uni [0x6700, 0x8FD1, 0x4FEE, 0x6539]]),
      (''explorer.table.url'', [Lat ''URL'']),
      (''explorer.table.actions'', [Uni [0x64CD, 0x4F5C]]),
      (''explorer.selection.selectAll'', [Uni [0x9009, 0x62E9, 0x5168, 0x90E8, 0x9879, 0x76EE]]),
      (''explorer.selection.selectRow'', [Uni [0x9009, 0x62E9], Lat '' {name}'']),
      (''explorer.sort.ascending'', [Uni [0x6309], Lat '' {label} '', Uni [0x5347, 0x5E8F, 0x6392, 0x5E8F]]),
      (''explorer.sort.descending'', [Uni [0x6309], Lat '' {label} '', Uni [0x964D, 0x5E8F, 0x6392, 0x5E8F]]),
      (''explorer.sort.clear'', [Uni [0x6E05, 0x9664, 0x6392, 0x5E8F]]),
      (''explorer.sort.confirm'', [Uni [0x786E, 0x5B9A]]),
      (''explorer.sort.cancel'', [Uni [0x53D6, 0x6D88]]),
      (''explorer.sort.option.asc'', [Uni [0x5347, 0x5E8F]]),
      (''explorer.sort.option.desc'', [Uni [0x964D, 0x5E8F]]),
      (''explorer.sort.validation.required'', [Uni [0x8BF7, 0x5148, 0x9009, 0x62E9, 0x6392, 0x5E8F, 0x65B9,
         0x5F0F, 0xFF0C, 0x518D, 0x70B9, 0x51FB, 0x786E, 0x5B9A, 0x3002]]),
      (''explorer.sort.popover.title'', [Uni [0x6309], Lat '' {label} '', Uni [0x6392, 0x5E8F]]),
      (''explorer.sort.popover.description'', [Uni [0x9009, 0x62E9, 0x6392, 0x5E8F, 0x65B9, 0x5F0F, 0x540E,
         0xFF0C, 0x70B9, 0x51FB, 0x786E, 0x5B9A, 0x624D, 0x4F1A, 0x5E94, 0x7528, 0x3002]]),
      (''explorer.sort.state.none'', [Uni [0x672A, 0x6392, 0x5E8F]]),
      (''explorer.sort.state.asc'', [Uni [0x5347, 0x5E8F]]),
      (''explorer.sort.state.desc'', [Uni [0x964D, 0x5E8F]]),
      (''explorer.sort.trigger'', [Lat ''{label} '', Uni [0x6392, 0x5E8F, 0xFF1A], Lat ''{state}'']),
      (''explorer.actions.goBack'', [Uni [0x540E, 0x9000]]),
      (''explorer.actions.goForward'', [Uni [0x524D, 0x8FDB]]),
      (''explorer.actions.openFolder'', [Uni [0x6253, 0x5F00, 0x6587, 0x4EF6, 0x5939]]),
      (''explorer.actions.downloadFolderZip'', [Uni [0x4E0B, 0x8F7D], Lat '' ZIP'']),
      (''explorer.actions.downloadingFolderZip'', [Uni [0x4E0B, 0x8F7D, 0x4E2D], Lat ''...'']),
      (''explorer.actions.downloadingFile'', [Uni [0x4E0B, 0x8F7D, 0x4E2D], Lat ''...'']),
      (''explorer.actions.publishSite'', [Uni [0x53D1, 0x5E03, 0x7AD9, 0x70B9]]),
      (''explorer.actions.directDownload'', [Uni [0x76F4, 0x63A5, 0x4E0B, 0x8F7D]]),
      (''explorer.actions.signedDownload'', [Uni [0x7B7E, 0x540D, 0x4E0B, 0x8F7D]]),
      (''explorer.actions.copyUrl'', [Uni [0x590D, 0x5236], Lat '' URL'']),
      (''explorer.actions.viewDetails'', [Uni [0x67E5, 0x770B, 0x8BE6, 0x60C5]]),
      (''explorer.actions.more'', [Uni [0x66F4, 0x591A, 0x64CD, 0x4F5C]]),
      (''explorer.actions.fullscreenPreview'', [Uni [0x5168, 0x5C4F, 0x9884, 0x89C8]]),
      (''explorer.actions.deleteFolder'', [Uni [0x5220, 0x9664, 0x6587, 0x4EF6, 0x5939]]),
      (''explorer.bulk.selectedCount'', [Uni [0x5DF2, 0x9009, 0x62E9], Lat '' {count} '', Uni [0x9879]]),
      (''explorer.bulk.download'', [Uni [0x4E0B, 0x8F7D, 0x6240, 0x9009]]),
      (''explorer.bulk.downloading'', [Uni [0x4E0B, 0x8F7D, 0x6240, 0x9009, 0x4E2D], Lat ''...'']),
      (''explorer.bulk.delete'', [Uni [0x5220, 0x9664, 0x6240, 0x9009]]),
      (''explorer.bulk.deleting'', [Uni [0x5220, 0x9664, 0x6240, 0x9009, 0x4E2D], Lat ''...'']),
      (''explorer.bulk.clearSelection'', [Uni [0x6E05, 0x7A7A, 0x9009, 0x62E9]]),
      (''explorer.bulk.deleteConfirmTitle'', [Uni [0x5220, 0x9664, 0x6240, 0x9009, 0x9879, 0x76EE, 0xFF1F]]),
      (''explorer.bulk.deleteConfirmDescription'', [Uni [0x8FD9, 0x4F1A, 0x5220, 0x9664, 0x5F53, 0x524D, 0x9875,
         0x4E2D, 0x9009, 0x4E2D, 0x7684], Lat '' {count} '', Uni [0x4E2A, 0x6587, 0x4EF6, 0x6216, 0x6587, 0x4EF6,
         0x5939, 0x3002]]),
      (''sites.publish.title'', [Uni [0x53D1, 0x5E03, 0x7AD9, 0x70B9]]),
      (''sites.publish.description'', [Uni [0x5C06, 0x5F53, 0x524D, 0x6587, 0x4EF6, 0x5939, 0x524D, 0x7F00,
         0x7ED1, 0x5B9A, 0x5230, 0x57DF, 0x540D, 0x5E76, 0x4F5C, 0x4E3A, 0x7F51, 0x7AD9, 0x63D0, 0x4F9B, 0x516C,
         0x5F00, 0x5BF9, 0x8C61, 0x3002]]),
      (''sites.publishObject.title'', [Uni [0x53D1, 0x5E03, 0x6587, 0x4EF6, 0x4E3A, 0x7AD9, 0x70B9]]),
      (''sites.publishObject.description'', [Uni [0x5C06, 0x5F53, 0x524D, 0x6587, 0x4EF6, 0x7ED1, 0x5B9A, 0x5230,
         0x57DF, 0x540D, 0xFF0C, 0x5E76, 0x628A, 0x8BE5, 0x6587, 0x4EF6, 0x4F5C, 0x4E3A, 0x7AD9, 0x70B9, 0x6839,
         0x8DEF, 0x5F84, 0x8FD4, 0x56DE, 0x7684, 0x9996, 0x9875, 0x6587, 0x6863, 0x3002]]),
      (''sites.publish.bucket'', [Lat ''Bucket'']),
      (''sites.publish.rootPrefix'', [Uni [0x6839, 0x524D, 0x7F00]]),
      (''sites.publish.domains'', [Uni [0x57DF, 0x540D]]),
      (''sites.publish.domainsDescription'', [Uni [0x8BF7, 0x8F93, 0x5165, 0x5B8C, 0x6574, 0x81EA, 0x5B9A,
         0x4E49, 0x57DF, 0x540D, 0xFF0C, 0x591A, 0x4E2A, 0x503C, 0x8BF7, 0x7528, 0x9017, 0x53F7, 0x5206, 0x9694,
         0x3002]]),
      (''sites.publish.indexDocument'', [Uni [0x9996, 0x9875, 0x6587, 0x6863]]),
      (''sites.publish.errorDocument'', [Uni [0x9519, 0x8BEF, 0x9875, 0x6587, 0x6863]]),
      (''sites.publish.spaFallback'', [Lat ''SPA '', Uni [0x56DE, 0x9000]]),
      (''explorer.details.title'', [Uni [0x6587, 0x4EF6, 0x8BE6, 0x60C5]]),
      (''explorer.details.description'', [Uni [0x67E5, 0x770B], Lat '' {name} '', Uni [0x7684, 0x5143, 0x6570,
         0x636E, 0x3002]]),
      (''explorer.details.originalFilename'', [Uni [0x539F, 0x59CB, 0x6587, 0x4EF6, 0x540D]]),
      (''explorer.details.contentType'', [Uni [0x5185, 0x5BB9, 0x7C7B, 0x578B]]),
      (''explorer.details.preview'', [Uni [0x9884, 0x89C8]]),
      (''explorer.preview.markdownTooLarge'', [Uni [0x6587, 0x4EF6, 0x5185, 0x5BB9, 0x8FC7, 0x591A, 0xFF0C],
         Lat ''markdown'', Uni [0x9884, 0x89C8, 0x76EE, 0x524D, 0x4E0D, 0x652F, 0x6301, 0x8D85, 0x8FC7],
         Lat ''100kb'', Uni [0x3002]]),
      (''explorer.preview.textTooLarge'', [Uni [0x6587, 0x4EF6, 0x5185, 0x5BB9, 0x8FC7, 0x591A, 0xFF0C, 0x6587,
         0x672C, 0x9884, 0x89C8, 0x76EE, 0x524D, 0x4E0D, 0x652F, 0x6301, 0x8D85, 0x8FC7], Lat ''100kb'',
         Uni [0x3002]]),
      (''explorer.upload.title'', [Uni [0x4E0A, 0x4F20, 0x6587, 0x4EF6]]),
      (''explorer.upload.description'', [Uni [0x6587, 0x4EF6, 0x4F1A, 0x4E0A, 0x4F20, 0x5230, 0x5F53, 0x524D,
         0x9009, 0x4E2D, 0x7684, 0x76EE, 0x5F55, 0x4E2D, 0x3002]]),
      (''explorer.upload.objectNameLabel'', [Uni [0x5BF9, 0x8C61, 0x540D, 0x79F0]]),
      (''explorer.upload.objectNamePlaceholder'', [Lat ''file.txt'']),
      (''explorer.upload.submit'', [Uni [0x5F00, 0x59CB, 0x4E0A, 0x4F20]]),
      (''explorer.overwrite.title'', [Uni [0x8986, 0x76D6, 0x5DF2, 0x5B58, 0x5728, 0x6587, 0x4EF6, 0xFF1F]]),
      (''explorer.overwrite.description'', [Uni [0x672C, 0x6B21, 0x4E0A, 0x4F20, 0x4F1A, 0x8986, 0x76D6],
         Lat '' {target} '', Uni [0x4E0B, 0x7684, 0x540C, 0x540D, 0x6587, 0x4EF6, 0xFF0C, 0x662F, 0x5426, 0x7EE7,
         0x7EED, 0xFF1F]]),
      (''explorer.overwrite.confirm'', [Uni [0x8986, 0x76D6, 0x5E76, 0x4E0A, 0x4F20]]),
      (''explorer.folderUpload.title'', [Uni [0x4E0A, 0x4F20, 0x6587, 0x4EF6, 0x5939]]),
      (''explorer.folderUpload.description'', [Uni [0x5C06, 0x6240, 0x9009, 0x6587, 0x4EF6, 0x5939, 0x4E2D,
         0x7684, 0x6240, 0x6709, 0x6587, 0x4EF6, 0x901A, 0x8FC7, 0x4E00, 0x6B21, 0x8BF7, 0x6C42, 0x4E0A, 0x4F20,
         0x5230, 0x5F53, 0x524D, 0x76EE, 0x5F55, 0x3002]]),
      (''explorer.folderUpload.folderLabel'', [Uni [0x6587, 0x4EF6, 0x5939]]),
      (''explorer.folderUpload.folderDescription'', [Uni [0x6BCF, 0x6B21, 0x8BF7, 0x6C42, 0x8BF7, 0x9009, 0x62E9,
         0x4E00, 0x4E2A, 0x6587, 0x4EF6, 0x5939, 0xFF1B, 0x7A7A, 0x76EE, 0x5F55, 0x4E0D, 0x4F1A, 0x4E0A, 0x4F20,
         0x3002]]),
      (''explorer.folderUpload.submit'', [Uni [0x5F00, 0x59CB, 0x4E0A, 0x4F20, 0x6587, 0x4EF6, 0x5939]]),
      (''explorer.createFolder.title'', [Uni [0x65B0, 0x5EFA, 0x6587, 0x4EF6, 0x5939]]),
      (''explorer.createFolder.description'', [Uni [0x5728, 0x5F53, 0x524D, 0x4F4D, 0x7F6E, 0x521B, 0x5EFA,
         0x4E00, 0x4E2A, 0x7A7A, 0x6587, 0x4EF6, 0x5939, 0x6807, 0x8BB0, 0x3002]]),
      (''explorer.createFolder.nameLabel'', [Uni [0x6587, 0x4EF6, 0x5939, 0x540D, 0x79F0]]),
      (''explorer.createFolder.namePlaceholder'', [Lat ''new-folder'']),
      (''explorer.createFolder.nameDescription'', [Uni [0x8BF7, 0x8F93, 0x5165, 0x4E0D, 0x5305, 0x542B, 0x659C,
         0x6760, 0x7684, 0x5355, 0x6BB5, 0x6587, 0x4EF6, 0x5939, 0x540D, 0x3002]]),
      (''explorer.createFolder.submit'', [Uni [0x521B, 0x5EFA, 0x6587, 0x4EF6, 0x5939]]),
      (''explorer.createFolder.submitting'', [Uni [0x521B, 0x5EFA, 0x4E2D], Lat ''...'']),
      (''explorer.deleteFolder.title'', [Uni [0x5220, 0x9664, 0x8FD9, 0x4E2A, 0x6587, 0x4EF6, 0x5939, 0xFF1F]]),
      (''explorer.deleteFolder.description'', [Uni [0x8FD9, 0x4F1A, 0x4ECE], Lat '' {bucket} '', Uni [0x4E2D,
         0x5220, 0x9664, 0x6587, 0x4EF6, 0x5939], Lat '' {name} '', Uni [0x4EE5, 0x53CA, 0x5176, 0x4E0B, 0x6240,
         0x6709, 0x6587, 0x4EF6, 0x548C, 0x5B50, 0x6587, 0x4EF6, 0x5939, 0x3002]]),
      (''explorer.empty.title'', [Uni [0x8FD9, 0x4E2A, 0x6587, 0x4EF6, 0x5939, 0x662F, 0x7A7A, 0x7684]]),
      (''explorer.empty.description'', [Uni [0x4E0A, 0x4F20, 0x6587, 0x4EF6, 0x6216, 0x521B, 0x5EFA, 0x6587,
         0x4EF6, 0x5939, 0x6765, 0x586B, 0x5145, 0x5F53, 0x524D, 0x4F4D, 0x7F6E, 0x3002]]),
      (''explorer.limit.option'', [Uni [0x6BCF, 0x9875], Lat '' {count} '', Uni [0x9879]]),
      (''explorer.pagination.summary'', [Uni [0x5F53, 0x524D, 0x663E, 0x793A], Lat '' {count} '', Uni [0x9879],
         Lat '' / '', Uni [0x7B2C], Lat '' {page} '', Uni [0x9875]])]"

definition zhCN_settings :: "(string \<times> wide_text) list" where
  "zhCN_settings =
     [(''settings.title'', [Uni [0x8BBE, 0x7F6E]]),
      (''settings.description'', [Uni [0x7BA1, 0x7406], Lat '' API '', Uni [0x8FDE, 0x63A5, 0x4FE1, 0x606F,
         0x3001, 0x5168, 0x5C40, 0x5B58, 0x50A8, 0x4E0A, 0x9650, 0x3001, 0x754C, 0x9762, 0x8BED, 0x8A00, 0x548C,
         0x4E3B, 0x9898, 0x504F, 0x597D, 0x3002]]),
      (''settings.connection.title'', [Uni [0x8FDE, 0x63A5, 0x8BBE, 0x7F6E]]),
      (''settings.connection.description'', [Uni [0x8FD9, 0x4E9B, 0x503C, 0x53EA, 0x4F1A, 0x4FDD, 0x5B58, 0x5728,
         0x5F53, 0x524D, 0x6D4F, 0x89C8, 0x5668, 0x7684], Lat '' localStorage '', Uni [0x4E2D, 0x3002]]),
      (''settings.connection.apiBaseUrl'', [Lat ''API '', Uni [0x57FA, 0x7840, 0x5730, 0x5740]]),
      (''settings.connection.apiBaseUrlDescription'', [Uni [0x4F8B, 0x5982], Lat '': http://localhost:8080'']),
      (''settings.connection.bearerToken'', [Lat ''Bearer Token'']),
      (''settings.connection.bearerTokenDescription'', [Uni [0x7528, 0x4E8E, 0x53D1, 0x8D77, 0x5E26, 0x9274,
         0x6743, 0x7684], Lat '' API '', Uni [0x8BF7, 0x6C42, 0x3002]]),
      (''settings.connection.showToken'', [Uni [0x663E, 0x793A]]),
      (''settings.connection.hideToken'', [Uni [0x9690, 0x85CF]]),
      (''settings.connection.testConnection'', [Uni [0x6D4B, 0x8BD5, 0x8FDE, 0x63A5]]),
      (''settings.connection.testingConnection'', [Uni [0x6D4B, 0x8BD5, 0x4E2D]]),
      (''settings.storage.title'', [Uni [0x5B58, 0x50A8, 0x4E0A, 0x9650]]),
      (''settings.storage.description'', [Uni [0x67E5, 0x770B, 0x5F53, 0x524D], Lat '' OSS '', Uni [0x4F7F,
         0x7528, 0x91CF, 0xFF0C, 0x5E76, 0x4FEE, 0x6539, 0x540E, 0x7AEF, 0x6301, 0x4E45, 0x5316, 0x7684, 0x5168,
         0x5C40, 0x786C, 0x4E0A, 0x9650, 0x3002]]),
      (''settings.storage.currentUsage'', [Uni [0x5F53, 0x524D, 0x5DF2, 0x7528]]),
      (''settings.storage.currentLimit'', [Uni [0x5F53, 0x524D, 0x4E0A, 0x9650]]),
      (''settings.storage.remaining'', [Uni [0x5269, 0x4F59, 0x989D, 0x5EA6]]),
      (''settings.storage.usagePercent'', [Uni [0x4F7F, 0x7528, 0x7387]]),
      (''settings.storage.status'', [Uni [0x72B6, 0x6001]]),
      (''settings.storage.rootPath'', [Uni [0x5B58, 0x50A8, 0x6839, 0x76EE, 0x5F55]]),
      (''settings.storage.limitGiB'', [Uni [0x5B58, 0x50A8, 0x4E0A, 0x9650, 0xFF08], Lat ''GiB'', Uni [0xFF09]]),
      (''settings.storage.limitGiBDescription'', [Uni [0x8BE5, 0x503C, 0x4F1A, 0x4FDD, 0x5B58, 0x5728, 0x540E,
         0x7AEF, 0xFF0C, 0x5E76, 0x5BF9, 0x540E, 0x7EED, 0x6240, 0x6709, 0x65B0, 0x5199, 0x5165, 0x751F, 0x6548,
         0x3002]]),
      (''settings.storage.saveLimit'', [Uni [0x4FDD, 0x5B58, 0x5B58, 0x50A8, 0x4E0A, 0x9650]]),
      (''settings.storage.savingLimit'', [Uni [0x4FDD, 0x5B58, 0x4E2D]]),
      (''settings.storage.unavailable'', [Uni [0x8BF7, 0x5148, 0x4FDD, 0x5B58, 0x8FDE, 0x63A5, 0x8BBE, 0x7F6E,
         0xFF0C, 0x5E76, 0x786E, 0x4FDD], Lat '' Bearer Token '', Uni [0x6709, 0x6548, 0x540E, 0x518D, 0x4FEE,
         0x6539, 0x5B58, 0x50A8, 0x4E0A, 0x9650, 0x3002]]),
      (''settings.storage.invalidLimit'', [Uni [0x5B58, 0x50A8, 0x4E0A, 0x9650, 0x5FC5, 0x987B, 0x5927, 0x4E8E],
         Lat '' 0 GiB'', Uni [0x3002]]),
      (''settings.storage.status.ok'', [Uni [0x6B63, 0x5E38]]),
      (''settings.storage.status.warning'', [Uni [0x9884, 0x8B66]]),
      (''settings.storage.status.exceeded'', [Uni [0x5DF2, 0x8D85, 0x9650]]),
      (''settings.preferences.title'', [Uni [0x754C, 0x9762, 0x504F, 0x597D]]),
      (''settings.preferences.description'', [Uni [0x5FEB, 0x901F, 0x5207, 0x6362, 0x8BED, 0x8A00, 0x4EE5,
         0x53CA, 0x6D45, 0x8272], Lat ''/'', Uni [0x6DF1, 0x8272, 0x5916, 0x89C2, 0x3002]]),
      (''settings.preferences.localeLabel'', [Uni [0x754C, 0x9762, 0x8BED, 0x8A00]]),
      (''settings.preferences.localeDescription'', [Uni [0x4F1A, 0x5F71, 0x54CD, 0x6587, 0x6848, 0x3001, 0x65E5,
         0x671F, 0x548C, 0x72B6, 0x6001, 0x6587, 0x672C, 0x3002]]),
      (''settings.preferences.themeLabel'', [Uni [0x989C, 0x8272, 0x4E3B, 0x9898]]),
      (''settings.preferences.themeDescription'', [Uni [0x5728, 0x6D45, 0x8272, 0x548C, 0x6DF1, 0x8272, 0x754C,
         0x9762, 0x4E4B, 0x95F4, 0x5207, 0x6362, 0x3002]]),
      (''settings.security.title'', [Uni [0x5B89, 0x5168, 0x63D0, 0x793A]]),
      (''settings.security.description'', [Uni [0x4EE4, 0x724C, 0x4FDD, 0x5B58, 0x5728], Lat '' localStorage '',
         Uni [0x4E2D, 0x53EA, 0x9002, 0x7528, 0x4E8E, 0x672C, 0x5730, 0x6F14, 0x793A, 0x3002, 0x751F, 0x4EA7,
         0x73AF, 0x5883, 0x8BF7, 0x6539, 0x7528, 0x66F4, 0x5B89, 0x5168, 0x7684, 0x51ED, 0x8BC1, 0x7BA1, 0x7406,
         0x65B9, 0x5F0F, 0x3002]])]"

definition zhCN_toasts :: "(string \<times> wide_text) list" where
  "zhCN_toasts =
     [(''toast.bucketCreated'', [Lat ''bucket '', Uni [0x521B, 0x5EFA, 0x6210, 0x529F]]),
      (''toast.bucketDeleted'', [Lat ''bucket '', Uni [0x5DF2, 0x5220, 0x9664]]),
      (''toast.folderCreated'', [Uni [0x6587, 0x4EF6, 0x5939, 0x521B, 0x5EFA, 0x6210, 0x529F]]),
      (''toast.folderDeleted'', [Uni [0x6587, 0x4EF6, 0x5939, 0x5DF2, 0x5220, 0x9664]]),
      (''toast.folderUploaded'', [Uni [0x6587, 0x4EF6, 0x5939, 0x4E0A, 0x4F20, 0x6210, 0x529F]]),
      (''toast.objectUploaded'', [Uni [0x5BF9, 0x8C61, 0x4E0A, 0x4F20, 0x6210, 0x529F]]),
      (''toast.objectDeleted'', [Uni [0x5BF9, 0x8C61, 0x5DF2, 0x5220, 0x9664]]),
      (''toast.recycleBin.restored'', [Uni [0x5DF2, 0x8FD8, 0x539F], Lat '' {count} '', Uni [0x9879]]),
      (''toast.recycleBin.restorePartial'', [Uni [0x5DF2, 0x8FD8, 0x539F], Lat '' {successCount} '', Uni [0x9879,
         0xFF0C], Lat ''{failedCount} '', Uni [0x9879, 0x5931, 0x8D25]]),
      (''toast.recycleBin.deleted'', [Uni [0x5DF2, 0x6C38, 0x4E45, 0x5220, 0x9664], Lat '' {count} '',
         Uni [0x9879]]),
      (''toast.recycleBin.deletePartial'', [Uni [0x5DF2, 0x6C38, 0x4E45, 0x5220, 0x9664],
         Lat '' {successCount} '', Uni [0x9879, 0xFF0C], Lat ''{failedCount} '', Uni [0x9879, 0x5931, 0x8D25]]),
      (''toast.objectVisibilityUpdated'', [Uni [0x5BF9, 0x8C61, 0x53EF, 0x89C1, 0x6027, 0x5DF2, 0x66F4, 0x65B0]]),
      (''toast.bulkDownloadCompleted'', [Uni [0x5DF2, 0x4E0B, 0x8F7D], Lat '' {count} '', Uni [0x9879]]),
      (''toast.bulkDownloadPartial'', [Uni [0x5DF2, 0x4E0B, 0x8F7D], Lat '' {successCount} '', Uni [0x9879,
         0xFF0C], Lat ''{failedCount} '', Uni [0x9879, 0x5931, 0x8D25]]),
      (''toast.bulkDeleteCompleted'', [Uni [0x5DF2, 0x5220, 0x9664], Lat '' {count} '', Uni [0x9879]]),
      (''toast.bulkDeletePartial'', [Uni [0x5DF2, 0x5220, 0x9664], Lat '' {successCount} '', Uni [0x9879,
         0xFF0C], Lat ''{failedCount} '', Uni [0x9879, 0x5931, 0x8D25]]),
      (''toast.signedDownloadReady'', [Uni [0x5DF2, 0x751F, 0x6210, 0x7B7E, 0x540D, 0x4E0B, 0x8F7D, 0x94FE,
         0x63A5]]),
      (''toast.sitePublished'', [Uni [0x7AD9, 0x70B9, 0x5DF2, 0x53D1, 0x5E03]])]"

definition zhCN_copy_toasts :: "(string \<times> wide_text) list" where
  "zhCN_copy_toasts =
     [(''toast.urlCopied'', [Lat ''URL '', Uni [0x5DF2, 0x590D, 0x5236]]),
      (''toast.settingsSaved'', [Uni [0x8BBE, 0x7F6E, 0x5DF2, 0x4FDD, 0x5B58]]),
      (''toast.storageQuotaSaved'', [Uni [0x5B58, 0x50A8, 0x4E0A, 0x9650, 0x5DF2, 0x4FDD, 0x5B58]])]"

definition zhCN_load_errors :: "(string \<times> wide_text) list" where
  "zhCN_load_errors =
     [(''errors.loadBuckets'', [Uni [0x52A0, 0x8F7D], Lat '' bucket '', Uni [0x5931, 0x8D25]]),
      (''errors.loadSystemStats'', [Uni [0x52A0, 0x8F7D, 0x7CFB, 0x7EDF, 0x4FE1, 0x606F, 0x5931, 0x8D25]]),
      (''errors.deleteBucket'', [Uni [0x5220, 0x9664], Lat '' bucket '', Uni [0x5931, 0x8D25]]),
      (''errors.loadObjects'', [Uni [0x52A0, 0x8F7D, 0x5BF9, 0x8C61, 0x5931, 0x8D25]]),
      (''errors.loadFolders'', [Uni [0x52A0, 0x8F7D, 0x6587, 0x4EF6, 0x5939, 0x6811, 0x5931, 0x8D25]]),
      (''errors.loadEntries'', [Uni [0x52A0, 0x8F7D, 0x76EE, 0x5F55, 0x5185, 0x5BB9, 0x5931, 0x8D25]])]"

definition zhCN_create_errors :: "(string \<times> wide_text) list" where
  "zhCN_create_errors =
     [(''errors.createBucket'', [Uni [0x521B, 0x5EFA], Lat '' bucket '', Uni [0x5931, 0x8D25]]),
      (''errors.createFolder'', [Uni [0x521B, 0x5EFA, 0x6587, 0x4EF6, 0x5939, 0x5931, 0x8D25]])]"

definition zhCN_object_errors :: "(string \<times> wide_text) list" where
  "zhCN_object_errors =
     [(''errors.uploadFolder'', [Uni [0x6587, 0x4EF6, 0x5939, 0x4E0A, 0x4F20, 0x5931, 0x8D25]]),
      (''errors.uploadObject'', [Uni [0x4E0A, 0x4F20, 0x5931, 0x8D25]]),
      (''errors.deleteObject'', [Uni [0x5220, 0x9664, 0x5931, 0x8D25]]),
      (''errors.deleteFolder'', [Uni [0x5220, 0x9664, 0x6587, 0x4EF6, 0x5939, 0x5931, 0x8D25]]),
      (''errors.bulkDeleteEntries'', [Uni [0x5220, 0x9664, 0x6240, 0x9009, 0x9879, 0x76EE, 0x5931, 0x8D25]]),
      (''errors.recycleBin.restore'', [Uni [0x8FD8, 0x539F, 0x56DE, 0x6536, 0x7AD9, 0x9879, 0x76EE, 0x5931,
         0x8D25]]),
      (''errors.recycleBin.delete'', [Uni [0x5220, 0x9664, 0x56DE, 0x6536, 0x7AD9, 0x9879, 0x76EE, 0x5931,
         0x8D25]]),
      (''errors.downloadObject'', [Uni [0x4E0B, 0x8F7D, 0x6587, 0x4EF6, 0x5931, 0x8D25]]),
      (''errors.downloadFolderZip'', [Uni [0x4E0B, 0x8F7D, 0x6587, 0x4EF6, 0x5939], Lat '' ZIP '', Uni [0x5931,
         0x8D25]])]"

definition zhCN_settings_errors :: "(string \<times> wide_text) list" where
  "zhCN_settings_errors =
     [(''errors.updateObjectVisibility'', [Uni [0x66F4, 0x65B0, 0x5BF9, 0x8C61, 0x53EF, 0x89C1, 0x6027, 0x5931,
         0x8D25]]),
      (''errors.signObject'', [Uni [0x751F, 0x6210, 0x7B7E, 0x540D, 0x4E0B, 0x8F7D, 0x94FE, 0x63A5, 0x5931,
         0x8D25]]),
      (''errors.publishSite'', [Uni [0x53D1, 0x5E03, 0x7AD9, 0x70B9, 0x5931, 0x8D25]]),
      (''errors.copyUrl'', [Uni [0x590D, 0x5236], Lat '' URL '', Uni [0x5931, 0x8D25]]),
      (''errors.updateStorageQuota'', [Uni [0x66F4, 0x65B0, 0x5B58, 0x50A8, 0x4E0A, 0x9650, 0x5931, 0x8D25]]),
      (''errors.bucketNotFound'', [Uni [0x8BF7, 0x4ECE], Lat '' bucket '', Uni [0x5217, 0x8868, 0x91CD, 0x65B0,
         0x6253, 0x5F00, 0x8FD9, 0x4E2A, 0x9875, 0x9762, 0x3002]])]"

definition zhCN_sites_nav :: "(string \<times> wide_text) list" where
  "zhCN_sites_nav =
     [(''nav.sites'', [Uni [0x7AD9, 0x70B9, 0x7BA1, 0x7406]])]"

definition zhCN_edit :: "(string \<times> wide_text) list" where
  "zhCN_edit =
     [(''common.create'', [Uni [0x521B, 0x5EFA]]),
      (''common.edit'', [Uni [0x7F16, 0x8F91]])]"

definition zhCN_enabled :: "(string \<times> wide_text) list" where
  "zhCN_enabled =
     [(''common.enabled'', [Uni [0x542F, 0x7528]]),
      (''common.disabled'', [Uni [0x505C, 0x7528]])]"

definition zhCN_sites :: "(string \<times> wide_text) list" where
  "zhCN_sites =
     [(''sites.title'', [Uni [0x7AD9, 0x70B9, 0x7BA1, 0x7406]]),
      (''sites.description'', [Uni [0x7EDF, 0x4E00, 0x7BA1, 0x7406], Lat '' bucket '', Uni [0x7F51, 0x7AD9,
         0x3001, 0x57DF, 0x540D, 0x7ED1, 0x5B9A, 0x548C, 0x8DEF, 0x7531, 0x56DE, 0x9000, 0x914D, 0x7F6E,
         0x3002]]),
      (''sites.actions.create'', [Uni [0x521B, 0x5EFA, 0x7AD9, 0x70B9]]),
      (''sites.actions.uploadAndPublish'', [Uni [0x4E0A, 0x4F20, 0x5E76, 0x53D1, 0x5E03]]),
      (''sites.list.title'', [Uni [0x7AD9, 0x70B9, 0x5217, 0x8868]]),
      (''sites.list.description'', [Uni [0x67E5, 0x770B, 0x5DF2, 0x914D, 0x7F6E, 0x7684, 0x7F51, 0x7AD9, 0xFF0C,
         0x5E76, 0x8C03, 0x6574, 0x5B83, 0x4EEC, 0x7684], Lat '' bucket'', Uni [0x3001, 0x524D, 0x7F00, 0x548C,
         0x57DF, 0x540D, 0x8BBE, 0x7F6E, 0x3002]]),
      (''sites.list.total'', [Uni [0x5171], Lat '' {count} '', Uni [0x4E2A]]),
      (''sites.list.empty'', [Uni [0x5148, 0x521B, 0x5EFA, 0x4E00, 0x4E2A, 0x7AD9, 0x70B9, 0xFF0C, 0x628A],
         Lat '' bucket '', Uni [0x524D, 0x7F00, 0x53D1, 0x5E03, 0x4E3A, 0x7F51, 0x7AD9, 0x3002]]),
      (''sites.table.domains'', [Uni [0x57DF, 0x540D]]),
      (''sites.table.bucket'', [Lat ''Bucket'']),
      (''sites.table.rootPrefix'', [Uni [0x6839, 0x524D, 0x7F00]]),
      (''sites.table.enabled'', [Uni [0x542F, 0x7528, 0x72B6, 0x6001]]),
      (''sites.table.indexDocument'', [Uni [0x9996, 0x9875, 0x6587, 0x6863]]),
      (''sites.table.spaFallback'', [Lat ''SPA '', Uni [0x56DE, 0x9000]]),
      (''sites.table.updatedAt'', [Uni [0x66F4, 0x65B0, 0x65F6, 0x95F4]]),
      (''sites.table.actions'', [Uni [0x64CD, 0x4F5C]]),
      (''sites.form.createTitle'', [Uni [0x521B, 0x5EFA, 0x7AD9, 0x70B9]]),
      (''sites.form.editTitle'', [Uni [0x7F16, 0x8F91, 0x7AD9, 0x70B9]]),
      (''sites.form.createDescription'', [Uni [0x5C06], Lat '' bucket '', Uni [0x524D, 0x7F00, 0x7ED1, 0x5B9A,
         0x5230, 0x4E00, 0x4E2A, 0x6216, 0x591A, 0x4E2A, 0x57DF, 0x540D, 0xFF0C, 0x5E76, 0x914D, 0x7F6E, 0x7F51,
         0x7AD9, 0x8DEF, 0x7531, 0x884C, 0x4E3A, 0x3002]]),
      (''sites.form.editDescription'', [Uni [0x66F4, 0x65B0, 0x5F53, 0x524D, 0x7AD9, 0x70B9, 0x7684],
         Lat '' bucket'', Uni [0x3001, 0x524D, 0x7F00, 0x3001, 0x57DF, 0x540D, 0x548C, 0x56DE, 0x9000, 0x89C4,
         0x5219, 0x3002]]),
      (''sites.form.bucket'', [Lat ''Bucket'']),
      (''sites.form.rootPrefix'', [Uni [0x6839, 0x524D, 0x7F00]]),
      (''sites.form.domains'', [Uni [0x57DF, 0x540D]]),
      (''sites.form.domainsDescription'', [Uni [0x8BF7, 0x8F93, 0x5165, 0x5B8C, 0x6574, 0x81EA, 0x5B9A, 0x4E49,
         0x57DF, 0x540D, 0xFF0C, 0x591A, 0x4E2A, 0x503C, 0x8BF7, 0x7528, 0x9017, 0x53F7, 0x5206, 0x9694,
         0x3002]]),
      (''sites.form.enabled'', [Uni [0x542F, 0x7528, 0x72B6, 0x6001]]),
      (''sites.form.indexDocument'', [Uni [0x9996, 0x9875, 0x6587, 0x6863]]),
      (''sites.form.errorDocument'', [Uni [0x9519, 0x8BEF, 0x9875, 0x6587, 0x6863]]),
      (''sites.form.spaFallback'', [Lat ''SPA '', Uni [0x56DE, 0x9000]]),
      (''sites.form.submitCreate'', [Uni [0x521B, 0x5EFA, 0x7AD9, 0x70B9]]),
      (''sites.form.submitUpdate'', [Uni [0x4FDD, 0x5B58, 0x4FEE, 0x6539]]),
      (''sites.uploadPublish.title'', [Uni [0x4E0A, 0x4F20, 0x5E76, 0x53D1, 0x5E03]]),
      (''sites.uploadPublish.description'', [Uni [0x4E00, 0x6B21, 0x4E0A, 0x4F20, 0x4E00, 0x4E2A, 0x6587, 0x4EF6,
         0x5939, 0x6216, 0x4E00, 0x4E2A, 0x6587, 0x4EF6, 0xFF0C, 0x5E76, 0x76F4, 0x63A5, 0x6839, 0x636E, 0x4E0A,
         0x4F20, 0x7ED3, 0x679C, 0x521B, 0x5EFA, 0x7AD9, 0x70B9, 0x3002]]),
      (''sites.uploadPublish.folderTab'', [Uni [0x4E0A, 0x4F20, 0x6587, 0x4EF6, 0x5939, 0x5E76, 0x53D1, 0x5E03]]),
      (''sites.uploadPublish.fileTab'', [Uni [0x4E0A, 0x4F20, 0x6587, 0x4EF6, 0x5E76, 0x53D1, 0x5E03]]),
      (''sites.uploadPublish.parentPrefix'', [Uni [0x7236, 0x7EA7, 0x524D, 0x7F00]]),
      (''sites.uploadPublish.parentPrefixDescription'', [Uni [0x53EF, 0x9009, 0x7684, 0x4E0A, 0x4F20, 0x7236,
         0x76EE, 0x5F55, 0x3002, 0x9009, 0x4E2D, 0x7684, 0x6587, 0x4EF6, 0x5939, 0x540D, 0x79F0, 0x4F1A, 0x81EA,
         0x52A8, 0x8FFD, 0x52A0, 0x5230, 0x6700, 0x7EC8, 0x7AD9, 0x70B9, 0x6839, 0x524D, 0x7F00, 0x4E2D,
         0x3002]]),
      (''sites.uploadPublish.folderLabel'', [Uni [0x6587, 0x4EF6, 0x5939]]),
      (''sites.uploadPublish.folderDescription'', [Uni [0x6BCF, 0x6B21, 0x8BF7, 0x6C42, 0x53EA, 0x80FD, 0x9009,
         0x62E9, 0x4E00, 0x4E2A, 0x6587, 0x4EF6, 0x5939, 0xFF0C, 0x7A7A, 0x6587, 0x4EF6, 0x5939, 0x4E0D, 0x4F1A,
         0x88AB, 0x4E0A, 0x4F20, 0x3002]]),
      (''sites.uploadPublish.fileLabel'', [Uni [0x6587, 0x4EF6]]),
      (''sites.uploadPublish.fileDescription'', [Uni [0x9009, 0x62E9, 0x4E00, 0x4E2A, 0x6587, 0x4EF6, 0x4E0A,
         0x4F20, 0xFF0C, 0x5E76, 0x5C06, 0x5B83, 0x4F5C, 0x4E3A, 0x7AD9, 0x70B9, 0x9996, 0x9875, 0x53D1, 0x5E03,
         0x3002]]),
      (''sites.uploadPublish.rootPreview'', [Uni [0x6700, 0x7EC8, 0x6839, 0x524D, 0x7F00]]),
      (''sites.uploadPublish.rootPreviewPlaceholder'', [Uni [0x9009, 0x62E9, 0x6587, 0x4EF6, 0x5939, 0x540E,
         0x4F1A, 0x5728, 0x8FD9, 0x91CC, 0x9884, 0x89C8, 0x6700, 0x7EC8, 0x7AD9, 0x70B9, 0x6839, 0x524D, 0x7F00,
         0x3002]]),
      (''sites.uploadPublish.indexDocumentPreviewPlaceholder'', [Uni [0x9009, 0x62E9, 0x6587, 0x4EF6, 0x540E,
         0x4F1A, 0x5728, 0x8FD9, 0x91CC, 0x9884, 0x89C8, 0x7AD9, 0x70B9, 0x9996, 0x9875, 0x6587, 0x4EF6, 0x540D,
         0x3002]]),
      (''sites.uploadPublish.submit'', [Uni [0x4E0A, 0x4F20, 0x5E76, 0x53D1, 0x5E03]]),
      (''sites.delete.title'', [Uni [0x5220, 0x9664, 0x7AD9, 0x70B9, 0xFF1F]]),
      (''sites.delete.description'', [Uni [0x8FD9, 0x4F1A, 0x5220, 0x9664, 0x7ED1, 0x5B9A, 0x5230],
         Lat '' {domain} '', Uni [0x7684, 0x7F51, 0x7AD9, 0x914D, 0x7F6E, 0xFF0C, 0x4E14, 0x65E0, 0x6CD5, 0x64A4,
         0x9500, 0x3002]])]"

definition zhCN_site_toasts :: "(string \<times> wide_text) list" where
  "zhCN_site_toasts =
     [(''toast.siteCreated'', [Uni [0x7AD9, 0x70B9, 0x521B, 0x5EFA, 0x6210, 0x529F]]),
      (''toast.siteUpdated'', [Uni [0x7AD9, 0x70B9, 0x66F4, 0x65B0, 0x6210, 0x529F]]),
      (''toast.siteDeleted'', [Uni [0x7AD9, 0x70B9, 0x5DF2, 0x5220, 0x9664]])]"

definition zhCN_load_sites_error :: "(string \<times> wide_text) list" where
  "zhCN_load_sites_error =
     [(''errors.loadSites'', [Uni [0x52A0, 0x8F7D, 0x7AD9, 0x70B9, 0x5931, 0x8D25]])]"

definition zhCN_create_site_error :: "(string \<times> wide_text) list" where
  "zhCN_create_site_error =
     [(''errors.createSite'', [Uni [0x521B, 0x5EFA, 0x7AD9, 0x70B9, 0x5931, 0x8D25]])]"

definition zhCN_site_errors :: "(string \<times> wide_text) list" where
  "zhCN_site_errors =
     [(''errors.updateSite'', [Uni [0x66F4, 0x65B0, 0x7AD9, 0x70B9, 0x5931, 0x8D25]]),
      (''errors.deleteSite'', [Uni [0x5220, 0x9664, 0x7AD9, 0x70B9, 0x5931, 0x8D25]])]"

definition zhCN :: "(string \<times> wide_text) list" where
  "zhCN =
     (zhCN_app @ zhCN_sites_nav @ zhCN_shell @ zhCN_edit @ zhCN_common @ zhCN_enabled @ zhCN_dashboard @ zhCN_sites) @
     zhCN_buckets @ zhCN_explorer @ zhCN_settings @
     (zhCN_toasts @ zhCN_site_toasts @ zhCN_copy_toasts) @
     (zhCN_load_errors @ zhCN_load_sites_error @ zhCN_create_errors @ zhCN_create_site_error @
      zhCN_object_errors @ zhCN_site_errors @ zhCN_settings_errors)"

section \<open>Both languages have the same holes\<close>

definition same_message :: "string \<times> string \<Rightarrow> string \<times> wide_text \<Rightarrow> bool" where
  "same_message e z \<longleftrightarrow> fst e = fst z \<and> set (template_holes (snd e)) = set (wide_holes (snd z))"

lemma all_hole_words:
  "list_all is_word_char ''available''" "list_all is_word_char ''bucket''" "list_all is_word_char ''domain''"
  "list_all is_word_char ''host''" "list_all is_word_char ''label''" "list_all is_word_char ''max''"
  "list_all is_word_char ''name''" "list_all is_word_char ''objectKey''" "list_all is_word_char ''page''"
  "list_all is_word_char ''path''" "list_all is_word_char ''state''" "list_all is_word_char ''target''"
  "list_all is_word_char ''used''"
  by code_simp+

lemmas all_hole_rules = hole_rules
  template_holes_hole [OF _ all_hole_words(1), simplified]
  template_holes_hole [OF _ all_hole_words(2), simplified]
  template_holes_hole [OF _ all_hole_words(3), simplified]
  template_holes_hole [OF _ all_hole_words(4), simplified]
  template_holes_hole [OF _ all_hole_words(5), simplified]
  template_holes_hole [OF _ all_hole_words(6), simplified]
  template_holes_hole [OF _ all_hole_words(7), simplified]
  template_holes_hole [OF _ all_hole_words(8), simplified]
  template_holes_hole [OF _ all_hole_words(9), simplified]
  template_holes_hole [OF _ all_hole_words(10), simplified]
  template_holes_hole [OF _ all_hole_words(11), simplified]
  template_holes_hole [OF _ all_hole_words(12), simplified]
  template_holes_hole [OF _ all_hole_words(13), simplified]

lemmas same_message_rules = same_message_def wide_holes_def all_hole_rules

lemma same_shell:
  "list_all2 same_message enUS_shell
     (zhCN_app @ zhCN_sites_nav @ zhCN_shell @ zhCN_edit @ zhCN_common @ zhCN_enabled @ zhCN_dashboard @ zhCN_sites)"
  by (simp add: enUS_shell_def zhCN_app_def zhCN_sites_nav_def zhCN_shell_def zhCN_edit_def zhCN_common_def
      zhCN_enabled_def zhCN_dashboard_def zhCN_sites_def same_message_rules)

lemma same_buckets: "list_all2 same_message enUS_buckets zhCN_buckets"
  by (auto simp: enUS_buckets_def zhCN_buckets_def same_message_rules)

lemma same_explorer: "list_all2 same_message enUS_explorer zhCN_explorer"
  by (auto simp: enUS_explorer_def zhCN_explorer_def same_message_rules)

lemma same_settings: "list_all2 same_message enUS_settings zhCN_settings"
  by (simp add: enUS_settings_def zhCN_settings_def same_message_rules)

lemma same_toasts: "list_all2 same_message enUS_toasts (zhCN_toasts @ zhCN_site_toasts @ zhCN_copy_toasts)"
  by (simp add: enUS_toasts_def zhCN_toasts_def zhCN_site_toasts_def zhCN_copy_toasts_def same_message_rules)

lemma same_errors:
  "list_all2 same_message enUS_errors
     (zhCN_load_errors @ zhCN_load_sites_error @ zhCN_create_errors @ zhCN_create_site_error @
      zhCN_object_errors @ zhCN_site_errors @ zhCN_settings_errors)"
  by (simp add: enUS_errors_def zhCN_load_errors_def zhCN_load_sites_error_def zhCN_create_errors_def
      zhCN_create_site_error_def zhCN_object_errors_def zhCN_site_errors_def zhCN_settings_errors_def
      same_message_rules)

lemma same_dictionaries: "list_all2 same_message enUS zhCN"
  unfolding enUS_def zhCN_def
  by (intro list_all2_appendI same_buckets same_explorer same_settings same_errors
      same_shell [simplified append_assoc] same_toasts [simplified append_assoc])

text \<open>So a key has a text in both languages or in none, with the same holes.\<close>

lemma map_of_same:
  "list_all2 same_message es zs \<Longrightarrow>
     rel_option (\<lambda>e z. set (template_holes e) = set (wide_holes z)) (map_of es key) (map_of zs key)"
proof (induction rule: list_all2_induct)
  case (Cons e es z zs)
  then show ?case by (cases e; cases z) (simp add: same_message_def)
qed simp

lemmas same_texts = map_of_same [OF same_dictionaries]

section \<open>Messages in Chinese\<close>

text \<open>\<open>translate\<close> for this locale: the template of the key, or the English one, with its holes filled.\<close>

fun fill_piece :: "(string \<Rightarrow> string option) \<Rightarrow> text_piece \<Rightarrow> text_piece" where
  "fill_piece v (Lat s) = Lat (interpolate v s)"
| "fill_piece v (Uni us) = Uni us"

definition translate_chinese :: "string \<Rightarrow> (string \<Rightarrow> string option) option \<Rightarrow> wide_text option" where
  "translate_chinese key values =
     (case nullish_opt (map_of zhCN key) (map_option (\<lambda>e. [Lat e]) (map_of enUS key)) of
        None \<Rightarrow> None
      | Some template \<Rightarrow> Some (case values of None \<Rightarrow> template | Some v \<Rightarrow> map (fill_piece v) template))"

lemma translate_chinese_known: "translate_chinese key values = None \<longleftrightarrow> map_of enUS key = None"
  using same_texts [of key]
  by (cases "map_of enUS key"; cases "map_of zhCN key") (auto simp: translate_chinese_def)

definition says_in_chinese :: "string \<Rightarrow> string list \<Rightarrow> bool" where
  "says_in_chinese key names =
     (case map_of zhCN key of
        None \<Rightarrow> False
      | Some template \<Rightarrow> set (wide_holes template) = set names)"

lemma says_in_chinese_iff: "says_in_chinese key names \<longleftrightarrow> says key names"
  using same_texts [of key] unfolding says_in_chinese_def says_def
  by (cases "map_of enUS key"; cases "map_of zhCN key") simp_all

fun message_in_chinese :: "message_text \<Rightarrow> bool" where
  "message_in_chinese (Raw _) = True"
| "message_in_chinese (Key key values) = says_in_chinese key (map fst values)"

fun toast_in_chinese :: "toast \<Rightarrow> bool" where
  "toast_in_chinese (ToastSuccess m) = message_in_chinese m"
| "toast_in_chinese (ToastError m) = message_in_chinese m"

lemma toast_in_chinese_iff: "toast_in_chinese t \<longleftrightarrow> toast_complete t"
proof -
  have "message_in_chinese m \<longleftrightarrow> message_complete m" for m
    by (cases m) (simp_all add: says_in_chinese_iff)
  then show ?thesis by (cases t) simp_all
qed

text \<open>The reasons for which restoring fails, in Chinese.\<close>

definition failure_text_zhCN :: "failure_reason \<Rightarrow> wide_text" where
  "failure_text_zhCN r =
     (case r of
        ObjectExists \<Rightarrow> [Uni [0x76EE, 0x6807, 0x8DEF, 0x5F84, 0x5DF2, 0x5B58, 0x5728, 0x5BF9, 0x8C61, 0x3002]]
      | BucketNotFound \<Rightarrow> [Lat ''bucket '', Uni [0x4E0D, 0x5B58, 0x5728, 0x3002]]
      | ItemNotFound \<Rightarrow> [Uni [0x56DE, 0x6536, 0x7AD9, 0x9879, 0x76EE, 0x4E0D, 0x5B58, 0x5728, 0x3002]]
      | BucketLookupFailed \<Rightarrow> [Uni [0x67E5, 0x8BE2], Lat '' bucket '', Uni [0x5931, 0x8D25, 0x3002]]
      | ObjectLookupFailed \<Rightarrow> [Uni [0x67E5, 0x8BE2, 0x5BF9, 0x8C61, 0x5931, 0x8D25, 0x3002]]
      | RestoreFailed \<Rightarrow> [Uni [0x8FD8, 0x539F, 0x56DE, 0x6536, 0x7AD9, 0x9879, 0x76EE, 0x5931, 0x8D25, 0x3002]])"

end
