(* ===== verification/Notices.thy ===== *)
theory Notices
  imports Chinese ExplorerProps RecycleProps SettingsProps
begin

text \<open>
  The messages that the explorer, the recycle bin and the settings page show, together with the
  dictionaries they are taken from: under every interleaving of handlers and answers each toast is
  complete. The three pages are page machines with the invariant that their toasts are.
\<close>

abbreviation all_complete :: "toast list \<Rightarrow> bool" where
  "all_complete ms \<equiv> list_all toast_complete ms"

definition explorer_notices :: "explorer_page \<Rightarrow> bool" where
  "explorer_notices s = all_complete (ep_toasts s)"

definition recycle_notices :: "recycle_page \<Rightarrow> bool" where
  "recycle_notices s = all_complete (rs_toasts s)"

definition settings_notices :: "settings_page \<Rightarrow> bool" where
  "settings_notices s = all_complete (sp_toasts s)"

section \<open>The recycle bin\<close>

lemma recycle_notices_simps [simp]:
  "recycle_notices (recycle_toast m s) = (recycle_notices s \<and> toast_complete m)"
  "recycle_notices (apply_restore r its res s) = recycle_notices s"
  "recycle_notices (apply_delete its dres s) = recycle_notices s"
  by (auto simp: recycle_notices_def recycle_toast_def apply_restore_def apply_delete_def Let_def
      removeRecycleBinItemsFromCache_def)

lemma recycle_notices_event [simp]: "recycle_notices (recycle_event_step ev s) = recycle_notices s"
  by (cases ev)
     (simp_all add: recycle_notices_def handleOpenChange_def clear_recycle_state_def handleSelectAllItems_def
       handleSelectRow_def handleRecycleNext_def recycle_forward_def handleRecyclePrev_def
       openRestoreConfirmation_def openDeleteConfirmation_def restoreDialogChange_def
       failedDialogChange_def deleteDialogChange_def Let_def)

lemma recycle_notices_commit [simp]: "recycle_notices (recycle_commit old s) = recycle_notices s"
  by (simp add: recycle_notices_def recycle_commit_def clear_recycle_state_def Let_def)

lemma recycle_notices_starts: "recycle_starts s t \<Longrightarrow> recycle_notices s \<Longrightarrow> safe recycle_notices t s"
  by (erule recycle_startsE)
     (auto simp: handleRestore_def handleDelete_def restoreMutation_def deleteMutation_def
        invalidateAffectedQueries_def elim!: callback_taskE intro!: safe_bind safe_api_call
        split: prod.splits)

interpretation recycle_messages: page_machine recycle_commit recycle_starts
    "recycle_initial settings bucket" recycle_notices for settings bucket
  by unfold_locales (simp_all add: recycle_notices_starts, simp add: recycle_notices_def recycle_initial_def)

section \<open>The settings page\<close>

lemma settings_notices_simps [simp]:
  "settings_notices (settings_toast m s) = (settings_notices s \<and> toast_complete m)"
  "settings_notices (show_test i b s) = settings_notices s"
  "settings_notices (end_test i s) = settings_notices s"
  "settings_notices (open_test i s) = settings_notices s"
  "settings_notices (clearManualHealthStates s) = settings_notices s"
  "settings_notices (updateDraftSettings f s) = settings_notices s"
  "settings_notices (s\<lparr>sp_limit_input := x\<rparr>) = settings_notices s"
  "settings_notices (s\<lparr>sp_settings := st\<rparr>) = settings_notices s"
  by (simp_all add: settings_notices_def settings_toast_def show_test_def end_test_def open_test_def
      clearManualHealthStates_def updateDraftSettings_def Let_def)

lemma settings_notices_event [simp]: "settings_notices (settings_event_step ev s) = settings_notices s"
  by (cases ev) (simp_all add: handleSaveSettings_def, simp_all add: settings_notices_def)

lemma settings_notices_commit [simp]: "settings_notices (settings_page_commit old s) = settings_notices s"
  by (simp add: settings_notices_def settings_page_commit_def Let_def split: option.split)

lemma settings_notices_starts:
  "settings_starts s t \<Longrightarrow> settings_notices s \<Longrightarrow> safe settings_notices t s"
  by (erule settings_starts.cases)
     (auto simp: handleTestConnection_def run_test_def handleSaveStorageLimit_def
        storageQuotaMutation_def Let_def elim!: callback_taskE intro!: safe_bind safe_catch safe_finally
        safe_api_call split: option.split number.split)

interpretation settings_messages: page_machine settings_page_commit settings_starts
    "settings_page_initial settings" settings_notices for settings
  by unfold_locales
     (simp_all add: settings_notices_starts, simp add: settings_notices_def settings_page_initial_def)

section \<open>The explorer\<close>

lemma explorer_notices_simps [simp]:
  "explorer_notices (show_toast m s) = (explorer_notices s \<and> toast_complete m)"
  "explorer_notices (reset_progress s) = explorer_notices s"
  "explorer_notices (set_checking b s) = explorer_notices s"
  "explorer_notices (set_deleting k s) = explorer_notices s"
  "explorer_notices (set_publishing k s) = explorer_notices s"
  "explorer_notices (set_downloading_file k s) = explorer_notices s"
  "explorer_notices (set_downloading_folder k s) = explorer_notices s"
  "explorer_notices (set_bulk_download b s) = explorer_notices s"
  "explorer_notices (set_bulk_delete b s) = explorer_notices s"
  "explorer_notices (put_document f s) = explorer_notices s"
  "explorer_notices (ask_overwrite v k s) = explorer_notices s"
  "explorer_notices (apply_delete_result r s) = explorer_notices s"
  "explorer_notices (s\<lparr>ep_pending_overwrite := p\<rparr>) = explorer_notices s"
  "explorer_notices (s\<lparr>ep_reset_signal := n\<rparr>) = explorer_notices s"
  "explorer_notices (s\<lparr>ep_progress := x\<rparr>) = explorer_notices s"
  "explorer_notices (s\<lparr>ep_retrying_overwrite := b\<rparr>) = explorer_notices s"
  by (simp_all add: show_toast_def reset_progress_def set_checking_def set_deleting_def
      set_publishing_def set_downloading_file_def set_downloading_folder_def set_bulk_download_def
      set_bulk_delete_def put_document_def ask_overwrite_def apply_delete_result_def Let_def
      explorer_notices_def)

lemma explorer_notices_event [simp]: "explorer_notices (apply_event ev s) = explorer_notices s"
  by (cases ev)
     (simp_all add: explorer_notices_def handleNavigatePrefix_def handlePrefixBack_def
       handlePrefixForward_def updateSearchParams_def applyPrefixNavigation_def handleSelectAll_def
       handleSelectEntry_def handleClearSelection_def handleSearchSubmit_def handleSortApply_def
       handleSortClear_def handleLimitChange_def handleNextPage_def forward_page_def handlePrevPage_def
       handleBulkDialogOpenChange_def handleOverwriteDialogOpenChange_def
       handleCancelOverwriteUpload_def Let_def)

lemma explorer_notices_commit [simp]: "explorer_notices (explorer_commit old s) = explorer_notices s"
  by (simp add: explorer_notices_def explorer_commit_def search_effect_def paging_effect_def
      bucket_effect_def location_effect_def entries_effect_def)

lemma explorer_notices_toast [simp]:
  "safe explorer_notices (toast_then m t) s = safe explorer_notices t (show_toast m s)"
  by (simp add: toast_then_def)

lemma complete_success_key [simp]: "toast_complete (success_key k) = says k []"
  by (simp add: success_key_def)

lemma complete_bulk_download [simp]: "toast_complete (bulk_download_toast counts)"
  by (simp add: bulk_download_toast_def)

lemmas notices_rules = safe_bind safe_catch safe_finally safe_api_call safe_downloadFile safe_downloadFolderZip

lemma explorer_notices_downloads:
  assumes "explorer_notices s"
  shows "safe explorer_notices (downloadExplorerFileEntry u r e) s"
    and "safe explorer_notices (downloadExplorerDirectoryEntry r e) s"
  using assms
  by (auto simp: downloadExplorerFileEntry_def downloadExplorerDirectoryEntry_def
      intro!: notices_rules)

lemma explorer_notices_entries:
  "explorer_notices s \<Longrightarrow> safe explorer_notices (download_entries u r es counts) s"
  by (induction es arbitrary: s counts)
     (auto simp: download_entry_def intro!: notices_rules explorer_notices_downloads)

lemma explorer_notices_conflict:
  "explorer_notices s \<Longrightarrow> safe explorer_notices (findObjectConflictTarget r v) s"
  by (auto simp: findObjectConflictTarget_def Let_def intro!: notices_rules)

lemma explorer_notices_handlers:
  assumes "explorer_notices s"
  shows "safe explorer_notices (handleUpload r v) s"
    and "safe explorer_notices (handleConfirmOverwriteUpload r) s"
    and "safe explorer_notices (handleDownloadFile u r e) s"
    and "safe explorer_notices (handleDownloadFolder r k) s"
    and "safe explorer_notices (handleBulkDownload u r) s"
    and "safe explorer_notices (handleConfirmBulkDelete r) s"
  using assms
  by (auto simp: handleUpload_def handleConfirmOverwriteUpload_def handleDownloadFile_def
      handleDownloadFolder_def handleBulkDownload_def handleConfirmBulkDelete_def
      intro!: notices_rules explorer_notices_conflict explorer_notices_downloads explorer_notices_entries
      split: option.split)

lemma explorer_notices_callbacks:
  assumes "explorer_notices s"
  shows "callback_task (uploadMutation r) t1 \<Longrightarrow> safe explorer_notices t1 s"
    and "callback_task (uploadFolderMutation r) t2 \<Longrightarrow> safe explorer_notices t2 s"
    and "callback_task (createFolderMutation r) t3 \<Longrightarrow> safe explorer_notices t3 s"
    and "callback_task (uploadAndPublishSiteMutation r) t4 \<Longrightarrow> safe explorer_notices t4 s"
    and "callback_task (deleteFileMutation r) t5 \<Longrightarrow> safe explorer_notices t5 s"
    and "callback_task (deleteFolderMutation r) t6 \<Longrightarrow> safe explorer_notices t6 s"
    and "callback_task (updateVisibilityMutation r) t7 \<Longrightarrow> safe explorer_notices t7 s"
    and "callback_task (publishSiteMutation r) t8 \<Longrightarrow> safe explorer_notices t8 s"
    and "callback_task (publishObjectSiteMutation r) t9 \<Longrightarrow> safe explorer_notices t9 s"
  using assms
  by (auto elim!: callback_taskE intro!: notices_rules split: publish_upload.split
      simp: uploadMutation_def uploadFolderMutation_def createFolderMutation_def
        uploadAndPublishSiteMutation_def deleteFileMutation_def deleteFolderMutation_def
        updateVisibilityMutation_def publishSiteMutation_def publishObjectSiteMutation_def)

lemma explorer_notices_starts:
  "explorer_starts u s t \<Longrightarrow> explorer_notices s \<Longrightarrow> safe explorer_notices t s"
  by (erule explorer_startsE)
     (auto simp: explorer_notices_handlers explorer_notices_callbacks handleUploadFolder_def
        handleCreateFolder_def handleUploadAndPublishSite_def handleDeleteFile_def
        handleDeleteFolder_def handlePublishSite_def handlePublishObjectSite_def
        handleUpdateVisibility_def)

interpretation explorer_messages: page_machine explorer_commit "explorer_starts u"
    "explorer_initial settings bucket params" explorer_notices for u settings bucket params
  by unfold_locales
     (simp_all add: explorer_notices_starts, simp add: explorer_notices_def explorer_initial_def)

section \<open>Properties\<close>

abbreviation all_translated :: "toast list \<Rightarrow> bool" where
  "all_translated ms \<equiv> list_all (\<lambda>m. toast_complete m \<and> toast_in_chinese m) ms"


lemma one_step_reachable:
  "starts s0 t \<Longrightarrow> advance t s0 = (s', []) \<Longrightarrow> reachable_from commit starts s0 (commit s0 s', [])"
  using machine_step.start [of starts s0 t s' "[]" commit "[]"] by (auto intro: reachable_from.intros)


end
