(* ===== verification/Progress.thy ===== *)
theory Progress
  imports TaskFrame "HOL-Library.Multiset"
begin

text \<open>
  What a page of interleaved tasks comes to when nothing new is started. Each answer lets one
  suspended task run to its next request or to its end; a task is a finite tree, so there are
  only finitely many answers to wait for. A flag that a handler raises while it works, and lowers
  in a \<open>finally\<close>, is down once no task is left: the contract is a locale over one flag.
\<close>

section \<open>Answers only\<close>

inductive answer_step ::
  "('s \<Rightarrow> 's \<Rightarrow> 's) \<Rightarrow> 's \<times> ('s, 'q, 'r, 'e, 'a) job list \<Rightarrow> 's \<times> ('s, 'q, 'r, 'e, 'a) job list \<Rightarrow> bool"
  for commit where
  "advance (g r) s = (s', js') \<Longrightarrow>
     answer_step commit (s, xs @ (q, g) # ys) (commit s s', xs @ js' @ ys)"

inductive_cases answer_stepE: "answer_step commit c c'"

lemma answer_is_step: "answer_step commit c c' \<Longrightarrow> machine_step commit starts c c'"
  by (erule answer_stepE) (auto intro: machine_step.resume)

lemma answers_reachable:
  "(answer_step commit)\<^sup>*\<^sup>* c c' \<Longrightarrow> reachable_from commit starts s0 c \<Longrightarrow> reachable_from commit starts s0 c'"
  by (induction rule: rtranclp_induct) (auto intro: reachable_from.step answer_is_step)

lemma answer_possible: "js \<noteq> [] \<Longrightarrow> \<exists>c'. answer_step commit (s, js) c'"
proof (cases js)
  case (Cons j ys)
  fix r
  have "answer_step commit (s, [] @ (fst j, snd j) # ys)
      (commit s (fst (advance (snd j r) s)), [] @ snd (advance (snd j r) s) @ ys)"
    by (rule answer_step.intros) simp
  with Cons show ?thesis by auto
qed simp

section \<open>Finitely many answers\<close>

text \<open>The job that a job leaves behind when it is answered.\<close>

definition follows :: "('s, 'q, 'r, 'e, 'a) job \<Rightarrow> ('s, 'q, 'r, 'e, 'a) job \<Rightarrow> bool" where
  "follows j' j \<longleftrightarrow> (\<exists>r s. j' \<in> set (snd (advance (snd j r) s)))"

lemma advance_accessible: "j \<in> set (snd (advance t s)) \<Longrightarrow> Wellfounded.accp follows j"
proof (induction t arbitrary: s j)
  case (Await q g)
  then have j: "j = (q, g)" by simp
  show ?case
  proof (rule accp.accI)
    fix j' assume "follows j' j"
    with j obtain r s where "j' \<in> set (snd (advance (g r) s))" by (auto simp: follows_def)
    with Await.IH show "Wellfounded.accp follows j'" by blast
  qed
next
  case (Read g)
  then show ?case by (metis advance.simps(4) rangeI)
qed simp_all

lemma wf_follows: "wf {(j' :: ('s, 'q, 'r, 'e, 'a) job, j). follows j' j}"
proof -
  have "Wellfounded.accp follows j" for j :: "('s, 'q, 'r, 'e, 'a) job"
    by (rule advance_accessible [of j "Await (fst j) (snd j)"]) simp
  then have "wfp (follows :: ('s, 'q, 'r, 'e, 'a) job \<Rightarrow> _)" by (simp add: wfp_iff_accp)
  then show ?thesis by (simp add: wfp_def)
qed

lemma answer_decreases:
  assumes "answer_step commit c c'"
  shows "(mset (snd c'), mset (snd c)) \<in> mult1 {(j', j). follows j' j}"
  using assms
proof cases
  case (1 g r s s' js' xs q ys)
  then have "\<forall>j' \<in> set js'. follows j' (q, g)" by (metis follows_def snd_conv)
  then have "(mset xs + mset ys + mset js', add_mset (q, g) (mset xs + mset ys)) \<in> mult1 {(j', j). follows j' j}"
    by (intro mult1I [OF refl refl]) auto
  with 1 show ?thesis by (simp add: ac_simps)
qed

lemma wf_answers: "wf {(c', c). answer_step commit c c'}"
proof (rule wf_subset)
  show "wf (inv_image (mult1 {(j', j). follows j' j}) (\<lambda>c. mset (snd c)))"
    by (intro wf_inv_image wf_mult1 wf_follows)
qed (auto simp: in_inv_image dest: answer_decreases)

lemma no_infinite_answers:
  "\<not> (\<exists>run. run 0 = c \<and> (\<forall>n. answer_step commit (run n) (run (Suc n))))"
  using wf_answers [of commit] unfolding wf_iff_no_infinite_down_chain by blast

lemma answers_end: "\<exists>c'. (answer_step commit)\<^sup>*\<^sup>* c c' \<and> \<not> (\<exists>d. answer_step commit c' d)"
proof (induction c rule: wf_induct_rule [OF wf_answers [of commit]])
  case (1 c)
  show ?case
  proof (cases "\<exists>d. answer_step commit c d")
    case True
    then obtain d where d: "answer_step commit c d" by blast
    with 1 [of d] obtain c' where "(answer_step commit)\<^sup>*\<^sup>* d c'" "\<not> (\<exists>d. answer_step commit c' d)" by auto
    with d show ?thesis by (meson converse_rtranclp_into_rtranclp)
  qed blast
qed

section \<open>Flags that are lowered at the end\<close>

text \<open>
  \<open>calm\<close> tasks never raise the flag. \<open>clears down t s\<close>: wherever the task is when it is
  resumed, it ends with the flag down. \<open>settles down t s\<close>: the same up to an \<open>await\<close> at which
  the flag is already down and from which on the task is calm.
\<close>

abbreviation calm :: "('s \<Rightarrow> bool) \<Rightarrow> ('s, 'q, 'r, 'e, 'a) task \<Rightarrow> bool" where
  "calm down \<equiv> keeps (\<lambda>s s'. down s \<longrightarrow> down s')"

primrec clears :: "('s \<Rightarrow> bool) \<Rightarrow> ('s, 'q, 'r, 'e, 'a) task \<Rightarrow> 's \<Rightarrow> bool" where
  "clears down (Return a) s = down s"
| "clears down (Raise e) s = down s"
| "clears down (Update f t) s = clears down t (f s)"
| "clears down (Read g) s = clears down (g s) s"
| "clears down (Await q g) s = (\<forall>r s'. clears down (g r) s')"

primrec settles :: "('s \<Rightarrow> bool) \<Rightarrow> ('s, 'q, 'r, 'e, 'a) task \<Rightarrow> 's \<Rightarrow> bool" where
  "settles down (Return a) s = down s"
| "settles down (Raise e) s = down s"
| "settles down (Update f t) s = settles down t (f s)"
| "settles down (Read g) s = settles down (g s) s"
| "settles down (Await q g) s =
     (down s \<and> (\<forall>r. calm down (g r)) \<or> (\<forall>r s'. settles down (g r) s'))"

lemma clears_settles: "clears down t s \<Longrightarrow> settles down t s"
  by (induction t arbitrary: s) auto

lemma calm_settles: "calm down t \<Longrightarrow> down s \<Longrightarrow> settles down t s"
  by (induction t arbitrary: s) auto

lemma clears_finally: "(\<And>s. down (fin s)) \<Longrightarrow> clears down (finally_task t fin) s"
  by (induction t arbitrary: s) auto

lemma clears_finally_keep:
  "clears down t s \<Longrightarrow> (\<And>s. down s \<Longrightarrow> down (fin s)) \<Longrightarrow> clears down (finally_task t fin) s"
  by (induction t arbitrary: s) auto

lemma clears_bind:
  "clears down t s \<Longrightarrow> (\<And>a s'. down s' \<Longrightarrow> clears down (k a) s') \<Longrightarrow> clears down (bind_task t k) s"
  by (induction t arbitrary: s) auto

lemma settles_bind:
  "clears down t s \<Longrightarrow> (\<And>a. calm down (k a)) \<Longrightarrow> settles down (bind_task t k) s"
  by (induction t arbitrary: s) (auto intro: calm_settles)

lemma settles_advance:
  "settles down t s \<Longrightarrow> advance t s = (s', js) \<Longrightarrow>
     js = [] \<and> down s' \<or>
     (\<exists>q g. js = [(q, g)] \<and> (down s' \<and> (\<forall>r. calm down (g r)) \<or> (\<forall>r s. settles down (g r) s)))"
  by (induction t arbitrary: s) auto

lemma calm_advance:
  "calm down t \<Longrightarrow> advance t s = (s', js) \<Longrightarrow>
     (down s \<longrightarrow> down s') \<and> (\<forall>(q, g) \<in> set js. \<forall>r. calm down (g r))"
  by (rule keeps_advance) auto

text \<open>
  A page with a flag, and whatever it starts, either ends with the flag down or is calm. Then the
  flag is down unless a suspended task will lower it.
\<close>

locale page_flag =
  fixes commit :: "'s \<Rightarrow> 's \<Rightarrow> 's"
    and starts :: "'s \<Rightarrow> ('s, 'q, 'r, 'e, 'a) task \<Rightarrow> bool"
    and s0 :: 's
    and down :: "'s \<Rightarrow> bool"
  assumes initial_down: "down s0"
    and commit_down: "down (commit s s') = down s'"
    and starts_down: "starts s t \<Longrightarrow> calm down t \<or> settles down t s"
begin

abbreviation lowers :: "('s, 'q, 'r, 'e, 'a) job \<Rightarrow> bool" where
  "lowers \<equiv> \<lambda>(q, g). \<forall>r s. settles down (g r) s"

abbreviation leaves :: "('s, 'q, 'r, 'e, 'a) job \<Rightarrow> bool" where
  "leaves \<equiv> \<lambda>(q, g). \<forall>r. calm down (g r)"

definition accounted :: "'s \<Rightarrow> ('s, 'q, 'r, 'e, 'a) job set \<Rightarrow> bool" where
  "accounted s js \<longleftrightarrow> (\<forall>j \<in> js. leaves j \<or> lowers j) \<and> (down s \<or> (\<exists>j \<in> js. lowers j))"

text \<open>One stretch of a task, next to the jobs that stay.\<close>

lemma stretch_accounted:
  assumes "calm down t \<or> settles down t s" and "advance t s = (s', js')"
    and "\<forall>j \<in> js. leaves j \<or> lowers j"
    and "down s \<or> settles down t s \<or> (\<exists>j \<in> js. lowers j)"
  shows "accounted (commit s s') (set js' \<union> js)"
proof (cases "settles down t s")
  case True
  from settles_advance [OF this assms(2)] assms(3) show ?thesis
    by (auto simp: accounted_def commit_down)
next
  case False
  with assms(1) have "calm down t" by blast
  from calm_advance [OF this assms(2)] have "down s \<longrightarrow> down s'" "\<forall>j \<in> set js'. leaves j" by auto
  moreover from False assms(4) have "down s \<or> (\<exists>j \<in> js. lowers j)" by blast
  ultimately show ?thesis
    using assms(3) unfolding accounted_def commit_down by blast
qed

lemma reachable_accounted:
  "reachable_from commit starts s0 c \<Longrightarrow> accounted (fst c) (set (snd c))"
proof (induction rule: reachable_from.induct)
  case initial
  show ?case by (simp add: accounted_def initial_down)
next
  case (step c c')
  from step.hyps(2) show ?case
  proof cases
    case (start s t s' js' js)
    from step.IH start(1) have "\<forall>j \<in> set js. leaves j \<or> lowers j"
      "down s \<or> settles down t s \<or> (\<exists>j \<in> set js. lowers j)"
      unfolding accounted_def by auto
    from stretch_accounted [OF starts_down [OF start(3)] start(4) this] start(2) show ?thesis by simp
  next
    case (resume g r s s' js' xs q ys)
    from step.IH resume(1) have acc: "accounted s (insert (q, g) (set xs \<union> set ys))" by simp
    then have "calm down (g r) \<or> settles down (g r) s"
      "\<forall>j \<in> set xs \<union> set ys. leaves j \<or> lowers j"
      "down s \<or> settles down (g r) s \<or> (\<exists>j \<in> set xs \<union> set ys. lowers j)"
      unfolding accounted_def by auto
    from stretch_accounted [OF this(1) resume(3) this(2,3)] resume(2) show ?thesis
      by (simp add: Un_left_commute)
  qed
qed

lemma reachable_down: "reachable_from commit starts s0 (s, []) \<Longrightarrow> down s"
  using reachable_accounted by (fastforce simp: accounted_def)

end

end
