(* ===== verification/ExplorerIdle.thy ===== *)
theory ExplorerIdle
  imports Progress ExplorerProps
begin

text \<open>
  The flags by which the explorer shows that a handler of its own is at work: the check before an
  upload, the confirmed overwrite, the two downloads, the bulk download and the bulk deletion.
  Each is an instance of the contract in \<open>Progress\<close>, so that none is stuck once the requests
  are answered. (Deleting and publishing are marked by mutations, whose end the query library
  announces.)
\<close>

datatype busy_flag =
    CheckingOverwrite | RetryingOverwrite | DownloadingFile | DownloadingFolder | BulkDownloading
  | BulkDeleting

primrec idle :: "busy_flag \<Rightarrow> explorer_page \<Rightarrow> bool" where
  "idle CheckingOverwrite s = (\<not> ep_checking_overwrite s)"
| "idle RetryingOverwrite s = (\<not> ep_retrying_overwrite s)"
| "idle DownloadingFile s = (ep_downloading_file s = [])"
| "idle DownloadingFolder s = (ep_downloading_folder s = [])"
| "idle BulkDownloading s = (\<not> ep_bulk_download s)"
| "idle BulkDeleting s = (\<not> ep_bulk_delete s)"

section \<open>What each update does to the flags\<close>

lemma idle_frame [simp]:
  "idle f (show_toast m s) = idle f s" "idle f (reset_progress s) = idle f s"
  "idle f (set_deleting k s) = idle f s" "idle f (set_publishing k s) = idle f s"
  "idle f (put_document d s) = idle f s" "idle f (ask_overwrite v k s) = idle f s"
  "idle f (apply_delete_result r s) = idle f s"
  "idle f (s\<lparr>ep_pending_overwrite := p\<rparr>) = idle f s" "idle f (s\<lparr>ep_reset_signal := n\<rparr>) = idle f s"
  "idle f (s\<lparr>ep_progress := x\<rparr>) = idle f s"
  by (cases f; simp add: show_toast_def reset_progress_def set_deleting_def set_publishing_def
      put_document_def ask_overwrite_def apply_delete_result_def Let_def)+

lemma idle_flags [simp]:
  "idle f (set_checking b s) = (if f = CheckingOverwrite then \<not> b else idle f s)"
  "idle f (set_downloading_file k s) = (if f = DownloadingFile then k = [] else idle f s)"
  "idle f (set_downloading_folder k s) = (if f = DownloadingFolder then k = [] else idle f s)"
  "idle f (set_bulk_download b s) = (if f = BulkDownloading then \<not> b else idle f s)"
  "idle f (set_bulk_delete b s) = (if f = BulkDeleting then \<not> b else idle f s)"
  "idle f (s\<lparr>ep_retrying_overwrite := b\<rparr>) = (if f = RetryingOverwrite then \<not> b else idle f s)"
  by (cases f; simp add: set_checking_def set_downloading_file_def set_downloading_folder_def
      set_bulk_download_def set_bulk_delete_def)+

lemma idle_event [simp]: "idle f (apply_event ev s) = idle f s"
  by (cases ev; cases f;
      simp add: handleNavigatePrefix_def handlePrefixBack_def
       handlePrefixForward_def updateSearchParams_def applyPrefixNavigation_def handleSelectAll_def
       handleSelectEntry_def handleClearSelection_def handleSearchSubmit_def handleSortApply_def
       handleSortClear_def handleLimitChange_def handleNextPage_def forward_page_def handlePrevPage_def
       handleBulkDialogOpenChange_def handleOverwriteDialogOpenChange_def
       handleCancelOverwriteUpload_def Let_def)

lemma idle_commit: "idle f (explorer_commit old s) = idle f s"
  by (cases f; simp add: explorer_commit_def search_effect_def paging_effect_def
      bucket_effect_def location_effect_def entries_effect_def)

declare idle.simps [simp del]

section \<open>The handlers\<close>

lemma calm_toast_then [simp]: "calm (idle f) (toast_then m t) = calm (idle f) t"
  by (simp add: toast_then_def)

lemma calm_documents [simp]:
  "calm (idle f) (api_call (downloadFolderZip put_document st b k))"
  "calm (idle f) (downloadFile put_document url name)"
  by (auto simp: api_call_def downloadFolderZip_def http_send_def request_def log_effect_def Let_def
      downloadFile_def await_done_def split: sum.splits)

lemmas calm_rules = keeps_bind keeps_catch keeps_finally

lemma calm_requests [simp]:
  "calm (idle f) (findObjectConflictTarget r v)"
  "calm (idle f) (downloadExplorerFileEntry u r e)"
  "calm (idle f) (downloadExplorerDirectoryEntry r e)"
  by (auto simp: findObjectConflictTarget_def downloadExplorerFileEntry_def
      downloadExplorerDirectoryEntry_def Let_def intro!: calm_rules)

lemma calm_callbacks:
  "callback_task (uploadMutation r) t1 \<Longrightarrow> calm (idle f) t1"
  "callback_task (uploadFolderMutation r) t2 \<Longrightarrow> calm (idle f) t2"
  "callback_task (createFolderMutation r) t3 \<Longrightarrow> calm (idle f) t3"
  "callback_task (uploadAndPublishSiteMutation r) t4 \<Longrightarrow> calm (idle f) t4"
  "callback_task (deleteFileMutation r) t5 \<Longrightarrow> calm (idle f) t5"
  "callback_task (deleteFolderMutation r) t6 \<Longrightarrow> calm (idle f) t6"
  "callback_task (updateVisibilityMutation r) t7 \<Longrightarrow> calm (idle f) t7"
  "callback_task (publishSiteMutation r) t8 \<Longrightarrow> calm (idle f) t8"
  "callback_task (publishObjectSiteMutation r) t9 \<Longrightarrow> calm (idle f) t9"
  by (auto elim!: callback_taskE intro!: calm_rules split: publish_upload.split
      simp: uploadMutation_def uploadFolderMutation_def createFolderMutation_def
        uploadAndPublishSiteMutation_def deleteFileMutation_def deleteFolderMutation_def
        updateVisibilityMutation_def publishSiteMutation_def publishObjectSiteMutation_def)

lemma clears_entry: "clears (idle DownloadingFile) (download_entry u r e counts) s"
  unfolding download_entry_def by (rule clears_finally) simp

lemma clears_entries:
  "idle DownloadingFile s \<or> es \<noteq> [] \<Longrightarrow> clears (idle DownloadingFile) (download_entries u r es counts) s"
  by (induction es arbitrary: s counts) (auto intro!: clears_bind clears_entry)

lemma calm_entries:
  "f \<noteq> DownloadingFile \<Longrightarrow> f \<noteq> DownloadingFolder \<Longrightarrow> calm (idle f) (download_entries u r es counts)"
  by (induction es arbitrary: counts) (auto simp: download_entry_def intro!: calm_rules)

lemma clears_entry_folder: "clears (idle DownloadingFolder) (download_entry u r e counts) s"
  unfolding download_entry_def by (rule clears_finally) simp

lemma clears_entries_folder:
  "idle DownloadingFolder s \<or> es \<noteq> [] \<Longrightarrow> clears (idle DownloadingFolder) (download_entries u r es counts) s"
  by (induction es arbitrary: s counts) (auto intro!: clears_bind clears_entry_folder)

text \<open>Each handler settles its own flag and is calm about the others.\<close>

lemma settles_handlers:
  "settles (idle CheckingOverwrite) (handleUpload r v) s"
  "settles (idle RetryingOverwrite) (handleConfirmOverwriteUpload r) s \<or> handleConfirmOverwriteUpload r = Return ()"
  "settles (idle DownloadingFile) (handleDownloadFile u r e) s"
  "settles (idle DownloadingFolder) (handleDownloadFolder r k) s"
  "settles (idle BulkDeleting) (handleConfirmBulkDelete r) s \<or> handleConfirmBulkDelete r = Return ()"
  by (auto simp: handleUpload_def handleConfirmOverwriteUpload_def handleDownloadFile_def
      handleDownloadFolder_def handleConfirmBulkDelete_def
      intro!: settles_bind clears_settles [OF clears_finally] clears_finally split: option.split)

lemma calm_handlers:
  "f \<noteq> CheckingOverwrite \<Longrightarrow> calm (idle f) (handleUpload r v)"
  "f \<noteq> RetryingOverwrite \<Longrightarrow> calm (idle f) (handleConfirmOverwriteUpload r)"
  "f \<noteq> DownloadingFile \<Longrightarrow> calm (idle f) (handleDownloadFile u r e)"
  "f \<noteq> DownloadingFolder \<Longrightarrow> calm (idle f) (handleDownloadFolder r k)"
  "f \<noteq> BulkDeleting \<Longrightarrow> calm (idle f) (handleConfirmBulkDelete r)"
  by (auto simp: handleUpload_def handleConfirmOverwriteUpload_def handleDownloadFile_def
      handleDownloadFolder_def handleConfirmBulkDelete_def intro!: calm_rules split: option.split)

lemma idle_handlers:
  "calm (idle f) (handleUpload r v) \<or> settles (idle f) (handleUpload r v) s"
  "calm (idle f) (handleConfirmOverwriteUpload r) \<or> settles (idle f) (handleConfirmOverwriteUpload r) s"
  "calm (idle f) (handleDownloadFile u r e) \<or> settles (idle f) (handleDownloadFile u r e) s"
  "calm (idle f) (handleDownloadFolder r k) \<or> settles (idle f) (handleDownloadFolder r k) s"
  "calm (idle f) (handleConfirmBulkDelete r) \<or> settles (idle f) (handleConfirmBulkDelete r) s"
  by (metis settles_handlers calm_handlers keeps.simps(1))+

lemma idle_bulk_download:
  "calm (idle f) (handleBulkDownload u r) \<or> settles (idle f) (handleBulkDownload u r) s"
proof (cases "selected_entries r = [] \<or> bulk_actions_pending r")
  case True
  then show ?thesis by (simp add: handleBulkDownload_def)
next
  case False
  then have h: "handleBulkDownload u r =
     Update (set_bulk_download True)
       (bind_task (finally_task (download_entries u r (selected_entries r) (0, 0)) (set_bulk_download False))
         (\<lambda>counts. toast_then (bulk_download_toast counts) (Return ())))"
    by (simp add: handleBulkDownload_def)
  consider "f = BulkDownloading" | "f = DownloadingFile" | "f = DownloadingFolder"
    | "f \<noteq> BulkDownloading" "f \<noteq> DownloadingFile" "f \<noteq> DownloadingFolder" by blast
  then show ?thesis
  proof cases
    case 1
    then show ?thesis by (auto simp: h intro!: settles_bind clears_finally)
  next
    case 2
    with False show ?thesis
      by (auto simp: h intro!: settles_bind clears_finally_keep clears_entries)
  next
    case 3
    with False show ?thesis
      by (auto simp: h intro!: settles_bind clears_finally_keep clears_entries_folder)
  next
    case 4
    then show ?thesis by (auto simp: h intro!: calm_rules calm_entries)
  qed
qed

lemma idle_starts: "explorer_starts u s t \<Longrightarrow> calm (idle f) t \<or> settles (idle f) t s"
  by (erule explorer_startsE)
     (simp_all add: idle_handlers idle_bulk_download calm_callbacks handleUploadFolder_def
        handleCreateFolder_def handleUploadAndPublishSite_def handleDeleteFile_def
        handleDeleteFolder_def handlePublishSite_def handlePublishObjectSite_def
        handleUpdateVisibility_def)

lemma idle_initial: "idle f (explorer_initial settings bucket params)"
  by (cases f) (simp_all add: idle.simps explorer_initial_def)

interpretation explorer_flag: page_flag explorer_commit "explorer_starts u"
    "explorer_initial settings bucket params" "idle f" for u settings bucket params f
  by unfold_locales (rule idle_initial, rule idle_commit, rule idle_starts)

section \<open>Properties\<close>

text \<open>
  C16. The explorer comes to rest. From every state that interleavings of its handlers and the
  answers lead to, there is no endless sequence of answers when nothing new is started; and
  where no more answer can come, no handler is suspended and none of the flags that show a
  handler at work is up, so no spinner stays and no button stays disabled.
\<close>

theorem explorer_comes_to_rest:
  assumes "reachable_from explorer_commit (explorer_starts u) (explorer_initial settings bucket params) c"
  shows "\<not> (\<exists>run. run 0 = c \<and> (\<forall>n. answer_step explorer_commit (run n) (run (Suc n)))) \<and>
    (\<forall>c'. (answer_step explorer_commit)\<^sup>*\<^sup>* c c' \<and> \<not> (\<exists>d. answer_step explorer_commit c' d) \<longrightarrow>
       snd c' = [] \<and> (\<forall>f. idle f (fst c')))"
proof (intro conjI allI impI no_infinite_answers)
  fix c' f
  assume c': "(answer_step explorer_commit)\<^sup>*\<^sup>* c c' \<and> \<not> (\<exists>d. answer_step explorer_commit c' d)"
  with answer_possible [of "snd c'" explorer_commit "fst c'"] show none: "snd c' = []" by auto
  have "reachable_from explorer_commit (explorer_starts u) (explorer_initial settings bucket params) c'"
    using answers_reachable [OF _ assms] c' by blast
  with none show "idle f (fst c')" by (metis explorer_flag.reachable_down prod.collapse)
qed

theorem explorer_comes_to_rest_witness:
  "\<exists>c c'. reachable_from explorer_commit (explorer_starts (\<lambda>_. None))
      (explorer_initial \<lparr>apiBaseUrl = ''http://h'', bearerToken = []\<rparr> ''b'' []) c \<and>
    \<not> idle DownloadingFolder (fst c) \<and> (answer_step explorer_commit)\<^sup>*\<^sup>* c c' \<and>
    snd c' = [] \<and> idle DownloadingFolder (fst c')"
proof -
  let ?s = "explorer_initial \<lparr>apiBaseUrl = ''http://h'', bearerToken = []\<rparr> ''b'' []"
  let ?t = "handleDownloadFolder ?s ''a/''"
  let ?c = "(explorer_commit ?s (fst (advance ?t ?s)), snd (advance ?t ?s) @ [])"
  have "machine_step explorer_commit (explorer_starts (\<lambda>_. None)) (?s, []) ?c"
    by (rule machine_step.start [where t = ?t]) (auto intro: explorer_starts.intros)
  then have r: "reachable_from explorer_commit (explorer_starts (\<lambda>_. None)) ?s ?c"
    by (auto intro: reachable_from.intros)
  have "fst (advance ?t ?s) = set_downloading_folder ''a/'' ?s"
    by (simp add: handleDownloadFolder_def api_call_def downloadFolderZip_def http_send_def request_def Let_def)
  then have "\<not> idle DownloadingFolder (fst ?c)" by (simp add: idle_commit)
  moreover obtain c' where "(answer_step explorer_commit)\<^sup>*\<^sup>* ?c c'" "\<not> (\<exists>d. answer_step explorer_commit c' d)"
    using answers_end by blast
  ultimately show ?thesis using explorer_comes_to_rest [OF r] r by blast
qed

end
