(* ===== verification/FormView.thy ===== *)
theory FormView
  imports SubmitDialog
begin

text \<open>
  What a form shows and what a user can do to it. A form is a list of labelled fields, each with
  the handler that its \<open>onChange\<close> or \<open>onValueChange\<close> calls, and a submit button. The contract of
  a controlled form is a locale: an input changes the value shown in its own field to what was
  entered, and no other. Labels are keys of the dictionary. A file input is not controlled: it
  shows what was picked since it was put into the document.
\<close>

section \<open>Fields\<close>

text \<open>
  \<open>Shown\<close> is a text that cannot be edited. The first argument of the others says whether the
  field is disabled; \<open>FilesField\<close> takes many files or one.
\<close>

datatype (dead 'd) field =
    Shown string
  | TextField bool string "string \<Rightarrow> 'd \<Rightarrow> 'd"
  | ChoiceField bool string "string list" "string \<Rightarrow> 'd \<Rightarrow> 'd"
  | FilesField bool bool "upload_file list \<Rightarrow> 'd \<Rightarrow> 'd"

type_synonym 'd fields = "(string \<times> 'd field) list"

record 'd form_view =
  vw_fields :: "'d fields"
  vw_progress :: bool
  vw_submit_disabled :: bool
  vw_submit_label :: string

text \<open>\<open>String(enabled)\<close> and \<open>value === "true"\<close> of the two selects for a boolean.\<close>

definition bool_text :: "bool \<Rightarrow> string" where
  "bool_text b = (if b then ''true'' else ''false'')"

definition bool_choice :: "bool \<Rightarrow> bool \<Rightarrow> (bool \<Rightarrow> 'd \<Rightarrow> 'd) \<Rightarrow> 'd field" where
  "bool_choice disabled b set_it =
     ChoiceField disabled (bool_text b) [''true'', ''false''] (\<lambda>v. set_it (v = ''true''))"

text \<open>The select for a visibility.\<close>

definition visibility_text :: "visibility \<Rightarrow> string" where
  "visibility_text v = (case v of Private \<Rightarrow> ''private'' | Public \<Rightarrow> ''public'')"

definition visibility_choice :: "bool \<Rightarrow> visibility \<Rightarrow> (visibility \<Rightarrow> 'd \<Rightarrow> 'd) \<Rightarrow> 'd field" where
  "visibility_choice disabled v set_it =
     ChoiceField disabled (visibility_text v) [''private'', ''public'']
       (\<lambda>x. set_it (if x = ''public'' then Public else Private))"

section \<open>Inputs of a user\<close>

datatype user_input =
    Typed string
  | Chosen string
  | Picked "upload_file list"

text \<open>What the browser does with an input: nothing in a disabled field or with another kind of field.\<close>

fun use_field :: "'d field \<Rightarrow> user_input \<Rightarrow> 'd \<Rightarrow> 'd" where
  "use_field (TextField disabled v change) (Typed s) d = (if disabled then d else change s d)"
| "use_field (ChoiceField disabled v options change) (Chosen s) d =
     (if disabled \<or> s \<notin> set options then d else change s d)"
| "use_field (FilesField disabled multiple change) (Picked fs) d =
     (if disabled \<or> (\<not> multiple \<and> length fs > 1) then d else change fs d)"
| "use_field fld inp d = d"

definition use_form :: "('d \<Rightarrow> 'd form_view) \<Rightarrow> nat \<times> user_input \<Rightarrow> 'd \<Rightarrow> 'd" where
  "use_form view act d =
     (if fst act < length (vw_fields (view d))
      then use_field (snd (vw_fields (view d) ! fst act)) (snd act) d else d)"

definition fill_form :: "('d \<Rightarrow> 'd form_view) \<Rightarrow> (nat \<times> user_input) list \<Rightarrow> 'd \<Rightarrow> 'd" where
  "fill_form view acts d = fold (use_form view) acts d"

lemma fill_form_simps [simp]:
  "fill_form view [] d = d"
  "fill_form view (act # acts) d = fill_form view acts (use_form view act d)"
  by (simp_all add: fill_form_def)

text \<open>What every enabled handler of a form leaves alone, no input changes.\<close>

definition field_keeps :: "('d \<Rightarrow> bool) \<Rightarrow> 'd field \<Rightarrow> bool" where
  "field_keeps P fld = (\<forall>inp d. P d \<longrightarrow> P (use_field fld inp d))"

lemma field_keeps_simps [simp]:
  "field_keeps P (Shown s)"
  "field_keeps P (TextField b v f) = (b \<or> (\<forall>s d. P d \<longrightarrow> P (f s d)))"
  "field_keeps P (ChoiceField b v os g) = (b \<or> (\<forall>s \<in> set os. \<forall>d. P d \<longrightarrow> P (g s d)))"
  "field_keeps P (FilesField b m h) = (b \<or> (\<forall>fs d. m \<or> length fs \<le> 1 \<longrightarrow> P d \<longrightarrow> P (h fs d)))"
proof -
  show "field_keeps P (Shown s)" by (simp add: field_keeps_def)
  have "(\<forall>inp d. P d \<longrightarrow> P (use_field (TextField b v f) inp d)) =
      (\<forall>s d. P d \<longrightarrow> P (use_field (TextField b v f) (Typed s) d))"
    by (rule iffI, blast) (intro allI, rename_tac inp d, case_tac inp; simp)
  then show "field_keeps P (TextField b v f) = (b \<or> (\<forall>s d. P d \<longrightarrow> P (f s d)))"
    by (auto simp: field_keeps_def)
  have "(\<forall>inp d. P d \<longrightarrow> P (use_field (ChoiceField b v os g) inp d)) =
      (\<forall>s d. P d \<longrightarrow> P (use_field (ChoiceField b v os g) (Chosen s) d))"
    by (rule iffI, blast) (intro allI, rename_tac inp d, case_tac inp; simp)
  then show "field_keeps P (ChoiceField b v os g) = (b \<or> (\<forall>s \<in> set os. \<forall>d. P d \<longrightarrow> P (g s d)))"
    by (auto simp: field_keeps_def)
  have "(\<forall>inp d. P d \<longrightarrow> P (use_field (FilesField b m h) inp d)) =
      (\<forall>fs d. P d \<longrightarrow> P (use_field (FilesField b m h) (Picked fs) d))"
    by (rule iffI, blast) (intro allI, rename_tac inp d, case_tac inp; simp)
  then show "field_keeps P (FilesField b m h) = (b \<or> (\<forall>fs d. m \<or> length fs \<le> 1 \<longrightarrow> P d \<longrightarrow> P (h fs d)))"
    by (auto simp: field_keeps_def not_le)
qed

lemma use_form_keeps:
  "\<forall>fld \<in> set (vw_fields (view d)). field_keeps P (snd fld) \<Longrightarrow> P d \<Longrightarrow> P (use_form view act d)"
  by (auto simp: use_form_def field_keeps_def)

lemma fill_form_keeps:
  "(\<And>d. P d \<Longrightarrow> \<forall>fld \<in> set (vw_fields (view d)). field_keeps P (snd fld)) \<Longrightarrow> P d \<Longrightarrow>
    P (fill_form view acts d)"
  by (induction acts arbitrary: d) (simp_all add: use_form_keeps)

text \<open>The last text that was typed into a field, and the last option that was chosen in it.\<close>

fun last_typed :: "nat \<Rightarrow> (nat \<times> user_input) list \<Rightarrow> string \<Rightarrow> string" where
  "last_typed i [] v = v"
| "last_typed i ((j, Typed s) # acts) v = last_typed i acts (if j = i then s else v)"
| "last_typed i (act # acts) v = last_typed i acts v"

fun last_chosen :: "string list \<Rightarrow> nat \<Rightarrow> (nat \<times> user_input) list \<Rightarrow> string \<Rightarrow> string" where
  "last_chosen os i [] v = v"
| "last_chosen os i ((j, Chosen s) # acts) v =
     last_chosen os i acts (if j = i \<and> s \<in> set os then s else v)"
| "last_chosen os i (act # acts) v = last_chosen os i acts v"

section \<open>Controlled forms\<close>

text \<open>The value a field shows, if it shows one of its own, and how it takes an input.\<close>

fun held :: "'d field \<Rightarrow> string option" where
  "held (TextField b v f) = Some v"
| "held (ChoiceField b v os g) = Some v"
| "held fld = None"

fun takes :: "'d field \<Rightarrow> user_input \<Rightarrow> string option" where
  "takes (TextField b v f) (Typed s) = (if b then None else Some s)"
| "takes (ChoiceField b v os g) (Chosen s) = (if b \<or> s \<notin> set os then None else Some s)"
| "takes fld inp = None"

abbreviation form_values :: "'d form_view \<Rightarrow> string option list" where
  "form_values w \<equiv> map (\<lambda>(l, fld). held fld) (vw_fields w)"

abbreviation form_takes :: "'d form_view \<Rightarrow> (user_input \<Rightarrow> string option) list" where
  "form_takes w \<equiv> map (\<lambda>(l, fld). takes fld) (vw_fields w)"

text \<open>
  A field obeys the contract at its place in a form: an input changes the value shown there to
  what was entered, when the field takes it, and no other value; and it neither adds nor removes
  nor disables a field.
\<close>

definition obeys :: "('d \<Rightarrow> 'd form_view) \<Rightarrow> 'd \<Rightarrow> nat \<Rightarrow> 'd field \<Rightarrow> bool" where
  "obeys view d i fld \<longleftrightarrow> (\<forall>inp.
     form_values (view (use_field fld inp d)) =
       (case takes fld inp of
          None \<Rightarrow> form_values (view d) | Some s \<Rightarrow> (form_values (view d))[i := Some s]) \<and>
     form_takes (view (use_field fld inp d)) = form_takes (view d))"

lemma all_inputs: "(\<forall>inp. P inp) = ((\<forall>s. P (Typed s)) \<and> (\<forall>s. P (Chosen s)) \<and> (\<forall>fs. P (Picked fs)))"
  by (metis user_input.exhaust)

lemma obeys_simps [simp]:
  "obeys view d i (Shown s) = True"
  "obeys view d i (TextField b v f) = (b \<or>
     (\<forall>s. form_values (view (f s d)) = (form_values (view d))[i := Some s] \<and>
          form_takes (view (f s d)) = form_takes (view d)))"
  "obeys view d i (ChoiceField b v os g) = (b \<or>
     (\<forall>s \<in> set os. form_values (view (g s d)) = (form_values (view d))[i := Some s] \<and>
          form_takes (view (g s d)) = form_takes (view d)))"
  "obeys view d i (FilesField b m h) = (b \<or>
     (\<forall>fs. m \<or> length fs \<le> 1 \<longrightarrow> form_values (view (h fs d)) = form_values (view d) \<and>
          form_takes (view (h fs d)) = form_takes (view d)))"
  by (auto simp: obeys_def all_inputs not_le)

text \<open>How fields take inputs, as functions.\<close>

lemma takes_functions [simp]:
  "takes (Shown s) = (\<lambda>_. None)"
  "takes (FilesField b m h) = (\<lambda>_. None)"
  "takes (TextField b v f) = (\<lambda>inp. case inp of Typed s \<Rightarrow> if b then None else Some s | _ \<Rightarrow> None)"
  "takes (ChoiceField b v os g) =
     (\<lambda>inp. case inp of Chosen s \<Rightarrow> if b \<or> s \<notin> set os then None else Some s | _ \<Rightarrow> None)"
  by (auto simp: fun_eq_iff split: user_input.split)

locale controlled_form =
  fixes view :: "'d \<Rightarrow> 'd form_view"
  assumes obedient: "\<forall>(i, l, fld) \<in> set (enumerate 0 (vw_fields (view d))). obeys view d i fld"
begin

lemma obeys_at: "i < length (vw_fields (view d)) \<Longrightarrow> obeys view d i (snd (vw_fields (view d) ! i))"
proof -
  assume "i < length (vw_fields (view d))"
  then have "(i, vw_fields (view d) ! i) \<in> set (enumerate 0 (vw_fields (view d)))"
    by (simp add: in_set_enumerate_eq)
  with obedient [of d] show ?thesis by (auto simp: case_prod_beta)
qed

lemma own_value: "i < length (vw_fields (view d)) \<Longrightarrow>
    form_values (view (use_field (snd (vw_fields (view d) ! i)) inp d)) =
      (case takes (snd (vw_fields (view d) ! i)) inp of
         None \<Rightarrow> form_values (view d) | Some s \<Rightarrow> (form_values (view d))[i := Some s])"
  using obeys_at [of i d] unfolding obeys_def by blast

lemma same_fields: "i < length (vw_fields (view d)) \<Longrightarrow>
    form_takes (view (use_field (snd (vw_fields (view d) ! i)) inp d)) = form_takes (view d)"
  using obeys_at [of i d] unfolding obeys_def by blast

lemma use_takes: "form_takes (view (use_form view act d)) = form_takes (view d)"
  using same_fields [of "fst act" d "snd act"] by (simp add: use_form_def)

lemma use_length: "length (vw_fields (view (use_form view act d))) = length (vw_fields (view d))"
  using arg_cong [OF use_takes [of act d], of length] by simp

lemma use_values:
  "form_values (view (use_form view act d)) =
     (if fst act < length (vw_fields (view d))
      then (case (form_takes (view d) ! fst act) (snd act) of
              None \<Rightarrow> form_values (view d) | Some s \<Rightarrow> (form_values (view d))[fst act := Some s])
      else form_values (view d))"
  using own_value [of "fst act" d "snd act"] by (simp add: use_form_def case_prod_beta)

lemma fill_takes: "form_takes (view (fill_form view acts d)) = form_takes (view d)"
  by (induction acts arbitrary: d) (simp_all add: use_takes)

lemma fill_length: "length (vw_fields (view (fill_form view acts d))) = length (vw_fields (view d))"
  by (induction acts arbitrary: d) (simp_all add: use_length)

text \<open>What a field shows after any inputs is the last one it took.\<close>

lemma fill_typed:
  assumes "i < length (vw_fields (view d))" "form_values (view d) ! i = Some v"
    and "form_takes (view d) ! i = (\<lambda>inp. case inp of Typed s \<Rightarrow> Some s | _ \<Rightarrow> None)"
  shows "form_values (view (fill_form view acts d)) ! i = Some (last_typed i acts v)"
  using assms
proof (induction acts arbitrary: d v)
  case (Cons act acts)
  let ?d = "use_form view act d"
  have step: "form_values (view (fill_form view acts ?d)) ! i = Some (last_typed i acts w)"
    if "form_values (view ?d) ! i = Some w" for w
    using Cons.prems(1,3) by (intro Cons.IH that) (simp_all add: use_length use_takes)
  obtain j inp where act: "act = (j, inp)" by (cases act)
  show ?case
  proof (cases "j = i")
    case True
    with Cons.prems have "form_values (view ?d) ! i = Some (last_typed i [act] v)"
      by (cases inp) (simp_all add: use_values act)
    from step [OF this] show ?thesis by (cases inp) (simp_all add: act)
  next
    case False
    with Cons.prems have "form_values (view ?d) ! i = Some v"
      by (auto simp: use_values act split: option.split)
    from step [OF this] False show ?thesis by (cases inp) (simp_all add: act)
  qed
qed simp

lemma fill_chosen:
  assumes "i < length (vw_fields (view d))" "form_values (view d) ! i = Some v"
    and "form_takes (view d) ! i = (\<lambda>inp. case inp of Chosen s \<Rightarrow> if s \<in> set os then Some s else None | _ \<Rightarrow> None)"
  shows "form_values (view (fill_form view acts d)) ! i = Some (last_chosen os i acts v)"
  using assms
proof (induction acts arbitrary: d v)
  case (Cons act acts)
  let ?d = "use_form view act d"
  have step: "form_values (view (fill_form view acts ?d)) ! i = Some (last_chosen os i acts w)"
    if "form_values (view ?d) ! i = Some w" for w
    using Cons.prems(1,3) by (intro Cons.IH that) (simp_all add: use_length use_takes)
  obtain j inp where act: "act = (j, inp)" by (cases act)
  show ?case
  proof (cases "j = i")
    case True
    with Cons.prems have "form_values (view ?d) ! i = Some (last_chosen os i [act] v)"
      by (cases inp) (simp_all add: use_values act)
    from step [OF this] show ?thesis by (cases inp) (simp_all add: act)
  next
    case False
    with Cons.prems have "form_values (view ?d) ! i = Some v"
      by (auto simp: use_values act split: option.split)
    from step [OF this] False show ?thesis by (cases inp) (simp_all add: act)
  qed
qed simp

end

end
