(* ===== verification/UploadViews.thy ===== *)
theory UploadViews
  imports FormView UploadDialogs
begin

text \<open>
  What the forms of \<open>features/explorer/UploadObjectDialog.tsx\<close>, \<open>UploadFolderDialog.tsx\<close>,
  \<open>CreateFolderDialog.tsx\<close> and \<open>features/objects/UploadPanel.tsx\<close> show and how their fields
  change the state of the dialog. Each is an instance of a controlled form.
\<close>

section \<open>The forms\<close>

definition folder_text :: "string \<Rightarrow> string" where
  "folder_text currentPrefix = or_else currentPrefix ''explorer.rootFolder''"

definition upload_object_view :: "string \<Rightarrow> bool \<Rightarrow> upload_dialog \<Rightarrow> upload_dialog form_view" where
  "upload_object_view currentPrefix pending d =
     \<lparr>vw_fields =
        [(''explorer.currentFolder'', Shown (folder_text currentPrefix)),
         (''objects.form.file.label'', FilesField pending False (\<lambda>files d. d\<lparr>ud_file := array_first files\<rparr>)),
         (''explorer.upload.objectNameLabel'', TextField pending (ud_key d) (\<lambda>v d. d\<lparr>ud_key := v\<rparr>)),
         (''objects.form.visibility.label'',
            visibility_choice pending (ud_visibility d) (\<lambda>v d. d\<lparr>ud_visibility := v\<rparr>))],
      vw_progress = pending,
      vw_submit_disabled = upload_button_disabled pending d,
      vw_submit_label = (if pending then ''objects.form.submitting'' else ''explorer.upload.submit'')\<rparr>"

definition upload_folder_view :: "string \<Rightarrow> bool \<Rightarrow> folder_dialog \<Rightarrow> folder_dialog form_view" where
  "upload_folder_view currentPrefix pending d =
     \<lparr>vw_fields =
        [(''explorer.currentFolder'', Shown (folder_text currentPrefix)),
         (''explorer.folderUpload.folderLabel'', FilesField pending True choose_folder),
         (''objects.form.visibility.label'',
            visibility_choice pending (fd_visibility d) (\<lambda>v d. d\<lparr>fd_visibility := v\<rparr>))],
      vw_progress = pending,
      vw_submit_disabled = (pending \<or> length (fd_files d) = 0),
      vw_submit_label = (if pending then ''objects.form.submitting'' else ''explorer.folderUpload.submit'')\<rparr>"

definition create_folder_view :: "string \<Rightarrow> bool \<Rightarrow> name_dialog \<Rightarrow> name_dialog form_view" where
  "create_folder_view currentPrefix pending d =
     \<lparr>vw_fields =
        [(''explorer.currentFolder'', Shown (folder_text currentPrefix)),
         (''explorer.createFolder.nameLabel'', TextField pending (nd_name d) (\<lambda>v d. d\<lparr>nd_name := v\<rparr>))],
      vw_progress = False,
      vw_submit_disabled = (pending \<or> trim (nd_name d) = []),
      vw_submit_label = (if pending then ''explorer.createFolder.submitting'' else ''explorer.createFolder.submit'')\<rparr>"

section \<open>They are controlled\<close>

lemmas view_simps = visibility_choice_def visibility_text_def bool_choice_def bool_text_def

interpretation upload_object_fields: controlled_form "upload_object_view currentPrefix pending"
  for currentPrefix pending
  by unfold_locales (simp add: upload_object_view_def view_simps)

interpretation upload_folder_fields: controlled_form "upload_folder_view currentPrefix pending"
  for currentPrefix pending
  by unfold_locales (simp add: upload_folder_view_def view_simps choose_folder_def)

interpretation create_folder_fields: controlled_form "create_folder_view currentPrefix pending"
  for currentPrefix pending
  by unfold_locales (simp add: create_folder_view_def)

definition upload_panel_view :: "bool \<Rightarrow> upload_panel \<Rightarrow> upload_panel form_view" where
  "upload_panel_view pending d =
     \<lparr>vw_fields =
        [(''objects.form.file.label'',
            FilesField pending False (\<lambda>files d. d\<lparr>un_file := array_first files, un_input := array_first files\<rparr>)),
         (''objects.form.objectKey.label'', TextField pending (un_key d) (\<lambda>v d. d\<lparr>un_key := v\<rparr>)),
         (''objects.form.visibility.label'',
            visibility_choice pending (un_visibility d) (\<lambda>v d. d\<lparr>un_visibility := v\<rparr>))],
      vw_progress = pending,
      vw_submit_disabled = (pending \<or> un_file d = None),
      vw_submit_label = (if pending then ''objects.form.submitting'' else ''objects.form.submit'')\<rparr>"

interpretation upload_panel_fields: controlled_form "upload_panel_view pending" for pending
  by unfold_locales (simp add: upload_panel_view_def view_simps)

section \<open>What the file input shows\<close>

text \<open>
  The content of a dialog is in the document only while the dialog is open
  unless the primitive it wraps is told to keep it (\<open>forceMount\<close>, which \<open>components/ui/dialog.tsx\<close>
  does not pass), so a file input that comes back shows nothing. The pair is the state of the
  dialog and what its file input shows.
\<close>

definition takes_files :: "'d form_view \<Rightarrow> nat \<times> user_input \<Rightarrow> upload_file list option" where
  "takes_files w act =
     (if fst act < length (vw_fields w)
      then (case (snd (vw_fields w ! fst act), snd act) of
              (FilesField disabled multiple change, Picked fs) \<Rightarrow>
                (if disabled \<or> (\<not> multiple \<and> length fs > 1) then None else Some fs)
            | _ \<Rightarrow> None)
      else None)"

definition mounted_input ::
  "('d \<Rightarrow> 'd form_view) \<Rightarrow> nat \<times> user_input \<Rightarrow> 'd \<times> upload_file list \<Rightarrow> 'd \<times> upload_file list" where
  "mounted_input view act z =
     (use_form view act (fst z), nullish (takes_files (view (fst z)) act) (snd z))"

definition mounted_open ::
  "bool \<Rightarrow> (bool \<Rightarrow> 'd \<Rightarrow> 'd) \<Rightarrow> bool \<Rightarrow> 'd \<times> upload_file list \<Rightarrow> 'd \<times> upload_file list" where
  "mounted_open forceMount set_open b z =
     (set_open b (fst z), if b \<or> forceMount then snd z else [])"

definition set_upload_open :: "bool \<Rightarrow> upload_dialog \<Rightarrow> upload_dialog" where
  "set_upload_open b d = d\<lparr>ud_open := b\<rparr>"

definition set_folder_open :: "bool \<Rightarrow> folder_dialog \<Rightarrow> folder_dialog" where
  "set_folder_open b d = d\<lparr>fd_open := b\<rparr>"

lemma upload_input_shows:
  assumes "array_first shown = ud_file d"
  shows "case mounted_input (upload_object_view folder pending) act (d, shown) of (d', shown') \<Rightarrow>
    array_first shown' = ud_file d'"
proof (cases act)
  case (Pair i inp)
  with assms show ?thesis
    by (cases inp)
       (auto simp: mounted_input_def takes_files_def use_form_def upload_object_view_def view_simps
          less_Suc_eq)
qed

lemma folder_input_shows:
  assumes "shown = fd_files d"
  shows "case mounted_input (upload_folder_view folder pending) act (d, shown) of (d', shown') \<Rightarrow>
    shown' = fd_files d'"
proof (cases act)
  case (Pair i inp)
  with assms show ?thesis
    by (cases inp)
       (auto simp: mounted_input_def takes_files_def use_form_def upload_folder_view_def view_simps
          less_Suc_eq choose_folder_def)
qed

lemma fold_pair_inv:
  "(\<And>act d x. P d x \<Longrightarrow> case step act (d, x) of (d', x') \<Rightarrow> P d' x') \<Longrightarrow> P d x \<Longrightarrow>
    case fold step acts (d, x) of (d', x') \<Rightarrow> P d' x'"
proof (induction acts arbitrary: d x)
  case (Cons act acts)
  obtain d' x' where "step act (d, x) = (d', x')" by (cases "step act (d, x)")
  with Cons.prems(1) [OF Cons.prems(2), of act] Cons.IH [of d' x'] Cons.prems(1) show ?case by simp
qed simp

text \<open>
  C18. The file that is shown and the file that is sent. From an empty form, after any inputs, the
  file input shows the file (or the files of the folder) that would be sent. But a dialog that is
  closed with a file chosen and opened again shows none, unless its content is kept in the
  document, while its submit button is enabled and the file chosen before would be sent.
\<close>

theorem upload_dialog_shows_file:
  "(case fold (mounted_input (upload_object_view folder pending)) acts (reset_upload_dialog d, []) of
      (d', shown) \<Rightarrow> array_first shown = ud_file d') \<and>
   (case fold (mounted_input (upload_folder_view folder pending)) acts (reset_folder_dialog e, []) of
      (e', shown) \<Rightarrow> shown = fd_files e') \<and>
   (case fold (mounted_open forceMount set_upload_open) [False, True] (d\<lparr>ud_file := Some f\<rparr>, [f]) of
      (d', shown) \<Rightarrow> shown = (if forceMount then [f] else []) \<and> \<not> vw_submit_disabled (upload_object_view folder False d') \<and>
        up_file (upload_dialog_value d') = f) \<and>
   (case fold (mounted_open forceMount set_folder_open) [False, True] (e\<lparr>fd_files := f # fs\<rparr>, f # fs) of
      (e', shown) \<Rightarrow> shown = (if forceMount then f # fs else []) \<and> \<not> vw_submit_disabled (upload_folder_view folder False e') \<and>
        fv_files (folder_dialog_value e') = f # fs)"
proof (intro conjI)
  show "case fold (mounted_input (upload_object_view folder pending)) acts (reset_upload_dialog d, []) of
      (d', shown) \<Rightarrow> array_first shown = ud_file d'"
    by (rule fold_pair_inv [where P = "\<lambda>d x. array_first x = ud_file d"])
       (rule upload_input_shows, simp_all add: reset_upload_dialog_def)
  show "case fold (mounted_input (upload_folder_view folder pending)) acts (reset_folder_dialog e, []) of
      (e', shown) \<Rightarrow> shown = fd_files e'"
    by (rule fold_pair_inv [where P = "\<lambda>d x. x = fd_files d"])
       (rule folder_input_shows, simp_all add: reset_folder_dialog_def)
qed (simp_all add: mounted_open_def set_upload_open_def set_folder_open_def upload_object_view_def
    upload_folder_view_def upload_button_disabled_def upload_dialog_value_def folder_dialog_value_def)

end
