(* ===== verification/SiteViews.thy ===== *)
theory SiteViews
  imports FormView SiteForms
begin

text \<open>
  What the forms of \<open>features/sites/SiteFormDialog.tsx\<close> and
  \<open>features/sites/UploadAndPublishSiteDialog.tsx\<close> show and how their fields change the state of
  the form. A field that the parent locks is shown as text. The properties follow what a user
  enters to what is submitted, and say what no input can change.
\<close>

section \<open>SiteFormDialog\<close>

datatype site_form_mode = CreateMode | EditMode

definition resolvedSubmitLabel :: "string option \<Rightarrow> site_form_mode \<Rightarrow> string" where
  "resolvedSubmitLabel submitLabel mode =
     nullish submitLabel
       (case mode of CreateMode \<Rightarrow> ''sites.form.submitCreate'' | EditMode \<Rightarrow> ''sites.form.submitUpdate'')"

text \<open>\<open>setFormValue((current) => ({ ...current, member }))\<close>.\<close>

definition edit_value :: "('a \<Rightarrow> site_form_value \<Rightarrow> site_form_value) \<Rightarrow> 'a \<Rightarrow> site_form \<Rightarrow> site_form" where
  "edit_value set_member x d = d\<lparr>sd_value := set_member x (sd_value d)\<rparr>"

definition site_bucket_field :: "site_form_props \<Rightarrow> site_form \<Rightarrow> site_form field" where
  "site_bucket_field p d =
     (if lk_bucket (sfp_locked p) then Shown (sf_bucket (sd_value d))
      else if length (sfp_buckets p) > 0
      then ChoiceField (sfp_pending p) (sf_bucket (sd_value d)) (sfp_buckets p)
             (edit_value (\<lambda>x v. v\<lparr>sf_bucket := x\<rparr>))
      else Shown ''common.noData'')"

definition site_prefix_field :: "site_form_props \<Rightarrow> site_form \<Rightarrow> site_form field" where
  "site_prefix_field p d =
     (if lk_root_prefix (sfp_locked p)
      then Shown (or_else (sf_root_prefix (sd_value d)) ''explorer.rootFolder'')
      else TextField (sfp_pending p) (sf_root_prefix (sd_value d))
             (edit_value (\<lambda>x v. v\<lparr>sf_root_prefix := x\<rparr>)))"

definition site_index_field :: "site_form_props \<Rightarrow> site_form \<Rightarrow> site_form field" where
  "site_index_field p d =
     (if lk_index_document (sfp_locked p) then Shown (sf_index_document (sd_value d))
      else TextField (sfp_pending p) (sf_index_document (sd_value d))
             (edit_value (\<lambda>x v. v\<lparr>sf_index_document := x\<rparr>)))"

definition site_fallback_field :: "site_form_props \<Rightarrow> site_form \<Rightarrow> site_form field" where
  "site_fallback_field p d =
     bool_choice (sfp_pending p) (sf_spa_fallback (sd_value d)) (edit_value (\<lambda>x v. v\<lparr>sf_spa_fallback := x\<rparr>))"

definition site_form_view :: "string \<Rightarrow> site_form_props \<Rightarrow> site_form \<Rightarrow> site_form form_view" where
  "site_form_view submitLabel p d =
     \<lparr>vw_fields =
        [(''sites.form.bucket'', site_bucket_field p d),
         (''sites.form.rootPrefix'', site_prefix_field p d),
         (''sites.form.domains'',
            TextField (sfp_pending p) (sd_domains_input d) (\<lambda>x d. d\<lparr>sd_domains_input := x\<rparr>)),
         (''sites.form.enabled'',
            bool_choice (sfp_pending p) (sf_enabled (sd_value d)) (edit_value (\<lambda>x v. v\<lparr>sf_enabled := x\<rparr>))),
         (''sites.form.indexDocument'', site_index_field p d),
         (''sites.form.errorDocument'',
            TextField (sfp_pending p) (sf_error_document (sd_value d))
              (edit_value (\<lambda>x v. v\<lparr>sf_error_document := x\<rparr>))),
         (''sites.form.spaFallback'', site_fallback_field p d)],
      vw_progress = False,
      vw_submit_disabled = (sfp_pending p \<or> \<not> site_form_ready d),
      vw_submit_label = submitLabel\<rparr>"

lemmas site_view_defs = site_form_view_def site_bucket_field_def site_prefix_field_def
  site_index_field_def site_fallback_field_def edit_value_def bool_choice_def bool_text_def

interpretation site_fields: controlled_form "site_form_view submitLabel p" for submitLabel p
  by unfold_locales (simp add: site_view_defs)

section \<open>UploadAndPublishSiteDialog\<close>

definition publish_place_fields :: "publish_props \<Rightarrow> publish_dialog \<Rightarrow> publish_dialog fields" where
  "publish_place_fields p d =
     [(''sites.form.bucket'',
         if pp_bucket_locked p then Shown (pd_bucket d)
         else if length (pp_buckets p) > 0
         then ChoiceField (pp_pending p) (pd_bucket d) (map bucket_name (pp_buckets p))
                (\<lambda>x d. d\<lparr>pd_bucket := x\<rparr>)
         else Shown ''common.noData''),
      (''sites.uploadPublish.parentPrefix'',
         if pp_parent_locked p
         then Shown (or_else (normalizeFolderUploadParentPrefix (pd_parent_prefix d)) ''explorer.rootFolder'')
         else TextField (pp_pending p) (pd_parent_prefix d) (\<lambda>x d. d\<lparr>pd_parent_prefix := x\<rparr>))]"

definition publish_folder_fields :: "publish_props \<Rightarrow> publish_dialog \<Rightarrow> publish_dialog fields" where
  "publish_folder_fields p d =
     [(''sites.uploadPublish.folderLabel'',
         FilesField (pp_pending p) True (\<lambda>files d. d\<lparr>pd_folder_files := files\<rparr>)),
      (''sites.uploadPublish.rootPreview'',
         Shown (or_else (folder_root_preview d) ''sites.uploadPublish.rootPreviewPlaceholder'')),
      (''sites.form.indexDocument'',
         TextField (pp_pending p) (pd_index_document d) (\<lambda>x d. d\<lparr>pd_index_document := x\<rparr>))]"

definition publish_file_fields :: "publish_props \<Rightarrow> publish_dialog \<Rightarrow> publish_dialog fields" where
  "publish_file_fields p d =
     [(''sites.uploadPublish.fileLabel'',
         FilesField (pp_pending p) False (\<lambda>files d. d\<lparr>pd_file := array_first files\<rparr>)),
      (''sites.uploadPublish.rootPreview'',
         Shown (or_else (normalizeFolderUploadParentPrefix (pd_parent_prefix d)) ''explorer.rootFolder'')),
      (''sites.form.indexDocument'',
         Shown (or_else (getUploadFileName (pd_file d))
                  ''sites.uploadPublish.indexDocumentPreviewPlaceholder''))]"

definition publish_site_fields :: "publish_props \<Rightarrow> publish_dialog \<Rightarrow> publish_dialog fields" where
  "publish_site_fields p d =
     [(''sites.form.domains'',
         TextField (pp_pending p) (pd_domains_input d) (\<lambda>x d. d\<lparr>pd_domains_input := x\<rparr>)),
      (''sites.form.enabled'', bool_choice (pp_pending p) (pd_enabled d) (\<lambda>x d. d\<lparr>pd_enabled := x\<rparr>)),
      (''sites.form.errorDocument'',
         TextField (pp_pending p) (pd_error_document d) (\<lambda>x d. d\<lparr>pd_error_document := x\<rparr>)),
      (''sites.form.spaFallback'',
         bool_choice (pp_pending p) (pd_spa_fallback d) (\<lambda>x d. d\<lparr>pd_spa_fallback := x\<rparr>))]"

definition publish_view :: "publish_props \<Rightarrow> publish_dialog \<Rightarrow> publish_dialog form_view" where
  "publish_view p d =
     \<lparr>vw_fields = publish_place_fields p d @
        (case pd_mode d of
           FolderMode \<Rightarrow> publish_folder_fields p d | FileMode \<Rightarrow> publish_file_fields p d) @
        publish_site_fields p d,
      vw_progress = pp_pending p,
      vw_submit_disabled = (pp_pending p \<or> \<not> publish_dialog_ready d),
      vw_submit_label =
        (if pp_pending p then ''objects.form.submitting'' else ''sites.uploadPublish.submit'')\<rparr>"

text \<open>The tabs.\<close>

definition publish_show_tab :: "publish_props \<Rightarrow> publish_mode \<Rightarrow> publish_dialog \<Rightarrow> publish_dialog" where
  "publish_show_tab p mode d = (if pp_pending p then d else d\<lparr>pd_mode := mode\<rparr>)"

lemmas publish_view_defs = publish_view_def publish_place_fields_def publish_folder_fields_def
  publish_file_fields_def publish_site_fields_def bool_choice_def bool_text_def

interpretation publish_fields: controlled_form "publish_view p" for p
proof (unfold_locales, goal_cases)
  case (1 d)
  then show ?case by (cases "pd_mode d") (simp_all add: publish_view_defs)
qed

section \<open>Properties\<close>

abbreviation bool_options :: "string list" where
  "bool_options \<equiv> [''true'', ''false'']"

text \<open>
  C13. What is entered is what is sent. In a site form without locked fields, while nothing is
  pending, after any sequence of inputs to any of its fields: each member of the submitted value
  is the last text typed into (or option chosen in) its own field, or what the form was opened
  with, trimmed as the code does; no input ends up in another member.
\<close>

theorem site_form_sends_entries:
  assumes "\<not> sfp_pending p" and "sfp_locked p = \<lparr>lk_bucket = False, lk_root_prefix = False, lk_index_document = False\<rparr>"
    and "sfp_buckets p \<noteq> []"
  shows "let v = sd_value d; sent = site_form_payload (fill_form (site_form_view submitLabel p) acts d)
    in sf_bucket sent = trim (last_chosen (sfp_buckets p) 0 acts (sf_bucket v)) \<and>
       sf_root_prefix sent = trim (last_typed 1 acts (sf_root_prefix v)) \<and>
       sf_domains sent = parse_domains (last_typed 2 acts (sd_domains_input d)) \<and>
       sf_enabled sent = (last_chosen bool_options 3 acts (bool_text (sf_enabled v)) = ''true'') \<and>
       sf_index_document sent = or_else (trim (last_typed 4 acts (sf_index_document v))) ''index.html'' \<and>
       sf_error_document sent = trim (last_typed 5 acts (sf_error_document v)) \<and>
       sf_spa_fallback sent = (last_chosen bool_options 6 acts (bool_text (sf_spa_fallback v)) = ''true'')"
proof -
  let ?view = "site_form_view submitLabel p"
  let ?d = "fill_form ?view acts d"
  have vals: "form_values (?view x) =
      [Some (sf_bucket (sd_value x)), Some (sf_root_prefix (sd_value x)), Some (sd_domains_input x),
       Some (bool_text (sf_enabled (sd_value x))), Some (sf_index_document (sd_value x)),
       Some (sf_error_document (sd_value x)), Some (bool_text (sf_spa_fallback (sd_value x)))]" for x
    using assms by (simp add: site_view_defs)
  have len: "length (vw_fields (?view d)) = 7" by (simp add: site_form_view_def)
  have takes_text: "form_takes (?view d) ! i = (\<lambda>inp. case inp of Typed s \<Rightarrow> Some s | _ \<Rightarrow> None)"
    if "i \<in> {1, 2, 4, 5}" for i
    using that assms by (auto simp: site_view_defs)
  have takes_choice: "form_takes (?view d) ! i = (\<lambda>inp. case inp of Chosen s \<Rightarrow> if s \<in> set os then Some s else None | _ \<Rightarrow> None)"
    if "(i, os) \<in> {(0, sfp_buckets p), (3, bool_options), (6, bool_options)}" for i os
    using that assms by (auto simp: site_view_defs fun_eq_iff split: user_input.split)
  have typed: "form_values (?view ?d) ! i = Some (last_typed i acts w)"
    if "i \<in> {1, 2, 4, 5}" "form_values (?view d) ! i = Some w" for i w
    using that by (intro site_fields.fill_typed takes_text) (auto simp: len)
  have chosen: "form_values (?view ?d) ! i = Some (last_chosen os i acts w)"
    if "(i, os) \<in> {(0, sfp_buckets p), (3, bool_options), (6, bool_options)}" "form_values (?view d) ! i = Some w" for i os w
    using that by (intro site_fields.fill_chosen takes_choice) (auto simp: len)
  have bool_text: "bool_text b = x \<Longrightarrow> b = (x = ''true'')" for b x
    by (auto simp: bool_text_def split: if_splits)
  show ?thesis
    using typed [of 1] typed [of 2] typed [of 4] typed [of 5] chosen [of 0 "sfp_buckets p"]
      chosen [of 3 bool_options] chosen [of 6 bool_options]
    by (auto simp: vals site_form_payload_def Let_def dest!: bool_text)
qed

theorem site_form_sends_entries_witness:
  "let p = \<lparr>sfp_buckets = [''b''], sfp_initial = no_site_form,
         sfp_locked = \<lparr>lk_bucket = False, lk_root_prefix = False, lk_index_document = False\<rparr>,
         sfp_open = None, sfp_told = False, sfp_pending = False\<rparr>;
       sent = site_form_payload (fill_form (site_form_view ''save'' p)
         [(1, Typed ''docs/''), (5, Typed '' 404.html ''), (3, Chosen ''false'')] (site_form_initial p))
   in sf_root_prefix sent = ''docs/'' \<and> sf_error_document sent = ''404.html'' \<and> \<not> sf_enabled sent"
proof -
  let ?p = "\<lparr>sfp_buckets = [''b''], sfp_initial = no_site_form,
         sfp_locked = \<lparr>lk_bucket = False, lk_root_prefix = False, lk_index_document = False\<rparr>,
         sfp_open = None, sfp_told = False, sfp_pending = False\<rparr>"
  have "trim ''docs/'' = ''docs/''" "trim '' 404.html '' = ''404.html''" by code_simp+
  then show ?thesis
    using site_form_sends_entries [of ?p "site_form_initial ?p" "''save''"
        "[(1, Typed ''docs/''), (5, Typed '' 404.html ''), (3, Chosen ''false'')]"]
    by (simp add: Let_def)
qed

section \<open>Locked fields\<close>

text \<open>
  The form in the explorer, with what can happen to it: inputs, opening and closing, the tabs,
  and the page moving on, which passes other properties. After each event the effect runs.
\<close>

datatype publish_event =
    PublishInput "nat \<times> user_input" | PublishOpen bool | PublishTab publish_mode
  | PublishProps publish_props

fun publish_event_step ::
  "publish_event \<Rightarrow> publish_props \<times> publish_dialog \<Rightarrow> publish_props \<times> publish_dialog" where
  "publish_event_step (PublishInput act) (p, d) = (p, use_form (publish_view p) act d)"
| "publish_event_step (PublishOpen b) (p, d) = (p, d\<lparr>pd_open := b\<rparr>)"
| "publish_event_step (PublishTab m) (p, d) = (p, publish_show_tab p m d)"
| "publish_event_step (PublishProps p') (p, d) = (p', d)"

definition publish_after :: "publish_event \<Rightarrow> publish_props \<times> publish_dialog \<Rightarrow> publish_props \<times> publish_dialog" where
  "publish_after ev z =
     (let (p', d') = publish_event_step ev z in (p', publish_dialog_commit (fst z) (snd z) p' d'))"

definition in_explorer :: "publish_event \<Rightarrow> bool" where
  "in_explorer ev = (case ev of PublishProps p \<Rightarrow> \<exists>s pending. p = explorer_publish_props s pending | _ \<Rightarrow> True)"

definition locked_place :: "publish_props \<times> publish_dialog \<Rightarrow> bool" where
  "locked_place z = (case z of (p, d) \<Rightarrow> (\<exists>s pending. p = explorer_publish_props s pending) \<and>
     (pd_open d \<longrightarrow> pd_bucket d = publish_next_bucket p \<and> pd_parent_prefix d = nullish (pp_parent_prefix p) []))"

lemma locked_after:
  assumes "locked_place z" "in_explorer ev"
  shows "locked_place (publish_after ev z)"
proof -
  obtain p d where z: "z = (p, d)" by (cases z)
  from assms(1) z obtain s pending where p: "p = explorer_publish_props s pending"
    by (auto simp: locked_place_def)
  show ?thesis
  proof (cases ev)
    case (PublishInput act)
    let ?P = "\<lambda>x. pd_open x = pd_open d \<and> pd_bucket x = pd_bucket d \<and> pd_parent_prefix x = pd_parent_prefix d"
    have "?P (use_form (publish_view p) act d)"
      by (rule use_form_keeps)
         (auto simp: publish_view_defs p explorer_publish_props_def split: publish_mode.split)
    with assms(1) z PublishInput show ?thesis
      by (auto simp: publish_after_def locked_place_def publish_dialog_commit_def)
  next
    case (PublishOpen b)
    with assms(1) z show ?thesis
      by (auto simp: publish_after_def locked_place_def publish_dialog_commit_def reset_publish_dialog_def)
  next
    case (PublishTab m)
    with assms(1) z show ?thesis
      by (auto simp: publish_after_def locked_place_def publish_dialog_commit_def publish_show_tab_def)
  next
    case (PublishProps p')
    with assms z show ?thesis
      by (auto simp: publish_after_def locked_place_def publish_dialog_commit_def reset_publish_dialog_def
          in_explorer_def explorer_publish_props_def publish_next_bucket_def)
  qed
qed

text \<open>
  C12. A form in the explorer publishes where the explorer is. Through any sequence of inputs,
  openings, tabs and moves of the page, while the form is open it is about the bucket and the
  folder that the page shows then: no input changes them, and moving on refills the form.
\<close>

theorem publish_stays_in_folder:
  assumes "list_all in_explorer evs"
    and "fold publish_after evs (explorer_publish_props s0 pending, publish_dialog_initial (explorer_publish_props s0 pending)) = (p, d)"
    and "pd_open d"
  shows "\<exists>s pending. p = explorer_publish_props s pending \<and>
    (case publish_dialog_value d of
       PublishFolder v \<Rightarrow> pf_bucket v = trim (ep_bucket s) \<and>
         pf_parent_prefix v = normalizeFolderUploadParentPrefix (page_prefix s)
     | PublishFile v \<Rightarrow> pl_bucket v = trim (ep_bucket s) \<and>
         pl_parent_prefix v = normalizeFolderUploadParentPrefix (page_prefix s))"
proof -
  have "locked_place z \<Longrightarrow> locked_place (fold publish_after evs z)" for z
    using assms(1)
  proof (induction evs arbitrary: z)
    case (Cons ev evs)
    then show ?case using locked_after [of z ev] by simp
  qed simp
  moreover have "locked_place (explorer_publish_props s0 pending, publish_dialog_initial (explorer_publish_props s0 pending))"
    by (auto simp: locked_place_def publish_dialog_initial_def)
  ultimately have "locked_place (p, d)" using assms(2) by metis
  with assms(3) obtain s pending where p: "p = explorer_publish_props s pending"
    and d: "pd_bucket d = publish_next_bucket p" "pd_parent_prefix d = nullish (pp_parent_prefix p) []"
    by (auto simp: locked_place_def)
  have "trim (publish_next_bucket p) = trim (ep_bucket s)"
    by (auto simp: p publish_next_bucket_def explorer_publish_props_def or_else_def)
  with p d show ?thesis
    by (intro exI [of _ s] exI [of _ pending])
       (auto simp: publish_dialog_value_def explorer_publish_props_def split: publish_mode.split)
qed

theorem publish_stays_in_folder_witness:
  "\<exists>s d. let p = explorer_publish_props s False in
     fold publish_after [PublishOpen True, PublishInput (0, Chosen ''other''), PublishInput (1, Typed ''elsewhere/'')]
       (p, publish_dialog_initial p) = (p, d) \<and> pd_open d \<and>
     (case publish_dialog_value d of
        PublishFolder v \<Rightarrow> pf_bucket v = ''media'' | PublishFile v \<Rightarrow> False)"
proof -
  let ?s = "explorer_initial \<lparr>apiBaseUrl = ''http://h'', bearerToken = []\<rparr> ''media'' []"
  let ?p = "explorer_publish_props ?s False"
  let ?evs = "[PublishOpen True, PublishInput (0, Chosen ''other''), PublishInput (1, Typed ''elsewhere/'')]"
  let ?d = "reset_publish_dialog ?p ((publish_dialog_initial ?p)\<lparr>pd_open := True\<rparr>)"
  have m: "trim ''media'' = ''media''" by code_simp
  have still: "publish_after (PublishInput (i, inp)) (?p, d) = (?p, d)" if "i < 2" for i inp d
    using that
    by (cases inp; cases i)
       (auto simp: publish_after_def publish_dialog_commit_def use_form_def publish_view_defs
          explorer_publish_props_def less_Suc_eq)
  have opened: "publish_after (PublishOpen True) (?p, publish_dialog_initial ?p) = (?p, ?d)"
    by (simp add: publish_after_def publish_dialog_commit_def) (simp add: publish_dialog_initial_def)
  have run: "fold publish_after ?evs (?p, publish_dialog_initial ?p) = (?p, ?d)"
    using still [of 0 "Chosen ''other''"] still [of 1 "Typed ''elsewhere/''"] by (simp add: opened)
  have op: "pd_open ?d" and fm: "pd_mode ?d = FolderMode" by (simp_all add: reset_publish_dialog_def)
  have b: "pf_bucket v = ''media''" if "publish_dialog_value ?d = PublishFolder v" for v
    using publish_stays_in_folder [OF _ run op] that m
    by (auto simp: in_explorer_def explorer_publish_props_def explorer_initial_def)
  show ?thesis
    using run op fm b by (intro exI [of _ ?s] exI [of _ ?d]) (auto simp: Let_def publish_dialog_value_def)
qed

text \<open>
  The two dialogs that publish a folder or a file of the explorer lock the place as well: after
  any inputs the value names the bucket, the folder and, for a file, the file that the dialog was
  opened for, up to white space around each, which the form trims.
\<close>

lemma published_place_locked:
  "(let p = publish_site_props bucket folder openProp told pending;
        sent = site_form_payload (fill_form (site_form_view submitLabel p) acts (fill_site_form p d))
    in site_dialog_open p d \<longrightarrow> sf_bucket sent = trim bucket \<and> sf_root_prefix sent = trim folder) \<and>
   (let p = publish_object_props bucket key openProp told pending;
        sent = site_form_payload (fill_form (site_form_view submitLabel p) acts (fill_site_form p d))
    in site_dialog_open p d \<longrightarrow> sf_bucket sent = trim bucket \<and>
       sf_root_prefix sent = trim (fst (resolveSiteLocation key)) \<and>
       sf_index_document sent = or_else (trim (snd (resolveSiteLocation key))) ''index.html'')"
proof -
  have keeps: "site_form_view submitLabel p = view \<Longrightarrow> P d0 \<Longrightarrow>
      (\<And>x. \<forall>fld \<in> set (vw_fields (site_form_view submitLabel p x)). field_keeps P (snd fld)) \<Longrightarrow>
      P (fill_form view acts d0)" for p view P d0
    by (rule fill_form_keeps) auto
  have folder: "sf_bucket (sd_value (fill_form (site_form_view submitLabel p) acts d0)) = b \<and>
      sf_root_prefix (sd_value (fill_form (site_form_view submitLabel p) acts d0)) = f"
    if "lk_bucket (sfp_locked p)" "lk_root_prefix (sfp_locked p)"
      "sf_bucket (sd_value d0) = b" "sf_root_prefix (sd_value d0) = f" for p d0 b f
    by (rule keeps [where P = "\<lambda>x. sf_bucket (sd_value x) = b \<and> sf_root_prefix (sd_value x) = f", OF refl])
       (use that in \<open>auto simp: site_view_defs\<close>)
  have object: "sf_index_document (sd_value (fill_form (site_form_view submitLabel p) acts d0)) = i"
    if "lk_index_document (sfp_locked p)" "sf_index_document (sd_value d0) = i" for p d0 i
    by (rule keeps [where P = "\<lambda>x. sf_index_document (sd_value x) = i", OF refl])
       (use that in \<open>auto simp: site_view_defs\<close>)
  show ?thesis
    by (auto simp: Let_def site_form_payload_def publish_site_props_def publish_object_props_def
        fill_site_form_def buildSiteFormValue_def partial_of_def folder object split: prod.splits)
qed

end
