(* ===== verification/PageViews.thy ===== *)
theory PageViews
  imports FormView BucketsPage SettingsPage
begin

text \<open>
  What the forms of \<open>features/buckets/CreateBucketForm.tsx\<close>, of the confirmation in
  \<open>features/buckets/BucketCard.tsx\<close> and of \<open>pages/SettingsPage.tsx\<close> show and how their fields
  change the state. The property follows the connection from the form through the browser's
  storage to the next page load.
\<close>

section \<open>Buckets\<close>

definition create_bucket_view :: "bool \<Rightarrow> name_dialog \<Rightarrow> name_dialog form_view" where
  "create_bucket_view pending d =
     \<lparr>vw_fields = [(''buckets.form.name.label'', TextField pending (nd_name d) (\<lambda>v d. d\<lparr>nd_name := v\<rparr>))],
      vw_progress = False,
      vw_submit_disabled = (pending \<or> trim (nd_name d) = []),
      vw_submit_label = (if pending then ''buckets.form.submitting'' else ''buckets.form.submit'')\<rparr>"

definition delete_bucket_view :: "string \<Rightarrow> bool \<Rightarrow> delete_bucket_dialog \<Rightarrow> delete_bucket_dialog form_view" where
  "delete_bucket_view name pending d =
     \<lparr>vw_fields =
        [(''buckets.delete.confirmLabel'',
            TextField False (db_confirmation d) (\<lambda>v d. d\<lparr>db_confirmation := v\<rparr>))],
      vw_progress = False,
      vw_submit_disabled = (\<not> delete_bucket_matches name d \<or> pending),
      vw_submit_label = (if pending then ''buckets.delete.submitting'' else ''buckets.delete.submit'')\<rparr>"

text \<open>The sites that the confirmation lists: their folder and their domains.\<close>

definition delete_bucket_sites :: "site list \<Rightarrow> (string \<times> string) list" where
  "delete_bucket_sites sites =
     map (\<lambda>x. (or_else (site_root_prefix x) ''explorer.rootFolder'',
               or_else (join '', '' (site_domains x)) ''common.noData'')) sites"

interpretation create_bucket_fields: controlled_form "create_bucket_view pending" for pending
  by unfold_locales (simp add: create_bucket_view_def)

interpretation delete_bucket_fields: controlled_form "delete_bucket_view name pending" for name pending
  by unfold_locales (simp add: delete_bucket_view_def)

section \<open>Settings\<close>

definition settings_connection_view :: "settings_page \<Rightarrow> settings_page form_view" where
  "settings_connection_view s =
     \<lparr>vw_fields =
        [(''settings.connection.apiBaseUrl'',
            TextField False (apiBaseUrl (sp_draft s)) (\<lambda>v. updateDraftSettings (\<lambda>d. d\<lparr>apiBaseUrl := v\<rparr>))),
         (''settings.connection.bearerToken'',
            TextField False (bearerToken (sp_draft s)) (\<lambda>v. updateDraftSettings (\<lambda>d. d\<lparr>bearerToken := v\<rparr>)))],
      vw_progress = False,
      vw_submit_disabled = False,
      vw_submit_label = ''common.save''\<rparr>"

text \<open>The type of the token's input, and the buttons beside the form.\<close>

definition token_input_type :: "settings_page \<Rightarrow> string" where
  "token_input_type s = (if sp_token_visible s then ''text'' else ''password'')"

definition toggle_token :: "settings_page \<Rightarrow> settings_page" where
  "toggle_token s = s\<lparr>sp_token_visible := \<not> sp_token_visible s\<rparr>"

definition token_button_label :: "settings_page \<Rightarrow> string" where
  "token_button_label s =
     (if sp_token_visible s then ''settings.connection.hideToken'' else ''settings.connection.showToken'')"

definition test_button_label :: "settings_page \<Rightarrow> string" where
  "test_button_label s =
     (if sp_testing s then ''settings.connection.testingConnection'' else ''settings.connection.testConnection'')"

text \<open>The badge of the storage card, and its form, which is there while statistics are shown.\<close>

definition storage_badge :: "settings_page \<Rightarrow> (badge_variant \<times> string) option" where
  "storage_badge s =
     map_option (\<lambda>st. (getStorageStatusBadgeVariant (st_limit_status st),
                       getStorageStatusLabel (st_limit_status st))) (storage_stats s)"

definition storage_usage_line :: "system_storage_stats \<Rightarrow> string \<times> string" where
  "storage_usage_line st =
     (formatBytes (st_used_bytes st) @ '' / '' @ formatBytes (st_max_bytes st), formatPercent (st_used_percent st))"

definition settings_limit_view :: "settings_page \<Rightarrow> settings_page form_view" where
  "settings_limit_view s =
     \<lparr>vw_fields =
        (case storage_section s of
           StorageShown metrics filled alert \<Rightarrow>
             [(''settings.storage.limitGiB'',
                 TextField False (sp_limit_input s) (\<lambda>v s. s\<lparr>sp_limit_input := v\<rparr>))]
         | _ \<Rightarrow> []),
      vw_progress = False,
      vw_submit_disabled = save_limit_disabled s,
      vw_submit_label =
        (if sp_quota_pending s then ''settings.storage.savingLimit'' else ''settings.storage.saveLimit'')\<rparr>"

lemma draft_shown [simp]:
  "sp_draft (updateDraftSettings change s) = change (sp_draft s)"
  by (simp add: updateDraftSettings_def clearManualHealthStates_def Let_def)

interpretation settings_connection_fields: controlled_form settings_connection_view
  by unfold_locales (simp add: settings_connection_view_def)

lemma storage_section_limit [simp]: "storage_section (s\<lparr>sp_limit_input := v\<rparr>) = storage_section s"
  by (simp add: storage_section_def storageQuotaEnabled_def storage_stats_def)

interpretation settings_limit_fields: controlled_form settings_limit_view
proof (unfold_locales, goal_cases)
  case (1 s)
  then show ?case by (cases "storage_section s") (simp_all add: settings_limit_view_def)
qed

section \<open>Properties\<close>

text \<open>
  C19. The connection from the form to the next page load. After any sequence of inputs, saving
  stores the last text typed into each field, trimmed; the provider's effect writes it beside the
  preferences; and the next load reads exactly that pair, whatever the defaults of the build,
  unless the browser refuses to write or to read.
\<close>

theorem settings_form_survives_reload:
  "let saved = sp_settings (handleSaveSettings (fill_form settings_connection_view acts s))
   in apiBaseUrl saved = trim (last_typed 0 acts (apiBaseUrl (sp_draft s))) \<and>
      bearerToken saved = trim (last_typed 1 acts (bearerToken (sp_draft s))) \<and>
      (case settings_effect (settings_pair saved) st of
         Inr st' \<Rightarrow>
           items st' preferences_key = items st preferences_key \<and>
           (case loadSettings dflt st' of
              Inr p \<Rightarrow> cast_settings p = Some saved \<and> readable st
            | Inl _ \<Rightarrow> \<not> readable st)
       | Inl _ \<Rightarrow> \<not> writable st)"
proof -
  let ?s = "fill_form settings_connection_view acts s"
  have "form_values (settings_connection_view ?s) ! 0 = Some (last_typed 0 acts (apiBaseUrl (sp_draft s)))"
    by (rule settings_connection_fields.fill_typed) (auto simp: settings_connection_view_def)
  moreover have "form_values (settings_connection_view ?s) ! 1 = Some (last_typed 1 acts (bearerToken (sp_draft s)))"
    by (rule settings_connection_fields.fill_typed) (auto simp: settings_connection_view_def)
  ultimately have "apiBaseUrl (sp_draft ?s) = last_typed 0 acts (apiBaseUrl (sp_draft s))"
    "bearerToken (sp_draft ?s) = last_typed 1 acts (bearerToken (sp_draft s))"
    by (simp_all add: settings_connection_view_def)
  then have members: "apiBaseUrl (readDraftSettings ?s) = trim (last_typed 0 acts (apiBaseUrl (sp_draft s)))"
    "bearerToken (readDraftSettings ?s) = trim (last_typed 1 acts (bearerToken (sp_draft s)))"
    by (simp_all add: readDraftSettings_def)
  have saved: "sp_settings (handleSaveSettings ?s) = readDraftSettings ?s"
    by (simp add: handleSaveSettings_def settings_toast_def)
  show ?thesis
    unfolding Let_def saved
    by (intro conjI members settings_survive_reload [THEN conjunct1])
qed

end
