(* ===== verification/ExplorerView.thy ===== *)
theory ExplorerView
  imports FormView ExplorerProps
begin

text \<open>
  The controls of \<open>frontend/src/pages/BucketObjectsPage.tsx\<close> around the table: the buttons of
  the navigation, the breadcrumbs, the toolbar with its search form, the bar for the selection,
  the pager and the two confirmations. Each control has a label, says whether it is disabled, and
  names what it starts. The properties compare the disabled flags with the guards of the
  handlers, and the actions with what the interleaving machine of the page starts.
\<close>

section \<open>Controls\<close>

text \<open>An event of the page, a handler with its awaits, or the query's own \<open>refetch\<close>.\<close>

datatype explorer_action = Fire explorer_event | Run "unit explorer_task" | Refetch

record explorer_control =
  ct_label :: string
  ct_disabled :: bool
  ct_action :: explorer_action

definition nav_buttons :: "explorer_page \<Rightarrow> explorer_control list" where
  "nav_buttons s =
     [\<lparr>ct_label = ''explorer.actions.goBack'', ct_disabled = (\<not> canNavigatePrefixBack s),
       ct_action = Fire PrefixBack\<rparr>,
      \<lparr>ct_label = ''explorer.actions.goForward'', ct_disabled = (\<not> canNavigatePrefixForward s),
       ct_action = Fire PrefixForward\<rparr>]"

text \<open>The bucket and every breadcrumb but the last are buttons; the last is the page itself.\<close>

definition crumb_buttons :: "explorer_page \<Rightarrow> explorer_control list" where
  "crumb_buttons s =
     \<lparr>ct_label = ep_bucket s, ct_disabled = False, ct_action = Fire (Navigate [])\<rparr> #
     map (\<lambda>item. \<lparr>ct_label = bc_label item, ct_disabled = False, ct_action = Fire (Navigate (bc_prefix item))\<rparr>)
       (butlast (getExplorerBreadcrumbs (page_prefix s)))"

text \<open>
  The dialogs of the toolbar: the folder they act on, the flag each is given, the progress they
  show, and the signal that empties the upload form; and the refresh button.
\<close>

record toolbar =
  tb_bucket :: string
  tb_prefix :: string
  tb_reset :: nat
  tb_upload_pending :: bool
  tb_folder_pending :: bool
  tb_publish_pending :: bool
  tb_create_pending :: bool
  tb_progress :: number
  tb_refresh :: explorer_control

definition explorer_toolbar :: "bool \<Rightarrow> bool \<Rightarrow> bool \<Rightarrow> bool \<Rightarrow> explorer_page \<Rightarrow> toolbar" where
  "explorer_toolbar single folder publish create s =
     \<lparr>tb_bucket = ep_bucket s, tb_prefix = page_prefix s, tb_reset = ep_reset_signal s,
      tb_upload_pending = upload_pending single folder publish s,
      tb_folder_pending = upload_pending single folder publish s,
      tb_publish_pending = publish, tb_create_pending = create, tb_progress = ep_progress s,
      tb_refresh = \<lparr>ct_label = ''explorer.toolbar.refresh'', ct_disabled = False, ct_action = Refetch\<rparr>\<rparr>"

definition search_form_view :: "explorer_page \<Rightarrow> explorer_page form_view" where
  "search_form_view s =
     \<lparr>vw_fields = [(''explorer.toolbar.search'',
         TextField False (ep_search_input s) (\<lambda>v. apply_event (TypeSearch v)))],
      vw_progress = False, vw_submit_disabled = False, vw_submit_label = ''common.apply''\<rparr>"

definition bulk_action_of :: "(string \<Rightarrow> string option) \<Rightarrow> explorer_page \<Rightarrow> bulk_action \<Rightarrow> explorer_action" where
  "bulk_action_of u s action =
     (case action of
        BulkDownload \<Rightarrow> Run (handleBulkDownload u s)
      | BulkDelete \<Rightarrow> Fire (BulkDialog True)
      | BulkClear \<Rightarrow> Fire ClearRows)"

definition bulk_buttons :: "(string \<Rightarrow> string option) \<Rightarrow> explorer_page \<Rightarrow> explorer_control list" where
  "bulk_buttons u s =
     map (\<lambda>b. \<lparr>ct_label = bb_label b, ct_disabled = bb_disabled b, ct_action = bulk_action_of u s (bb_action b)\<rparr>)
       (panel_bulk_bar (explorer_panel s))"

definition pager_buttons :: "explorer_page \<Rightarrow> explorer_control list" where
  "pager_buttons s =
     [\<lparr>ct_label = ''objects.pagination.previous'', ct_disabled = panel_prev_disabled (explorer_panel s),
       ct_action = Fire PrevPage\<rparr>,
      \<lparr>ct_label = ''objects.pagination.next'', ct_disabled = panel_next_disabled (explorer_panel s),
       ct_action = Fire NextPage\<rparr>]"

definition limit_options :: "explorer_page \<Rightarrow> (nat \<times> explorer_action) list" where
  "limit_options s = map (\<lambda>n. (n, Fire (ChooseLimit n))) explorerPageSizes"

section \<open>The confirmations\<close>

definition BulkDeletePreviewItem :: "explorer_entry \<Rightarrow> bool \<times> string \<times> string" where
  "BulkDeletePreviewItem entry = (\<not> is_file entry, entry_name entry, entry_path entry)"

record confirmation =
  cf_open :: bool
  cf_title :: string
  cf_about :: string
  cf_items :: "(bool \<times> string \<times> string) list"
  cf_cancel :: explorer_control
  cf_confirm :: explorer_control
  cf_spinner :: bool

definition bulk_delete_confirmation :: "explorer_page \<Rightarrow> confirmation" where
  "bulk_delete_confirmation s =
     \<lparr>cf_open = ep_bulk_dialog s, cf_title = ''explorer.bulk.deleteConfirmTitle'',
      cf_about = nat_digits (length (selected_entries s)),
      cf_items = map BulkDeletePreviewItem (selected_entries s),
      cf_cancel = \<lparr>ct_label = ''common.cancel'', ct_disabled = ep_bulk_delete s,
        ct_action = Fire (BulkDialog False)\<rparr>,
      cf_confirm = \<lparr>ct_label = ''explorer.bulk.delete'', ct_disabled = ep_bulk_delete s,
        ct_action = Run (handleConfirmBulkDelete s)\<rparr>,
      cf_spinner = ep_bulk_delete s\<rparr>"

definition overwrite_confirmation :: "explorer_page \<Rightarrow> confirmation" where
  "overwrite_confirmation s =
     \<lparr>cf_open = (ep_pending_overwrite s \<noteq> None), cf_title = ''explorer.overwrite.title'',
      cf_about = overwrite_target s, cf_items = [],
      cf_cancel = \<lparr>ct_label = ''common.cancel'', ct_disabled = ep_retrying_overwrite s,
        ct_action = Fire (OverwriteDialog False)\<rparr>,
      cf_confirm = \<lparr>ct_label = ''explorer.overwrite.confirm'', ct_disabled = ep_retrying_overwrite s,
        ct_action = Run (handleConfirmOverwriteUpload s)\<rparr>,
      cf_spinner = ep_retrying_overwrite s\<rparr>"

section \<open>All controls\<close>

definition confirmation_controls :: "confirmation \<Rightarrow> explorer_control list" where
  "confirmation_controls c = (if cf_open c then [cf_cancel c, cf_confirm c] else [])"

definition explorer_controls ::
  "(string \<Rightarrow> string option) \<Rightarrow> bool \<Rightarrow> bool \<Rightarrow> bool \<Rightarrow> bool \<Rightarrow> explorer_page \<Rightarrow> explorer_control list" where
  "explorer_controls u single folder publish create s =
     nav_buttons s @ crumb_buttons s @ [tb_refresh (explorer_toolbar single folder publish create s)] @
     (case panel_body (explorer_panel s) of
        EntriesTable es \<Rightarrow> bulk_buttons u s @ pager_buttons s | _ \<Rightarrow> []) @
     confirmation_controls (bulk_delete_confirmation s) @ confirmation_controls (overwrite_confirmation s)"

interpretation search_fields: controlled_form search_form_view
  by unfold_locales (simp add: search_form_view_def)

section \<open>Properties\<close>

text \<open>What an action can start is what the machine of the page starts.\<close>

definition action_starts :: "(string \<Rightarrow> string option) \<Rightarrow> explorer_page \<Rightarrow> explorer_action \<Rightarrow> bool" where
  "action_starts u s a =
     (case a of Fire ev \<Rightarrow> True | Run t \<Rightarrow> explorer_starts u s t | Refetch \<Rightarrow> True)"

text \<open>An action that leaves the page as it is and asks for nothing.\<close>

fun action_idle :: "explorer_page \<Rightarrow> explorer_action \<Rightarrow> bool" where
  "action_idle s (Fire ev) = (apply_event ev s = s)"
| "action_idle s (Run t) = (t = Return ())"
| "action_idle s Refetch = False"

lemma controls_start:
  "c \<in> set (explorer_controls u single folder publish create s) \<Longrightarrow> action_starts u s (ct_action c)"
  by (auto simp: explorer_controls_def action_starts_def nav_buttons_def crumb_buttons_def
      explorer_toolbar_def bulk_buttons_def bulk_action_of_def pager_buttons_def
      confirmation_controls_def bulk_delete_confirmation_def overwrite_confirmation_def
      intro: explorer_starts.intros split: entries_body.splits bulk_action.splits)

text \<open>Going up makes the path shorter, so only the bucket itself is its own parent.\<close>

lemma length_folder_prefix: "length (folder_prefix segs) = sum_list (map (\<lambda>s. length s + 1) segs)"
  by (induction segs) (simp_all add: folder_prefix_Cons)

lemma length_folder_filter: "length (folder_prefix (filter_truthy segs)) \<le> length (folder_prefix segs)"
  unfolding length_folder_prefix filter_truthy_def by (induction segs) auto

lemma length_normalizeExplorerPrefix: "length (normalizeExplorerPrefix (Some p)) \<le> length p + 1"
proof -
  have "length (trim p) \<le> length p"
    by (simp add: trim_def trim_start_def trim_end_def drop_end_def)
      (metis length_dropWhile_le length_rev order_trans)
  then show ?thesis
    using length_strip_le [of "trim p"] by (simp add: normalizeExplorerPrefix_def Let_def)
qed

lemma length_getParent:
  assumes "getParentExplorerPrefix p \<noteq> []"
  shows "length (getParentExplorerPrefix p) < length p"
proof (cases rule: normalizeExplorerPrefix_shape [of "Some p"])
  case root
  with assms show ?thesis by (simp add: getParentExplorerPrefix_def)
next
  case (folder core)
  let ?segs = "filter_truthy (split_on slash core)"
  have segs: "filter_truthy (split_on slash (core @ [slash])) = ?segs"
    by (simp add: split_on_snoc_sep) (simp add: filter_truthy_def)
  with assms folder have parent: "getParentExplorerPrefix p = folder_prefix (butlast ?segs)" and two: "1 < length ?segs"
    by (auto simp: getParentExplorerPrefix_def Let_def folder_prefix_def split: if_splits dest: arg_cong [of _ _ length])
  from two obtain init l where split: "?segs = init @ [l]" by (cases ?segs rule: rev_cases) auto
  then have "l \<in> set ?segs" by simp
  then have "l \<noteq> []" unfolding filter_truthy_def by simp
  with parent split have "length (getParentExplorerPrefix p) + 2 \<le> length (folder_prefix ?segs)"
    by (cases l) (simp_all add: length_folder_prefix)
  also have "\<dots> \<le> length (folder_prefix (split_on slash core))" by (rule length_folder_filter)
  also have "\<dots> = length core + 1" by (simp add: folder_prefix_def)
  also have "\<dots> \<le> length p + 1" using length_normalizeExplorerPrefix [of p] folder by simp
  finally show ?thesis by simp
qed

lemma parent_fixed: "getParentExplorerPrefix p = p \<longleftrightarrow> p = []"
  using length_getParent [of p] by (cases "p = []") (auto simp: getParentExplorerPrefix_def)

lemma nav_idle:
  "handlePrefixBack s = s \<longleftrightarrow> \<not> canNavigatePrefixBack s"
  "handlePrefixForward s = s \<longleftrightarrow> \<not> canNavigatePrefixForward s"
proof -
  have longer: "ep_forward_history t \<noteq> ep_forward_history s \<Longrightarrow> t \<noteq> s" for t by auto
  have shorter: "ep_back_history t \<noteq> ep_back_history s \<Longrightarrow> t \<noteq> s" for t by auto
  show "handlePrefixBack s = s \<longleftrightarrow> \<not> canNavigatePrefixBack s"
    by (auto simp: handlePrefixBack_def canNavigatePrefixBack_def Let_def parent_fixed applyPrefixNavigation_def
        updateSearchParams_def dest: arg_cong [of _ _ ep_forward_history])
  show "handlePrefixForward s = s \<longleftrightarrow> \<not> canNavigatePrefixForward s"
    by (auto simp: handlePrefixForward_def canNavigatePrefixForward_def applyPrefixNavigation_def
        updateSearchParams_def dest: arg_cong [of _ _ ep_back_history])
qed

lemma pager_idle:
  "c \<in> set (pager_buttons s) \<Longrightarrow> ct_disabled c \<longleftrightarrow> action_idle s (ct_action c)"
proof -
  have "handleNextPage s = s \<longleftrightarrow> next_cursor s = []"
    by (auto simp: handleNextPage_def forward_page_def updateSearchParams_def
        dest: arg_cong [of _ _ ep_cursor_history])
  moreover have "handlePrevPage s = s \<longleftrightarrow> ep_cursor_history s = []"
    by (cases "ep_cursor_history s" rule: rev_cases)
      (auto simp: handlePrevPage_def updateSearchParams_def dest: arg_cong [of _ _ ep_cursor_history])
  ultimately show "c \<in> set (pager_buttons s) \<Longrightarrow> ct_disabled c \<longleftrightarrow> action_idle s (ct_action c)"
    by (auto simp: pager_buttons_def explorer_panel_def)
qed

lemma bulk_idle:
  assumes "\<not> ep_bulk_dialog s" "c \<in> set (bulk_buttons u s)"
  shows "ct_disabled c \<longleftrightarrow> bulk_actions_pending s"
    and "action_idle s (ct_action c) \<Longrightarrow> ct_disabled c"
proof -
  have some: "selected_entries s \<noteq> []"
    using assms(2) by (auto simp: bulk_buttons_def explorer_panel_def split: if_splits)
  then have "ep_selected s \<noteq> []" by (auto simp: selected_entries_def)
  then have clear: "handleClearSelection s \<noteq> s"
    by (auto simp: handleClearSelection_def dest: arg_cong [of _ _ ep_selected])
  have dialog: "handleBulkDialogOpenChange True s \<noteq> s" if "\<not> bulk_actions_pending s"
    using assms(1) that
    by (auto simp: handleBulkDialogOpenChange_def bulk_actions_pending_def dest: arg_cong [of _ _ ep_bulk_dialog])
  show "ct_disabled c \<longleftrightarrow> bulk_actions_pending s"
    using assms(2) some by (auto simp: bulk_buttons_def explorer_panel_def bulk_action_buttons_def)
  show "action_idle s (ct_action c) \<Longrightarrow> ct_disabled c"
    using assms(2) some clear dialog
    by (auto simp: bulk_buttons_def explorer_panel_def bulk_action_buttons_def bulk_action_of_def
        handleBulkDownload_def split: if_splits)
qed

lemma dialog_closes:
  "ep_pending_overwrite s \<noteq> None \<Longrightarrow> handleOverwriteDialogOpenChange False s = s \<longleftrightarrow> ep_retrying_overwrite s"
  "ep_bulk_dialog s \<Longrightarrow> handleBulkDialogOpenChange False s = s \<longleftrightarrow> ep_bulk_delete s"
  by (auto simp: handleOverwriteDialogOpenChange_def handleCancelOverwriteUpload_def
      dest: arg_cong [of _ _ ep_pending_overwrite])
    (auto simp: handleBulkDialogOpenChange_def dest: arg_cong [of _ _ ep_bulk_dialog] split: if_splits)

lemma confirming_starts:
  "ep_pending_overwrite s \<noteq> None \<Longrightarrow> handleConfirmOverwriteUpload s = Return () \<longleftrightarrow> ep_retrying_overwrite s"
  "handleConfirmBulkDelete s = Return () \<longleftrightarrow> selected_entries s = [] \<or> ep_bulk_delete s"
  by (auto simp: handleConfirmOverwriteUpload_def handleConfirmBulkDelete_def split: if_splits)

lemma confirmation_idle:
  "c \<in> set (confirmation_controls (overwrite_confirmation s)) \<Longrightarrow>
     ct_disabled c \<longleftrightarrow> action_idle s (ct_action c)"
  "c \<in> set (confirmation_controls (bulk_delete_confirmation s)) \<Longrightarrow>
     action_idle s (ct_action c) \<longleftrightarrow>
       ct_disabled c \<or> ct_label c = ''explorer.bulk.delete'' \<and> selected_entries s = []"
  by (auto simp: confirmation_controls_def overwrite_confirmation_def bulk_delete_confirmation_def
      dialog_closes confirming_starts split: if_splits)

section \<open>Disabled means idle\<close>



end
