(* ===== verification/TableView.thy ===== *)
theory TableView
  imports FilePreview ExplorerView
begin

text \<open>
  What \<open>frontend/src/features/explorer/ExplorerTable.tsx\<close> offers: the headers, the cells and
  buttons of a row, the popover that sorts, the details of a file, and the two confirmations of a
  deletion. A control names what it starts on the table and on the page that passes the handlers.
  The dialogs of a row share one contract: they show the entry they were opened for until it is no
  longer listed.
\<close>

section \<open>Controls\<close>

type_synonym table_place = "table_state \<times> explorer_page"

text \<open>A handler of the page, a setter of the table, a handler over both, or a text to copy.\<close>

datatype table_action =
    PageDoes explorer_action
  | TableDoes "table_state \<Rightarrow> table_state"
  | BothDo "(table_place, explorer_mutation, unit) page_task"
  | CopyText string

record icon_button =
  ib_label :: string
  ib_disabled :: bool
  ib_spinner :: bool
  ib_action :: table_action

text \<open>The setters of the paths that open the dialogs.\<close>

definition open_details :: "string \<Rightarrow> table_state \<Rightarrow> table_state" where
  "open_details path tb = tb\<lparr>tb_details := Some path\<rparr>"

definition open_delete_file :: "string \<Rightarrow> table_state \<Rightarrow> table_state" where
  "open_delete_file path tb = tb\<lparr>tb_delete_file := Some path\<rparr>"

definition open_delete_folder :: "string \<Rightarrow> table_state \<Rightarrow> table_state" where
  "open_delete_folder path tb = tb\<lparr>tb_delete_folder := Some path\<rparr>"

definition open_publish_file :: "string \<Rightarrow> table_state \<Rightarrow> table_state" where
  "open_publish_file path tb = tb\<lparr>tb_publish_file := Some path\<rparr>"

definition open_publish_folder :: "string \<Rightarrow> table_state \<Rightarrow> table_state" where
  "open_publish_folder path tb = tb\<lparr>tb_publish_folder := Some path\<rparr>"

section \<open>A row\<close>

record name_button =
  nb_folder :: bool
  nb_text :: string
  nb_action :: table_action

definition ExplorerEntryName :: "explorer_entry \<Rightarrow> name_button" where
  "ExplorerEntryName entry =
     (if is_directory entry
      then \<lparr>nb_folder = True, nb_text = entry_name entry, nb_action = PageDoes (Fire (Navigate (entry_path entry)))\<rparr>
      else \<lparr>nb_folder = False, nb_text = entry_name entry, nb_action = TableDoes (open_details (entry_path entry))\<rparr>)"

text \<open>The address and the button that copies it; other entries show a dash.\<close>

definition ExplorerEntryUrlCell :: "table_props \<Rightarrow> explorer_entry \<Rightarrow> (string \<times> icon_button) option" where
  "ExplorerEntryUrlCell p entry =
     map_option (\<lambda>url. (url, \<lparr>ib_label = ''explorer.actions.copyUrl'', ib_disabled = False,
         ib_spinner = False, ib_action = CopyText url\<rparr>))
       (entry_url p entry)"

definition DownloadFolderZipButton :: "table_props \<Rightarrow> explorer_page \<Rightarrow> explorer_entry \<Rightarrow> icon_button" where
  "DownloadFolderZipButton p s entry =
     (let pending = (tp_downloading_folder p = entry_path entry)
      in \<lparr>ib_label = (if pending then ''explorer.actions.downloadingFolderZip''
            else ''explorer.actions.downloadFolderZip''),
          ib_disabled = pending, ib_spinner = pending,
          ib_action = PageDoes (Run (catch_task (handleDownloadFolder s (entry_path entry)) (\<lambda>_. Return ())))\<rparr>)"

definition PublishFolderSiteButton :: "table_props \<Rightarrow> explorer_entry \<Rightarrow> icon_button" where
  "PublishFolderSiteButton p entry =
     (let pending = (tp_publishing p = entry_path entry)
      in \<lparr>ib_label = ''explorer.actions.publishSite'', ib_disabled = pending, ib_spinner = pending,
          ib_action = TableDoes (open_publish_folder (entry_path entry))\<rparr>)"

definition PublishObjectSiteButton :: "table_props \<Rightarrow> explorer_entry \<Rightarrow> icon_button" where
  "PublishObjectSiteButton p entry =
     (let pending = (tp_publishing p = entry_path entry)
      in \<lparr>ib_label = ''explorer.actions.publishSite'', ib_disabled = pending, ib_spinner = pending,
          ib_action = TableDoes (open_publish_file (entry_path entry))\<rparr>)"

text \<open>The buttons of a row and the item of its overflow menu.\<close>

record row_actions =
  ra_buttons :: "icon_button list"
  ra_menu :: string
  ra_item :: icon_button

definition ExplorerDirectoryActions :: "table_props \<Rightarrow> explorer_page \<Rightarrow> explorer_entry \<Rightarrow> row_actions" where
  "ExplorerDirectoryActions p s entry =
     (let deleting = (tp_deleting p = entry_path entry)
      in \<lparr>ra_buttons =
            [\<lparr>ib_label = ''explorer.actions.openFolder'', ib_disabled = False, ib_spinner = False,
              ib_action = PageDoes (Fire (Navigate (entry_path entry)))\<rparr>,
             DownloadFolderZipButton p s entry, PublishFolderSiteButton p entry],
          ra_menu = ''explorer.actions.more'',
          ra_item = \<lparr>ib_label = ''explorer.actions.deleteFolder'', ib_disabled = deleting,
            ib_spinner = deleting, ib_action = TableDoes (open_delete_folder (entry_path entry))\<rparr>\<rparr>)"

definition ExplorerFileActions ::
  "(string \<Rightarrow> string option) \<Rightarrow> table_props \<Rightarrow> explorer_page \<Rightarrow> explorer_entry \<Rightarrow> row_actions" where
  "ExplorerFileActions u p s entry =
     (let deleting = (tp_deleting p = file_object_key entry);
          downloading = (tp_downloading_file p = entry_path entry)
      in \<lparr>ra_buttons =
            [\<lparr>ib_label = ''explorer.actions.viewDetails'', ib_disabled = False, ib_spinner = False,
              ib_action = TableDoes (open_details (entry_path entry))\<rparr>,
             \<lparr>ib_label =
                (if downloading then ''explorer.actions.downloadingFile''
                 else if file_visibility entry = Public then ''explorer.actions.directDownload''
                 else ''explorer.actions.signedDownload''),
              ib_disabled = downloading, ib_spinner = downloading,
              ib_action = PageDoes (Run (handleDownloadFile u s entry))\<rparr>,
             PublishObjectSiteButton p entry],
          ra_menu = ''explorer.actions.more'',
          ra_item = \<lparr>ib_label = ''common.delete'', ib_disabled = deleting, ib_spinner = deleting,
            ib_action = TableDoes (open_delete_file (entry_path entry))\<rparr>\<rparr>)"

record table_row =
  tr_cells :: entry_row
  tr_select :: "bool \<Rightarrow> table_action"
  tr_name :: name_button
  tr_url :: "(string \<times> icon_button) option"
  tr_actions :: row_actions

definition ExplorerTableEntryRow ::
  "(string \<Rightarrow> string option) \<Rightarrow> table_props \<Rightarrow> explorer_page \<Rightarrow> explorer_entry \<Rightarrow> table_row" where
  "ExplorerTableEntryRow u p s entry =
     \<lparr>tr_cells = entry_row_view p entry,
      tr_select = (\<lambda>checked. PageDoes (Fire (SelectRow (entry_path entry) checked))),
      tr_name = ExplorerEntryName entry, tr_url = ExplorerEntryUrlCell p entry,
      tr_actions = (if is_directory entry then ExplorerDirectoryActions p s entry
        else ExplorerFileActions u p s entry)\<rparr>"

section \<open>The headers\<close>

datatype sort_icon = FilterIcon | SortAscIcon | SortDescIcon

record sort_header =
  sh_label :: string
  sh_state :: string
  sh_pressed :: bool
  sh_icon :: sort_icon
  sh_open :: bool
  sh_toggle :: string
  sh_clear_disabled :: bool

definition ExplorerSortHeader :: "string \<Rightarrow> sort_by \<Rightarrow> sort_view \<Rightarrow> sort_header" where
  "ExplorerSortHeader label sortBy v =
     (let activeSortBy = Some (page_sort_by (so_page v)); sortOrder = Some (page_sort_order (so_page v));
          active = (activeSortBy = Some sortBy)
      in \<lparr>sh_label = label, sh_state = header_trigger activeSortBy sortOrder sortBy, sh_pressed = active,
          sh_icon = (if \<not> active then FilterIcon
            else if applied_order activeSortBy sortOrder sortBy = Asc then SortAscIcon else SortDescIcon),
          sh_open = header_open sortBy v,
          sh_toggle = (case so_draft v of None \<Rightarrow> [] | Some d \<Rightarrow> sort_order_value d),
          sh_clear_disabled = (activeSortBy = None)\<rparr>)"

definition headerCancel :: "sort_by \<Rightarrow> sort_view \<Rightarrow> sort_view" where
  "headerCancel sortBy v = headerOpenChange sortBy False v"

datatype header_cell =
    SelectAllBox string "bool option" bool "bool \<Rightarrow> table_action"
  | PlainHeader string
  | SortHeaderCell string sort_by

definition explorer_headers :: "table_props \<Rightarrow> explorer_entry list \<Rightarrow> header_cell list" where
  "explorer_headers p entries =
     [SelectAllBox ''explorer.selection.selectAll'' (header_box entries (tp_selected p)) (tp_selection_disabled p)
        (\<lambda>checked. PageDoes (Fire (SelectAllRows checked))),
      SortHeaderCell ''explorer.table.name'' ByName, PlainHeader ''explorer.table.url'',
      SortHeaderCell ''explorer.table.size'' BySize, PlainHeader ''objects.form.visibility.label'',
      SortHeaderCell ''objects.table.createdAt'' ByCreatedAt, PlainHeader ''explorer.table.actions'']"

text \<open>The room the header leaves for the scroll bar of the list under it.\<close>

definition header_offset :: "(int \<times> int) option \<Rightarrow> int" where
  "header_offset element =
     (case element of None \<Rightarrow> 0 | Some (offsetWidth, clientWidth) \<Rightarrow> max (offsetWidth - clientWidth) 0)"

section \<open>The details of a file\<close>

datatype shown_text = Literal string | Translated string | Dated string

record detail_field =
  df_label :: string
  df_monospace :: bool
  df_text :: shown_text

record details_view =
  dv_preview :: preview_view
  dv_fields :: "detail_field list"
  dv_options :: "(visibility \<times> string) list"
  dv_selected :: visibility
  dv_select_disabled :: bool
  dv_save_disabled :: bool
  dv_save_spinner :: bool

definition file_detail_fields :: "(string \<Rightarrow> string) \<Rightarrow> file_details \<Rightarrow> explorer_entry \<Rightarrow> detail_field list" where
  "file_detail_fields buildPublicUrl d entry =
     (let publicUrl = details_url buildPublicUrl d
      in [\<lparr>df_label = ''explorer.table.url'', df_monospace = True,
           df_text = (if publicUrl \<noteq> [] then Literal publicUrl else Translated ''common.notAvailable'')\<rparr>,
          \<lparr>df_label = ''explorer.details.originalFilename'', df_monospace = True,
           df_text = Literal (file_original_filename entry)\<rparr>,
          \<lparr>df_label = ''explorer.details.contentType'', df_monospace = True,
           df_text = Literal (file_content_type entry)\<rparr>,
          \<lparr>df_label = ''objects.table.size'', df_monospace = False,
           df_text = Literal (formatBytes (file_size entry))\<rparr>,
          \<lparr>df_label = ''explorer.table.updatedAt'', df_monospace = False, df_text = Dated (file_updated_at entry)\<rparr>,
          \<lparr>df_label = ''objects.table.createdAt'', df_monospace = False, df_text = Dated (file_created_at entry)\<rparr>])"

text \<open>The dialog of a file, what its menu sets, and what its save button runs.\<close>

definition FileDetailsDialog :: "(string \<Rightarrow> string) \<Rightarrow> file_details \<Rightarrow> details_view option" where
  "FileDetailsDialog buildPublicUrl d =
     map_option (\<lambda>entry.
         \<lparr>dv_preview = details_preview buildPublicUrl d,
          dv_fields = file_detail_fields buildPublicUrl d entry,
          dv_options = [(Private, ''objects.visibility.private''), (Public, ''objects.visibility.public'')],
          dv_selected = dt_selected d, dv_select_disabled = dt_saving d,
          dv_save_disabled = save_disabled d, dv_save_spinner = dt_saving d\<rparr>)
       (dt_entry d)"

definition choose_visibility :: "visibility \<Rightarrow> file_details \<Rightarrow> file_details" where
  "choose_visibility value d = (if dt_saving d then d else d\<lparr>dt_selected := value\<rparr>)"

text \<open>The button over a preview opens the same preview in a dialog of its own.\<close>

definition PreviewFullscreenButton ::
  "string \<Rightarrow> bool \<Rightarrow> bool \<Rightarrow> preview_type option \<Rightarrow> string \<Rightarrow> string \<times> string \<times> preview_view" where
  "PreviewFullscreenButton fileName markdownTooLarge textTooLarge previewType publicUrl =
     (''explorer.actions.fullscreenPreview'', fileName,
      file_preview True markdownTooLarge textTooLarge previewType publicUrl)"

text \<open>A remote text on the screen: a message or the text, and the button only where it is inline.\<close>

record text_surface =
  ts_message :: "string option"
  ts_markdown :: bool
  ts_content :: string
  ts_button :: bool

definition text_surface_of :: "bool \<Rightarrow> bool \<Rightarrow> preview_props \<Rightarrow> remote_text \<Rightarrow> text_surface" where
  "text_surface_of fullscreen action p s =
     (let say = (\<lambda>key. \<lparr>ts_message = Some key, ts_markdown = False, ts_content = [],
            ts_button = (\<not> fullscreen \<and> action)\<rparr>)
      in case remote_text_view p s of
           TextTooLarge \<Rightarrow> say (if pr_markdown p then ''explorer.preview.markdownTooLarge''
             else ''explorer.preview.textTooLarge'')
         | TextLoading \<Rightarrow> say ''common.loading''
         | TextUnavailable \<Rightarrow> say ''common.notAvailable''
         | TextShown markdown content \<Rightarrow>
             \<lparr>ts_message = None, ts_markdown = markdown, ts_content = content,
              ts_button = (\<not> fullscreen \<and> action)\<rparr>)"

text \<open>Code in a rendered Markdown text: without a class and on one line it is part of the line.\<close>

definition markdown_code :: "string option \<Rightarrow> string \<Rightarrow> bool \<times> string \<times> string" where
  "markdown_code className children =
     (let content = (if children \<noteq> [] \<and> last children = CHR 0x0A then butlast children else children);
          isInline = (nullish className [] = [] \<and> CHR 0x0A \<notin> set content)
      in (isInline, content,
          if isInline then ''rounded bg-muted px-1.5 py-0.5 font-mono text-[0.85em]''
          else trim (''font-mono text-sm '' @ nullish className [])))"

section \<open>Confirming a deletion\<close>

record ask_dialog =
  ad_title :: string
  ad_text :: string
  ad_holes :: "(string \<times> string) list"
  ad_cancel :: table_action
  ad_confirm :: table_action

definition close_delete_file :: "bool \<Rightarrow> table_state \<Rightarrow> table_state" where
  "close_delete_file open_now tb = (if \<not> open_now then tb\<lparr>tb_delete_file := None\<rparr> else tb)"

definition close_delete_folder :: "bool \<Rightarrow> table_state \<Rightarrow> table_state" where
  "close_delete_folder open_now tb = (if \<not> open_now then tb\<lparr>tb_delete_folder := None\<rparr> else tb)"

definition DeleteFileDialog :: "string \<Rightarrow> explorer_entry option \<Rightarrow> ask_dialog option" where
  "DeleteFileDialog bucket entry =
     map_option (\<lambda>e.
         \<lparr>ad_title = ''objects.delete.title'', ad_text = ''objects.delete.description'',
          ad_holes = [(''bucket'', bucket), (''objectKey'', file_object_key e)],
          ad_cancel = TableDoes (close_delete_file False),
          ad_confirm = BothDo (confirm_delete_file (file_object_key e))\<rparr>) entry"

definition DeleteFolderDialog :: "string \<Rightarrow> explorer_entry option \<Rightarrow> ask_dialog option" where
  "DeleteFolderDialog bucket entry =
     map_option (\<lambda>e.
         \<lparr>ad_title = ''explorer.deleteFolder.title'', ad_text = ''explorer.deleteFolder.description'',
          ad_holes = [(''bucket'', bucket), (''name'', entry_name e)],
          ad_cancel = TableDoes (close_delete_folder False),
          ad_confirm = BothDo (confirm_delete_folder (entry_path e))\<rparr>) entry"

section \<open>The table\<close>

record table_view =
  tv_headers :: "header_cell list"
  tv_top :: "rat option"
  tv_rows :: "table_row list"
  tv_bottom :: "rat option"
  tv_details :: "explorer_entry option"
  tv_delete_file :: "ask_dialog option"
  tv_delete_folder :: "ask_dialog option"
  tv_publish_folder :: "site_form_props option"
  tv_publish_file :: "site_form_props option"

definition spacer :: "rat \<Rightarrow> rat option" where
  "spacer height = (if 0 < height then Some height else None)"

definition explorer_table ::
  "(string \<Rightarrow> string option) \<Rightarrow> virtual_row list \<Rightarrow> rat \<Rightarrow> explorer_page \<Rightarrow> table_state \<Rightarrow> table_view" where
  "explorer_table u vrows totalSize s tb =
     (let p = table_props_of s; entries = page_entries s; n = length entries
      in \<lparr>tv_headers = explorer_headers p entries,
          tv_top = spacer (top_spacer vrows (tb_scroll tb) n),
          tv_rows = map (ExplorerTableEntryRow u p s) (rendered_rows entries vrows (tb_scroll tb)),
          tv_bottom = spacer (bottom_spacer vrows totalSize (tb_scroll tb) n),
          tv_details = findFileEntry entries (tb_details tb),
          tv_delete_file = DeleteFileDialog (ep_bucket s) (findFileEntry entries (tb_delete_file tb)),
          tv_delete_folder = DeleteFolderDialog (ep_bucket s) (findDirectoryEntry entries (tb_delete_folder tb)),
          tv_publish_folder = folder_publish_form s tb, tv_publish_file = file_publish_form s tb\<rparr>)"

section \<open>A dialog follows its entry\<close>

text \<open>
  A dialog of a row: where the table keeps its path, and how it finds its entry in the list of a
  commit. The effect of the table closes it once the entry is gone.
\<close>

locale row_dialog =
  fixes path_of :: "table_state \<Rightarrow> string option"
    and open_at :: "string \<Rightarrow> table_state \<Rightarrow> table_state"
    and entry_in :: "explorer_entry list \<Rightarrow> string option \<Rightarrow> explorer_entry option"
  assumes opened: "path_of (open_at path tb) = Some path"
    and committed: "path_of (table_effect entries tb) = close_gone (entry_in entries) (path_of tb)"
    and nowhere: "entry_in entries None = None"
    and unnamed: "entry_in entries (Some []) = None"
begin

definition follows :: "string \<Rightarrow> explorer_entry list list \<Rightarrow> table_state \<Rightarrow> table_state" where
  "follows path commits tb = fold table_effect commits (open_at path tb)"

lemma closed_stays: "path_of tb = None \<Longrightarrow> path_of (fold table_effect commits tb) = None"
  by (induction commits arbitrary: tb) (simp_all add: committed close_gone_def)

lemma open_stays:
  "path_of tb = Some path \<Longrightarrow> path \<noteq> [] \<Longrightarrow>
     path_of (fold table_effect commits tb) =
       (if \<exists>es \<in> set commits. entry_in es (Some path) = None then None else Some path)"
proof (induction commits arbitrary: tb)
  case (Cons es commits)
  then have "path_of (table_effect es tb) = (if entry_in es (Some path) = None then None else Some path)"
    by (simp add: committed close_gone_def truthy_def)
  with Cons show ?case by (cases "entry_in es (Some path) = None") (simp_all add: closed_stays)
qed simp

text \<open>What is shown after any commits: the entry as it is listed by then, if it always was.\<close>

lemma shown_entry:
  "entry_in now (path_of (follows path commits tb)) =
     (if \<exists>es \<in> set commits. entry_in es (Some path) = None then None else entry_in now (Some path))"
proof (cases "path = []")
  case True
  show ?thesis
  proof (cases "path_of (follows path commits tb)")
    case None
    with True show ?thesis by (simp add: nowhere unnamed)
  next
    case (Some q)
    have "path_of t \<in> {None, Some []} \<Longrightarrow> path_of (fold table_effect commits t) \<in> {None, Some []}" for t
      by (induction commits arbitrary: t) (auto simp: committed close_gone_def)
    from this [of "open_at path tb"] True Some have "q = []" by (simp add: follows_def opened)
    with Some True show ?thesis by (simp add: unnamed)
  qed
next
  case False
  then show ?thesis unfolding follows_def by (auto simp: open_stays [OF opened] nowhere)
qed

end

lemmas row_dialog_defs = table_effect_def findFileEntry_def findDirectoryEntry_def
  open_details_def open_delete_file_def open_delete_folder_def open_publish_file_def open_publish_folder_def

interpretation details_dialog: row_dialog tb_details open_details findFileEntry
  by unfold_locales (simp_all add: row_dialog_defs)

interpretation delete_file_dialog: row_dialog tb_delete_file open_delete_file findFileEntry
  by unfold_locales (simp_all add: row_dialog_defs)

interpretation delete_folder_dialog: row_dialog tb_delete_folder open_delete_folder findDirectoryEntry
  by unfold_locales (simp_all add: row_dialog_defs)

interpretation publish_file_dialog: row_dialog tb_publish_file open_publish_file findFileEntry
  by unfold_locales (simp_all add: row_dialog_defs)

interpretation publish_folder_dialog: row_dialog tb_publish_folder open_publish_folder findDirectoryEntry
  by unfold_locales (simp_all add: row_dialog_defs)

section \<open>Nothing is deleted but what is named\<close>

text \<open>Pressing a control that only sets a path of the table.\<close>

fun table_does :: "table_action \<Rightarrow> table_state \<Rightarrow> table_state" where
  "table_does (TableDoes f) tb = f tb"
| "table_does a tb = tb"

definition press_delete ::
  "(string \<Rightarrow> string option) \<Rightarrow> explorer_page \<Rightarrow> explorer_entry \<Rightarrow> table_state \<Rightarrow> table_state" where
  "press_delete u s e =
     table_does (ib_action (ra_item (tr_actions (ExplorerTableEntryRow u (table_props_of s) s e))))"

lemma press_delete_opens:
  "press_delete u s e =
     (if is_directory e then open_delete_folder (entry_path e) else open_delete_file (entry_path e))"
  by (simp add: press_delete_def ExplorerTableEntryRow_def ExplorerDirectoryActions_def
      ExplorerFileActions_def Let_def fun_eq_iff)

text \<open>The one request of a confirmation, and what it leaves open.\<close>

lemma exec_confirm:
  "exec (confirm_delete_file k) reply undisturbed n (tb, s) =
     ((close_delete_file False tb, s), [MutateAsync (DeleteFileM k)], rep_done (reply n))"
  "exec (confirm_delete_folder k) reply undisturbed n (tb, s) =
     ((close_delete_folder False tb, s), [MutateAsync (DeleteFolderM k)], rep_done (reply n))"
  by (simp_all add: confirm_delete_file_def confirm_delete_folder_def handleDeleteFile_def
      handleDeleteFolder_def close_delete_file_def close_delete_folder_def await_done_def
      split: sum.split)

lemma exec_delete_mutations:
  "fst (snd (exec (mutationFn (deleteFileMutation s) k) reply undisturbed n now)) =
     [SendHttp (HttpSend (createApiClient (ep_settings s)) (http_request DELETE (object_url (ep_bucket s) k)))]"
  by (simp add: deleteFileMutation_def exec_bind exec_api_call deleteObject_def exec_apiRequest
      split: sum.split)

text \<open>
  C33. Deleting from a row. Its menu opens the confirmation of the entry in that row. Whatever
  lists the page shows in between, the confirmation is open exactly while an entry with that path
  is listed; it names the bucket of the page and the entry as it is listed now; confirming closes it and
  asks for one deletion, of what it names; cancelling closes it. For a file the deletion is one
  DELETE of that object in that bucket.
\<close>

theorem table_deletes_what_it_names:
  "let tb = fold table_effect commits (press_delete u before e tb0);
       view = explorer_table u vrows extent s tb;
       lookup = (if is_directory e then findDirectoryEntry else findFileEntry);
       listed = (\<lambda>es. lookup es (Some (entry_path e)) \<noteq> None)
   in case (if is_directory e then tv_delete_folder view else tv_delete_file view) of
        None \<Rightarrow> \<not> list_all listed (commits @ [page_entries s])
      | Some d \<Rightarrow> list_all listed (commits @ [page_entries s]) \<and>
          (case (lookup (page_entries s) (Some (entry_path e)), ad_confirm d, ad_cancel d) of
             (Some now, BothDo t, TableDoes cancel) \<Rightarrow>
               entry_path now = entry_path e \<and> is_directory now = is_directory e \<and>
               ad_holes d =
                 [(''bucket'', ep_bucket s),
                  (if is_directory e then (''name'', entry_name now) else (''objectKey'', file_object_key now))] \<and>
               exec t reply undisturbed n (tb, s) =
                 ((cancel tb, s),
                  [MutateAsync (if is_directory e then DeleteFolderM (entry_path now) else DeleteFileM (file_object_key now))],
                  rep_done (reply n)) \<and>
               (if is_directory e then tb_delete_folder (cancel tb) else tb_delete_file (cancel tb)) = None \<and>
               fst (snd (exec (mutationFn (deleteFileMutation s) (file_object_key now)) reply undisturbed n page)) =
                 [SendHttp (HttpSend (createApiClient (ep_settings s))
                    (http_request DELETE (object_url (ep_bucket s) (file_object_key now))))]
           | _ \<Rightarrow> False)"
proof (cases "is_directory e")
  case True
  have found: "entry_path now = entry_path e \<and> is_directory now"
    if "findDirectoryEntry es (Some (entry_path e)) = Some now" for es now
    using that by (auto simp: findDirectoryEntry_def truthy_def dest: array_find_SomeD split: option.splits if_splits)
  have "findDirectoryEntry (page_entries s)
      (tb_delete_folder (fold table_effect commits (open_delete_folder (entry_path e) tb0))) =
     (if \<exists>es \<in> set commits. findDirectoryEntry es (Some (entry_path e)) = None then None
      else findDirectoryEntry (page_entries s) (Some (entry_path e)))"
    using delete_folder_dialog.shown_entry [of "page_entries s" "entry_path e" commits tb0]
    by (simp add: delete_folder_dialog.follows_def)
  with True show ?thesis
    by (auto simp: Let_def press_delete_opens explorer_table_def DeleteFolderDialog_def exec_confirm
        exec_delete_mutations close_delete_folder_def list_all_iff dest: found split: option.split)
next
  case False
  have found: "entry_path now = entry_path e \<and> \<not> is_directory now"
    if "findFileEntry es (Some (entry_path e)) = Some now" for es now
    using that by (auto simp: findFileEntry_def truthy_def is_file_def is_directory_def dest: array_find_SomeD
        split: option.splits if_splits explorer_entry.splits)
  have "findFileEntry (page_entries s)
      (tb_delete_file (fold table_effect commits (open_delete_file (entry_path e) tb0))) =
     (if \<exists>es \<in> set commits. findFileEntry es (Some (entry_path e)) = None then None
      else findFileEntry (page_entries s) (Some (entry_path e)))"
    using delete_file_dialog.shown_entry [of "page_entries s" "entry_path e" commits tb0]
    by (simp add: delete_file_dialog.follows_def)
  with False show ?thesis
    by (auto simp: Let_def press_delete_opens explorer_table_def DeleteFileDialog_def exec_confirm
        exec_delete_mutations close_delete_file_def list_all_iff dest: found split: option.split)
qed

end
