(* ===== verification/RecycleView.thy ===== *)
theory RecycleView
  imports RecycleProps TextFormat
begin

text \<open>
  What \<open>frontend/src/features/buckets/RecycleBinDialog.tsx\<close> shows and offers: the headers, the rows
  with their buttons, the bar for the selection, the pager, the two confirmations and the list of
  what could not be restored. Here the machine of the recycle bin is started by its buttons
  alone, not by any handler with any argument.
\<close>

section \<open>Controls\<close>

datatype recycle_action = Press recycle_event | Start "unit recycle_task"

record recycle_control =
  rc_label :: string
  rc_disabled :: bool
  rc_spinner :: bool
  rc_action :: recycle_action

text \<open>Over all buckets the rows name theirs.\<close>

definition showBucketColumn :: "recycle_page \<Rightarrow> bool" where
  "showBucketColumn s \<longleftrightarrow> trim (rs_bucket s) = []"

definition recycle_headers :: "recycle_page \<Rightarrow> string list" where
  "recycle_headers s =
     [''explorer.selection.selectAll'', ''buckets.recycleBin.table.type'', ''buckets.recycleBin.table.path''] @
     (if showBucketColumn s then [''buckets.recycleBin.table.bucket''] else []) @
     [''buckets.recycleBin.table.size'', ''buckets.recycleBin.table.deletedAt'',
      ''buckets.recycleBin.table.actions'']"

record recycle_row =
  rw_checked :: bool
  rw_check :: "bool \<Rightarrow> recycle_action"
  rw_type :: string
  rw_name :: string
  rw_path :: string
  rw_bucket :: "string option"
  rw_bytes :: string
  rw_deleted_at :: string
  rw_buttons :: "recycle_control list"

definition recycle_row_view :: "recycle_page \<Rightarrow> recycle_bin_object_item \<Rightarrow> recycle_row" where
  "recycle_row_view s item =
     (let rowPending = (rs_restoring s \<or> rs_deleting s)
      in \<lparr>rw_checked = (rb_id item \<in> set (rs_selected s)),
          rw_check = (\<lambda>checked. Press (SelectItem (rb_id item) checked)),
          rw_type = (case rb_type item of TDirectory \<Rightarrow> ''buckets.recycleBin.type.directory''
            | TFile \<Rightarrow> ''buckets.recycleBin.type.file''),
          rw_name = rb_name item, rw_path = rb_path item,
          rw_bucket = (if showBucketColumn s then Some (rb_bucket_name item) else None),
          rw_bytes = formatBytes (rb_size item), rw_deleted_at = rb_deleted_at item,
          rw_buttons =
            [\<lparr>rc_label = ''buckets.recycleBin.restore'', rc_disabled = rowPending, rc_spinner = False,
              rc_action = Press (AskRestore [item])\<rparr>,
             \<lparr>rc_label = ''buckets.recycleBin.delete'', rc_disabled = rowPending, rc_spinner = False,
              rc_action = Press (AskDelete [item])\<rparr>]\<rparr>)"

definition recycle_rows_shown :: "recycle_page \<Rightarrow> recycle_row list" where
  "recycle_rows_shown s =
     (case rp_body (recycle_view s) of
        RecycleTable rows \<Rightarrow> map (recycle_row_view s) (map fst rows)
      | _ \<Rightarrow> [])"

definition recycle_bulk_buttons :: "recycle_page \<Rightarrow> recycle_control list" where
  "recycle_bulk_buttons s =
     (let selectedItems = recycle_selected_items s; disabled = actions_pending s
      in if length selectedItems > 0
         then [\<lparr>rc_label = ''buckets.recycleBin.restoreSelected'', rc_disabled = disabled,
                rc_spinner = rs_restoring s, rc_action = Press (AskRestore selectedItems)\<rparr>,
               \<lparr>rc_label = ''buckets.recycleBin.deleteSelected'', rc_disabled = disabled,
                rc_spinner = rs_deleting s, rc_action = Press (AskDelete selectedItems)\<rparr>,
               \<lparr>rc_label = ''buckets.recycleBin.clearSelection'', rc_disabled = disabled,
                rc_spinner = False, rc_action = Press ClearItems\<rparr>]
         else [])"

definition recycle_pager_buttons :: "recycle_page \<Rightarrow> recycle_control list" where
  "recycle_pager_buttons s =
     [\<lparr>rc_label = ''buckets.recycleBin.refresh'', rc_disabled = False, rc_spinner = False,
       rc_action = Start (invalidateQueries [recycle_base_key s])\<rparr>,
      \<lparr>rc_label = ''objects.pagination.previous'', rc_disabled = (length (rs_history s) = 0),
       rc_spinner = False, rc_action = Press RecyclePrev\<rparr>,
      \<lparr>rc_label = ''objects.pagination.next'', rc_disabled = (recycle_next_cursor s = []),
       rc_spinner = False, rc_action = Press RecycleNext\<rparr>]"

section \<open>The dialogs\<close>

text \<open>One line per row: its name, and where it was.\<close>

definition item_place :: "recycle_page \<Rightarrow> string \<Rightarrow> string \<Rightarrow> string" where
  "item_place s bucket path = (if showBucketColumn s then bucket @ '' / '' @ path else path)"

definition item_line :: "recycle_page \<Rightarrow> recycle_bin_object_item \<Rightarrow> string \<times> string" where
  "item_line s item = (rb_name item, item_place s (rb_bucket_name item) (rb_path item))"

record recycle_dialog =
  rd_open :: bool
  rd_title :: string
  rd_count :: nat
  rd_lines :: "(string \<times> string) list"
  rd_buttons :: "recycle_control list"

definition restore_confirmation :: "recycle_page \<Rightarrow> recycle_dialog" where
  "restore_confirmation s =
     \<lparr>rd_open = rs_restore_dialog s, rd_title = ''buckets.recycleBin.restoreConfirmTitle'',
      rd_count = length (rs_pending_restore s), rd_lines = map (item_line s) (rs_pending_restore s),
      rd_buttons =
        [\<lparr>rc_label = ''common.cancel'', rc_disabled = rs_restoring s, rc_spinner = False,
          rc_action = Press (RestoreDialog False)\<rparr>,
         \<lparr>rc_label = ''buckets.recycleBin.restore'', rc_disabled = rs_restoring s, rc_spinner = rs_restoring s,
          rc_action = Start (handleRestore s)\<rparr>]\<rparr>"

definition delete_confirmation :: "recycle_page \<Rightarrow> recycle_dialog" where
  "delete_confirmation s =
     \<lparr>rd_open = rs_delete_dialog s, rd_title = ''buckets.recycleBin.deleteConfirmTitle'',
      rd_count = length (rs_pending_delete s), rd_lines = map (item_line s) (rs_pending_delete s),
      rd_buttons =
        [\<lparr>rc_label = ''common.cancel'', rc_disabled = rs_deleting s, rc_spinner = False,
          rc_action = Press (DeleteDialog False)\<rparr>,
         \<lparr>rc_label = ''buckets.recycleBin.delete'', rc_disabled = rs_deleting s, rc_spinner = rs_deleting s,
          rc_action = Start (handleDelete s)\<rparr>]\<rparr>"

text \<open>What could not be restored: where it is, and the reason in the language of the page.\<close>

definition failed_line :: "(failure_reason \<Rightarrow> string) \<Rightarrow> (string \<Rightarrow> string) \<Rightarrow> recycle_page \<Rightarrow> recycle_bin_failed_item \<Rightarrow> string \<times> string" where
  "failed_line texts t s item =
     (item_place s (rbf_bucket_name item) (rbf_path item),
      if rbf_message item \<noteq> [] then translateRecycleBinFailureReason texts (rbf_code item) (rbf_message item)
      else t ''buckets.recycleBin.restoreFailedUnknownMessage'')"

definition failure_dialog :: "(failure_reason \<Rightarrow> string) \<Rightarrow> (string \<Rightarrow> string) \<Rightarrow> recycle_page \<Rightarrow> recycle_dialog" where
  "failure_dialog texts t s =
     \<lparr>rd_open = rs_failed_dialog s, rd_title = ''buckets.recycleBin.restoreFailedTitle'',
      rd_count = length (rs_failed s), rd_lines = map (failed_line texts t s) (rs_failed s),
      rd_buttons =
        [\<lparr>rc_label = ''common.close'', rc_disabled = False, rc_spinner = False,
          rc_action = Press (FailedDialog False)\<rparr>]\<rparr>"

section \<open>All buttons\<close>

definition dialog_buttons :: "recycle_dialog \<Rightarrow> recycle_control list" where
  "dialog_buttons d = (if rd_open d then rd_buttons d else [])"

definition recycle_controls ::
  "(failure_reason \<Rightarrow> string) \<Rightarrow> (string \<Rightarrow> string) \<Rightarrow> recycle_page \<Rightarrow> recycle_control list" where
  "recycle_controls texts t s =
     concat (map rw_buttons (recycle_rows_shown s)) @ recycle_bulk_buttons s @ recycle_pager_buttons s @
     dialog_buttons (restore_confirmation s) @ dialog_buttons (failure_dialog texts t s) @
     dialog_buttons (delete_confirmation s)"

section \<open>The machine that the buttons start\<close>

fun recycle_runs :: "recycle_action \<Rightarrow> unit recycle_task" where
  "recycle_runs (Press ev) = Update (recycle_event_step ev) (Return ())"
| "recycle_runs (Start t) = t"

text \<open>
  What else happens: the trigger, the boxes, a dialog dismissed without a button, and the world
  around the dialog. No confirmation is asked for, and none is opened.
\<close>

fun from_outside :: "recycle_event \<Rightarrow> bool" where
  "from_outside (AskRestore its) = False"
| "from_outside (AskDelete its) = False"
| "from_outside (RestoreDialog b) = (\<not> b)"
| "from_outside (FailedDialog b) = (\<not> b)"
| "from_outside (DeleteDialog b) = (\<not> b)"
| "from_outside ev = True"

inductive recycle_presses :: "recycle_page \<Rightarrow> unit recycle_task \<Rightarrow> bool" where
  button: "c \<in> set (recycle_controls texts t s) \<Longrightarrow> \<not> rc_disabled c \<Longrightarrow> recycle_presses s (recycle_runs (rc_action c))"
| outside: "from_outside ev \<Longrightarrow> recycle_presses s (Update (recycle_event_step ev) (Return ()))"
| restored: "callback_task (restoreMutation r) task \<Longrightarrow> recycle_presses s task"
| deleted: "callback_task (deleteMutation r) task \<Longrightarrow> recycle_presses s task"

inductive_cases recycle_pressesE: "recycle_presses s task"

text \<open>The invariant: a dialog is open exactly while it has something to show.\<close>

definition dialogs_filled :: "recycle_page \<Rightarrow> bool" where
  "dialogs_filled s \<longleftrightarrow>
     (rs_restore_dialog s \<longleftrightarrow> rs_pending_restore s \<noteq> []) \<and>
     (rs_delete_dialog s \<longleftrightarrow> rs_pending_delete s \<noteq> []) \<and>
     (rs_failed_dialog s \<longleftrightarrow> rs_failed s \<noteq> [])"

lemma dialogs_filled_simps [simp]:
  "dialogs_filled (s\<lparr>rs_selected := x1\<rparr>) = dialogs_filled s"
  "dialogs_filled (s\<lparr>rs_open := x2\<rparr>) = dialogs_filled s"
  "dialogs_filled (s\<lparr>rs_cursor := x3\<rparr>) = dialogs_filled s"
  "dialogs_filled (s\<lparr>rs_history := x4\<rparr>) = dialogs_filled s"
  "dialogs_filled (s\<lparr>rs_bucket := x5\<rparr>) = dialogs_filled s"
  "dialogs_filled (s\<lparr>rs_settings := x6\<rparr>) = dialogs_filled s"
  "dialogs_filled (s\<lparr>rs_cache := x7\<rparr>) = dialogs_filled s"
  "dialogs_filled (s\<lparr>rs_fetching := x8\<rparr>) = dialogs_filled s"
  "dialogs_filled (s\<lparr>rs_error := x9\<rparr>) = dialogs_filled s"
  "dialogs_filled (s\<lparr>rs_restoring := x10\<rparr>) = dialogs_filled s"
  "dialogs_filled (s\<lparr>rs_deleting := x11\<rparr>) = dialogs_filled s"
  "dialogs_filled (recycle_toast m s) = dialogs_filled s"
  "dialogs_filled (removeRecycleBinItemsFromCache b its s) = dialogs_filled s"
  "dialogs_filled (clear_recycle_state s)"
  by (simp_all add: dialogs_filled_def recycle_toast_def removeRecycleBinItemsFromCache_def clear_recycle_state_def)

lemma filled_asks:
  "its \<noteq> [] \<Longrightarrow> dialogs_filled s \<Longrightarrow> dialogs_filled (openRestoreConfirmation its s)"
  "its \<noteq> [] \<Longrightarrow> dialogs_filled s \<Longrightarrow> dialogs_filled (openDeleteConfirmation its s)"
  by (simp_all add: dialogs_filled_def openRestoreConfirmation_def openDeleteConfirmation_def)

lemma filled_dismissed:
  "dialogs_filled s \<Longrightarrow> dialogs_filled (restoreDialogChange False s)"
  "dialogs_filled s \<Longrightarrow> dialogs_filled (deleteDialogChange False s)"
  "dialogs_filled s \<Longrightarrow> dialogs_filled (failedDialogChange False s)"
  by (simp_all add: dialogs_filled_def restoreDialogChange_def deleteDialogChange_def failedDialogChange_def)

lemma filled_outside: "from_outside ev \<Longrightarrow> dialogs_filled s \<Longrightarrow> dialogs_filled (recycle_event_step ev s)"
  by (cases ev) (simp_all add: filled_dismissed handleOpenChange_def handleSelectAllItems_def handleSelectRow_def
      handleRecycleNext_def recycle_forward_def handleRecyclePrev_def Let_def)

lemma filled_commit: "dialogs_filled s \<Longrightarrow> dialogs_filled (recycle_commit old s)"
  by (simp add: recycle_commit_def Let_def)

lemma filled_answers:
  "dialogs_filled now \<Longrightarrow> dialogs_filled (apply_restore s its r now)"
  "dialogs_filled now \<Longrightarrow> dialogs_filled (apply_delete its r' now)"
  by (simp_all add: apply_restore_def apply_delete_def Let_def)
    (simp_all add: dialogs_filled_def recycle_toast_def)

text \<open>A button that asks brings rows; every other one is an event from outside or a handler.\<close>

fun proper_action :: "recycle_page \<Rightarrow> recycle_action \<Rightarrow> bool" where
  "proper_action s (Press (AskRestore its)) = (its \<noteq> [])"
| "proper_action s (Press (AskDelete its)) = (its \<noteq> [])"
| "proper_action s (Press ev) = from_outside ev"
| "proper_action s (Start task) =
     (task \<in> {handleRestore s, handleDelete s, invalidateQueries [recycle_base_key s]})"

lemma button_proper: "c \<in> set (recycle_controls texts t s) \<Longrightarrow> proper_action s (rc_action c)"
  by (auto simp: recycle_controls_def recycle_rows_shown_def recycle_row_view_def recycle_bulk_buttons_def
      recycle_pager_buttons_def dialog_buttons_def restore_confirmation_def delete_confirmation_def
      failure_dialog_def Let_def split: recycle_body.splits if_splits)

lemma filled_action:
  "proper_action s a \<Longrightarrow> dialogs_filled s \<Longrightarrow> safe dialogs_filled (recycle_runs a) s"
  by (induction s a rule: proper_action.induct)
     (auto simp: filled_asks filled_outside handleRestore_def handleDelete_def simp del: recycle_event_step.simps(1-6,9-15))

lemma filled_presses: "recycle_presses s task \<Longrightarrow> dialogs_filled s \<Longrightarrow> safe dialogs_filled task s"
  by (erule recycle_pressesE)
     (auto simp: filled_action [OF button_proper] filled_outside restoreMutation_def deleteMutation_def
        invalidateAffectedQueries_def filled_answers elim!: callback_taskE
        intro!: safe_bind safe_api_call split: prod.splits)

interpretation recycle_dialogs: page_machine recycle_commit recycle_presses
    "recycle_initial settings bucket" dialogs_filled for settings bucket
  by unfold_locales (simp_all add: filled_commit filled_presses, simp add: dialogs_filled_def recycle_initial_def)

section \<open>What is confirmed\<close>

text \<open>A confirmation shows these rows, is open for no others, and its last button starts this.\<close>

definition confirms :: "recycle_dialog \<Rightarrow> recycle_page \<Rightarrow> recycle_bin_object_item list \<Rightarrow> recycle_mutation \<Rightarrow> bool" where
  "confirms d s its m \<longleftrightarrow>
     rd_open d = (its \<noteq> []) \<and> rd_count d = length its \<and> rd_lines d = map (item_line s) its \<and>
     (its = [] \<or> rc_action (last (rd_buttons d)) = Start (mutateAsync m))"

text \<open>
  C14. Confirming in the recycle bin. In every state that its buttons, the answers to its requests and
  the world around it lead to, each of the two confirmations is open exactly while rows wait for
  it, shows exactly those rows, and its confirming button asks for those and no others; the
  request carries their ids. The list of failures is open exactly while there are some. So no dialog is
  ever empty, and no button in it without effect.
\<close>

theorem recycle_confirms_what_it_lists:
  assumes "reachable_from recycle_commit recycle_presses (recycle_initial settings bucket) (s, js)"
  shows "confirms (restore_confirmation s) s (rs_pending_restore s) (RestoreM (rs_pending_restore s)) \<and>
    confirms (delete_confirmation s) s (rs_pending_delete s) (DeleteM (rs_pending_delete s)) \<and>
    rd_open (failure_dialog texts t s) = (rs_failed s \<noteq> []) \<and>
    rd_count (failure_dialog texts t s) = length (rs_failed s) \<and>
    fst (snd (exec (mutationFn (restoreMutation s) its) reply undisturbed n now)) =
      [SendHttp (HttpSend (createApiClient (rs_settings s))
        ((http_request POST ''/api/v1/recycle-bin/objects/restore'')\<lparr>hc_data := item_ids_data (map rb_id its)\<rparr>))] \<and>
    fst (snd (exec (mutationFn (deleteMutation s) its) reply undisturbed n now)) =
      [SendHttp (HttpSend (createApiClient (rs_settings s))
        ((http_request POST ''/api/v1/recycle-bin/objects/batch-delete'')\<lparr>hc_data := item_ids_data (map rb_id its)\<rparr>))]"
proof -
  have filled: "dialogs_filled s" using recycle_dialogs.reachable_inv [OF assms] by simp
  then have "confirms (restore_confirmation s) s (rs_pending_restore s) (RestoreM (rs_pending_restore s))"
    "confirms (delete_confirmation s) s (rs_pending_delete s) (DeleteM (rs_pending_delete s))"
    "rd_open (failure_dialog texts t s) = (rs_failed s \<noteq> [])"
    by (auto simp: confirms_def restore_confirmation_def delete_confirmation_def failure_dialog_def
        dialogs_filled_def handleRestore_def handleDelete_def)
  then show ?thesis
    by (simp add: failure_dialog_def restoreMutation_def deleteMutation_def exec_bind exec_api_call
        restoreRecycleBinObjects_def deleteRecycleBinObjects_def exec_apiRequest split: sum.split)
qed

text \<open>A row arrives and its restore button is pressed.\<close>

theorem recycle_confirms_what_it_lists_witness:
  "\<forall>it st. \<exists>s. rd_lines (restore_confirmation s) = [(rb_name it, rb_path it)] \<and>
     confirms (restore_confirmation s) s [it] (RestoreM [it])"
proof (intro allI)
  fix it :: recycle_bin_object_item and st
  let ?s0 = "recycle_initial st ''b''"
  let ?c = "[(recycle_key ?s0, \<lparr>rbl_items = [it], rbl_next_cursor = []\<rparr>)]"
  let ?s1 = "?s0\<lparr>rs_cache := ?c, rs_fetching := False, rs_error := False\<rparr>"
  let ?s2 = "openRestoreConfirmation [it] ?s1"
  let ?R = "reachable_from recycle_commit recycle_presses ?s0"
  have items: "recycle_items ?s1 = [it]" "recycle_items ?s2 = [it]"
    by (simp_all add: recycle_items_def recycle_data_def recycle_key_def recycle_base_key_def
        openRestoreConfirmation_def)
  have "recycle_commit ?s0 ?s1 = ?s1"
    by (simp add: recycle_commit_def Let_def prune_def recycle_initial_def)
  moreover have "machine_step recycle_commit recycle_presses (?s0, []) (recycle_commit ?s0 ?s1, [] @ [])"
    by (rule machine_step.start, rule recycle_presses.outside [of "CacheChanged ?c False False"]) simp_all
  ultimately have r1: "?R (?s1, [])" using reachable_from.step [OF reachable_from.initial] by fastforce
  have "hd (rw_buttons (recycle_row_view ?s1 it)) \<in> set (recycle_controls failure_text (\<lambda>k. k) ?s1)"
    by (simp add: recycle_controls_def recycle_rows_shown_def recycle_view_def items)
      (simp add: recycle_initial_def recycle_row_view_def Let_def)
  from recycle_presses.button [OF this]
  have "recycle_presses ?s1 (Update (recycle_event_step (AskRestore [it])) (Return ()))"
    by (simp add: recycle_row_view_def Let_def recycle_initial_def)
  then have "machine_step recycle_commit recycle_presses (?s1, []) (recycle_commit ?s1 ?s2, [] @ [])"
    by (rule machine_step.start) simp
  moreover have "recycle_commit ?s1 ?s2 = ?s2"
    by (simp add: recycle_commit_def items openRestoreConfirmation_def)
  ultimately have "?R (?s2, [])" using reachable_from.step [OF r1] by fastforce
  from recycle_confirms_what_it_lists [OF this, of failure_text "\<lambda>k. k" "[]" "\<lambda>_. \<lparr>rep_http = Inl (ThrownOther None), rep_done = Inr ()\<rparr>" 0 ?s2]
  have "confirms (restore_confirmation ?s2) ?s2 [it] (RestoreM [it])"
    by (simp add: openRestoreConfirmation_def)
  moreover have "rd_lines (restore_confirmation ?s2) = [(rb_name it, rb_path it)]"
  proof -
    have "trim ''b'' \<noteq> []" by code_simp
    then show ?thesis
      by (simp add: restore_confirmation_def openRestoreConfirmation_def item_line_def item_place_def
          showBucketColumn_def recycle_initial_def)
  qed
  ultimately show "\<exists>s. rd_lines (restore_confirmation s) = [(rb_name it, rb_path it)] \<and>
     confirms (restore_confirmation s) s [it] (RestoreM [it])" by blast
qed

end
