(* ===== verification/Routes.thy ===== *)
theory Routes
  imports Shell
begin

text \<open>
  Model of \<open>frontend/src/routes/AppRoutes.tsx\<close> and of the links that lead through the program: the
  table of routes, the redirect, the page that is kept alive per bucket, the cards' links and the
  button for the documentation. How a pattern matches a path is the router's; what the table relies
  on is stated as a hypothesis about the program's own paths.
\<close>

section \<open>Routes\<close>

datatype page_kind = DashboardKind | DocsKind | SettingsKind | BucketsKind | ObjectsKind | SitesKind

datatype route_element = NavigateTo string | PageElement page_kind

definition app_routes :: "(string \<times> route_element) list" where
  "app_routes =
     [(''/'', NavigateTo ''/dashboard''),
      (''/dashboard'', PageElement DashboardKind),
      (''/docs'', PageElement DocsKind),
      (''/settings'', PageElement SettingsKind),
      (''/buckets'', PageElement BucketsKind),
      (''/buckets/:bucket'', PageElement ObjectsKind),
      (''/sites'', PageElement SitesKind)]"

text \<open>What a pattern binds in a path, if it matches.\<close>

type_synonym route_matcher = "string \<Rightarrow> string \<Rightarrow> (string \<Rightarrow> string option) option"

definition match_routes ::
  "route_matcher \<Rightarrow> string \<Rightarrow> (route_element \<times> (string \<Rightarrow> string option)) list" where
  "match_routes matches pathname =
     List.map_filter (\<lambda>(pattern, element). map_option (\<lambda>params. (element, params)) (matches pattern pathname))
       app_routes"

text \<open>The page in the outlet; the one for the objects is cached under the name of its bucket.\<close>

record shown_page =
  pg_kind :: page_kind
  pg_bucket :: "string option"
  pg_cache_key :: "string option"
  pg_cache_id :: string

definition BucketObjectsKeepAlive :: "(string \<Rightarrow> string option) \<Rightarrow> shown_page" where
  "BucketObjectsKeepAlive params =
     \<lparr>pg_kind = ObjectsKind, pg_bucket = params ''bucket'', pg_cache_key = Some ''bucket-objects'',
      pg_cache_id = nullish (params ''bucket'') []\<rparr>"

definition page_element :: "page_kind \<Rightarrow> (string \<Rightarrow> string option) \<Rightarrow> shown_page" where
  "page_element kind params =
     (if kind = ObjectsKind then BucketObjectsKeepAlive params
      else \<lparr>pg_kind = kind, pg_bucket = params ''bucket'', pg_cache_key = None, pg_cache_id = []\<rparr>)"

text \<open>Where a location ends, and the page there: a redirect replaces the location.\<close>

definition settle_path :: "route_matcher \<Rightarrow> string \<Rightarrow> string" where
  "settle_path matches pathname =
     (case match_routes matches pathname of
        (NavigateTo target, _) # _ \<Rightarrow> target
      | _ \<Rightarrow> pathname)"

definition page_at :: "route_matcher \<Rightarrow> string \<Rightarrow> shown_page option" where
  "page_at matches pathname =
     (case match_routes matches pathname of
        (PageElement kind, params) # _ \<Rightarrow> Some (page_element kind params)
      | _ \<Rightarrow> None)"

section \<open>Links\<close>

definition bucket_link :: "string \<Rightarrow> string" where
  "bucket_link bucketName = ''/buckets/'' @ bucketName"

text \<open>The button for the documentation, unless its own click handler prevented it.\<close>

definition book_click :: "bool \<Rightarrow> string option" where
  "book_click defaultPrevented = (if \<not> defaultPrevented then Some ''/docs'' else None)"

section \<open>What the router is relied on for\<close>

text \<open>A name that stands for itself in a path: as the server demands of buckets.\<close>

definition plain_name :: "string \<Rightarrow> bool" where
  "plain_name name \<longleftrightarrow> name \<noteq> [] \<and> list_all (\<lambda>c. c \<notin> {slash, CHR ''%'', CHR ''?'', CHR ''#'', CHR '':''}) name"

text \<open>
  On the program's own paths a pattern without parameters matches itself and nothing else, and
  the pattern of the objects page matches one plain segment and binds it.
\<close>

definition matches_paths :: "route_matcher \<Rightarrow> bool" where
  "matches_paths matches \<longleftrightarrow>
     (\<forall>pattern \<in> fst ` set app_routes. \<forall>path \<in> fst ` set app_routes - {''/buckets/:bucket''}.
        matches pattern path = (if pattern = path then Some (\<lambda>_. None) else None)) \<and>
     (\<forall>pattern \<in> fst ` set app_routes. \<forall>name. plain_name name \<longrightarrow>
        matches pattern (bucket_link name) =
          (if pattern = ''/buckets/:bucket'' then Some ((\<lambda>_. None)(''bucket'' \<mapsto> name)) else None))"

section \<open>Every link leads to its page\<close>

lemma routes_at_path:
  assumes "matches_paths matches"
  shows "match_routes matches ''/'' = [(NavigateTo ''/dashboard'', \<lambda>_. None)]"
    and "match_routes matches ''/dashboard'' = [(PageElement DashboardKind, \<lambda>_. None)]"
    and "match_routes matches ''/docs'' = [(PageElement DocsKind, \<lambda>_. None)]"
    and "match_routes matches ''/settings'' = [(PageElement SettingsKind, \<lambda>_. None)]"
    and "match_routes matches ''/buckets'' = [(PageElement BucketsKind, \<lambda>_. None)]"
    and "match_routes matches ''/sites'' = [(PageElement SitesKind, \<lambda>_. None)]"
    and "plain_name name \<Longrightarrow> match_routes matches (bucket_link name) =
      [(PageElement ObjectsKind, (\<lambda>_. None)(''bucket'' \<mapsto> name))]"
  using assms by (simp_all add: match_routes_def matches_paths_def app_routes_def map_filter_def)

text \<open>What a location shows: the page with its bucket, the breadcrumbs, and the active entries of the side bar.\<close>

definition location_shows ::
  "route_matcher \<Rightarrow> app_sidebar \<Rightarrow> string \<Rightarrow> page_kind \<times> string option \<times> string list \<times> string list \<Rightarrow> bool" where
  "location_shows matches bar path expected \<longleftrightarrow>
     (let path' = settle_path matches path
      in case page_at matches path' of
           None \<Rightarrow> False
         | Some pg \<Rightarrow>
             expected = (pg_kind pg, pg_bucket pg, map cr_label (buildBreadcrumbs path' (pg_bucket pg)),
               map ni_title (filter ni_active (nav_main (bar\<lparr>as_pathname := path'\<rparr>)))))"


text \<open>A matcher that does as the hypothesis says.\<close>

definition segment_matcher :: route_matcher where
  "segment_matcher pattern path =
     (if pattern = ''/buckets/:bucket''
      then if starts_with path ''/buckets/'' \<and> plain_name (drop 9 path)
           then Some ((\<lambda>_. None)(''bucket'' \<mapsto> drop 9 path)) else None
      else if pattern = path then Some (\<lambda>_. None) else None)"


end
