(* ===== verification/CardViews.thy ===== *)
theory CardViews
  imports PageViews SitesPage Routes Chinese
begin

text \<open>
  The card of a bucket with the dialog that deletes it
  (\<open>frontend/src/features/buckets/BucketCard.tsx\<close>), the buttons and headers of the table of sites
  (\<open>pages/SitesPage.tsx\<close>) with the confirmation of a deletion, and the menu of languages
  (\<open>components/LocaleToggle.tsx\<close>).
\<close>

section \<open>The card of a bucket\<close>

record card_view =
  cv_links :: "(string \<times> string) list"
  cv_pin_label :: message_text
  cv_pin_bucket :: string
  cv_pin_pressed :: bool
  cv_pin_tooltip :: string
  cv_pin_click :: int
  cv_hint :: string
  cv_dates :: "(string \<times> string) list"

definition BucketCard :: "bucket_card \<Rightarrow> card_view" where
  "BucketCard c =
     (let b = bc_bucket c; pinned = bc_pinned c
      in \<lparr>cv_links = [(bucket_name b, bucket_link (bucket_name b)), (''common.open'', bucket_link (bucket_name b))],
          cv_pin_label = Key (if pinned then ''buckets.pin.removeLabel'' else ''buckets.pin.addLabel'') [],
          cv_pin_bucket = bucket_name b, cv_pin_pressed = pinned,
          cv_pin_tooltip = (if pinned then ''buckets.pin.remove'' else ''buckets.pin.add''),
          cv_pin_click = bucket_id b, cv_hint = ''buckets.list.openHint'',
          cv_dates = [(''buckets.table.createdAt'', bucket_created_at b),
                      (''buckets.table.updatedAt'', bucket_updated_at b)]\<rparr>)"

record delete_bucket_panel =
  dbp_open :: bool
  dbp_trigger_disabled :: bool
  dbp_title :: string
  dbp_name :: string
  dbp_sites :: "(string \<times> string) list option"
  dbp_form :: "delete_bucket_dialog form_view"

definition DeleteBucketButton :: "bucket_card \<Rightarrow> delete_bucket_dialog \<Rightarrow> delete_bucket_panel" where
  "DeleteBucketButton c d =
     \<lparr>dbp_open = db_open d, dbp_trigger_disabled = bc_delete_disabled c, dbp_title = ''buckets.delete.title'',
      dbp_name = bucket_name (bc_bucket c),
      dbp_sites = (if length (bc_sites c) > 0 then Some (delete_bucket_sites (bc_sites c)) else None),
      dbp_form = delete_bucket_view (bucket_name (bc_bucket c)) (bc_delete_pending c) d\<rparr>"

section \<open>The table of sites\<close>

definition sites_headers :: "string list" where
  "sites_headers =
     [''sites.table.domains'', ''sites.table.bucket'', ''sites.table.rootPrefix'', ''sites.table.enabled'',
      ''sites.table.indexDocument'', ''sites.table.spaFallback'', ''sites.table.updatedAt'',
      ''sites.table.actions'']"

text \<open>The two buttons over the table, and the forms they open.\<close>

record sites_actions =
  sa_upload_label :: string
  sa_upload :: publish_props
  sa_create_label :: string
  sa_create :: site_form_props
  sa_disabled :: bool

definition sites_toolbar :: "bool \<Rightarrow> bool \<Rightarrow> sites_page \<Rightarrow> sites_actions" where
  "sites_toolbar uploading creating s =
     \<lparr>sa_upload_label = ''sites.actions.uploadAndPublish'', sa_upload = sites_publish_props s uploading,
      sa_create_label = ''sites.actions.create'', sa_create = create_site_props s creating,
      sa_disabled = (lq_loading (sp_buckets s) \<or> length (page_buckets s) = 0)\<rparr>"

record delete_site_dialog =
  dsd_title :: string
  dsd_domain :: string
  dsd_spinner :: bool
  dsd_confirm :: "unit sites_task"

definition DeleteSiteButton :: "bool \<Rightarrow> site \<Rightarrow> delete_site_dialog" where
  "DeleteSiteButton pending x =
     \<lparr>dsd_title = ''sites.delete.title'', dsd_domain = nullish (array_first (site_domains x)) (site_bucket x),
      dsd_spinner = pending, dsd_confirm = handleDeleteSite (site_id x)\<rparr>"

record site_row_actions =
  sra_updated_at :: string
  sra_edit_label :: string
  sra_edit :: site_form_props
  sra_submit :: "site_form_value \<Rightarrow> unit sites_task"
  sra_delete :: delete_site_dialog

definition site_actions :: "bool \<Rightarrow> bool \<Rightarrow> sites_page \<Rightarrow> site \<Rightarrow> site_row_actions" where
  "site_actions updating deleting s x =
     \<lparr>sra_updated_at = site_updated_at x, sra_edit_label = ''common.edit'',
      sra_edit = edit_site_props s updating x, sra_submit = handleUpdateSite (site_id x),
      sra_delete = DeleteSiteButton deleting x\<rparr>"

section \<open>The menu of languages\<close>

definition localeOptions :: "(app_locale \<times> wide_text) list" where
  "localeOptions = [(ZhCN, [Uni [0x7B80, 0x4F53, 0x4E2D, 0x6587]]), (EnUS, [Lat ''English''])]"

record locale_item =
  li_text :: wide_text
  li_current :: bool
  li_select :: "app_preferences \<Rightarrow> app_preferences"

record locale_menu =
  lm_label :: string
  lm_trigger :: string
  lm_items :: "locale_item list"

definition LocaleToggle :: "app_preferences \<Rightarrow> locale_menu" where
  "LocaleToggle p =
     \<lparr>lm_label = ''header.compactLanguageSwitch'',
      lm_trigger = (if pref_locale p = ZhCN then ''locale.zh'' else ''locale.en''),
      lm_items = map (\<lambda>(value, label). \<lparr>li_text = label, li_current = (pref_locale p = value),
        li_select = setLocale value\<rparr>) localeOptions\<rparr>"

end
