(* ===== verification/PinBoard.thy ===== *)
theory PinBoard
  imports Pins
begin

text \<open>
  The abstract specification of the pinned buckets: a board that holds, for every service, the
  list of its pinned ids, knows which service is shown and whether the browser lets the page read
  and write, and counts the complaints.  The hook of \<open>usePinnedBuckets.ts\<close>, with its JSON
  texts, its mirrored state and its keys of several renders, implements it step by step.
\<close>

section \<open>The board\<close>

record pin_board =
  pb_shown :: string
  pb_pins :: "string \<Rightarrow> int list"
  pb_readable :: bool
  pb_writable :: bool
  pb_complaints :: nat

definition board_complain :: "pin_board \<Rightarrow> pin_board" where
  "board_complain b = b\<lparr>pb_complaints := Suc (pb_complaints b)\<rparr>"

text \<open>
  A change of the pins of one service: it needs a browser that can be read, nothing happens when
  nothing would change, and otherwise it needs a browser that can be written.
\<close>

definition board_change :: "string \<Rightarrow> (int list \<Rightarrow> int list) \<Rightarrow> pin_board \<Rightarrow> pin_board" where
  "board_change key f b =
     (if \<not> pb_readable b then board_complain b
      else if f (pb_pins b key) = pb_pins b key then b
      else if \<not> pb_writable b then board_complain b
      else b\<lparr>pb_pins := (pb_pins b)(key := f (pb_pins b key))\<rparr>)"

primrec board_step :: "pin_event \<Rightarrow> pin_board \<Rightarrow> pin_board" where
  "board_step (TogglePin u i) b = board_change (pins_key u) (toggle_ids i) b"
| "board_step (RemovePin u i) b = board_change (pins_key u) (filter (\<lambda>v. v \<noteq> i)) b"
| "board_step (ReconcilePins u ids) b = board_change (pins_key u) (filter (\<lambda>i. i \<in> set ids)) b"
| "board_step (RenderPins u) b =
     (if pins_key u = pb_shown b then b
      else (if pb_readable b then (\<lambda>x. x) else board_complain) (b\<lparr>pb_shown := pins_key u\<rparr>))"
| "board_step (StorageMode r w) b = b\<lparr>pb_readable := r, pb_writable := w\<rparr>"

text \<open>The abstraction: what every key of the storage would be read as.\<close>

definition board_of :: "pins_page \<Rightarrow> pin_board" where
  "board_of p =
     \<lparr>pb_shown = ps_key (pp_state p), pb_pins = stored_pins p,
      pb_readable = readable (pp_storage p), pb_writable = writable (pp_storage p),
      pb_complaints = pp_toasts p\<rparr>"

section \<open>Lemmas\<close>

lemma stored_pins_cong: "items (pp_storage p) = items (pp_storage q) \<Longrightarrow> stored_pins p = stored_pins q"
  by (rule ext) (simp add: stored_pins_def)

lemma stored_pins_valid: "valid_pins (stored_pins p key)"
  by (simp add: stored_pins_def pins_cell.parse_valid)

lemma stored_pins_written:
  assumes "setItem key (pins_json ids) (pp_storage p) = Inr st" and "valid_pins ids" and "pp_storage q = st"
  shows "stored_pins q = (stored_pins p)(key := ids)"
proof (rule ext)
  fix k
  show "stored_pins q k = ((stored_pins p)(key := ids)) k"
    using assms pins_cell.saved_then_loaded [OF assms(2,1)] pins_cell.other_key_kept [OF assms(1)]
    by (simp add: stored_pins_def)
qed

text \<open>One lemma for the three callbacks: they implement the change of the board.\<close>

lemma updatePins_refines:
  assumes "\<And>ids. valid_pins ids \<Longrightarrow> valid_pins (f ids)"
  shows "board_of (updatePins key f p) = board_change key f (board_of p)"
proof -
  let ?ids = "stored_pins p key"
  have v: "valid_pins (f ?ids)" using assms stored_pins_valid by blast
  have read: "readPinnedIds key (pp_storage p) = Inr ?ids" if "readable (pp_storage p)"
    using that by (simp add: readPinnedIds_def getItem_def stored_pins_def)
  consider "\<not> readable (pp_storage p)" | "readable (pp_storage p)" "f ?ids = ?ids"
    | "readable (pp_storage p)" "f ?ids \<noteq> ?ids" "\<not> writable (pp_storage p)"
    | "readable (pp_storage p)" "f ?ids \<noteq> ?ids" "writable (pp_storage p)" by blast
  then show ?thesis
  proof cases
    case 1
    then show ?thesis
      by (simp add: updatePins_def readPinnedIds_def getItem_def board_of_def board_change_def
          board_complain_def stored_pins_cong [of "p\<lparr>pp_toasts := t\<rparr>" p for t])
  next
    case 2
    then show ?thesis by (simp add: updatePins_def read board_of_def board_change_def)
  next
    case 3
    then show ?thesis
      by (simp add: updatePins_def read setItem_def Let_def board_of_def board_change_def
          board_complain_def stored_pins_cong [of "p\<lparr>pp_toasts := t\<rparr>" p for t])
  next
    case 4
    then obtain st where st: "setItem key (pins_json (f ?ids)) (pp_storage p) = Inr st"
        "readable st" "writable st"
      by (simp add: setItem_def)
    let ?q = "updatePins key f p"
    have q: "pp_storage ?q = st" "pp_toasts ?q = pp_toasts p" "ps_key (pp_state ?q) = ps_key (pp_state p)"
      using 4 st(1) by (simp_all add: updatePins_def read Let_def)
    show ?thesis
      using 4 st q stored_pins_written [OF st(1) v q(1)] by (simp add: board_of_def board_change_def)
  qed
qed

lemma render_pins_refines: "board_of (render_pins u p) = board_step (RenderPins u) (board_of p)"
proof -
  have "stored_pins (notify_read_failure (p\<lparr>pp_state := s\<rparr>)) = stored_pins p" for s
    by (rule stored_pins_cong) (simp add: notify_read_failure_def)
  then show ?thesis
    by (auto simp: render_pins_def board_of_def board_complain_def loadPins_def readPinnedIds_def
        getItem_def notify_read_failure_def)
qed

lemma pin_step_refines: "event_ok e \<Longrightarrow> board_of (pin_step e p) = board_step e (board_of p)"
proof (cases e)
  case (StorageMode r w)
  have "stored_pins (pin_step e p) = stored_pins p"
    by (rule stored_pins_cong) (simp add: StorageMode)
  with StorageMode show ?thesis by (simp add: board_of_def)
qed (simp_all add: togglePin_def removePin_def reconcilePins_def updatePins_refines
    valid_pins_filter valid_pins_toggle render_pins_refines del: board_step.simps(4))

lemma pin_steps_refine:
  "list_all event_ok es \<Longrightarrow> board_of (fold pin_step es p) = fold board_step es (board_of p)"
  by (induction es arbitrary: p) (simp_all add: pin_step_refines)

section \<open>Properties\<close>

text \<open>
  C11. The pinned buckets implement the board: through any sequence of pinning, unpinning,
  reconciling, changes of service and storage failures the storage, read with the keys of the
  services, is the board run with the same events, one complaint is shown for each event that the
  board complains about, the ids shown are distinct positive safe integers, and unless the last
  read failed they are the board's list of the service shown.
\<close>

theorem pins_refine_board:
  assumes "list_all event_ok es"
  shows "let start = mount_pins baseUrl st; p = fold pin_step es start
    in board_of p = fold board_step es (board_of start) \<and> valid_pins (ps_ids (pp_state p)) \<and>
       (ps_read_failed (pp_state p) \<or>
        ps_ids (pp_state p) =
          (let b = fold board_step es (board_of start) in pb_pins b (pb_shown b)))"
proof -
  let ?p = "fold pin_step es (mount_pins baseUrl st)"
  have "board_of ?p = fold board_step es (board_of (mount_pins baseUrl st))"
    by (rule pin_steps_refine [OF assms])
  moreover have "pins_inv ?p" by (rule pin_steps_inv [OF mount_inv assms])
  ultimately show ?thesis by (auto simp: Let_def pins_inv_def board_of_def dest: sym)
qed

theorem pins_refine_board_witness:
  "let p = fold pin_step
       [TogglePin ''http://a/'' 3, StorageMode True False, TogglePin ''http://a'' 5, StorageMode True True,
        TogglePin ''http://b'' 7, RemovePin ''http://b'' 4]
       (mount_pins ''http://a'' \<lparr>items = \<lambda>_. None, readable = True, writable = True\<rparr>)
   in pp_toasts p = 1 \<and> stored_pins p (pins_key ''http://a'') = [3] \<and>
      stored_pins p (pins_key ''http://b'') = [7]"
proof -
  let ?es = "[TogglePin ''http://a/'' 3, StorageMode True False, TogglePin ''http://a'' 5,
     StorageMode True True, TogglePin ''http://b'' 7, RemovePin ''http://b'' 4]"
  let ?start = "mount_pins ''http://a'' \<lparr>items = \<lambda>_. None, readable = True, writable = True\<rparr>"
  let ?b = "fold board_step ?es (board_of ?start)"
  have "list_all event_ok ?es" by (simp add: safe_id_def)
  from pins_refine_board [OF this, of "''http://a''" "\<lparr>items = \<lambda>_. None, readable = True, writable = True\<rparr>"]
  have "board_of (fold pin_step ?es ?start) = ?b" by (simp only: Let_def)
  then have "pp_toasts (fold pin_step ?es ?start) = pb_complaints ?b"
    "stored_pins (fold pin_step ?es ?start) = pb_pins ?b"
    by (metis board_of_def pin_board.select_convs(5), metis board_of_def pin_board.select_convs(2))
  moreover have "pb_complaints ?b = 1" "pb_pins ?b (pins_key ''http://a'') = [3]"
    "pb_pins ?b (pins_key ''http://b'') = [7]"
    by code_simp+
  ultimately show ?thesis by (simp only: Let_def)
qed

end
