(* ===== verification/QueryKeys.thy ===== *)
theory QueryKeys
  imports ExplorerTasks RecycleBin BucketsPage SitesPage SettingsPage Dashboard "HOL-Library.Sublist"
begin

text \<open>
  The keys under which the pages share the cache of TanStack Query. Two questions matter: whether
  equal keys stand for equal requests, so that no page is given the answer to another question,
  and whether a successful change invalidates the keys of the listings it shows up in. The
  library invalidates every query whose key begins with the key it is given.
\<close>

section \<open>Model\<close>

text \<open>\<open>entriesQueryKey\<close>; the limit is a number in the program and its digits here.\<close>

definition entries_query_key :: "explorer_page \<Rightarrow> string list" where
  "entries_query_key s =
     entries_base_key s @
     [page_prefix s, page_search s, page_cursor s, nat_digits (page_limit s),
      sort_by_value (page_sort_by s), sort_order_value (page_sort_order s)]"

text \<open>The keys of the dashboard, and of the buckets offered by the page of sites.\<close>

definition dashboard_sites_key :: "dashboard_page \<Rightarrow> string list" where
  "dashboard_sites_key s = [''sites'', apiBaseUrl (da_settings s), bearerToken (da_settings s)]"

definition dashboard_stats_key :: "dashboard_page \<Rightarrow> string list" where
  "dashboard_stats_key s = [''system-stats'', apiBaseUrl (da_settings s), bearerToken (da_settings s)]"

definition sites_buckets_key :: "sites_page \<Rightarrow> string list" where
  "sites_buckets_key s =
     [''buckets'', apiBaseUrl (sites_page.sp_settings s), bearerToken (sites_page.sp_settings s)]"

section \<open>What a task refetches\<close>

text \<open>
  A key is refetched by a task when on every path through it, whatever the server answers, a key
  is invalidated that it begins with. The promise of \<open>invalidateQueries\<close> does not reject, which
  is how the library documents it: a refetch that fails is kept in its query.
\<close>

definition invalidates :: "'m page_io \<Rightarrow> string list \<Rightarrow> bool" where
  "invalidates q key = (case q of InvalidateQueries ks \<Rightarrow> \<exists>k\<in>set ks. prefix k key | _ \<Rightarrow> False)"

primrec refetches :: "('s, 'm, 'a) page_task \<Rightarrow> string list \<Rightarrow> bool" where
  "refetches (Return a) key = False"
| "refetches (Raise e) key = False"
| "refetches (Update f t) key = refetches t key"
| "refetches (Read g) key = (\<forall>s. refetches (g s) key)"
| "refetches (Await q g) key =
     (invalidates q key \<or> (\<forall>h. refetches (g \<lparr>rep_http = h, rep_done = Inr ()\<rparr>) key))"

lemma refetches_exec:
  assumes "\<And>k. rep_done (reply k) = Inr ()"
  shows "refetches t key \<Longrightarrow> exec t reply env n s = (s', tr, out) \<Longrightarrow> \<exists>q\<in>set tr. invalidates q key"
proof (induction t arbitrary: n s s' tr out)
  case (Read g)
  from Read.prems have "refetches (g s) key" "exec (g s) reply env n s = (s', tr, out)" by simp_all
  then show ?case by (rule Read.IH [OF rangeI])
next
  case (Await q g)
  from Await.prems(2) obtain tr' where tr: "tr = q # tr'"
    "exec (g (reply n)) reply env (Suc n) (env n s) = (s', tr', out)"
    by (auto simp: Let_def split: prod.splits)
  have ok: "\<lparr>rep_http = rep_http (reply n), rep_done = Inr ()\<rparr> = reply n"
    using assms by (intro page_reply.equality) simp_all
  show ?case
  proof (cases "invalidates q key")
    case True
    with tr(1) show ?thesis by simp
  next
    case False
    with Await.prems(1) have "refetches (g (reply n)) key"
      using ok by (metis refetches.simps(5))
    from Await.IH [OF rangeI this tr(2)] tr(1) show ?thesis by simp
  qed
qed auto

lemma refetches_await_done [simp]: "refetches (await_done q) key = invalidates q key"
  by (simp add: await_done_def)

lemma refetches_bind_await_done [simp]:
  "refetches (bind_task (await_done q) k) key = (invalidates q key \<or> refetches (k ()) key)"
  by (simp add: await_done_def)

lemma invalidates_simps [simp]:
  "invalidates (InvalidateQueries ks) key = (\<exists>k\<in>set ks. prefix k key)"
  by (simp add: invalidates_def)

lemma refetches_toast_then [simp]: "refetches (toast_then m t) key = refetches t key"
  by (simp add: toast_then_def)

section \<open>Keys and requests\<close>

lemma nat_digits_inj [simp]: "nat_digits m = nat_digits n \<longleftrightarrow> m = n"
  by (metis radix_digits_nat_digits option.inject)

lemma sort_by_value_inj [simp]: "sort_by_value a = sort_by_value b \<longleftrightarrow> a = b"
  by (cases a; cases b) simp_all

lemma sort_order_value_inj [simp]: "sort_order_value a = sort_order_value b \<longleftrightarrow> a = b"
  by (cases a; cases b) simp_all

lemma settings_eq: "apiBaseUrl a = apiBaseUrl b \<Longrightarrow> bearerToken a = bearerToken b \<Longrightarrow> (a :: app_settings) = b"
  by simp

lemma entries_query_key_eq:
  "entries_query_key s = entries_query_key t \<longleftrightarrow>
     ep_settings s = ep_settings t \<and> ep_bucket s = ep_bucket t \<and> page_prefix s = page_prefix t \<and>
     page_search s = page_search t \<and> page_cursor s = page_cursor t \<and> page_limit s = page_limit t \<and>
     page_sort_by s = page_sort_by t \<and> page_sort_order s = page_sort_order t"
  by (auto simp: entries_query_key_def entries_base_key_def intro: settings_eq)

lemma entries_base_key_prefix:
  "prefix (entries_base_key s) (entries_query_key t) \<longleftrightarrow>
     ep_settings t = ep_settings s \<and> ep_bucket t = ep_bucket s"
  by (auto simp: entries_query_key_def entries_base_key_def intro: settings_eq)

lemma explorer_key_prefix:
  "prefix (explorer_key settings bucket) (entries_query_key t) \<longleftrightarrow>
     ep_settings t = settings \<and> ep_bucket t = bucket"
  by (auto simp: entries_query_key_def entries_base_key_def explorer_key_def intro: settings_eq)

lemma sites_key_entries [simp]: "\<not> prefix (sites_key s) (entries_query_key t)"
  by (simp add: sites_key_def entries_query_key_def entries_base_key_def)

lemmas page_keys = buckets_base_key_def buckets_query_key_def sites_query_key_def sitesQueryKey_def
  sites_buckets_key_def dashboard_buckets_key_def dashboard_sites_key_def dashboard_stats_key_def
  system_stats_key_def sites_key_def

lemmas refetching_tasks = uploadMutation_def uploadFolderMutation_def createFolderMutation_def
  uploadAndPublishSiteMutation_def deleteFileMutation_def deleteFolderMutation_def
  updateVisibilityMutation_def publishObjectSiteMutation_def publishSiteMutation_def

lemma restore_refetches:
  "refetches (onSuccess (restoreMutation r) v (targets, Some result)) (entries_query_key t) \<longleftrightarrow>
     ep_settings t = rs_settings r \<and>
     ep_bucket t \<in> rb_bucket_name ` set (succeeded (rr_failed_items result) targets)"
  by (auto simp: restoreMutation_def the_result_def invalidateAffectedQueries_def explorer_key_prefix)

lemma recycle_delete_refetches:
  "refetches (onSuccess (deleteMutation r) v (targets, Some result)) (entries_query_key t) \<longleftrightarrow>
     ep_settings t = rs_settings r \<and>
     ep_bucket t \<in> rb_bucket_name ` set (succeeded (dr_failed_items result) targets)"
  "refetches (onSuccess (deleteMutation r) v (targets, Some result)) (recycle_key r') \<longleftrightarrow>
     rs_settings r' = rs_settings r \<and> rs_bucket r' = rs_bucket r"
  by (auto simp: deleteMutation_def the_result_def invalidateAffectedQueries_def explorer_key_prefix
      explorer_key_def recycle_key_def recycle_base_key_def entries_query_key_def entries_base_key_def
      intro: settings_eq)

section \<open>Properties\<close>




end
