(* ===== verification/ObjectTable.thy ===== *)
theory ObjectTable
  imports TextFormat PageTask SettingsPage
begin

text \<open>
  The flat table of objects (\<open>frontend/src/features/objects/ObjectTable.tsx\<close>): its rows, the
  download that the visibility of an object allows, and the confirmation of a deletion, which
  every row holds for itself. \<open>formatDate\<close> rests on the browser's \<open>Intl\<close> and is a parameter.
\<close>

section \<open>Model\<close>

record ('s, 'm) object_table_props =
  ot_items :: "object_item list"
  ot_on_delete :: "string \<Rightarrow> ('s, 'm, unit) page_task"
  ot_on_sign :: "string \<Rightarrow> ('s, 'm, unit) page_task"
  ot_public_url :: "string \<Rightarrow> string"
  ot_deleting_key :: string
  ot_signing_key :: string
  ot_bucket :: string

text \<open>A link for a public object, a button that asks for a signed address for a private one.\<close>

datatype ('s, 'm) download_control =
    DirectLink (link_href: string) (link_label: string)
  | SignButton (sign_disabled: bool) (sign_spinner: bool) (sign_label: string)
      (sign_click: "('s, 'm, unit) page_task")

record ('s, 'm) delete_object_dialog =
  oc_title :: string
  oc_description :: string
  oc_values :: "(string \<times> string) list"
  oc_confirm_label :: string
  oc_confirm :: "('s, 'm, unit) page_task"

record ('s, 'm) object_line =
  or_id :: int
  or_name :: string
  or_size :: string
  or_etag :: string
  or_badge :: "badge_variant \<times> string"
  or_created :: string
  or_download :: "('s, 'm) download_control"
  or_delete_disabled :: bool
  or_delete_label :: string
  or_dialog :: "('s, 'm) delete_object_dialog"

definition object_download :: "('s, 'm) object_table_props \<Rightarrow> object_item \<Rightarrow> ('s, 'm) download_control" where
  "object_download p item =
     (let key = oi_object_key item; signing = (ot_signing_key p = key)
      in if oi_visibility item = Public
         then DirectLink (ot_public_url p key) ''objects.actions.directDownload''
         else SignButton signing signing
                (if signing then ''objects.actions.signing'' else ''objects.actions.signedDownload'')
                (ot_on_sign p key))"

definition object_confirmation :: "('s, 'm) object_table_props \<Rightarrow> object_item \<Rightarrow> ('s, 'm) delete_object_dialog" where
  "object_confirmation p item =
     \<lparr>oc_title = ''objects.delete.title'', oc_description = ''objects.delete.description'',
      oc_values = [(''bucket'', ot_bucket p), (''objectKey'', oi_object_key item)],
      oc_confirm_label = ''common.delete'', oc_confirm = ot_on_delete p (oi_object_key item)\<rparr>"

definition object_row ::
  "(string \<Rightarrow> string) \<Rightarrow> ('s, 'm) object_table_props \<Rightarrow> object_item \<Rightarrow> ('s, 'm) object_line" where
  "object_row formatDate p item =
     (let isPublic = (oi_visibility item = Public); deleting = (ot_deleting_key p = oi_object_key item)
      in \<lparr>or_id = oi_id item, or_name = oi_object_key item, or_size = formatBytes (oi_size item),
          or_etag = take 12 (oi_etag item) @ ''...'',
          or_badge = (if isPublic then Secondary else Outline,
                      if isPublic then ''objects.visibility.public'' else ''objects.visibility.private''),
          or_created = formatDate (oi_created_at item), or_download = object_download p item,
          or_delete_disabled = deleting,
          or_delete_label = (if deleting then ''objects.actions.deleting'' else ''common.delete''),
          or_dialog = object_confirmation p item\<rparr>)"

definition object_headers :: "string list" where
  "object_headers =
     [''objects.table.key'', ''objects.table.size'', ''objects.table.etag'', ''objects.table.visibility'',
      ''objects.table.createdAt'', ''objects.table.actions'']"

record ('s, 'm) object_table =
  tb_title :: string
  tb_description :: string
  tb_total :: nat
  tb_headers :: "string list"
  tb_rows :: "('s, 'm) object_line list"

definition ObjectTable :: "(string \<Rightarrow> string) \<Rightarrow> ('s, 'm) object_table_props \<Rightarrow> ('s, 'm) object_table" where
  "ObjectTable formatDate p =
     \<lparr>tb_title = ''objects.table.title'', tb_description = ''objects.table.description'',
      tb_total = length (ot_items p), tb_headers = object_headers,
      tb_rows = map (object_row formatDate p) (ot_items p)\<rparr>"

text \<open>
  The confirmations in use: each row keeps whether its own is open, under the key of the row. A
  disabled trigger does not open it; both buttons close it, and only the second acts.
\<close>

datatype object_event = OpenDialog int | CancelDialog int | ConfirmDialog int | ClickSign int

definition row_with_id :: "('s, 'm) object_table \<Rightarrow> int \<Rightarrow> ('s, 'm) object_line option" where
  "row_with_id t i = array_find (\<lambda>r. or_id r = i) (tb_rows t)"

fun use_object_table ::
  "('s, 'm) object_table \<Rightarrow> object_event \<Rightarrow> int list \<Rightarrow> int list \<times> ('s, 'm, unit) page_task option" where
  "use_object_table t (OpenDialog i) opened =
     (case row_with_id t i of
        Some r \<Rightarrow> (if or_delete_disabled r then opened else List.insert i opened, None)
      | None \<Rightarrow> (opened, None))"
| "use_object_table t (CancelDialog i) opened = (removeAll i opened, None)"
| "use_object_table t (ConfirmDialog i) opened =
     (case row_with_id t i of
        Some r \<Rightarrow> if i \<in> set opened then (removeAll i opened, Some (oc_confirm (or_dialog r))) else (opened, None)
      | None \<Rightarrow> (opened, None))"
| "use_object_table t (ClickSign i) opened =
     (opened,
      case row_with_id t i of
        None \<Rightarrow> None
      | Some r \<Rightarrow>
          (case or_download r of
             DirectLink h l \<Rightarrow> None
           | SignButton d sp l click \<Rightarrow> if d then None else Some click))"

section \<open>Lemmas\<close>

lemma row_with_id_Some:
  assumes "row_with_id (ObjectTable formatDate p) i = Some r"
  obtains item where "item \<in> set (ot_items p)" "oi_id item = i" "r = object_row formatDate p item"
proof -
  from assms have "r \<in> set (tb_rows (ObjectTable formatDate p))" "or_id r = i"
    unfolding row_with_id_def by (auto dest: array_find_SomeD)
  then obtain item where "item \<in> set (ot_items p)" "r = object_row formatDate p item" "or_id r = i"
    by (auto simp: ObjectTable_def)
  then show thesis by (intro that) (auto simp: object_row_def Let_def)
qed

text \<open>
  Whatever the table starts is about an object it lists: a deletion follows a confirmation that is
  open and names this object, a signed download a private object whose address is not being signed.
\<close>

lemma object_table_starts:
  assumes "use_object_table (ObjectTable formatDate p) e opened = (opened', Some task)"
  shows "\<exists>item \<in> set (ot_items p).
    (e = ConfirmDialog (oi_id item) \<and> oi_id item \<in> set opened \<and> oi_id item \<notin> set opened' \<and>
       task = ot_on_delete p (oi_object_key item) \<and>
       oc_values (object_confirmation p item) = [(''bucket'', ot_bucket p), (''objectKey'', oi_object_key item)]) \<or>
    (e = ClickSign (oi_id item) \<and> opened' = opened \<and> oi_visibility item \<noteq> Public \<and>
       ot_signing_key p \<noteq> oi_object_key item \<and> task = ot_on_sign p (oi_object_key item))"
proof (cases e)
  case (ConfirmDialog i)
  with assms obtain r where r: "row_with_id (ObjectTable formatDate p) i = Some r" "i \<in> set opened"
    "opened' = removeAll i opened" "task = oc_confirm (or_dialog r)"
    by (auto split: option.splits if_splits)
  from r(1) obtain item where "item \<in> set (ot_items p)" "oi_id item = i" "r = object_row formatDate p item"
    by (rule row_with_id_Some)
  with r(2-) ConfirmDialog show ?thesis
    by (intro bexI [of _ item]) (auto simp: object_row_def object_confirmation_def Let_def)
next
  case (ClickSign i)
  with assms obtain r where r: "row_with_id (ObjectTable formatDate p) i = Some r" "opened' = opened"
    and click: "\<exists>sp l. or_download r = SignButton False sp l task"
    by (auto split: option.splits download_control.splits if_splits)
  from r(1) obtain item where item: "item \<in> set (ot_items p)" "oi_id item = i" "r = object_row formatDate p item"
    by (rule row_with_id_Some)
  with click ClickSign r(2) show ?thesis
    by (intro bexI [of _ item]) (auto simp: object_row_def object_download_def Let_def split: if_splits)
qed (use assms in \<open>auto split: option.splits\<close>)

lemma object_etag_cell: "length (or_etag (object_row formatDate p item)) \<le> 15"
  by (simp add: object_row_def Let_def)

end
