(* ===== verification/ShellViews.thy ===== *)
theory ShellViews
  imports CardViews Shell Health
begin

text \<open>
  What the shell around the pages shows: the three shapes of the side bar and its buttons
  (\<open>frontend/src/components/ui/sidebar.tsx\<close>), its contents (\<open>app-sidebar.tsx\<close>, \<open>nav-main.tsx\<close>,
  \<open>nav-projects.tsx\<close>, \<open>nav-user.tsx\<close>, \<open>team-switcher.tsx\<close>, \<open>ConnectionHealthStatus.tsx\<close>), and the
  header of \<open>Layout.tsx\<close> with its buttons. Labels are translation keys unless they are data.
\<close>

section \<open>The side bar\<close>

datatype bar_side = LeftSide | RightSide
datatype bar_variant = PlainBar | FloatingBar | InsetBar
datatype bar_collapsible = Offcanvas | IconOnly | NotCollapsible

primrec collapsible_value :: "bar_collapsible \<Rightarrow> string" where
  "collapsible_value Offcanvas = ''offcanvas''"
| "collapsible_value IconOnly = ''icon''"
| "collapsible_value NotCollapsible = ''none''"

text \<open>A fixed column, a sheet on small screens, or the column that collapses.\<close>

datatype 'c bar_layout =
    FixedBar (bar_children: 'c)
  | SheetBar (sheet_open: bool) (sheet_side: bar_side) (sheet_title: string)
      (sheet_description: string) (bar_children: 'c)
  | DesktopBar (bar_state: string) (bar_collapsed_to: string) (bar_wide_gap: bool)
      (desktop_side: bar_side) (bar_children: 'c)

definition side_bar_state :: "side_bar_props \<Rightarrow> side_bar \<Rightarrow> string" where
  "side_bar_state p s = (if side_bar_open p s then ''expanded'' else ''collapsed'')"

text \<open>\<open>useSidebar\<close> outside of a provider throws.\<close>

definition useSidebar :: "'c option \<Rightarrow> thrown + 'c" where
  "useSidebar context =
     (case context of
        None \<Rightarrow> Inl (ThrownError ''useSidebar must be used within a SidebarProvider.'')
      | Some c \<Rightarrow> Inr c)"

definition Sidebar ::
  "bar_side \<Rightarrow> bar_variant \<Rightarrow> bar_collapsible \<Rightarrow> side_bar_props \<Rightarrow> side_bar \<Rightarrow> 'c \<Rightarrow> 'c bar_layout" where
  "Sidebar side variant collapsible p s children =
     (if collapsible = NotCollapsible then FixedBar children
      else if sb_is_mobile s
      then SheetBar (sb_open_mobile s) side ''Sidebar'' ''Displays the mobile sidebar.'' children
      else DesktopBar (side_bar_state p s)
             (if side_bar_state p s = ''collapsed'' then collapsible_value collapsible else [])
             (variant = FloatingBar \<or> variant = InsetBar) side children)"

definition sheetOpenChange :: "bool \<Rightarrow> side_bar \<Rightarrow> side_bar" where
  "sheetOpenChange nextOpen s = s\<lparr>sb_open_mobile := nextOpen\<rparr>"

text \<open>The trigger runs its own click handler first, the rail only toggles.\<close>

definition SidebarTrigger :: "(side_bar \<Rightarrow> side_bar) option \<Rightarrow> side_bar_props \<Rightarrow> side_bar \<Rightarrow> side_bar" where
  "SidebarTrigger onClick p s = toggleSidebar p (case onClick of None \<Rightarrow> s | Some f \<Rightarrow> f s)"

definition SidebarRail :: "side_bar_props \<Rightarrow> side_bar \<Rightarrow> side_bar" where
  "SidebarRail p s = toggleSidebar p s"

datatype button_size = SmallSize | DefaultSize | LargeSize

record menu_button =
  mb_size :: button_size
  mb_active :: bool
  mb_tooltip :: "(string \<times> bool) option"

text \<open>The tooltip with the flag that hides it; an empty text is no tooltip.\<close>

definition SidebarMenuButton ::
  "button_size \<Rightarrow> bool \<Rightarrow> string option \<Rightarrow> side_bar_props \<Rightarrow> side_bar \<Rightarrow> menu_button" where
  "SidebarMenuButton sz isActive tooltip p s =
     \<lparr>mb_size = sz, mb_active = isActive,
      mb_tooltip = (case Option.bind tooltip truthy of
          None \<Rightarrow> None
        | Some label \<Rightarrow> Some (label, side_bar_state p s \<noteq> ''collapsed'' \<or> sb_is_mobile s))\<rparr>"

text \<open>The width of a placeholder, from the random number of the browser.\<close>

definition skeleton_width :: "rat \<Rightarrow> int" where
  "skeleton_width random = \<lfloor>random * 40\<rfloor> + 50"

section \<open>What the side bar holds\<close>

record menu_link =
  ml_button :: menu_button
  ml_to :: string
  ml_lines :: "string list"

definition NavMain :: "side_bar_props \<Rightarrow> side_bar \<Rightarrow> nav_item list \<Rightarrow> string \<times> menu_link list" where
  "NavMain p s navItems =
     (''sidebar.section.platform'',
      map (\<lambda>item. \<lparr>ml_button = SidebarMenuButton DefaultSize (ni_active item) (Some (ni_title item)) p s,
             ml_to = ni_url item, ml_lines = [ni_title item]\<rparr>) navItems)"

definition TeamSwitcher :: "side_bar_props \<Rightarrow> side_bar \<Rightarrow> string \<Rightarrow> string \<Rightarrow> menu_link" where
  "TeamSwitcher p s workspace meta =
     \<lparr>ml_button = SidebarMenuButton LargeSize False None p s, ml_to = ''/dashboard'',
      ml_lines = [workspace, meta]\<rparr>"

text \<open>The second line joins language and theme with a middle dot.\<close>

record user_link =
  ul_button :: menu_button
  ul_to :: string
  ul_avatar :: string
  ul_label :: string
  ul_line :: wide_text

definition NavUser :: "side_bar_props \<Rightarrow> side_bar \<Rightarrow> app_preferences \<Rightarrow> user_link" where
  "NavUser p s prefs =
     \<lparr>ul_button = SidebarMenuButton LargeSize False (Some ''nav.settings'') p s, ul_to = ''/settings'',
      ul_avatar = ''LO'', ul_label = ''nav.settings'',
      ul_line = [Lat (locale_value (pref_locale prefs)), Lat '' '', Uni [0xB7], Lat '' '',
                 Lat (theme_value (pref_theme prefs))]\<rparr>"

record health_row =
  hl_name :: string
  hl_state :: string
  hl_text_tone :: badge_tone
  hl_dot_tone :: badge_tone

definition health_line :: "string \<Rightarrow> badge_state \<Rightarrow> health_row" where
  "health_line name state =
     \<lparr>hl_name = name, hl_state = getHealthStateLabel state,
      hl_text_tone = getStatusTextClassName state, hl_dot_tone = getDotClassName state\<rparr>"

definition ConnectionHealthStatus :: "health_badges \<Rightarrow> health_row list" where
  "ConnectionHealthStatus resolved =
     [health_line ''health.service'' (badge_service resolved),
      health_line ''health.database'' (badge_database resolved)]"

record connection_panel =
  cp_label :: string
  cp_host :: string
  cp_token :: string
  cp_health :: "health_row list"

definition NavProjects :: "string \<Rightarrow> bool \<Rightarrow> health_badges \<Rightarrow> connection_panel" where
  "NavProjects host tokenConfigured resolved =
     \<lparr>cp_label = ''header.connection'', cp_host = host,
      cp_token = (if tokenConfigured then ''header.authConfigured'' else ''header.authMissing''),
      cp_health = ConnectionHealthStatus resolved\<rparr>"

record side_bar_contents =
  sbc_workspace :: menu_link
  sbc_main :: "string \<times> menu_link list"
  sbc_connection :: connection_panel
  sbc_user :: user_link

text \<open>
  \<open>AppSidebar\<close>: the browser's URL class is a parameter, as for the label of the host; the badges
  are those the health query leads to.
\<close>

definition AppSidebar ::
  "(string \<Rightarrow> string option) \<Rightarrow> side_bar_props \<Rightarrow> side_bar \<Rightarrow> app_settings \<Rightarrow> app_preferences
    \<Rightarrow> health_badges \<Rightarrow> app_sidebar \<Rightarrow> side_bar_contents bar_layout" where
  "AppSidebar url_host p s settings prefs resolved place =
     (let host = getApiHostLabel url_host (apiBaseUrl settings)
      in Sidebar LeftSide PlainBar IconOnly p s
           \<lparr>sbc_workspace = TeamSwitcher p s ''app.name'' host,
            sbc_main = NavMain p s (nav_main place),
            sbc_connection = NavProjects host (hasBearerToken (bearerToken settings)) resolved,
            sbc_user = NavUser p s prefs\<rparr>)"

section \<open>The header\<close>

record header_crumb =
  hc_label :: string
  hc_link :: "string option"
  hc_separator :: bool

definition header_crumbs :: "route_crumb list \<Rightarrow> header_crumb list" where
  "header_crumbs crumbs =
     map (\<lambda>i. let item = crumbs ! i; isLast = (i = length crumbs - 1)
              in \<lparr>hc_label = cr_label item,
                  hc_link = (if isLast then None else Option.bind (cr_href item) truthy),
                  hc_separator = (\<not> isLast)\<rparr>)
       [0..<length crumbs]"

text \<open>The buttons of the header; the size is that of their text.\<close>

definition preferenceToggleTriggerClassName :: "button_size \<Rightarrow> string" where
  "preferenceToggleTriggerClassName sz =
     (if sz = DefaultSize then ''h-10 gap-2 px-3 text-sm'' else ''h-8 gap-1.5 px-2.5 text-xs'')"

record theme_button =
  th_aria :: string
  th_label :: string
  th_icon :: string
  th_click :: "app_preferences \<Rightarrow> app_preferences"

definition ThemeToggle :: "app_preferences \<Rightarrow> theme_button" where
  "ThemeToggle prefs =
     (let light = (pref_theme prefs = Light)
      in \<lparr>th_aria = ''header.compactThemeSwitch'',
          th_label = (if light then ''theme.light'' else ''theme.dark''),
          th_icon = (if light then ''SunIcon'' else ''MoonIcon''),
          th_click = setTheme (if light then Dark else Light)\<rparr>)"

record outer_link =
  ol_aria :: string
  ol_href :: string
  ol_rel :: string
  ol_target :: string
  ol_text :: string

definition GitHubLink :: outer_link where
  "GitHubLink =
     \<lparr>ol_aria = ''Open GitHub repository'', ol_href = ''https://github.com/onlikee/light-oss'',
      ol_rel = ''noreferrer'', ol_target = ''_blank'', ol_text = ''GitHub''\<rparr>"

text \<open>
  The button of the documentation: its own handler runs first and may prevent the navigation.
\<close>

definition BookButton :: "(bool \<times> 's \<Rightarrow> bool \<times> 's) option \<Rightarrow> 's \<Rightarrow> 's \<times> string option" where
  "BookButton onClick s =
     (let (defaultPrevented, s') = (case onClick of None \<Rightarrow> (False, s) | Some f \<Rightarrow> f (False, s))
      in (s', book_click defaultPrevented))"

record header_view =
  hd_crumbs :: "header_crumb list"
  hd_docs :: "string \<times> (unit \<times> string option)"
  hd_locale :: locale_menu
  hd_theme :: theme_button
  hd_repository :: outer_link

definition Layout :: "string \<Rightarrow> string option \<Rightarrow> app_preferences \<Rightarrow> header_view" where
  "Layout pathname bucket prefs =
     \<lparr>hd_crumbs = header_crumbs (buildBreadcrumbs pathname bucket),
      hd_docs = (''header.docs'', BookButton None ()), hd_locale = LocaleToggle prefs,
      hd_theme = ThemeToggle prefs, hd_repository = GitHubLink\<rparr>"

section \<open>Lemmas\<close>

text \<open>What can happen to the side bar of the program, which no parent controls.\<close>

datatype bar_event = ToggleBar | PressKey string bool bool | Resize nat | SheetChange bool

definition free_bar :: side_bar_props where
  "free_bar = \<lparr>sbp_open = None, sbp_controlled = False\<rparr>"

primrec bar_step :: "bar_event \<Rightarrow> side_bar \<Rightarrow> side_bar" where
  "bar_step ToggleBar s = SidebarTrigger None free_bar s"
| "bar_step (PressKey key meta ctrl) s = handleKeyDown free_bar key meta ctrl s"
| "bar_step (Resize w) s = width_effect w s"
| "bar_step (SheetChange b) s = sheetOpenChange b s"

lemma bar_steps_cookie:
  "sb_cookie s = None \<or> sb_cookie s = Some (sb_open s) \<Longrightarrow>
     (let s' = fold bar_step es s in sb_cookie s' = None \<or> sb_cookie s' = Some (sb_open s'))"
proof (induction es arbitrary: s)
  case (Cons e es)
  have "sb_cookie (bar_step e s) = None \<or> sb_cookie (bar_step e s) = Some (sb_open (bar_step e s))"
    using Cons.prems
    by (cases e) (auto simp: SidebarTrigger_def handleKeyDown_def toggleSidebar_def setSideBarOpen_def
        width_effect_def sheetOpenChange_def free_bar_def Let_def)
  from Cons.IH [OF this] show ?case by simp
qed (simp add: Let_def)

text \<open>
  The cookie of the side bar is written and never read: after any events it holds what the
  desktop shows, but a reload starts expanded whatever it holds.
\<close>

theorem side_bar_cookie_unused:
  "(let s = fold bar_step es (side_bar_initial True)
    in sb_cookie s = None \<or> sb_cookie s = Some (side_bar_open free_bar s)) \<and>
   (\<exists>es. sb_cookie (fold bar_step es (side_bar_initial True)) = Some False) \<and>
   side_bar_open free_bar (side_bar_initial True)"
proof (intro conjI)
  show "let s = fold bar_step es (side_bar_initial True)
    in sb_cookie s = None \<or> sb_cookie s = Some (side_bar_open free_bar s)"
    using bar_steps_cookie [of "side_bar_initial True" es]
    by (simp add: side_bar_initial_def side_bar_open_def free_bar_def)
  have "sb_cookie (fold bar_step [ToggleBar] (side_bar_initial True)) = Some False"
    by (simp add: side_bar_initial_def SidebarTrigger_def toggleSidebar_def setSideBarOpen_def
        side_bar_open_def free_bar_def Let_def)
  then show "\<exists>es. sb_cookie (fold bar_step es (side_bar_initial True)) = Some False" by blast
qed (simp add: side_bar_initial_def side_bar_open_def free_bar_def)

text \<open>
  Every entry of the menu is named in every shape of the side bar: where the column is reduced
  to its icons the tooltip is not hidden, and elsewhere it is.
\<close>

lemma menu_tooltip_where_reduced:
  "Option.bind tooltip truthy = Some label \<Longrightarrow>
   mb_tooltip (SidebarMenuButton sz active tooltip p s) =
     Some (label, \<not> (\<exists>gap side c. Sidebar LeftSide variant IconOnly p s c =
                        DesktopBar ''collapsed'' ''icon'' gap side c))"
  by (auto simp: SidebarMenuButton_def Sidebar_def side_bar_state_def)

lemma header_crumbs_links: "map (\<lambda>c. hc_link c \<noteq> None) (header_crumbs (buildBreadcrumbs p b)) = crumb_links (buildBreadcrumbs p b)"
  by (auto simp: header_crumbs_def crumb_links_def buildBreadcrumbs_def Let_def truthy_def
      less_Suc_eq split: option.splits)

lemma theme_toggle_click: "th_click (ThemeToggle prefs) prefs = toggle_theme prefs"
  by (simp add: ThemeToggle_def toggle_theme_def Let_def)

lemma skeleton_width_bounds:
  assumes "0 \<le> r" "r < 1"
  shows "50 \<le> skeleton_width r \<and> skeleton_width r < 90"
proof -
  have "0 \<le> \<lfloor>r * 40\<rfloor>" "\<lfloor>r * 40\<rfloor> < 40" using assms by (auto simp: floor_less_iff)
  then show ?thesis by (simp add: skeleton_width_def)
qed

end
