(* ===== verification/PageFrames.thy ===== *)
theory PageFrames
  imports ShellViews TableView RecycleView Dashboard SiteViews
begin

text \<open>
  What the pages show around the parts modelled elsewhere: the frame of the dashboard with its
  alerts, cards and badges (\<open>frontend/src/pages/DashboardPage.tsx\<close>, \<open>components/StatCard.tsx\<close>,
  \<open>components/EmptyState.tsx\<close>, \<open>features/buckets/PinnedBuckets.tsx\<close>), the preference rows of the
  settings page, the columns of the two tables, and the trigger of the form of a site.
\<close>

section \<open>Small components\<close>

record stat_card =
  sk_title :: string
  sk_value :: card_text
  sk_description :: card_text

definition StatCard :: "string \<Rightarrow> card_text \<Rightarrow> card_text \<Rightarrow> stat_card" where
  "StatCard title v description = \<lparr>sk_title = title, sk_value = v, sk_description = description\<rparr>"

record empty_state =
  es_title :: string
  es_description :: string

definition EmptyState :: "string \<Rightarrow> string \<Rightarrow> empty_state" where
  "EmptyState title description = \<lparr>es_title = title, es_description = description\<rparr>"

text \<open>The page of the objects without its bucket, and its folder without entries.\<close>

definition explorer_empty_state :: "explorer_page \<Rightarrow> empty_state option" where
  "explorer_empty_state s =
     (if page_unavailable s then Some (EmptyState ''explorer.title'' ''errors.bucketNotFound'')
      else case panel_body (explorer_panel s) of
             EntriesEmpty \<Rightarrow> Some (EmptyState ''explorer.empty.title'' ''explorer.empty.description'')
           | _ \<Rightarrow> None)"

text \<open>The section of the pinned buckets, which is left out when there are none.\<close>

record pinned_section =
  pn_title :: string
  pn_hint :: string
  pn_cards :: "card_view list"

definition PinnedBuckets :: "bucket_card list \<Rightarrow> pinned_section option" where
  "PinnedBuckets cards =
     (if length cards = 0 then None
      else Some \<lparr>pn_title = ''buckets.pin.title'', pn_hint = ''buckets.pin.localHint'',
                 pn_cards = map BucketCard cards\<rparr>)"

section \<open>The dashboard\<close>

record header_badge =
  hb_variant :: badge_variant
  hb_text :: card_text

definition dashboard_badges :: "(string \<Rightarrow> string option) \<Rightarrow> dashboard_page \<Rightarrow> header_badge list" where
  "dashboard_badges url_host s =
     (let tokenConfigured = hasBearerToken (bearerToken (da_settings s))
      in [\<lparr>hb_variant = Secondary, hb_text = TextRaw (getApiHostLabel url_host (apiBaseUrl (da_settings s)))\<rparr>,
          \<lparr>hb_variant = (if tokenConfigured then Secondary else Outline),
           hb_text = TextKey (if tokenConfigured then ''header.authConfigured'' else ''header.authMissing'') []\<rparr>])"

text \<open>The alerts over the cards, and that of the sites over the pinned buckets.\<close>

definition error_alert :: "string \<Rightarrow> thrown option \<Rightarrow> (string \<times> string) list" where
  "error_alert title error = (case error of None \<Rightarrow> [] | Some e \<Rightarrow> [(title, shown_message e [])])"

definition dashboard_alerts :: "dashboard_page \<Rightarrow> (string \<times> string) list" where
  "dashboard_alerts s =
     error_alert ''errors.loadBuckets'' (lq_error (da_buckets s)) @
     error_alert ''errors.loadSystemStats'' (sq_error (da_stats s))"

definition dashboard_sites_alert :: "dashboard_page \<Rightarrow> (string \<times> string) list" where
  "dashboard_sites_alert s =
     (if length (dashboard_pinned_ids s) > 0 then error_alert ''errors.loadSites'' (lq_error (da_sites s)) else [])"

definition overview_cards ::
  "(string \<Rightarrow> string option) \<Rightarrow> (string \<Rightarrow> number) \<Rightarrow> (string \<Rightarrow> string) \<Rightarrow> dashboard_page \<Rightarrow> stat_card list" where
  "overview_cards url_host time formatDate s =
     (let v = overview_view url_host time s
      in [StatCard ''buckets.overview.totalBuckets'' (TextRaw (nat_digits (ov_total v)))
            (TextKey ''buckets.list.total'' [(''count'', nat_digits (ov_total v))]),
          StatCard ''buckets.overview.apiHost'' (TextRaw (ov_host v)) (ov_url v),
          StatCard ''buckets.overview.authStatus'' (ov_token v) (TextKey ''header.connection'' []),
          StatCard ''buckets.overview.latestBucket''
            (case ov_latest_time v of TextRaw d \<Rightarrow> TextRaw (formatDate d) | k \<Rightarrow> k) (ov_latest_name v)])"

definition system_cards :: "(string \<Rightarrow> string option) \<Rightarrow> dashboard_page \<Rightarrow> stat_card list" where
  "system_cards url_host s =
     (let v = stat_values_view s; host = getApiHostLabel url_host (apiBaseUrl (da_settings s))
      in [StatCard ''dashboard.system.hostOS'' (sv_os v)
            (TextKey ''dashboard.system.hostOSDescription'' [(''host'', host)]),
          StatCard ''dashboard.system.cpuUsage'' (sv_cpu v) (TextKey ''dashboard.system.cpuDescription'' []),
          StatCard ''dashboard.system.memoryUsage'' (sv_memory v) (sv_memory_text v),
          StatCard ''dashboard.system.storageUsed'' (sv_storage v) (sv_storage_path v)])"

text \<open>The labels and colours of the state of the limit, as the dashboard has them.\<close>

definition dashboard_status_label :: "storage_limit_status \<Rightarrow> string" where
  "dashboard_status_label status =
     (case status of
        LimitWarning \<Rightarrow> ''settings.storage.status.warning''
      | LimitExceeded \<Rightarrow> ''settings.storage.status.exceeded''
      | LimitOk \<Rightarrow> ''settings.storage.status.ok'')"

definition dashboard_status_variant :: "storage_limit_status \<Rightarrow> badge_variant" where
  "dashboard_status_variant status =
     (case status of LimitWarning \<Rightarrow> Secondary | LimitExceeded \<Rightarrow> Destructive | LimitOk \<Rightarrow> Outline)"

text \<open>The frame; the placeholder of the table of disks has three rows of five cells.\<close>

record dashboard_frame =
  df_title :: string
  df_badges :: "header_badge list"
  df_alerts :: "(string \<times> string) list"
  df_overview :: "stat_card list"
  df_sites_alert :: "(string \<times> string) list"
  df_pinned :: "pinned_section option"
  df_system :: "stat_card list"
  df_storage :: "(badge_variant \<times> string \<times> storage_card) option"
  df_disks_count :: nat
  df_disks :: disks_body

definition disk_skeleton :: "unit list list" where
  "disk_skeleton = replicate 3 (replicate 5 ())"

definition DashboardPage ::
  "(string \<Rightarrow> string option) \<Rightarrow> (string \<Rightarrow> number) \<Rightarrow> (string \<Rightarrow> string) \<Rightarrow> dashboard_page
    \<Rightarrow> thrown + dashboard_frame" where
  "DashboardPage url_host time formatDate s =
     (case dashboard_cards s of
        Inl e \<Rightarrow> Inl e
      | Inr cards \<Rightarrow>
          Inr \<lparr>df_title = ''dashboard.title'', df_badges = dashboard_badges url_host s,
               df_alerts = dashboard_alerts s, df_overview = overview_cards url_host time formatDate s,
               df_sites_alert = dashboard_sites_alert s, df_pinned = PinnedBuckets cards,
               df_system = system_cards url_host s,
               df_storage = map_option
                 (\<lambda>r. (dashboard_status_variant (st_limit_status (ss_storage r)),
                        dashboard_status_label (st_limit_status (ss_storage r)),
                        storage_card_view (ss_storage r)))
                 (sq_data (da_stats s)),
               df_disks_count = (case sq_data (da_stats s) of None \<Rightarrow> 0 | Some r \<Rightarrow> length (ss_disks r)),
               df_disks = disks_view s\<rparr>)"

section \<open>The settings page\<close>

datatype preference_control = LocaleControl locale_menu | ThemeControl theme_button

record preference_row =
  pr_label :: string
  pr_description :: string
  pr_control :: preference_control

definition SettingsPreferenceRow :: "preference_control \<Rightarrow> string \<Rightarrow> string \<Rightarrow> preference_row" where
  "SettingsPreferenceRow control description label =
     \<lparr>pr_label = label, pr_description = description, pr_control = control\<rparr>"

definition preference_rows :: "app_preferences \<Rightarrow> preference_row list" where
  "preference_rows prefs =
     [SettingsPreferenceRow (LocaleControl (LocaleToggle prefs)) ''settings.preferences.localeDescription''
        ''settings.preferences.localeLabel'',
      SettingsPreferenceRow (ThemeControl (ThemeToggle prefs)) ''settings.preferences.themeDescription''
        ''settings.preferences.themeLabel'']"

section \<open>Columns\<close>

definition explorerTableColumnCount :: nat where
  "explorerTableColumnCount = 7"

definition ExplorerTableColGroup :: "string list" where
  "ExplorerTableColGroup =
     [''w-6'', ''w-[22.5rem]'', ''w-[17.5rem]'', ''w-[7.5rem]'', ''w-[10rem]'', ''w-[13.75rem]'', ''w-[11.25rem]'']"

text \<open>A spacer row: one cell over all columns, with its height.\<close>

definition ExplorerTableSpacerRow :: "rat \<Rightarrow> nat \<times> rat" where
  "ExplorerTableSpacerRow height = (explorerTableColumnCount, height)"

definition RecycleBinTableColGroup :: "bool \<Rightarrow> string list" where
  "RecycleBinTableColGroup bucketColumn =
     [''w-12'', ''w-24'', []] @ (if bucketColumn then [''w-32''] else []) @ [''w-28'', ''w-40'', ''w-48'']"

definition recycle_table_width :: "recycle_page \<Rightarrow> string" where
  "recycle_table_width s = (if showBucketColumn s then ''min-w-[70rem]'' else ''min-w-[62rem]'')"

section \<open>The trigger of the form of a site\<close>

text \<open>
  A trigger that is given may be null; without one an uncontrolled dialog gets a button with
  the label of its submit button.
\<close>

datatype 't form_trigger = OwnTrigger string | GivenTrigger 't

definition resolvedTrigger ::
  "'t option option \<Rightarrow> bool option \<Rightarrow> string option \<Rightarrow> site_form_mode \<Rightarrow> 't form_trigger option" where
  "resolvedTrigger trigger open_prop submitLabel mode =
     (if trigger = None \<and> open_prop = None then Some (OwnTrigger (resolvedSubmitLabel submitLabel mode))
      else map_option GivenTrigger (Option.bind trigger (\<lambda>t. t)))"

text \<open>The trigger as it is shown, with its tooltip if there is a text for it.\<close>

definition shown_trigger ::
  "'t form_trigger option \<Rightarrow> string option \<Rightarrow> ('t form_trigger \<times> string option) option" where
  "shown_trigger trigger tooltipLabel = map_option (\<lambda>t. (t, Option.bind tooltipLabel truthy)) trigger"

section \<open>Lemmas\<close>

lemma explorer_columns_agree:
  "length ExplorerTableColGroup = explorerTableColumnCount"
  "length (explorer_headers p entries) = explorerTableColumnCount"
  by (simp_all add: ExplorerTableColGroup_def explorerTableColumnCount_def explorer_headers_def)

lemma recycle_columns_agree:
  "length (recycle_headers s) = length (RecycleBinTableColGroup (showBucketColumn s))"
  by (simp add: recycle_headers_def RecycleBinTableColGroup_def)

lemma dashboard_status_agrees:
  "dashboard_status_label status = getStorageStatusLabel status"
  "dashboard_status_variant status = getStorageStatusBadgeVariant status"
  by (simp_all add: dashboard_status_label_def dashboard_status_variant_def getStorageStatusLabel_def
      getStorageStatusBadgeVariant_def)

text \<open>
  Every failure of a query of the dashboard is on the screen, unless it is that of the sites
  while nothing is pinned; the pinned section is there exactly when pinned buckets exist.
\<close>

lemma dashboard_frame_complete:
  assumes "DashboardPage url_host time formatDate s = Inr v"
  shows "(df_pinned v = None \<longleftrightarrow> dashboard_pinned s = []) \<and>
    (lq_error (da_buckets s) = Some e \<longrightarrow> (''errors.loadBuckets'', shown_message e []) \<in> set (df_alerts v)) \<and>
    (sq_error (da_stats s) = Some e \<longrightarrow> (''errors.loadSystemStats'', shown_message e []) \<in> set (df_alerts v)) \<and>
    (df_sites_alert v = [] \<longleftrightarrow> lq_error (da_sites s) = None \<or> dashboard_pinned_ids s = [])"
proof -
  from assms obtain cards where c: "dashboard_cards s = Inr cards" by (auto simp: DashboardPage_def split: sum.splits)
  have len: "render_all f xs = Inr ys \<Longrightarrow> length ys = length xs" for f :: "bucket \<Rightarrow> thrown + bucket_card" and xs ys
    by (induction xs arbitrary: ys) (auto split: sum.splits)
  from c have "length cards = length (dashboard_pinned s)"
    by (auto simp: dashboard_cards_def split: sum.splits intro: len)
  moreover from assms c have "df_pinned v = PinnedBuckets cards" "df_alerts v = dashboard_alerts s"
    "df_sites_alert v = dashboard_sites_alert s"
    by (auto simp: DashboardPage_def)
  moreover have "PinnedBuckets cards = None \<longleftrightarrow> length cards = 0" by (simp add: PinnedBuckets_def)
  ultimately show ?thesis
    by (simp add: dashboard_alerts_def dashboard_sites_alert_def error_alert_def split: option.splits)
qed

lemma own_trigger_uncontrolled:
  "resolvedTrigger trigger open_prop label mode = Some (OwnTrigger l) \<Longrightarrow> open_prop = None \<and> trigger = None"
  by (auto simp: resolvedTrigger_def split: if_splits)

end
