(* ===== verification/UiKit.thy ===== *)
theory UiKit
  imports JsNumber
begin

text \<open>
  The few decisions of the kit under \<open>frontend/src/components/ui\<close> that are not styling: the errors
  of a field (\<open>field.tsx\<close>), the variant a toggle takes over from its group (\<open>toggle-group.tsx\<close>),
  the offset of the progress bar (\<open>progress.tsx\<close>), and the defaults of sheets, selects and
  breadcrumbs (\<open>sheet.tsx\<close>, \<open>select.tsx\<close>, \<open>breadcrumb.tsx\<close>).
\<close>

section \<open>Errors of a field\<close>

text \<open>
  An entry may be undefined or lack its message; the map keeps one entry for each message, in
  the order in which the messages first came.
\<close>

type_synonym field_errors = "string option option list"

definition error_message :: "string option option \<Rightarrow> string option" where
  "error_message e = Option.bind e (\<lambda>m. m)"

definition last_with_message :: "field_errors \<Rightarrow> string option \<Rightarrow> string option option" where
  "last_with_message errors key = last (filter (\<lambda>e. error_message e = key) errors)"

definition uniqueErrors :: "field_errors \<Rightarrow> field_errors" where
  "uniqueErrors errors = map (last_with_message errors) (uniq (map error_message errors))"

datatype 'c field_content = GivenContent 'c | OneError string | ErrorList "string list"

text \<open>\<open>children\<close> is given unless it is one of the empty nodes; an empty content renders nothing.\<close>

definition FieldError :: "'c option \<Rightarrow> field_errors option \<Rightarrow> 'c field_content option" where
  "FieldError children errors =
     (case children of
        Some c \<Rightarrow> Some (GivenContent c)
      | None \<Rightarrow>
          (if nullish errors [] = [] then None
           else let unique = uniqueErrors (nullish errors [])
                in if length unique = 1
                   then map_option OneError (Option.bind (error_message (hd unique)) truthy)
                   else Some (ErrorList (List.map_filter (\<lambda>e. Option.bind (error_message e) truthy) unique))))"

datatype field_orientation = Vertical | Horizontal | Responsive

definition Field :: "field_orientation option \<Rightarrow> field_orientation" where
  "Field orientation = nullish orientation Vertical"

text \<open>The separator says whether it has a text, and shows it.\<close>

definition FieldSeparator :: "'c option \<Rightarrow> bool \<times> 'c option" where
  "FieldSeparator children = (children \<noteq> None, children)"

section \<open>Toggles\<close>

record toggle_look =
  tl_variant :: string
  tl_size :: string
  tl_spacing :: int

record toggle_context =
  tg_variant :: "string option"
  tg_size :: "string option"
  tg_spacing :: int

definition default_toggle_context :: toggle_context where
  "default_toggle_context = \<lparr>tg_variant = Some ''default'', tg_size = Some ''default'', tg_spacing = 0\<rparr>"

definition ToggleGroup :: "string option \<Rightarrow> string option \<Rightarrow> int option \<Rightarrow> toggle_context" where
  "ToggleGroup variant sz spacing = \<lparr>tg_variant = variant, tg_size = sz, tg_spacing = nullish spacing 0\<rparr>"

definition ToggleGroupItem :: "toggle_context \<Rightarrow> string option \<Rightarrow> string option \<Rightarrow> toggle_look" where
  "ToggleGroupItem context variant sz =
     \<lparr>tl_variant = or_else (nullish (tg_variant context) []) (nullish variant ''default''),
      tl_size = or_else (nullish (tg_size context) []) (nullish sz ''default''),
      tl_spacing = tg_spacing context\<rparr>"

section \<open>Progress\<close>

text \<open>How far, in percent of its width, the indicator is moved to the left.\<close>

definition progress_offset :: "rat option \<Rightarrow> rat" where
  "progress_offset v = 100 - nullish v 0"

section \<open>Sheets, selects and breadcrumbs\<close>

datatype sheet_edge = TopEdge | RightEdge | BottomEdge | LeftEdge

record sheet_content =
  sh_side :: sheet_edge
  sh_close :: "string option"

definition SheetContent :: "sheet_edge option \<Rightarrow> bool option \<Rightarrow> sheet_content" where
  "SheetContent side showCloseButton =
     \<lparr>sh_side = nullish side RightEdge,
      sh_close = (if nullish showCloseButton True then Some ''Close'' else None)\<rparr>"

datatype select_position = ItemAligned | Popper

record select_content =
  sl_position :: select_position
  sl_align_trigger :: bool
  sl_shifted :: bool

definition SelectContent :: "select_position option \<Rightarrow> select_content" where
  "SelectContent position_prop =
     (let pos = nullish position_prop ItemAligned
      in \<lparr>sl_position = pos, sl_align_trigger = (pos = ItemAligned), sl_shifted = (pos = Popper)\<rparr>)"

datatype 'c separator_mark = ChevronMark | GivenMark 'c

definition BreadcrumbSeparator :: "'c option \<Rightarrow> 'c separator_mark" where
  "BreadcrumbSeparator children = (case children of None \<Rightarrow> ChevronMark | Some c \<Rightarrow> GivenMark c)"

section \<open>Lemmas\<close>

lemma last_with_message_message:
  "key \<in> set (map error_message errors) \<Longrightarrow> error_message (last_with_message errors key) = key"
proof -
  assume "key \<in> set (map error_message errors)"
  then have "filter (\<lambda>e. error_message e = key) errors \<noteq> []" by (auto simp: filter_empty_conv)
  from last_in_set [OF this] show ?thesis by (simp add: last_with_message_def)
qed

lemma uniqueErrors_messages: "map error_message (uniqueErrors errors) = uniq (map error_message errors)"
proof -
  have "map (error_message \<circ> last_with_message errors) (uniq (map error_message errors)) =
      map (\<lambda>k. k) (uniq (map error_message errors))"
    by (rule map_cong) (auto simp: last_with_message_message)
  then show ?thesis by (simp add: uniqueErrors_def)
qed

text \<open>
  A field names each of its non-empty messages once, in the order in which they came, and renders
  nothing rather than an empty text.
\<close>

fun content_messages :: "'c field_content option \<Rightarrow> string list" where
  "content_messages None = []"
| "content_messages (Some (GivenContent c)) = []"
| "content_messages (Some (OneError m)) = [m]"
| "content_messages (Some (ErrorList ms)) = ms"

lemma field_error_messages:
  "content_messages (FieldError None (Some errors)) =
     List.map_filter (\<lambda>m. Option.bind m truthy) (uniq (map error_message errors))"
proof -
  have all: "List.map_filter (\<lambda>e. Option.bind (error_message e) truthy) es =
      List.map_filter (\<lambda>m. Option.bind m truthy) (map error_message es)" for es
    by (induction es) (auto simp: List.map_filter_simps split: option.split)
  show ?thesis
  proof (cases "errors = []")
    case True
    then show ?thesis by (simp add: FieldError_def uniq_def List.map_filter_simps)
  next
    case False
    show ?thesis
    proof (cases "length (uniqueErrors errors) = 1")
      case True
      then obtain e where e: "uniqueErrors errors = [e]" by (auto simp: length_Suc_conv)
      with False show ?thesis
        unfolding uniqueErrors_messages [symmetric]
        by (auto simp: FieldError_def List.map_filter_simps split: option.splits)
    next
      case more: False
      with False show ?thesis
        by (simp add: FieldError_def all Let_def uniqueErrors_messages)
    qed
  qed
qed

lemma group_variant_wins:
  "v \<noteq> [] \<Longrightarrow> tl_variant (ToggleGroupItem (ToggleGroup (Some v) sz sp) variant sz') = v"
  by (simp add: ToggleGroupItem_def ToggleGroup_def or_else_def)

lemma progress_offset_bounds: "0 \<le> v \<Longrightarrow> v \<le> 100 \<Longrightarrow> 0 \<le> progress_offset (Some v) \<and> progress_offset (Some v) \<le> 100"
  by (simp add: progress_offset_def)

end
