(* ===== verification/Spec2Isabelle.thy ===== *)
theory Spec2Isabelle
  imports ExplorerProps RecycleProps Pins Health TextFormat UploadDialogs SettingsProps BucketsProps
    SitesPage FilePreview Dashboard Shell RootEnv Notices ExplorerIdle
    UploadViews SiteViews PageViews ExplorerView TableView RecycleView Routes
    CardViews PinBoard QueryKeys ObjectTable ShellViews PageFrames UiKit
begin

text \<open>
  Light OSS is an object store with a web front end. This development models the front end, the
  TypeScript and TSX files under \<open>src/frontend\<close>; the Go server behind it is an environment
  that may answer anything. Paths below are relative to \<open>src/frontend/src\<close> unless they say
  otherwise.

  \<^bold>\<open>How the program is put together.\<close> Pages hold the state that is not on the server. Their event
  handlers call the modules of \<open>api/\<close>, which build requests on an axios client and turn every
  failure into an \<open>ApiError\<close>; reads go through TanStack Query, writes through its mutations, whose
  callbacks invalidate queries and show toasts. Dialogs keep a form of their own and hand its
  value to a handler of the page. The address bar holds the place in the explorer, and
  \<open>localStorage\<close> the connection, the preferences, the pinned buckets and the last place visited.

  \<^bold>\<open>Foundations.\<close>
  \<^item> \<open>Prelude\<close>: nullish and falsy defaults, first occurrences, split and join, the list lemmas that
    the components share.
  \<^item> \<open>JsString\<close>, \<open>JsNumber\<close>: JavaScript's strings (a list of characters below 256, see the limits)
    and doubles (the rationals they denote, round to nearest with ties to even, NaN and the
    infinities apart), with parsing and \<open>toFixed\<close>.
  \<^item> \<open>UrlCodec\<close>, \<open>SearchParams\<close>: \<open>encodeURIComponent\<close> and its inverse, the encoders of object keys
    in \<open>api/objects.ts\<close>, and \<open>URLSearchParams\<close>.
  \<^item> \<open>Task\<close>: asynchronous handlers as a datatype with one \<open>Await\<close> per \<open>await\<close>. \<open>exec\<close> runs one
    handler against any answers and any interference; \<open>machine_step\<close> interleaves any number of
    them with run-to-completion and commits the state between, where effects run.
  \<^item> \<open>PageTask\<close>: what handlers wait for (requests, mutations, invalidations), and mutations with
    their callbacks.
  \<^item> \<open>Listing\<close>, \<open>LatestWins\<close>, \<open>SubmitDialog\<close>, \<open>FormView\<close>: the contracts that several pages share.
  \<^item> \<open>TaskFrame\<close>, \<open>Progress\<close>: what every handler of a machine leaves alone, and when a machine to
    which nothing new is given comes to rest.

  \<^bold>\<open>The modules that talk to the server.\<close>
  \<^item> \<open>ApiTypes\<close> (\<open>api/types.ts\<close>), \<open>ApiClient\<close> (\<open>api/client.ts\<close>: client, interceptor, envelope,
    normalisation of errors).
  \<^item> \<open>ApiObjects\<close> (\<open>api/objects.ts\<close>), \<open>ApiSites\<close> (\<open>api/sites.ts\<close>, \<open>buckets.ts\<close>, \<open>system.ts\<close>,
    \<open>health.ts\<close>). One definition per call; a request names its method, URL, body, headers and
    signal as the code builds them.
  \<^item> \<open>ExplorerPath\<close> (\<open>lib/explorer.ts\<close>), \<open>FolderUpload\<close> (\<open>lib/folder-upload.ts\<close>).

  \<^bold>\<open>What the browser keeps.\<close>
  \<^item> \<open>Storage\<close> (\<open>lib/settings.tsx\<close>, \<open>lib/preferences.tsx\<close>), \<open>Pins\<close>
    (\<open>features/buckets/usePinnedBuckets.ts\<close>), \<open>PinBoard\<close> (the board that it implements), \<open>Shell\<close> (\<open>components/app-sidebar.tsx\<close>,
    \<open>components/Layout.tsx\<close>, the state of \<open>components/ui/sidebar.tsx\<close>), \<open>Routes\<close>
    (\<open>routes/AppRoutes.tsx\<close>).
  \<^item> \<open>Health\<close> (\<open>lib/health.ts\<close>, \<open>lib/connection.ts\<close>, \<open>components/ConnectionHealthStatus.tsx\<close>),
    \<open>TextFormat\<close> (\<open>lib/format.ts\<close>, the lookup of \<open>lib/i18n.tsx\<close>), \<open>Dictionary\<close> and
    \<open>Chinese\<close> (its texts).
  \<^item> \<open>RootEnv\<close> (\<open>src/frontend/root-env.ts\<close>, run by the build).

  \<^bold>\<open>The pages.\<close> Each has a record with one field per \<open>useState\<close> and \<open>useRef\<close>, a commit
  function with one definition per effect in the order of the source, one definition per handler
  and per mutation, and functions for the decisions its markup takes (what is shown, enabled,
  counted). Handlers are tasks over that record.
  \<^item> \<open>ExplorerModel\<close>, \<open>ExplorerTasks\<close>, \<open>ExplorerPage\<close>, \<open>ExplorerProps\<close>:
    \<open>pages/BucketObjectsPage.tsx\<close>. State and URL; handlers; invariant and interpretations;
    properties.
  \<^item> \<open>ExplorerTable\<close>, \<open>FilePreview\<close>, \<open>TableView\<close>: \<open>features/explorer/ExplorerTable.tsx\<close>, composed
    with the explorer page that passes its handlers.
  \<^item> \<open>UploadDialogs\<close>, \<open>SiteForms\<close>: the forms of \<open>features/explorer\<close>, \<open>features/objects\<close> and
    \<open>features/sites\<close>.
  \<^item> \<open>ExplorerView\<close>: the buttons, the search form and the confirmations of the explorer page, each
    with its flag and the task it starts. \<open>ExplorerIdle\<close>: its flags go down.
  \<^item> \<open>UploadViews\<close>, \<open>SiteViews\<close>, \<open>PageViews\<close>: the fields of the forms, bound to their state as in
    the markup; inputs are sequences of typed, chosen and ticked values.
  \<^item> \<open>CardViews\<close>: the card of a bucket, the buttons of the table of sites, the menu of languages.
    \<open>ShellViews\<close>: the shapes and contents of the side bar, the header. \<open>PageFrames\<close>: the frames of
    the dashboard and the settings page, empty states, columns, triggers. \<open>UiKit\<close>: the decisions
    of \<open>components/ui\<close> that are not styling. \<open>ObjectTable\<close> (\<open>features/objects/ObjectTable.tsx\<close>).
  \<^item> \<open>QueryKeys\<close>: the keys of all queries, which pages share what in the cache of TanStack Query, and
    what each change invalidates.
  \<^item> \<open>Notices\<close>: the toasts of a page, against the dictionary.
  \<^item> \<open>RecycleBin\<close>, \<open>RecycleProps\<close>, \<open>RecycleView\<close>: \<open>features/buckets/RecycleBinDialog.tsx\<close>.
  \<^item> \<open>BucketsPage\<close>, \<open>BucketsProps\<close>: \<open>pages/BucketsPage.tsx\<close> and the rest of \<open>features/buckets\<close>.
  \<^item> \<open>SitesPage\<close>: \<open>pages/SitesPage.tsx\<close>. \<open>Dashboard\<close>: \<open>pages/DashboardPage.tsx\<close>.
  \<^item> \<open>SettingsPage\<close>, \<open>SettingsProps\<close>, \<open>StorageQuota\<close>: \<open>pages/SettingsPage.tsx\<close>.
\<close>

text \<open>
  \<^bold>\<open>Interfaces.\<close> A contract that one component relies on is a locale, and every locale is
  interpreted on the definitions of the model.
  \<^item> \<open>page_machine\<close> (\<open>Task\<close>): handlers that keep an invariant at each of their awaits keep it under
    every interleaving. Interpreted by the explorer page and by the recycle bin, by both and by
    the settings page for the messages they show, and by the recycle bin as its buttons start it.
  \<^item> \<open>page_flag\<close> (\<open>Progress\<close>): a flag that every handler lowers before it ends is down when nothing is
    suspended. Interpreted by the flags of the explorer.
  \<^item> \<open>controlled_form\<close> (\<open>FormView\<close>): every field shows what was last put into it, and no input of one
    field reaches another. Interpreted by each form that is not filled by an effect in between.
  \<^item> \<open>row_selection\<close> and \<open>cursor_pager\<close> (\<open>Listing\<close>): selected rows are rows that are shown; going
    forward and back is a stack. Interpreted by the explorer page and by the recycle bin.
  \<^item> \<open>submit_dialog\<close> (\<open>SubmitDialog\<close>): a form that is not ready asks for nothing, closes and forgets
    exactly when the handler of the page resolves, and is as it was when the handler rejects.
    Interpreted by the forms for an object, a folder upload, a new folder, the upload panel, a new
    bucket, the deletion of a bucket, a site, and the two that upload and publish.
  \<^item> \<open>latest_wins\<close> (\<open>LatestWins\<close>): an answer to a request that is not the latest changes nothing.
    Interpreted by the connection test of the settings page, which numbers its requests, and by
    the preview of remote text, which aborts them.
  \<^item> \<open>row_dialog\<close> (\<open>TableView\<close>): a dialog opened from a row shows that entry as it is listed, until it
    is no longer listed. Interpreted by the five dialogs of the table.
  \<^item> \<open>persisted_cell\<close> (\<open>Storage\<close>): what is written is read back, whatever was stored before.
    Interpreted by the settings, the preferences and the pinned buckets.
  \<^item> \<open>param_store\<close> (\<open>SearchParams\<close>), \<open>segment_codec\<close> (\<open>UrlCodec\<close>): the laws of query parameters,
    and of a path whose segments are encoded one by one. Interpreted by \<open>URLSearchParams\<close> and by
    the encoder of object keys.

  \<^bold>\<open>What the properties show.\<close>
  \<^item> Under every interleaving of handlers, answers and navigation the explorer page selects no row
    twice, keeps normalised prefixes in its histories, and knows the key that a pending question
    about overwriting is for; opening folders and going back and forward refine an abstract trail.
    The recycle bin has an invariant of the like. The pins refine an abstract board through every
    failure of the storage, which keys, texts and renders do not show through.
  \<^item> Across the pages: equal keys of the query cache are equal questions, and what every change that
    succeeded refetches is known exactly, the gaps included.
  \<^item> Each handler of consequence is followed through every answer: upload with the question about
    overwriting, bulk download and deletion, restoring, visibility, creation and deletion of
    buckets and of sites. Failure is a value, so the error branches are part of the statement.
  \<^item> Requests: the encoding of a key is inverted by the server's path decoding and keys do not
    collide; a folder's form names each file once with its path; every call goes to its own
    endpoint only; every failure of the transport ends as an \<open>ApiError\<close> with the status it had.
  \<^item> Round trips: the connection typed into the settings, limits that are saved and loaded, the
    lines of an env file, a site that is opened for editing and saved unchanged.
  \<^item> Bounds: the window of table rows, the size of a preview, the storage limit on the way through
    gigabytes.
  \<^item> What the user meets: every toast has a text in both languages whose holes the code fills; a
    form sends what its fields show; a button is disabled where its handler would do nothing; the
    confirmation of a deletion names what is deleted; once the pending requests are answered, no
    flag of the explorer stays raised.
  Where the code does not do what it means to, the property states what it does do, with the
  condition under which the intended behaviour holds. These are: the key overwritten after the
  folder changed, a folder name that begins with white space, the upload form that is emptied
  after a failed check, the upload dialog that is closed with a file and opened again, buckets
  named like a member of \<open>Object.prototype\<close>, the rounding of the storage limit, the form that a
  refetch empties, visibility saved for one file and shown at another, stored settings that
  are not texts, and the changes that do not refetch every listing they show up in.

  \<^bold>\<open>Recursion and bounds.\<close> No definition has fuel. Handlers are finite trees, so running one ends
  whatever the answers are; a server that never answers is a task that stays suspended in the
  machine. Loops over lists are structural; the others (the unit of a size, the scanner of an env
  line) terminate by a measure. Doubles are computed exactly on rationals.
\<close>

text \<open>
  \<^bold>\<open>The environment.\<close> axios, TanStack Query and its virtualiser, React and the browser are not part
  of the repository. Where a definition needs them they are an argument (the URL parser of the
  browser, \<open>Date.parse\<close>, the router's matching of a path, the size that the virtualiser
  measured) or an answer to an \<open>Await\<close>, about which a property assumes nothing that it does not
  state. React is present as the rule that
  effects run in order after a handler's stretch, when what they depend on has changed. Query data
  is an argument of the functions that show it, so that a refetch may change it at any time.

  \<^bold>\<open>Limits.\<close> A character of the model stands for a UTF-16 code unit below 256; surrogates and
  longer UTF-8 sequences are outside, but for the Chinese dictionary, whose texts are lists of
  Latin pieces and of UTF-16 code units. The sign of zero is not modelled. Dates are passed on
  as they are, because the browser formats them.

  \<^bold>\<open>Not modelled.\<close> Class names, icons and the nesting of elements; the wrappers of Radix
  primitives in \<open>components/ui\<close>, which only add class names (the state and the shapes of the side
  bar and the decisions in \<open>UiKit\<close> apart); the colours of rendered Markdown;
  \<open>pages/DocsPage.tsx\<close>, which shows nothing; \<open>main.tsx\<close> and the build files, which wire
  libraries; the Go server and the tests. What the libraries do (React, TanStack Query and its
  virtualiser, Radix, axios, the router, the browser's \<open>URL\<close> and \<open>Intl\<close>) enters as parameters,
  as answers of the environment or as named hypotheses.
\<close>

end
